(* ===== verification/Bridge_Prelude.thy ===== *)
theory Bridge_Prelude
  imports Main "HOL-Library.Word" "HOL-Library.State_Monad" "HOL-Library.Sublist"
begin

text \<open>
  Shared vocabulary of the development: the machine integers and byte strings of the Rust
  sources, the few functions of the Rust standard library the sources call (\<open>saturating_sub\<close>,
  decimal and hexadecimal formatting, \<open>str::split\<close>, \<open>starts_with\<close>, \<open>contains\<close>,
  \<open>to_lowercase\<close>, \<open>Vec::resize\<close>), \<open>Result\<close> values that can also be a panic, and the
  generic lemmas about lists and the state monad that the component theories share.
\<close>

unbundle bit_operations_syntax

section \<open>Machine types\<close>

type_synonym u8 = "8 word"
type_synonym u32 = "32 word"
type_synonym u64 = "64 word"
type_synonym i64 = "64 word" \<comment> \<open>the two's complement bit pattern of an \<open>i64\<close>\<close>
type_synonym f64 = "64 word" \<comment> \<open>the IEEE bit pattern of an \<open>f64\<close>; never computed with here\<close>
type_synonym bytes = "u8 list"

named_theorems fmt_simps \<open>unfolding rules of the formatting functions, for closed terms\<close>

definition saturating_sub :: "u64 \<Rightarrow> u64 \<Rightarrow> u64" where
  "saturating_sub a b = (if a < b then 0 else a - b)"

lemma unat_saturating_sub: "unat (saturating_sub a b) = unat a - unat b"
  by (simp add: saturating_sub_def word_less_nat_alt unat_sub_if_size)

lemma saturating_sub_self [simp]: "saturating_sub a a = 0"
  by (simp add: saturating_sub_def)

lemma saturating_sub_future: "a \<le> b \<Longrightarrow> saturating_sub a b = 0"
  by (auto simp: saturating_sub_def)

section \<open>Results, panics\<close>

text \<open>
  A fallible call returns \<open>Err\<close> or \<open>Ok\<close>; an out-of-range index panics, and the release
  profile of the workspace aborts the process on a panic (\<open>panic=abort\<close>), so nothing of the
  handler runs after it.
\<close>

datatype ('e, 'a) outcome = Ok 'a | Err 'e | Panicked

fun is_ok :: "('e, 'a) outcome \<Rightarrow> bool" where
  "is_ok (Ok _) = True"
| "is_ok _ = False"

fun map_err :: "('e \<Rightarrow> 'f) \<Rightarrow> ('e, 'a) outcome \<Rightarrow> ('f, 'a) outcome" where
  "map_err f (Ok a) = Ok a"
| "map_err f (Err e) = Err (f e)"
| "map_err f Panicked = Panicked"

definition result_ok :: "'e + 'a \<Rightarrow> bool" where
  "result_ok r = (case r of Inl _ \<Rightarrow> False | Inr _ \<Rightarrow> True)"

lemma result_ok_simps [simp]: "result_ok (Inr a)" "\<not> result_ok (Inl e)"
  by (simp_all add: result_ok_def)

section \<open>Strings\<close>

text \<open>\<open>str::as_bytes\<close>: a \<open>string\<close> here is the list of the UTF-8 bytes of a Rust string.\<close>

definition as_bytes :: "string \<Rightarrow> bytes" where
  "as_bytes s = map (\<lambda>c. word_of_nat (of_char c)) s"

lemma as_bytes_simps [simp]:
  "as_bytes [] = []" "as_bytes (s @ t) = as_bytes s @ as_bytes t"
  "length (as_bytes s) = length s"
  by (simp_all add: as_bytes_def)

lemma as_bytes_inj: "as_bytes s = as_bytes t \<longleftrightarrow> s = t"
proof -
  have "inj (\<lambda>c::char. word_of_nat (of_char c) :: u8)"
  proof (rule injI)
    fix c d :: char
    assume "(word_of_nat (of_char c) :: u8) = word_of_nat (of_char d)"
    then have "(of_char c :: nat) mod 256 = of_char d mod 256"
      by (simp add: unsigned_of_nat word_of_nat_eq_iff take_bit_eq_mod)
    then show "c = d" by simp
  qed
  then show ?thesis
    by (simp add: as_bytes_def inj_map_eq_map)
qed

definition to_lower_char :: "char \<Rightarrow> char" where
  "to_lower_char c =
     (let n = of_char c :: nat in if 65 \<le> n \<and> n \<le> 90 then char_of (n + 32) else c)"

text \<open>
  \<open>std::env::var(name).map(|v| v.to_lowercase() == "true").unwrap_or(false)\<close>, the idiom of
  every boolean environment flag; the argument is the variable's value, if it is set.
\<close>

definition env_flag :: "string option \<Rightarrow> bool" where
  "env_flag v = (case v of None \<Rightarrow> False | Some s \<Rightarrow> map to_lower_char s = ''true'')"

lemma env_flag_unset [simp]: "\<not> env_flag None"
  by (simp add: env_flag_def)

lemma env_flag_true [simp]: "env_flag (Some ''true'')" "env_flag (Some ''TRUE'')"
  by code_simp+

text \<open>Decimal formatting, \<open>format!("{}", n)\<close>.\<close>

definition digit_char :: "nat \<Rightarrow> char" where
  "digit_char n = char_of (48 + n)"

fun show_nat :: "nat \<Rightarrow> string" where
  "show_nat n = (if n < 10 then [digit_char n] else show_nat (n div 10) @ [digit_char (n mod 10)])"

declare show_nat.simps [simp del, fmt_simps]

definition show_u64 :: "u64 \<Rightarrow> string" where
  "show_u64 w = show_nat (unat w)"

text \<open>Two hexadecimal digits, \<open>format!("{:02x}", b)\<close>.\<close>

definition hex_digit :: "nat \<Rightarrow> char" where
  "hex_digit n = (if n < 10 then char_of (48 + n) else char_of (87 + n))"

definition hex2 :: "u8 \<Rightarrow> string" where
  "hex2 b = [hex_digit (unat b div 16), hex_digit (unat b mod 16)]"

lemma length_hex2 [simp]: "length (hex2 b) = 2"
  by (simp add: hex2_def)

lemma unat_u8_bound: "unat (b :: u8) < 256"
  using unsigned_less [of b] by simp

lemma hex_digit_inj: "m < 16 \<Longrightarrow> n < 16 \<Longrightarrow> hex_digit m = hex_digit n \<longleftrightarrow> m = n"
  by (auto simp: hex_digit_def char_of_eq_iff take_bit_eq_mod split: if_splits)

lemma hex2_inj: "hex2 a = hex2 b \<longleftrightarrow> a = b"
proof
  assume "hex2 a = hex2 b"
  then have "unat a div 16 = unat b div 16" "unat a mod 16 = unat b mod 16"
    using unat_u8_bound [of a] unat_u8_bound [of b]
    by (auto simp: hex2_def hex_digit_inj less_mult_imp_div_less)
  then have "unat a = unat b"
    by (metis div_mult_mod_eq)
  then show "a = b" by (simp add: word_unat_eq_iff)
qed simp

text \<open>\<open>str::split(c).collect()\<close>: always at least one part.\<close>

fun split_on :: "char \<Rightarrow> string \<Rightarrow> string list" where
  "split_on c [] = [[]]"
| "split_on c (x # xs) =
     (case split_on c xs of
        [] \<Rightarrow> [[x]]
      | p # ps \<Rightarrow> if x = c then [] # p # ps else (x # p) # ps)"

lemma split_on_ne [simp]: "split_on c s \<noteq> []"
  by (induction s) (auto split: list.splits)

lemma split_on_clean: "c \<notin> set s \<Longrightarrow> split_on c s = [s]"
  by (induction s) auto

lemma last_split_on_append:
  "c \<notin> set s \<Longrightarrow> last (split_on c (p @ c # s)) = s"
proof (induction p)
  case Nil
  then show ?case by (simp add: split_on_clean)
next
  case (Cons x p)
  obtain q qs where q: "split_on c (p @ c # s) = q # qs"
    using split_on_ne by (cases "split_on c (p @ c # s)") auto
  have "qs \<noteq> []"
    using q
  proof (induction p arbitrary: q qs)
    case Nil
    then show ?case by (auto split: list.splits)
  next
    case (Cons y p)
    then show ?case
      by (cases "split_on c (p @ c # s)") (auto split: if_splits)
  qed
  with Cons q show ?case by simp
qed

text \<open>\<open>str::starts_with\<close> and \<open>str::contains\<close>.\<close>

definition starts_with :: "string \<Rightarrow> string \<Rightarrow> bool" where
  "starts_with s p = prefix p s"

definition contains :: "string \<Rightarrow> string \<Rightarrow> bool" where
  "contains s p = sublist p s"

section \<open>Lists\<close>

text \<open>\<open>Vec::resize\<close> when it can only grow, and an assignment \<open>v[0] = x\<close>.\<close>

definition resize :: "'a list \<Rightarrow> nat \<Rightarrow> 'a \<Rightarrow> 'a list" where
  "resize xs n d = take n xs @ replicate (n - length xs) d"

lemma length_resize [simp]: "length (resize xs n d) = n"
  by (simp add: resize_def)

lemma filter_append_Nil: "filter P (xs @ ys) = [] \<longleftrightarrow> filter P xs = [] \<and> filter P ys = []"
  by auto

section \<open>The state monad\<close>

lemma run_state_if [simp]:
  "run_state (if b then m else n) s = (if b then run_state m s else run_state n s)"
  by simp

lemma run_state_case_sum:
  "run_state (case x of Inl a \<Rightarrow> f a | Inr b \<Rightarrow> g b) s =
     (case x of Inl a \<Rightarrow> run_state (f a) s | Inr b \<Rightarrow> run_state (g b) s)"
  by (simp split: sum.splits)

lemma run_state_case_option:
  "run_state (case x of None \<Rightarrow> m | Some a \<Rightarrow> f a) s =
     (case x of None \<Rightarrow> run_state m s | Some a \<Rightarrow> run_state (f a) s)"
  by (simp split: option.splits)

lemma run_state_case_prod:
  "run_state (case p of (a, b) \<Rightarrow> f a b) s = (case p of (a, b) \<Rightarrow> run_state (f a b) s)"
  by (simp split: prod.splits)

lemmas run_state_cases = run_state_case_sum run_state_case_option run_state_case_prod

section \<open>Programs that may fail\<close>

text \<open>\<open>let a = m?; f(a)\<close>, \<open>m.map_err(g)\<close>, and a read of the state behind a lock.\<close>

definition then_ok ::
  "('s, 'e + 'a) state \<Rightarrow> ('a \<Rightarrow> ('s, 'e + 'b) state) \<Rightarrow> ('s, 'e + 'b) state" where
  "then_ok m f = do { r \<leftarrow> m; (case r of Inl e \<Rightarrow> State_Monad.return (Inl e) | Inr a \<Rightarrow> f a) }"

definition with_error :: "('e \<Rightarrow> 'f) \<Rightarrow> ('s, 'e + 'a) state \<Rightarrow> ('s, 'f + 'a) state" where
  "with_error f m = do { r \<leftarrow> m; State_Monad.return (map_sum f id r) }"

definition answered :: "('s \<Rightarrow> 'a) \<Rightarrow> ('s, 'e + 'a) state" where
  "answered f = do { s \<leftarrow> State_Monad.get; State_Monad.return (Inr (f s)) }"

abbreviation succeed :: "'a \<Rightarrow> ('s, 'e + 'a) state" where
  "succeed a \<equiv> State_Monad.return (Inr a)"

lemma run_programs [simp]:
  "run_state (then_ok m f) s =
     (case run_state m s of (Inl e, s') \<Rightarrow> (Inl e, s') | (Inr a, s') \<Rightarrow> run_state (f a) s')"
  "run_state (with_error g n) s = (case run_state n s of (r, s') \<Rightarrow> (map_sum g id r, s'))"
  "run_state (answered h) s = (Inr (h s), s)"
  by (simp_all add: then_ok_def with_error_def answered_def split: prod.split sum.split)

end
