(* ===== verification/Bridge_Types.thy ===== *)
theory Bridge_Types
  imports Bridge_Prelude
begin

text \<open>
  The data the bridge exchanges: the Solana transaction as \<open>sign_and_submit\<close> reads and writes
  it, service roles, JSON values of the RPC node, the NATS envelopes and replies, the
  \<open>ChainBridgeError\<close> of the core crate, and the record of the external libraries the sources
  call. A library function is a field of \<open>externals\<close>: the model never defines one.
\<close>

section \<open>Solana values\<close>

type_synonym pubkey = bytes
type_synonym hash = bytes
type_synonym signature = bytes

definition default_hash :: hash where
  "default_hash = replicate 32 0"

definition default_signature :: signature where
  "default_signature = replicate 64 0"

record message_header =
  num_required_signatures :: u8
  num_readonly_signed_accounts :: u8
  num_readonly_unsigned_accounts :: u8

record compiled_instruction =
  program_id_index :: u8
  accounts :: "u8 list"
  ix_data :: bytes

record instruction =
  program_id :: pubkey
  account_metas :: "(pubkey \<times> bool \<times> bool) list"
  instruction_data :: bytes

record message =
  header :: message_header
  account_keys :: "pubkey list"
  recent_blockhash :: hash
  instructions :: "compiled_instruction list"

record transaction =
  signatures :: "signature list"
  message :: message

text \<open>What \<open>simulate_transaction\<close> returns; a transaction error is kept as its \<open>Debug\<close> text.\<close>

record sim_result =
  sim_err :: "string option"
  sim_logs :: "string list option"
  units_consumed :: "u64 option"

section \<open>Roles, identities, JSON\<close>

text \<open>The variants of \<open>ServiceRole\<close> that the sources and the README name.\<close>

datatype service_role =
    Admin | ApiGateway | IamService | TradingApi | TradingMatcher | AggregatorBridge
  | SettlementService | ReportingService | MeterService | Unknown

instantiation service_role :: enum
begin

definition enum_service_role :: "service_role list" where
  "enum_service_role =
     [Admin, ApiGateway, IamService, TradingApi, TradingMatcher, AggregatorBridge,
      SettlementService, ReportingService, MeterService, Unknown]"

definition enum_all_service_role :: "(service_role \<Rightarrow> bool) \<Rightarrow> bool" where
  "enum_all_service_role P = list_all P enum_class.enum"

definition enum_ex_service_role :: "(service_role \<Rightarrow> bool) \<Rightarrow> bool" where
  "enum_ex_service_role P = list_ex P enum_class.enum"

instance
proof
  show univ: "UNIV = set (enum_class.enum :: service_role list)"
    by (auto simp: enum_service_role_def intro: service_role.exhaust)
  show "distinct (enum_class.enum :: service_role list)"
    by (simp add: enum_service_role_def)
  show "enum_class.enum_all P = Ball UNIV P" for P :: "service_role \<Rightarrow> bool"
    by (simp add: enum_all_service_role_def univ list_all_iff)
  show "enum_class.enum_ex P = Bex UNIV P" for P :: "service_role \<Rightarrow> bool"
    by (simp add: enum_ex_service_role_def univ list_ex_iff)
qed

end

type_synonym spiffe_identity = string

text \<open>\<open>serde_json::Value\<close>: its variants; numbers as \<open>u64\<close>, negative \<open>i64\<close> or \<open>f64\<close>.\<close>

datatype json =
    JNull
  | JBool bool
  | JUInt u64
  | JInt i64
  | JFloat f64
  | JString string
  | JArray "json list"
  | JObject "(string \<times> json) list"

section \<open>Errors of the port boundary\<close>

datatype chain_bridge_error =
    Signer string
  | ChainClient string
  | PolicyRejectedE string
  | Simulation string
  | Audit string
  | Nonce string
  | InvalidTransaction string
  | Unauthorized string

text \<open>\<open>ChainBridgeError::is_transient\<close>\<close>

fun is_transient :: "chain_bridge_error \<Rightarrow> bool" where
  "is_transient (ChainClient _) = True"
| "is_transient (Simulation _) = True"
| "is_transient (Signer _) = True"
| "is_transient (Nonce _) = True"
| "is_transient _ = False"

text \<open>The \<open>Display\<close> text that \<open>thiserror\<close> derives from the \<open>#[error]\<close> attributes.\<close>

fun show_error :: "chain_bridge_error \<Rightarrow> string" where
  "show_error (Signer e) = ''signer error: '' @ e"
| "show_error (ChainClient e) = ''chain client error: '' @ e"
| "show_error (PolicyRejectedE e) = ''policy rejected: '' @ e"
| "show_error (Simulation e) = ''simulation failed: '' @ e"
| "show_error (Audit e) = ''audit error: '' @ e"
| "show_error (Nonce e) = ''nonce error: '' @ e"
| "show_error (InvalidTransaction e) = ''invalid transaction: '' @ e"
| "show_error (Unauthorized e) = ''unauthorized: '' @ e"

section \<open>NATS envelopes and replies\<close>

record envelope_auth =
  scheme :: string
  cert_pem :: string
  auth_signature :: string

record tx_submit_message =
  ts_correlation_id :: string
  ts_idempotency_key :: string
  ts_reply_subject :: string
  ts_serialized_tx :: bytes
  ts_key_id :: string
  ts_skip_preflight :: bool
  ts_retry_count :: u32
  ts_service_identity :: string
  ts_created_at_ms :: u64
  ts_auth :: "envelope_auth option"

record tx_cancel_message =
  tc_correlation_id :: string
  tc_reply_subject :: string
  tc_service_identity :: string
  tc_created_at_ms :: u64
  tc_auth :: "envelope_auth option"

record mint_energy_message =
  me_correlation_id :: string
  me_idempotency_key :: string
  me_reply_subject :: string
  me_recipient_wallet :: string
  me_energy_kwh :: f64
  me_meter_id :: bytes
  me_window_start_ms :: i64
  me_service_identity :: string
  me_created_at_ms :: u64
  me_auth :: "envelope_auth option"

record tx_status_message =
  tq_correlation_id :: string
  tq_reply_subject :: string
  tq_signature :: string
  tq_service_identity :: string
  tq_auth :: "envelope_auth option"

record tx_result_message =
  tr_correlation_id :: string
  tr_success :: bool
  tr_signature :: "string option"
  tr_error :: "string option"
  tr_slot :: u64
  tr_deduplicated :: bool

record tx_cancel_result_message =
  tcr_correlation_id :: string
  tcr_success :: bool
  tcr_error :: "string option"

record mint_energy_result_message =
  mr_correlation_id :: string
  mr_success :: bool
  mr_signature :: "string option"
  mr_error :: "string option"
  mr_slot :: u64
  mr_deduplicated :: bool

record tx_status_result_message =
  tqr_correlation_id :: string
  tqr_found :: bool
  tqr_confirmed :: bool
  tqr_status :: string
  tqr_slot :: u64
  tqr_error :: "string option"

datatype reply =
    TxResult tx_result_message
  | CancelResult tx_cancel_result_message
  | MintResult mint_energy_result_message
  | StatusResult tx_status_result_message

datatype ack_kind = Ack | Term

section \<open>External libraries\<close>

text \<open>
  The functions of third-party crates and of the \<open>gridtokenx-blockchain-core\<close> submodule that
  the modelled code calls, as data: every definition that needs one takes the record. A library
  error is represented by the text the sources print of it.
\<close>

record json_api =
  j_index :: "json \<Rightarrow> string \<Rightarrow> json"
  j_get :: "json \<Rightarrow> string \<Rightarrow> json option"
  j_is_null :: "json \<Rightarrow> bool"
  j_as_str :: "json \<Rightarrow> string option"
  j_as_u64 :: "json \<Rightarrow> u64 option"
  j_as_f64 :: "json \<Rightarrow> f64 option"
  j_as_array :: "json \<Rightarrow> json list option"
  j_to_string :: "json \<Rightarrow> string"

record externals =
  deserialize_tx :: "bytes \<Rightarrow> string + transaction"
  serialize_tx :: "transaction \<Rightarrow> string + bytes"
  message_data :: "message \<Rightarrow> bytes"
  validate_transaction :: "spiffe_identity \<Rightarrow> transaction \<Rightarrow> string + unit"
  role_of_identity :: "spiffe_identity \<Rightarrow> service_role"
  role_of_headers :: "(string \<rightharpoonup> bytes) \<Rightarrow> service_role"
  require_any :: "service_role \<Rightarrow> service_role list \<Rightarrow> string + unit"
  show_signature :: "signature \<Rightarrow> string"
  show_hash :: "hash \<Rightarrow> string"
  pubkey_from_str :: "string \<Rightarrow> string + pubkey"
  signature_from_str :: "string \<Rightarrow> string + signature"
  header_to_str :: "bytes \<Rightarrow> string option"
  parse_submit :: "bytes \<Rightarrow> string + tx_submit_message"
  parse_cancel :: "bytes \<Rightarrow> string + tx_cancel_message"
  parse_mint :: "bytes \<Rightarrow> string + mint_energy_message"
  parse_status :: "bytes \<Rightarrow> string + tx_status_message"
  serialize_reply :: "reply \<Rightarrow> string + bytes"
  canonical_submit_bytes :: "tx_submit_message \<Rightarrow> bytes"
  canonical_cancel_bytes :: "tx_cancel_message \<Rightarrow> bytes"
  canonical_mint_bytes :: "mint_energy_message \<Rightarrow> bytes"
  canonical_status_bytes :: "tx_status_message \<Rightarrow> bytes"
  energy_kwh_to_base_units :: "f64 \<Rightarrow> string + u64"
  build_generation_mint_instructions ::
    "pubkey \<Rightarrow> pubkey \<Rightarrow> u64 \<Rightarrow> bytes \<Rightarrow> i64 \<Rightarrow> string + instruction list"
  set_compute_unit_limit :: "u32 \<Rightarrow> instruction"
  message_new :: "instruction list \<Rightarrow> pubkey option \<Rightarrow> message"
  new_unsigned :: "message \<Rightarrow> transaction"
  json :: json_api

end
