(* ===== verification/Audit_Chain.thy ===== *)
theory Audit_Chain
  imports Bridge_Types
begin

text \<open>
  The tamper-evident audit trail: \<open>AuditEntry\<close> and its hash (crates/chain-bridge-core/src/audit.rs)
  and the two adapters of the \<open>AuditPort\<close> (crates/chain-bridge-persistence/src/postgres_audit.rs),
  the in-memory vector and the Postgres table. The locale \<open>audit_port\<close> is the contract of the
  port; both adapters are interpreted in it. SHA-256 (\<open>solana_sdk::hash::hashv\<close>) and the JSON
  rendering of an outcome are parameters.
\<close>

section \<open>Entries and their hash\<close>

type_synonym audit_hash = bytes
type_synonym audit_id = int

datatype audit_outcome =
    Submitted string u64 \<comment> \<open>signature, slot\<close>
  | Rejected string string \<comment> \<open>stage, reason\<close>

record audit_entry =
  prev_hash :: "audit_hash option"
  correlation_id :: string
  identity :: string
  action :: string
  outcome :: audit_outcome
  created_at_ms :: u64

record audit_lib =
  hashv :: "bytes list \<Rightarrow> bytes"
  outcome_to_json :: "audit_outcome \<Rightarrow> string + string"

text \<open>\<open>AuditHash::to_hex\<close>\<close>

definition to_hex :: "audit_hash \<Rightarrow> string" where
  "to_hex h = concat (map hex2 h)"

text \<open>\<open>AuditEntry::new\<close>\<close>

definition audit_entry_new ::
  "string \<Rightarrow> string \<Rightarrow> string \<Rightarrow> audit_outcome \<Rightarrow> u64 \<Rightarrow> audit_entry" where
  "audit_entry_new corr ident act out now =
     \<lparr>prev_hash = None, correlation_id = corr, identity = ident, action = act,
      outcome = out, created_at_ms = now\<rparr>"

text \<open>\<open>u64::to_le_bytes\<close>\<close>

definition to_le_bytes :: "u64 \<Rightarrow> bytes" where
  "to_le_bytes w = map (\<lambda>i. word_of_nat (unat w div 256 ^ i)) [0..<8]"

text \<open>\<open>unwrap_or_default\<close> on the JSON rendering.\<close>

definition outcome_json :: "audit_lib \<Rightarrow> audit_outcome \<Rightarrow> string" where
  "outcome_json L out = (case outcome_to_json L out of Inl _ \<Rightarrow> [] | Inr s \<Rightarrow> s)"

text \<open>The byte slices of an entry that \<open>entry_hash\<close> feeds to the hash after the previous link.\<close>

definition entry_fields :: "audit_lib \<Rightarrow> audit_entry \<Rightarrow> bytes list" where
  "entry_fields L e =
     [as_bytes (correlation_id e), as_bytes (identity e), as_bytes (action e),
      as_bytes (outcome_json L (outcome e)), to_le_bytes (created_at_ms e)]"

definition prev_bytes :: "audit_hash option \<Rightarrow> bytes" where
  "prev_bytes prev = (case prev of None \<Rightarrow> replicate 32 0 | Some h \<Rightarrow> h)"

definition link_hash :: "audit_lib \<Rightarrow> audit_hash option \<Rightarrow> bytes list \<Rightarrow> audit_hash" where
  "link_hash L prev fs = hashv L (prev_bytes prev # fs)"

text \<open>\<open>AuditEntry::entry_hash\<close>\<close>

definition entry_hash :: "audit_lib \<Rightarrow> audit_entry \<Rightarrow> audit_hash option \<Rightarrow> audit_hash" where
  "entry_hash L e prev = link_hash L prev (entry_fields L e)"

section \<open>Chains of links\<close>

text \<open>
  The abstract content of a store: for each row the stored hash and the field slices the row was
  hashed from. A chain is intact when every hash is the hash of its own fields and of the link
  before it.
\<close>

type_synonym link = "audit_hash \<times> bytes list"

fun chain_from :: "audit_lib \<Rightarrow> audit_hash option \<Rightarrow> link list \<Rightarrow> bool" where
  "chain_from L prev [] = True"
| "chain_from L prev ((h, fs) # ls) = (h = link_hash L prev fs \<and> chain_from L (Some h) ls)"

definition tip_from :: "audit_hash option \<Rightarrow> link list \<Rightarrow> audit_hash option" where
  "tip_from prev ls = (if ls = [] then prev else Some (fst (last ls)))"

abbreviation chain_ok :: "audit_lib \<Rightarrow> link list \<Rightarrow> bool" where
  "chain_ok L \<equiv> chain_from L None"

abbreviation chain_tip :: "link list \<Rightarrow> audit_hash option" where
  "chain_tip \<equiv> tip_from None"

lemma tip_from_simps [simp]:
  "tip_from prev [] = prev"
  "tip_from prev (ls @ [l]) = Some (fst l)"
  "tip_from prev (l # ls) = tip_from (Some (fst l)) ls"
  by (simp_all add: tip_from_def)

lemma chain_from_append:
  "chain_from L prev (ls @ ms) \<longleftrightarrow> chain_from L prev ls \<and> chain_from L (tip_from prev ls) ms"
proof (induction ls arbitrary: prev)
  case (Cons l ls)
  then show ?case by (cases l) (simp only: append_Cons chain_from.simps tip_from_simps fst_conv conj_assoc)
qed simp

lemma chain_from_snoc [simp]:
  "chain_from L prev (ls @ [(h, fs)]) \<longleftrightarrow>
     chain_from L prev ls \<and> h = link_hash L (tip_from prev ls) fs"
  by (auto simp: chain_from_append)

text \<open>The inputs of the hash function over a chain, for statements about collisions.\<close>

fun preimages :: "audit_hash option \<Rightarrow> link list \<Rightarrow> bytes list set" where
  "preimages prev [] = {}"
| "preimages prev ((h, fs) # ls) = insert (prev_bytes prev # fs) (preimages (Some h) ls)"

lemma preimages_append:
  "preimages prev (ls @ ms) = preimages prev ls \<union> preimages (tip_from prev ls) ms"
  by (induction ls arbitrary: prev) auto

definition collision_free :: "audit_lib \<Rightarrow> bytes list set \<Rightarrow> bool" where
  "collision_free L A \<longleftrightarrow> (\<forall>x\<in>A. \<forall>y\<in>A. hashv L x = hashv L y \<longrightarrow> concat x = concat y)"

lemma collision_free_mono: "collision_free L B \<Longrightarrow> A \<subseteq> B \<Longrightarrow> collision_free L A"
  unfolding collision_free_def by (meson subsetD)

definition digest_size :: "audit_lib \<Rightarrow> bool" where
  "digest_size L \<longleftrightarrow> (\<forall>x. length (hashv L x) = 32)"

lemma chain_tip_length:
  assumes "digest_size L" and "chain_from L None ls"
  shows "length (prev_bytes (chain_tip ls)) = 32"
proof (cases ls rule: rev_cases)
  case Nil
  then show ?thesis by (simp add: prev_bytes_def)
next
  case (snoc ms l)
  with assms show ?thesis
    by (cases l) (simp add: prev_bytes_def link_hash_def digest_size_def)
qed

text \<open>
  Equal tips of two intact chains of the same length force equal field bytes link by link:
  rewriting any past entry so that its bytes change changes the tip.
\<close>

lemma equal_tips_equal_bytes:
  assumes size: "digest_size L"
    and "chain_ok L ls" "chain_ok L ms"
    and "length ls = length ms" "chain_tip ls = chain_tip ms"
    and "collision_free L (preimages None ls \<union> preimages None ms)"
  shows "map (\<lambda>l. concat (snd l)) ls = map (\<lambda>l. concat (snd l)) ms"
  using assms(2-)
proof (induction ls arbitrary: ms rule: rev_induct)
  case Nil
  then show ?case by simp
next
  case (snoc l ls)
  from snoc.prems(3) obtain ms' m where ms: "ms = ms' @ [m]"
    by (cases ms rule: rev_cases) auto
  obtain h fs where l: "l = (h, fs)" by (cases l)
  obtain k gs where m: "m = (k, gs)" by (cases m)
  let ?p = "prev_bytes (chain_tip ls)" and ?q = "prev_bytes (chain_tip ms')"
  have okl: "chain_ok L ls" "h = hashv L (?p # fs)"
    using snoc.prems(1) l by (auto simp: link_hash_def)
  have okm: "chain_ok L ms'" "k = hashv L (?q # gs)"
    using snoc.prems(2) ms m by (auto simp: link_hash_def)
  have "h = k" using snoc.prems(4) ms l m by simp
  then have "hashv L (?p # fs) = hashv L (?q # gs)" using okl okm by simp
  moreover have "?p # fs \<in> preimages None (ls @ [l])" "?q # gs \<in> preimages None ms"
    using ms l m by (auto simp: preimages_append)
  ultimately have cc: "?p @ concat fs = ?q @ concat gs"
    using snoc.prems(5) unfolding collision_free_def by fastforce
  have len: "length ?p = 32" "length ?q = 32"
    using chain_tip_length [OF size] okl(1) okm(1) by auto
  with cc have pq: "?p = ?q" and fg: "concat fs = concat gs" by auto
  have tips: "chain_tip ls = chain_tip ms'"
    using pq snoc.prems(3) ms
    by (cases ls rule: rev_cases; cases ms' rule: rev_cases) (auto simp: prev_bytes_def)
  have cf: "collision_free L (preimages None ls \<union> preimages None ms')"
    using snoc.prems(5) by (rule collision_free_mono) (auto simp: ms preimages_append)
  have "length ls = length ms'" using snoc.prems(3) ms by simp
  from snoc.IH [OF okl(1) okm(1) this tips cf]
  have "map (\<lambda>l. concat (snd l)) ls = map (\<lambda>l. concat (snd l)) ms'" .
  with fg ms l m show ?case by simp
qed

section \<open>The in-memory store\<close>

type_synonym inmem_store = "(audit_id \<times> audit_hash \<times> audit_entry) list"

text \<open>\<open>InMemoryAuditStore::new\<close>, \<open>latest_hash\<close>, \<open>append\<close>, \<open>entries\<close>, \<open>len\<close> and \<open>is_empty\<close>\<close>

definition inmem_new :: inmem_store where
  "inmem_new = []"

definition inmem_latest_hash :: "inmem_store \<Rightarrow> chain_bridge_error + audit_hash option" where
  "inmem_latest_hash log = Inr (if log = [] then None else Some (fst (snd (last log))))"

definition inmem_append ::
  "audit_lib \<Rightarrow> inmem_store \<Rightarrow> audit_entry \<Rightarrow> (chain_bridge_error + audit_id) \<times> inmem_store" where
  "inmem_append L log e =
     (let prev = (if log = [] then None else Some (fst (snd (last log))));
          h = entry_hash L e prev;
          i = int (length log) + 1
      in (Inr i, log @ [(i, h, e)]))"

definition inmem_entries :: "inmem_store \<Rightarrow> audit_entry list" where
  "inmem_entries log = map (\<lambda>(_, _, e). e) log"

definition inmem_len :: "inmem_store \<Rightarrow> nat" where
  "inmem_len log = length log"

definition inmem_is_empty :: "inmem_store \<Rightarrow> bool" where
  "inmem_is_empty log \<longleftrightarrow> log = []"

text \<open>A store holds what was appended, oldest first, numbered from 1.\<close>

lemma inmem_appends:
  "let log = fold (\<lambda>e log. snd (inmem_append L log e)) es inmem_new in
   inmem_entries log = es \<and> map fst log = map (\<lambda>i. int i + 1) [0..<length es] \<and>
   inmem_len log = length es \<and> (inmem_is_empty log \<longleftrightarrow> es = [])"
proof (induction es rule: rev_induct)
  case (snoc e es)
  let ?log = "fold (\<lambda>e log. snd (inmem_append L log e)) es inmem_new"
  from snoc have "length ?log = length es" by (simp add: Let_def inmem_len_def)
  with snoc show ?case
    by (simp add: Let_def inmem_append_def inmem_entries_def inmem_len_def inmem_is_empty_def)
qed (simp add: inmem_new_def inmem_entries_def inmem_len_def inmem_is_empty_def)

definition inmem_links :: "audit_lib \<Rightarrow> inmem_store \<Rightarrow> link list" where
  "inmem_links L log = map (\<lambda>(_, h, e). (h, entry_fields L e)) log"

lemma inmem_tip [simp]:
  "chain_tip (inmem_links L log) = (if log = [] then None else Some (fst (snd (last log))))"
  by (cases log rule: rev_cases) (auto simp: inmem_links_def split: prod.splits)

section \<open>The Postgres table\<close>

record pg_row =
  row_id :: int
  row_prev_hash :: "bytes option"
  row_entry_hash :: bytes
  row_correlation_id :: string
  row_identity :: string
  row_action :: string
  row_outcome_json :: string
  row_created_at_ms :: i64

text \<open>The \<open>audit_log\<close> table: its rows in insertion order and the next value of its id column.\<close>

record pg_table =
  pg_rows :: "pg_row list"
  pg_seq :: int

text \<open>
  What the database connection may answer instead of a result, as a function of the table. A
  failed insert was not executed; or it drew an id and was rolled back, which leaves a gap in the ids; or
  it was committed all the same (a connection lost after the commit).
\<close>

datatype insert_end = NotExecuted | RolledBack | Committed

record pg_faults =
  select_fault :: "pg_table \<Rightarrow> string option"
  read_tip_fault :: "pg_table \<Rightarrow> string option"
  insert_fault :: "pg_table \<Rightarrow> (string \<times> insert_end) option"
  read_id_fault :: "pg_table \<Rightarrow> string option"

definition vec_to_hash :: "bytes \<Rightarrow> chain_bridge_error + audit_hash" where
  "vec_to_hash v =
     (if length v = 32 then Inr v
      else Inl (Audit (''audit hash has '' @ show_nat (length v) @ '' bytes, expected 32'')))"

text \<open>\<open>SELECT entry_hash FROM audit_log ORDER BY id DESC LIMIT 1\<close>\<close>

fun max_id_row :: "pg_row list \<Rightarrow> pg_row option" where
  "max_id_row [] = None"
| "max_id_row (r # rs) =
     (case max_id_row rs of None \<Rightarrow> Some r | Some b \<Rightarrow> Some (if row_id b < row_id r then r else b))"

text \<open>\<open>PostgresAuditStore::latest_hash\<close>\<close>

definition pg_latest_hash ::
  "pg_faults \<Rightarrow> pg_table \<Rightarrow> chain_bridge_error + audit_hash option" where
  "pg_latest_hash P t =
     (case select_fault P t of
        Some e \<Rightarrow> Inl (Audit (''audit tip query failed: '' @ e))
      | None \<Rightarrow>
          (case max_id_row (pg_rows t) of
             None \<Rightarrow> Inr None
           | Some r \<Rightarrow>
               (case read_tip_fault P t of
                  Some e \<Rightarrow> Inl (Audit (''read tip hash: '' @ e))
                | None \<Rightarrow>
                    (case vec_to_hash (row_entry_hash r) of
                       Inl e \<Rightarrow> Inl e
                     | Inr h \<Rightarrow> Inr (Some h)))))"

text \<open>The second half of \<open>PostgresAuditStore::append\<close>: the linked row is inserted.\<close>

definition pg_insert_linked ::
  "audit_lib \<Rightarrow> pg_faults \<Rightarrow> audit_hash option \<Rightarrow> audit_entry \<Rightarrow> pg_table \<Rightarrow>
   (chain_bridge_error + audit_id) \<times> pg_table" where
  "pg_insert_linked L P prev e t =
     (case outcome_to_json L (outcome e) of
        Inl x \<Rightarrow> (Inl (Audit (''serialize outcome: '' @ x)), t)
      | Inr js \<Rightarrow>
          (let row = \<lparr>row_id = pg_seq t, row_prev_hash = prev,
                      row_entry_hash = entry_hash L e prev,
                      row_correlation_id = correlation_id e, row_identity = identity e,
                      row_action = action e, row_outcome_json = js,
                      row_created_at_ms = created_at_ms e\<rparr>;
               t' = t\<lparr>pg_rows := pg_rows t @ [row], pg_seq := pg_seq t + 1\<rparr>
           in (case insert_fault P t of
                 Some (x, how) \<Rightarrow>
                   (Inl (Audit (''audit insert failed: '' @ x)),
                    case how of
                      NotExecuted \<Rightarrow> t
                    | RolledBack \<Rightarrow> t\<lparr>pg_seq := pg_seq t + 1\<rparr>
                    | Committed \<Rightarrow> t')
               | None \<Rightarrow>
                   (case read_id_fault P t' of
                      Some x \<Rightarrow> (Inl (Audit (''read inserted id: '' @ x)), t')
                    | None \<Rightarrow> (Inr (row_id row), t')))))"

text \<open>\<open>PostgresAuditStore::append\<close>: read the tip, then insert.\<close>

definition pg_append ::
  "audit_lib \<Rightarrow> pg_faults \<Rightarrow> pg_table \<Rightarrow> audit_entry \<Rightarrow>
   (chain_bridge_error + audit_id) \<times> pg_table" where
  "pg_append L P t e =
     (case pg_latest_hash P t of
        Inl x \<Rightarrow> (Inl x, t)
      | Inr prev \<Rightarrow> pg_insert_linked L P prev e t)"

definition row_link :: "pg_row \<Rightarrow> link" where
  "row_link r =
     (row_entry_hash r,
      [as_bytes (row_correlation_id r), as_bytes (row_identity r), as_bytes (row_action r),
       as_bytes (row_outcome_json r), to_le_bytes (row_created_at_ms r)])"

definition pg_links :: "pg_table \<Rightarrow> link list" where
  "pg_links t = map row_link (pg_rows t)"

text \<open>Ids increase in insertion order and stay below the sequence.\<close>

definition pg_inv :: "pg_table \<Rightarrow> bool" where
  "pg_inv t \<longleftrightarrow> sorted_wrt (<) (map row_id (pg_rows t) @ [pg_seq t])"

definition pg_empty :: pg_table where
  "pg_empty = \<lparr>pg_rows = [], pg_seq = 1\<rparr>"

lemma max_id_row_snoc:
  "sorted_wrt (<) (map row_id (rs @ [r])) \<Longrightarrow> max_id_row (rs @ [r]) = Some r"
  by (induction rs) (auto simp: sorted_wrt_append not_less order_less_imp_le)

lemma pg_latest_hash_tip:
  assumes "pg_inv t" and "pg_latest_hash P t = Inr h"
  shows "h = chain_tip (pg_links t)"
proof (cases "pg_rows t" rule: rev_cases)
  case Nil
  with assms show ?thesis
    by (auto simp: pg_latest_hash_def pg_links_def split: option.splits)
next
  case (snoc rs r)
  with assms(1) have "max_id_row (pg_rows t) = Some r"
    by (auto simp: pg_inv_def sorted_wrt_append intro!: max_id_row_snoc)
  with assms(2) snoc show ?thesis
    by (auto simp: pg_latest_hash_def pg_links_def vec_to_hash_def row_link_def
        split: option.splits if_splits)
qed

lemma pg_insert_linked_link:
  assumes "pg_inv t" and "pg_insert_linked L P prev e t = (r, t')"
  shows "pg_inv t' \<and>
     (pg_links t' = pg_links t @ [(entry_hash L e prev, entry_fields L e)]
      \<or> pg_links t' = pg_links t \<and> \<not> result_ok r)"
  using assms
  by (auto simp: pg_insert_linked_def pg_inv_def pg_links_def row_link_def Let_def
      entry_fields_def outcome_json_def sorted_wrt_append less_imp_le
      split: sum.splits option.splits insert_end.splits)

section \<open>The contract of the audit port\<close>

text \<open>
  The first argument of both operations is what the store's connection does during that call
  (\<open>pg_faults\<close> for Postgres, nothing for the vector), so a run may fail at any of its calls.
\<close>

locale audit_port =
  fixes L :: audit_lib
    and append :: "'c \<Rightarrow> 's \<Rightarrow> audit_entry \<Rightarrow> (chain_bridge_error + audit_id) \<times> 's"
    and latest_hash :: "'c \<Rightarrow> 's \<Rightarrow> chain_bridge_error + audit_hash option"
    and links :: "'s \<Rightarrow> link list"
    and invar :: "'s \<Rightarrow> bool"
  assumes append_step: "invar s \<Longrightarrow> append c s e = (r, s') \<Longrightarrow> invar s' \<and>
      (links s' = links s @ [(entry_hash L e (chain_tip (links s)), entry_fields L e)]
       \<or> links s' = links s \<and> \<not> result_ok r)"
    and latest_tip: "invar s \<Longrightarrow> latest_hash c s = Inr h \<Longrightarrow> h = chain_tip (links s)"
begin

lemma append_chain:
  assumes "invar s" "chain_ok L (links s)" "append c s e = (r, s')"
  shows "invar s'" and "chain_ok L (links s')"
    and "prefix (links s) (links s')"
  using append_step [OF assms(1,3)] assms(2)
  by (auto simp: entry_hash_def)

lemma appends_chain:
  assumes "invar s" "chain_ok L (links s)"
  shows "invar (foldl (\<lambda>s (c, e). snd (append c s e)) s es) \<and>
         chain_ok L (links (foldl (\<lambda>s (c, e). snd (append c s e)) s es)) \<and>
         prefix (links s) (links (foldl (\<lambda>s (c, e). snd (append c s e)) s es))"
  using assms
proof (induction es arbitrary: s)
  case (Cons ce es)
  obtain c e where ce: "ce = (c, e)" by (cases ce)
  obtain r s' where step: "append c s e = (r, s')" by (cases "append c s e")
  note facts = append_chain [OF Cons.prems step]
  from Cons.IH [OF facts(1,2)] facts(3) step ce show ?case
    by (auto intro: prefix_order.trans)
qed simp

lemma latest_is_hash_of_last:
  assumes "invar s" "append c s e = (Inr i, s')" "latest_hash c' s' = Inr h"
  shows "h = Some (entry_hash L e (chain_tip (links s)))"
  using append_step [OF assms(1,2)] latest_tip [OF _ assms(3)] by auto

text \<open>Two intact stores with the same number of rows and the same tip hold the same bytes.\<close>

lemma same_tip_same_bytes:
  assumes "digest_size L" "invar s" "invar s'" "chain_ok L (links s)" "chain_ok L (links s')"
    and "length (links s) = length (links s')"
    and "latest_hash c s = Inr h" "latest_hash c' s' = Inr h"
    and "collision_free L (preimages None (links s) \<union> preimages None (links s'))"
  shows "map (\<lambda>l. concat (snd l)) (links s) = map (\<lambda>l. concat (snd l)) (links s')"
proof -
  have "chain_tip (links s) = chain_tip (links s')"
    using latest_tip [OF assms(2,7)] latest_tip [OF assms(3,8)] by simp
  from equal_tips_equal_bytes [OF assms(1,4-6) this assms(9)] show ?thesis .
qed

end

interpretation inmem: audit_port L "\<lambda>_::unit. inmem_append L" "\<lambda>_. inmem_latest_hash" "inmem_links L"
  "\<lambda>_. True"
  for L
proof
  fix s e r s'
  assume "inmem_append L s e = (r, s')"
  then show "True \<and>
      (inmem_links L s' = inmem_links L s
         @ [(entry_hash L e (chain_tip (inmem_links L s)), entry_fields L e)]
       \<or> inmem_links L s' = inmem_links L s \<and> \<not> result_ok r)"
    unfolding inmem_tip by (auto simp: inmem_append_def Let_def inmem_links_def)
next
  fix s h
  assume "inmem_latest_hash s = Inr h"
  then show "h = chain_tip (inmem_links L s)"
    by (simp add: inmem_latest_hash_def)
qed

interpretation pg: audit_port L "pg_append L" pg_latest_hash pg_links pg_inv
  for L
proof
  fix s e r s' P
  assume "pg_inv s" "pg_append L P s e = (r, s')"
  then show "pg_inv s' \<and>
      (pg_links s' = pg_links s
         @ [(entry_hash L e (chain_tip (pg_links s)), entry_fields L e)]
       \<or> pg_links s' = pg_links s \<and> \<not> result_ok r)"
    using pg_insert_linked_link [of s L P _ e r s'] pg_latest_hash_tip [of s P]
    by (auto simp: pg_append_def split: sum.splits)
qed (rule pg_latest_hash_tip)

end
