(* ===== verification/Dedup_Store.thy ===== *)
theory Dedup_Store
  imports Bridge_Types
begin

text \<open>
  The two expiring maps of the NATS consumer: the effect-level dedup store keyed by the
  namespaced \<open>idempotency_key\<close> (crates/chain-bridge-api/src/nats_consumer/dedup.rs and
  \<open>claim_or_replay\<close> of consumer.rs) and the \<open>idempotency_cache\<close> keyed by \<open>correlation_id\<close>,
  with the body of the background cleanup task. A \<open>DashMap\<close> is a map from keys to values; one
  \<open>entry\<close> call holds the key's shard lock, so \<open>claim_or_replay\<close> is one atomic operation.
\<close>

section \<open>Records and operations\<close>

datatype dedup_state =
    InFlight
  | Done "string option" u64 \<comment> \<open>signature, slot\<close>

record dedup_record =
  expiry_ms :: u64
  state :: dedup_state

type_synonym dedup_map = "string \<rightharpoonup> dedup_record"
type_synonym idempotency_map = "string \<rightharpoonup> u64"

definition dedup_ttl_ms :: u64 where
  "dedup_ttl_ms = 120000"

definition idempotency_ttl_ms :: u64 where
  "idempotency_ttl_ms = 60000"

text \<open>The result message \<open>claim_or_replay\<close> builds from an unexpired record.\<close>

fun replay_result :: "string \<Rightarrow> dedup_state \<Rightarrow> tx_result_message" where
  "replay_result corr (Done sig sl) =
     \<lparr>tr_correlation_id = corr, tr_success = True, tr_signature = sig, tr_error = None,
      tr_slot = sl, tr_deduplicated = True\<rparr>"
| "replay_result corr InFlight =
     \<lparr>tr_correlation_id = corr, tr_success = False, tr_signature = None,
      tr_error = Some ''Submit already in flight for this idempotency_key'',
      tr_slot = 0, tr_deduplicated = True\<rparr>"

lemma replay_result_corr [simp]:
  "tr_correlation_id (replay_result corr d) = corr" "tr_deduplicated (replay_result corr d)"
  by (cases d; simp)+

text \<open>\<open>NatsConsumer::claim_or_replay\<close>\<close>

definition claim_or_replay ::
  "dedup_map \<Rightarrow> string option \<Rightarrow> string \<Rightarrow> u64 \<Rightarrow> tx_result_message option \<times> dedup_map" where
  "claim_or_replay store dedup_key corr now_ms =
     (case dedup_key of
        None \<Rightarrow> (None, store)
      | Some key \<Rightarrow>
          (let claimed = store(key \<mapsto> \<lparr>expiry_ms = now_ms + dedup_ttl_ms, state = InFlight\<rparr>)
           in (case store key of
                 Some rec \<Rightarrow>
                   if now_ms < expiry_ms rec then (Some (replay_result corr (state rec)), store)
                   else (None, claimed)
               | None \<Rightarrow> (None, claimed))))"

text \<open>The record a completed effect leaves, and the release of a failed one.\<close>

definition record_done :: "dedup_map \<Rightarrow> string option \<Rightarrow> string \<Rightarrow> u64 \<Rightarrow> u64 \<Rightarrow> dedup_map" where
  "record_done store dedup_key sig slot now_ms =
     (case dedup_key of
        None \<Rightarrow> store
      | Some key \<Rightarrow>
          store(key \<mapsto> \<lparr>expiry_ms = now_ms + dedup_ttl_ms, state = Done (Some sig) slot\<rparr>))"

definition release_claim :: "dedup_map \<Rightarrow> string option \<Rightarrow> dedup_map" where
  "release_claim store dedup_key =
     (case dedup_key of None \<Rightarrow> store | Some key \<Rightarrow> store(key := None))"

text \<open>The effect namespaces: \<open>submit:\<close> and \<open>mint:\<close> before a non-empty key.\<close>

definition submit_dedup_key :: "string \<Rightarrow> string option" where
  "submit_dedup_key k = (if k \<noteq> [] then Some (''submit:'' @ k) else None)"

definition mint_dedup_key :: "string \<Rightarrow> string option" where
  "mint_dedup_key k = (if k \<noteq> [] then Some (''mint:'' @ k) else None)"

lemma dedup_keys_disjoint: "submit_dedup_key a = Some k \<Longrightarrow> mint_dedup_key b \<noteq> Some k"
  by (auto simp: submit_dedup_key_def mint_dedup_key_def split: if_splits)

lemma dedup_keys_inj:
  "submit_dedup_key a = Some k \<Longrightarrow> submit_dedup_key b = Some k \<Longrightarrow> a = b"
  "mint_dedup_key a = Some k \<Longrightarrow> mint_dedup_key b = Some k \<Longrightarrow> a = b"
  by (auto simp: submit_dedup_key_def mint_dedup_key_def split: if_splits)

text \<open>The two \<open>retain\<close> calls of the cleanup task.\<close>

definition retain_idempotency :: "idempotency_map \<Rightarrow> u64 \<Rightarrow> idempotency_map" where
  "retain_idempotency m now_ms =
     (\<lambda>k. case m k of Some expiry \<Rightarrow> if now_ms < expiry then Some expiry else None | None \<Rightarrow> None)"

definition retain_dedup :: "dedup_map \<Rightarrow> u64 \<Rightarrow> dedup_map" where
  "retain_dedup m now_ms =
     (\<lambda>k. case m k of Some rec \<Rightarrow> if now_ms < expiry_ms rec then Some rec else None | None \<Rightarrow> None)"

section \<open>Expiring maps\<close>

text \<open>
  The contract both maps satisfy towards their cleanup: what a reader that checks the expiry
  sees at any later time is not changed by a \<open>retain\<close> at an earlier one.
\<close>

locale ttl_map =
  fixes expiry :: "'v \<Rightarrow> u64"
    and retain :: "(string \<rightharpoonup> 'v) \<Rightarrow> u64 \<Rightarrow> (string \<rightharpoonup> 'v)"
  assumes retain_lookup: "retain m now k =
      (case m k of Some v \<Rightarrow> if now < expiry v then Some v else None | None \<Rightarrow> None)"
begin

lemma retain_keeps_live:
  assumes "m k = Some v" "now < expiry v"
  shows "retain m now k = Some v"
  using assms by (simp add: retain_lookup)

lemma retain_drops_expired:
  assumes "m k = Some v" "\<not> now < expiry v"
  shows "retain m now k = None"
  using assms by (simp add: retain_lookup)

lemma retain_invisible:
  assumes "now \<le> t" "t < expiry v"
  shows "retain m now k = Some v \<longleftrightarrow> m k = Some v"
proof -
  from assms have "now < expiry v" by (rule le_less_trans)
  then show ?thesis by (auto simp: retain_lookup split: option.splits if_splits)
qed

lemma retain_dom: "dom (retain m now) = {k. \<exists>v. m k = Some v \<and> now < expiry v}"
  by (auto simp: retain_lookup dom_def split: option.splits if_splits)

lemma retain_retain: "now \<le> t \<Longrightarrow> retain (retain m now) t = retain m t"
  by (rule ext) (auto simp: retain_lookup split: option.splits)

end

interpretation idem: ttl_map "\<lambda>e. e" retain_idempotency
  by unfold_locales (simp add: retain_idempotency_def)

interpretation dedup: ttl_map expiry_ms retain_dedup
  by unfold_locales (simp add: retain_dedup_def)

section \<open>The claim protocol\<close>

text \<open>What a caller at time \<open>now\<close> sees of a key: an expired record is absent.\<close>

definition live :: "dedup_map \<Rightarrow> u64 \<Rightarrow> string \<Rightarrow> dedup_state option" where
  "live store now key =
     (case store key of
        Some rec \<Rightarrow> if now < expiry_ms rec then Some (state rec) else None
      | None \<Rightarrow> None)"

text \<open>
  The laws a client of the store relies on: a claim succeeds exactly when the key is not live,
  and then holds it; completing and releasing set and clear the key; cleanup is invisible to
  later readers; no operation touches another key.
\<close>

locale claim_protocol =
  fixes live_at :: "'s \<Rightarrow> u64 \<Rightarrow> string \<Rightarrow> dedup_state option"
    and claim :: "'s \<Rightarrow> string \<Rightarrow> string \<Rightarrow> u64 \<Rightarrow> tx_result_message option \<times> 's"
    and complete :: "'s \<Rightarrow> string \<Rightarrow> string \<Rightarrow> u64 \<Rightarrow> u64 \<Rightarrow> 's"
    and release :: "'s \<Rightarrow> string \<Rightarrow> 's"
    and sweep :: "'s \<Rightarrow> u64 \<Rightarrow> 's"
  assumes claim_held: "live_at s now k = Some d \<Longrightarrow> claim s k c now = (Some (replay_result c d), s)"
    and claim_free: "live_at s now k = None \<Longrightarrow> fst (claim s k c now) = None"
    and claim_holds: "live_at s now k = None \<Longrightarrow> t < now + dedup_ttl_ms \<Longrightarrow>
        live_at (snd (claim s k c now)) t k = Some InFlight"
    and claim_other: "k' \<noteq> k \<Longrightarrow> live_at (snd (claim s k c now)) t k' = live_at s t k'"
    and complete_holds: "t < now + dedup_ttl_ms \<Longrightarrow>
        live_at (complete s k sig slot now) t k = Some (Done (Some sig) slot)"
    and complete_other: "k' \<noteq> k \<Longrightarrow> live_at (complete s k sig slot now) t k' = live_at s t k'"
    and release_free: "live_at (release s k) t k = None"
    and release_other: "k' \<noteq> k \<Longrightarrow> live_at (release s k) t k' = live_at s t k'"
    and sweep_invisible: "now \<le> t \<Longrightarrow> live_at (sweep s now) t k = live_at s t k"
begin

lemma second_claim_refused:
  assumes "fst (claim s k c now) = None" "t < now + dedup_ttl_ms"
  shows "claim (snd (claim s k c now)) k c' t =
           (Some (replay_result c' InFlight), snd (claim s k c now))"
proof -
  have "live_at s now k = None"
    using assms(1) claim_held [of s now k] by (cases "live_at s now k") force+
  from claim_holds [OF this assms(2)] show ?thesis by (rule claim_held)
qed

lemma replay_after_complete:
  assumes "t < now + dedup_ttl_ms"
  shows "claim (complete s k sig slot now) k c t =
           (Some (replay_result c (Done (Some sig) slot)), complete s k sig slot now)"
  by (rule claim_held [OF complete_holds [OF assms]])

lemma retry_after_release: "fst (claim (release s k) k c t) = None"
  by (rule claim_free [OF release_free])

lemma replay_survives_sweep:
  assumes "t < now + dedup_ttl_ms" "u \<le> t"
  shows "fst (claim (sweep (complete s k sig slot now) u) k c t) =
           Some (replay_result c (Done (Some sig) slot))"
proof -
  have "live_at (sweep (complete s k sig slot now) u) t k = Some (Done (Some sig) slot)"
    using sweep_invisible [OF assms(2)] complete_holds [OF assms(1)] by simp
  from claim_held [OF this] show ?thesis by simp
qed

end

interpretation claims: claim_protocol live
  "\<lambda>s k. claim_or_replay s (Some k)"
  "\<lambda>s k. record_done s (Some k)"
  "\<lambda>s k. release_claim s (Some k)"
  retain_dedup
  by unfold_locales
    (auto simp: live_def claim_or_replay_def record_done_def release_claim_def retain_dedup_def
      Let_def split: option.splits if_splits)

end
