(* ===== verification/Bridge_Effects.thy ===== *)
theory Bridge_Effects
  imports Audit_Chain Dedup_Store
begin

text \<open>
  The bridge's own state and its interaction with the services around it. Every call of the
  Solana provider, Vault, the audit sink, NATS, the clock or the metrics port is an event with
  the answer it got, appended to the ghost field \<open>trace\<close>. The answers come from a record of
  oracles that see the whole history so far, so a statement for all oracles covers every
  behaviour of the services. Programs are values of the library's state monad.
\<close>

section \<open>Events and oracles\<close>

record account_data =
  ac_lamports :: u64
  ac_data :: bytes

record epoch_info =
  ei_epoch :: u64
  ei_absolute_slot :: u64

record prioritization_fee =
  pf_slot :: u64
  pf_prioritization_fee :: u64

datatype event =
    EvClock u64 \<comment> \<open>\<open>time::now().timestamp_millis() as u64\<close>\<close>
  | EvClockSecs i64 \<comment> \<open>\<open>time::now().timestamp()\<close>\<close>
  | EvLatestBlockhash "string + hash \<times> u64"
  | EvSimulate transaction "string + sim_result"
  | EvSend transaction "string + signature"
  | EvSign string bytes "string + signature" \<comment> \<open>key name, message\<close>
  | EvPublicKey string "string + pubkey"
  | EvStatuses "signature list" "string + json option list"
  | EvBalance pubkey "string + u64"
  | EvAccount pubkey "string + account_data"
  | EvFees "pubkey list" "string + prioritization_fee list"
  | EvTokenBalance pubkey "string + json"
  | EvSlot "string + u64"
  | EvAirdrop pubkey u64 "string + signature"
  | EvTransaction signature "string + json"
  | EvEpoch "string + epoch_info"
  | EvAudit audit_entry "chain_bridge_error + audit_id"
  | EvPublish string reply "string + unit"
  | EvAck ack_kind
  | EvMetric string bool
  | EvSleep nat \<comment> \<open>milliseconds\<close>

type_synonym history = "event list"

record env =
  clock_ms :: "history \<Rightarrow> u64"
  clock_secs :: "history \<Rightarrow> i64"
  on_latest_blockhash :: "history \<Rightarrow> string + hash \<times> u64"
  on_simulate :: "history \<Rightarrow> transaction \<Rightarrow> string + sim_result"
  on_send :: "history \<Rightarrow> transaction \<Rightarrow> string + signature"
  on_sign :: "history \<Rightarrow> string \<Rightarrow> bytes \<Rightarrow> string + signature"
  on_public_key :: "history \<Rightarrow> string \<Rightarrow> string + pubkey"
  on_statuses :: "history \<Rightarrow> signature list \<Rightarrow> string + json option list"
  on_balance :: "history \<Rightarrow> pubkey \<Rightarrow> string + u64"
  on_account :: "history \<Rightarrow> pubkey \<Rightarrow> string + account_data"
  on_fees :: "history \<Rightarrow> pubkey list \<Rightarrow> string + prioritization_fee list"
  on_token_balance :: "history \<Rightarrow> pubkey \<Rightarrow> string + json"
  on_slot :: "history \<Rightarrow> string + u64"
  on_airdrop :: "history \<Rightarrow> pubkey \<Rightarrow> u64 \<Rightarrow> string + signature"
  on_transaction :: "history \<Rightarrow> signature \<Rightarrow> string + json"
  on_epoch :: "history \<Rightarrow> string + epoch_info"
  on_audit :: "history \<Rightarrow> audit_entry \<Rightarrow> chain_bridge_error + audit_id"
  on_publish :: "history \<Rightarrow> string \<Rightarrow> bytes \<Rightarrow> string + unit"

section \<open>State\<close>

text \<open>
  The blockhash cache of the service and the two maps of the NATS consumer. The cleanup task
  works on \<open>idempotency_clone\<close>: \<open>DashMap::clone\<close> copies the entries, while the dedup store
  is shared through an \<open>Arc\<close>.
\<close>

record bridge =
  trace :: history
  blockhash_cache :: "(hash \<times> u64) option"
  idempotency_cache :: idempotency_map
  idempotency_clone :: idempotency_map
  dedup_store :: dedup_map

type_synonym 'a io = "(bridge, 'a) state"

definition emit :: "event \<Rightarrow> unit io" where
  "emit e = State (\<lambda>s. ((), s\<lparr>trace := trace s @ [e]\<rparr>))"

definition ask :: "(history \<Rightarrow> 'r) \<Rightarrow> ('r \<Rightarrow> event) \<Rightarrow> 'r io" where
  "ask oracle ev =
     State (\<lambda>s. let r = oracle (trace s) in (r, s\<lparr>trace := trace s @ [ev r]\<rparr>))"

definition gets :: "(bridge \<Rightarrow> 'a) \<Rightarrow> 'a io" where
  "gets f = State (\<lambda>s. (f s, s))"

definition modify :: "(bridge \<Rightarrow> bridge) \<Rightarrow> unit io" where
  "modify f = State (\<lambda>s. ((), f s))"

lemma run_emit [simp]: "run_state (emit e) s = ((), s\<lparr>trace := trace s @ [e]\<rparr>)"
  by (simp add: emit_def)

lemma run_ask [simp]:
  "run_state (ask oracle ev) s =
     (oracle (trace s), s\<lparr>trace := trace s @ [ev (oracle (trace s))]\<rparr>)"
  by (simp add: ask_def Let_def)

lemma run_gets [simp]: "run_state (gets f) s = (f s, s)"
  by (simp add: gets_def)

lemma run_modify [simp]: "run_state (modify f) s = ((), f s)"
  by (simp add: modify_def)

abbreviation result_of :: "'a io \<Rightarrow> bridge \<Rightarrow> 'a" where
  "result_of m s \<equiv> fst (run_state m s)"

abbreviation final_of :: "'a io \<Rightarrow> bridge \<Rightarrow> bridge" where
  "final_of m s \<equiv> snd (run_state m s)"

text \<open>The events a program adds to the trace.\<close>

definition events_of :: "'a io \<Rightarrow> bridge \<Rightarrow> history" where
  "events_of m s = drop (length (trace s)) (trace (final_of m s))"

text \<open>Calls of the services, one event each.\<close>

definition now_ms :: "env \<Rightarrow> u64 io" where
  "now_ms E = ask (clock_ms E) EvClock"

definition now_secs :: "env \<Rightarrow> i64 io" where
  "now_secs E = ask (clock_secs E) EvClockSecs"

definition provider_latest_blockhash :: "env \<Rightarrow> (string + hash \<times> u64) io" where
  "provider_latest_blockhash E = ask (on_latest_blockhash E) EvLatestBlockhash"

definition provider_simulate :: "env \<Rightarrow> transaction \<Rightarrow> (string + sim_result) io" where
  "provider_simulate E tx = ask (\<lambda>h. on_simulate E h tx) (EvSimulate tx)"

definition provider_send :: "env \<Rightarrow> transaction \<Rightarrow> (string + signature) io" where
  "provider_send E tx = ask (\<lambda>h. on_send E h tx) (EvSend tx)"

definition provider_statuses :: "env \<Rightarrow> signature list \<Rightarrow> (string + json option list) io" where
  "provider_statuses E sigs = ask (\<lambda>h. on_statuses E h sigs) (EvStatuses sigs)"

definition vault_sign :: "env \<Rightarrow> string \<Rightarrow> bytes \<Rightarrow> (string + signature) io" where
  "vault_sign E key msg = ask (\<lambda>h. on_sign E h key msg) (EvSign key msg)"

definition vault_public_key :: "env \<Rightarrow> string \<Rightarrow> (string + pubkey) io" where
  "vault_public_key E key = ask (\<lambda>h. on_public_key E h key) (EvPublicKey key)"

definition audit_append :: "env \<Rightarrow> audit_entry \<Rightarrow> (chain_bridge_error + audit_id) io" where
  "audit_append E e = ask (\<lambda>h. on_audit E h e) (EvAudit e)"

definition track_operation :: "string \<Rightarrow> bool \<Rightarrow> unit io" where
  "track_operation name ok = emit (EvMetric name ok)"

definition ack :: "ack_kind \<Rightarrow> unit io" where
  "ack k = emit (EvAck k)"

definition sleep_ms :: "nat \<Rightarrow> unit io" where
  "sleep_ms n = emit (EvSleep n)"

lemmas port_defs = now_ms_def now_secs_def provider_latest_blockhash_def provider_simulate_def
  provider_send_def provider_statuses_def vault_sign_def vault_public_key_def audit_append_def
  track_operation_def ack_def sleep_ms_def

section \<open>Reasoning about the events of a program\<close>

text \<open>
  \<open>emits P m\<close>: the program \<open>m\<close> only extends the trace, only by events that satisfy \<open>P\<close>,
  and changes nothing else of the state; \<open>extends P m\<close> says the same of the trace alone, for
  programs that also write the maps. Both are proved by the introduction rules below, one per
  construct, collected in \<open>emits_rules\<close>.
\<close>

definition extends :: "(event \<Rightarrow> bool) \<Rightarrow> 'a io \<Rightarrow> bool" where
  "extends P m \<longleftrightarrow>
     (\<forall>s. \<exists>evs. trace (final_of m s) = trace s @ evs \<and> (\<forall>e\<in>set evs. P e))"

definition emits :: "(event \<Rightarrow> bool) \<Rightarrow> 'a io \<Rightarrow> bool" where
  "emits P m \<longleftrightarrow>
     (\<forall>s. \<exists>evs. final_of m s = s\<lparr>trace := trace s @ evs\<rparr> \<and> (\<forall>e\<in>set evs. P e))"

named_theorems emits_rules \<open>introduction rules for the events of a program\<close>

lemma emits_extends: "emits P m \<Longrightarrow> extends P m"
  unfolding emits_def extends_def by (metis bridge.select_convs(1) bridge.surjective
      bridge.update_convs(1))

lemma emits_mono: "emits P m \<Longrightarrow> (\<And>e. P e \<Longrightarrow> Q e) \<Longrightarrow> emits Q m"
  unfolding emits_def by meson

lemma extends_mono: "extends P m \<Longrightarrow> (\<And>e. P e \<Longrightarrow> Q e) \<Longrightarrow> extends Q m"
  unfolding extends_def by meson

lemma emits_return [emits_rules]: "emits P (State_Monad.return x)"
  by (auto simp: emits_def intro: exI [of _ "[]"])

lemma emits_gets [emits_rules]: "emits P (gets f)"
  by (auto simp: emits_def intro: exI [of _ "[]"])

lemma emits_emit [emits_rules]: "P e \<Longrightarrow> emits P (emit e)"
  by (auto simp: emits_def)

lemma emits_ask [emits_rules]: "(\<And>r. P (ev r)) \<Longrightarrow> emits P (ask oracle ev)"
  by (auto simp: emits_def)

lemma emits_bind [emits_rules]:
  assumes "emits P m" "\<And>a. emits P (f a)"
  shows "emits P (State_Monad.bind m f)"
  unfolding emits_def
proof
  fix s
  obtain a s' where run: "run_state m s = (a, s')" by (cases "run_state m s")
  with assms(1) obtain evs where 1: "s' = s\<lparr>trace := trace s @ evs\<rparr>" "\<forall>e\<in>set evs. P e"
    unfolding emits_def by (metis snd_conv)
  from assms(2) obtain evs' where
    2: "final_of (f a) s' = s'\<lparr>trace := trace s' @ evs'\<rparr>" "\<forall>e\<in>set evs'. P e"
    unfolding emits_def by meson
  from 1 2 run show "\<exists>evs. final_of (State_Monad.bind m f) s = s\<lparr>trace := trace s @ evs\<rparr> \<and>
      (\<forall>e\<in>set evs. P e)"
    by (intro exI [of _ "evs @ evs'"]) auto
qed

lemma emits_if [emits_rules]:
  "(b \<Longrightarrow> emits P m) \<Longrightarrow> (\<not> b \<Longrightarrow> emits P n) \<Longrightarrow> emits P (if b then m else n)"
  by simp

lemma emits_sum [emits_rules]:
  "(\<And>a. x = Inl a \<Longrightarrow> emits P (f a)) \<Longrightarrow> (\<And>b. x = Inr b \<Longrightarrow> emits P (g b)) \<Longrightarrow>
   emits P (case x of Inl a \<Rightarrow> f a | Inr b \<Rightarrow> g b)"
  by (cases x) auto

lemma emits_option [emits_rules]:
  "(x = None \<Longrightarrow> emits P m) \<Longrightarrow> (\<And>a. x = Some a \<Longrightarrow> emits P (f a)) \<Longrightarrow>
   emits P (case x of None \<Rightarrow> m | Some a \<Rightarrow> f a)"
  by (cases x) auto

lemma emits_prod [emits_rules]:
  "(\<And>a b. x = (a, b) \<Longrightarrow> emits P (f a b)) \<Longrightarrow> emits P (case x of (a, b) \<Rightarrow> f a b)"
  by (cases x) auto

lemma emits_outcome [emits_rules]:
  "(\<And>a. x = Ok a \<Longrightarrow> emits P (f a)) \<Longrightarrow> (\<And>e. x = Err e \<Longrightarrow> emits P (g e)) \<Longrightarrow>
   (x = Panicked \<Longrightarrow> emits P m) \<Longrightarrow>
   emits P (case x of Ok a \<Rightarrow> f a | Err e \<Rightarrow> g e | Panicked \<Rightarrow> m)"
  by (cases x) auto

lemma emits_Let [emits_rules]: "emits P (f x) \<Longrightarrow> emits P (Let x f)"
  by simp

text \<open>The state a program that only emits leaves behind.\<close>

lemma emits_frame:
  assumes "emits P m"
  shows "blockhash_cache (final_of m s) = blockhash_cache s"
    and "idempotency_cache (final_of m s) = idempotency_cache s"
    and "idempotency_clone (final_of m s) = idempotency_clone s"
    and "dedup_store (final_of m s) = dedup_store s"
proof -
  from assms obtain evs where "final_of m s = s\<lparr>trace := trace s @ evs\<rparr>"
    unfolding emits_def by meson
  then show "blockhash_cache (final_of m s) = blockhash_cache s"
    and "idempotency_cache (final_of m s) = idempotency_cache s"
    and "idempotency_clone (final_of m s) = idempotency_clone s"
    and "dedup_store (final_of m s) = dedup_store s"
    by simp_all
qed

lemma emits_events:
  assumes "emits P m"
  shows "trace (final_of m s) = trace s @ events_of m s"
    and "\<And>e. e \<in> set (events_of m s) \<Longrightarrow> P e"
proof -
  from assms obtain evs where "final_of m s = s\<lparr>trace := trace s @ evs\<rparr>" "\<forall>e\<in>set evs. P e"
    unfolding emits_def by meson
  then show "trace (final_of m s) = trace s @ events_of m s"
    and "\<And>e. e \<in> set (events_of m s) \<Longrightarrow> P e"
    by (simp_all add: events_of_def)
qed

lemma emitsI:
  assumes "\<And>s. final_of m s = s\<lparr>trace := trace s @ events_of m s\<rparr>"
    and "\<And>e s. e \<in> set (events_of m s) \<Longrightarrow> P e"
  shows "emits P m"
  unfolding emits_def using assms by (auto intro: exI [of _ "events_of m _"])

lemma extends_events:
  assumes "extends P m"
  shows "trace (final_of m s) = trace s @ events_of m s"
    and "\<And>e. e \<in> set (events_of m s) \<Longrightarrow> P e"
proof -
  from assms obtain evs where "trace (final_of m s) = trace s @ evs" "\<forall>e\<in>set evs. P e"
    unfolding extends_def by meson
  then show "trace (final_of m s) = trace s @ events_of m s"
    and "\<And>e. e \<in> set (events_of m s) \<Longrightarrow> P e"
    by (simp_all add: events_of_def)
qed

text \<open>Events of a sequence.\<close>

lemma events_of_bind:
  assumes "extends P m" "\<And>a. extends Q (f a)"
  shows "events_of (State_Monad.bind m f) s =
     events_of m s @ events_of (f (result_of m s)) (final_of m s)"
proof -
  obtain a s' where run: "run_state m s = (a, s')" by (cases "run_state m s")
  have 1: "trace s' = trace s @ events_of m s"
    using extends_events(1) [OF assms(1), of s] run by simp
  have 2: "trace (final_of (f a) s') = trace s' @ events_of (f a) s'"
    by (rule extends_events(1) [OF assms(2)])
  have "trace (final_of (State_Monad.bind m f) s) =
      trace s @ events_of m s @ events_of (f a) s'"
    using run by (simp add: 1 2)
  then show ?thesis
    by (subst events_of_def) (simp add: run)
qed

lemma extends_bind:
  assumes "extends P m" "\<And>a. extends P (f a)"
  shows "extends P (State_Monad.bind m f)"
  unfolding extends_def
proof
  fix s
  obtain a s' where run: "run_state m s = (a, s')" by (cases "run_state m s")
  with assms(1) obtain evs where 1: "trace s' = trace s @ evs" "\<forall>e\<in>set evs. P e"
    unfolding extends_def by (metis snd_conv)
  from assms(2) obtain evs' where
    2: "trace (final_of (f a) s') = trace s' @ evs'" "\<forall>e\<in>set evs'. P e"
    unfolding extends_def by meson
  from 1 2 run show "\<exists>evs. trace (final_of (State_Monad.bind m f) s) = trace s @ evs \<and>
      (\<forall>e\<in>set evs. P e)"
    by (intro exI [of _ "evs @ evs'"]) auto
qed

lemma extends_modify: "(\<And>s. trace (f s) = trace s) \<Longrightarrow> extends P (modify f)"
  by (auto simp: extends_def intro: exI [of _ "[]"])

section \<open>Services with a state\<close>

text \<open>
  A service that keeps a state answers from the calls made so far: its state after a history is
  the fold of its reaction to each event, which also sees the history before that event. The recursion
  runs from the last event.
\<close>

primrec replay_rev :: "(history \<Rightarrow> event \<Rightarrow> 's \<Rightarrow> 's) \<Rightarrow> 's \<Rightarrow> history \<Rightarrow> 's" where
  "replay_rev react s [] = s"
| "replay_rev react s (e # h) = react (rev h) e (replay_rev react s h)"

definition replay :: "(history \<Rightarrow> event \<Rightarrow> 's \<Rightarrow> 's) \<Rightarrow> 's \<Rightarrow> history \<Rightarrow> 's" where
  "replay react s h = replay_rev react s (rev h)"

lemma replay_simps [simp]:
  "replay react s [] = s"
  "replay react s (h @ [e]) = react h e (replay react s h)"
  by (simp_all add: replay_def)

lemma replay_invariant:
  assumes "I s" "\<And>h e s. I s \<Longrightarrow> I (react h e s)"
  shows "I (replay react s h)"
  by (induction h rule: rev_induct) (simp_all add: assms)

section \<open>Kinds of events\<close>

text \<open>An effect: a signature requested from Vault or a transaction sent to the cluster.\<close>

fun is_effect :: "event \<Rightarrow> bool" where
  "is_effect (EvSign _ _ _) = True"
| "is_effect (EvSend _ _) = True"
| "is_effect _ = False"

fun is_send :: "event \<Rightarrow> bool" where
  "is_send (EvSend _ _) = True"
| "is_send _ = False"

fun is_sign :: "event \<Rightarrow> bool" where
  "is_sign (EvSign _ _ _) = True"
| "is_sign _ = False"

fun is_ack :: "event \<Rightarrow> bool" where
  "is_ack (EvAck _) = True"
| "is_ack _ = False"

fun is_publish :: "event \<Rightarrow> bool" where
  "is_publish (EvPublish _ _ _) = True"
| "is_publish _ = False"

fun is_audit :: "event \<Rightarrow> bool" where
  "is_audit (EvAudit _ _) = True"
| "is_audit _ = False"

lemma is_effect_iff: "is_effect e \<longleftrightarrow> is_sign e \<or> is_send e"
  by (cases e) auto

end
