(* ===== verification/Sign_Submit.thy ===== *)
theory Sign_Submit
  imports Bridge_Effects
begin

text \<open>
  The signing and submission pipeline of \<open>ChainBridgeGrpcService\<close>
  (crates/chain-bridge-api/src/api/service.rs): \<open>record_audit\<close>, \<open>sign_and_submit\<close>,
  the status query, the generation mint with its confirmation poll. Both ingestion paths, the
  RPC handlers and the NATS consumer, reach Vault and the cluster only through
  \<open>sign_and_submit\<close>.
\<close>

section \<open>Configuration and stages\<close>

record config =
  transit_key_name :: string
  presign_disable_var :: "string option" \<comment> \<open>\<open>CHAIN_BRIDGE_PRESIGN_DISABLE\<close>\<close>
  insecure_var :: "string option" \<comment> \<open>\<open>CHAIN_BRIDGE_INSECURE\<close>\<close>
  allow_header_auth_var :: "string option" \<comment> \<open>\<open>CHAIN_BRIDGE_ALLOW_HEADER_AUTH\<close>\<close>
  info_enabled :: bool \<comment> \<open>whether the arguments of \<open>info!\<close> are evaluated\<close>

text \<open>\<open>ChainBridgeGrpcService::new\<close>: the key name from \<open>CHAIN_BRIDGE_VAULT_KEY_NAME\<close>.\<close>

definition service_key_name :: "string option \<Rightarrow> string" where
  "service_key_name var = (case var of None \<Rightarrow> ''gridtokenx-bridge'' | Some v \<Rightarrow> v)"

datatype sign_submit_stage =
    InvalidFormat string
  | PolicyRejected string
  | BlockhashRefreshFailed string
  | SimulationRejected string
  | VaultSigningFailed string
  | KeyNotAuthorized string
  | SubmissionFailed string

fun show_stage :: "sign_submit_stage \<Rightarrow> string" where
  "show_stage (InvalidFormat e) = ''Invalid transaction format: '' @ e"
| "show_stage (PolicyRejected reason) = ''Policy Engine rejection: '' @ reason"
| "show_stage (BlockhashRefreshFailed e) = ''Failed to refresh blockhash: '' @ e"
| "show_stage (SimulationRejected reason) = reason"
| "show_stage (VaultSigningFailed e) = ''Vault Transit signing failed: '' @ e"
| "show_stage (KeyNotAuthorized key_id) = ''Key ID not authorized: '' @ key_id"
| "show_stage (SubmissionFailed e) = ''Solana RPC submission failed: '' @ e"

section \<open>Audit and blockhash\<close>

text \<open>\<open>record_audit\<close>: a failed append is logged and ignored.\<close>

definition record_audit ::
  "env \<Rightarrow> string \<Rightarrow> spiffe_identity \<Rightarrow> string \<Rightarrow> audit_outcome \<Rightarrow> unit io" where
  "record_audit E corr ident act out = do {
     now \<leftarrow> now_ms E;
     _ \<leftarrow> audit_append E (audit_entry_new corr ident act out now);
     State_Monad.return ()
   }"

abbreviation sas_audit ::
  "env \<Rightarrow> string \<Rightarrow> spiffe_identity \<Rightarrow> audit_outcome \<Rightarrow> unit io" where
  "sas_audit E corr ident \<equiv> record_audit E corr ident ''sign_and_submit''"

text \<open>\<open>BlockhashCache::get\<close> and \<open>BlockhashCache::update\<close>\<close>

definition blockhash_get :: "(hash \<times> u64) option io" where
  "blockhash_get = gets blockhash_cache"

definition blockhash_update :: "hash \<Rightarrow> u64 \<Rightarrow> unit io" where
  "blockhash_update h height = modify (\<lambda>s. s\<lparr>blockhash_cache := Some (h, height)\<rparr>)"

definition set_blockhash :: "transaction \<Rightarrow> hash \<Rightarrow> transaction" where
  "set_blockhash tx bh = tx\<lparr>message := (message tx)\<lparr>recent_blockhash := bh\<rparr>\<rparr>"

text \<open>An empty blockhash is filled from the cache, or from the RPC node when the cache is empty.\<close>

definition fill_blockhash :: "env \<Rightarrow> transaction \<Rightarrow> (sign_submit_stage, transaction) outcome io" where
  "fill_blockhash E tx =
     (if recent_blockhash (message tx) = default_hash then do {
        cached \<leftarrow> blockhash_get;
        (case cached of
           Some bh \<Rightarrow> State_Monad.return (Ok (set_blockhash tx (fst bh)))
         | None \<Rightarrow> do {
             r \<leftarrow> provider_latest_blockhash E;
             (case r of
                Inl e \<Rightarrow> State_Monad.return (Err (BlockhashRefreshFailed e))
              | Inr bh \<Rightarrow> State_Monad.return (Ok (set_blockhash tx (fst bh))))
           })
      }
      else State_Monad.return (Ok tx))"

section \<open>Simulation, signature, submission\<close>

text \<open>\<open>format!("{:?}", sim.value.err)\<close> on a present error.\<close>

definition debug_some :: "string \<Rightarrow> string" where
  "debug_some e = ''Some('' @ e @ '')''"

text \<open>
  The pre-sign simulation: a definitive failure is the rejection reason, an RPC error is advisory.
\<close>

definition presign_simulate ::
  "env \<Rightarrow> config \<Rightarrow> spiffe_identity \<Rightarrow> string \<Rightarrow> transaction \<Rightarrow> sign_submit_stage option io" where
  "presign_simulate E C ident corr tx =
     (if env_flag (presign_disable_var C) then State_Monad.return None
      else do {
        sim \<leftarrow> provider_simulate E tx;
        (case sim of
           Inl _ \<Rightarrow> State_Monad.return None
         | Inr res \<Rightarrow>
             (case sim_err res of
                None \<Rightarrow> State_Monad.return None
              | Some e \<Rightarrow> do {
                  let reason = ''pre-sign simulation failed: '' @ debug_some e;
                  sas_audit E corr ident (Rejected ''simulation'' reason);
                  State_Monad.return (Some (SimulationRejected reason))
                }))
      })"

definition required_signatures :: "transaction \<Rightarrow> nat" where
  "required_signatures tx = unat (num_required_signatures (header (message tx)))"

text \<open>
  The \<open>info!\<close> lines before signing index the account keys: the payer at 0, and every required
  signer when there is more than one.
\<close>

definition signer_log_panics :: "config \<Rightarrow> transaction \<Rightarrow> bool" where
  "signer_log_panics C tx \<longleftrightarrow>
     info_enabled C \<and>
     (account_keys (message tx) = [] \<or>
      1 < required_signatures tx \<and> length (account_keys (message tx)) < required_signatures tx)"

text \<open>The signature vector is grown to the required size, then slot 0 is assigned.\<close>

definition grow_signatures :: "transaction \<Rightarrow> signature list" where
  "grow_signatures tx =
     (if length (signatures tx) < required_signatures tx
      then resize (signatures tx) (required_signatures tx) default_signature
      else signatures tx)"

definition attach_signature :: "transaction \<Rightarrow> signature \<Rightarrow> (sign_submit_stage, transaction) outcome" where
  "attach_signature tx sig =
     (case grow_signatures tx of
        [] \<Rightarrow> Panicked
      | _ # rest \<Rightarrow> Ok (tx\<lparr>signatures := sig # rest\<rparr>))"

text \<open>Vault signs the message bytes; the signature goes to the fee payer's slot.\<close>

definition vault_sign_transaction ::
  "externals \<Rightarrow> env \<Rightarrow> config \<Rightarrow> transaction \<Rightarrow> (sign_submit_stage, transaction) outcome io" where
  "vault_sign_transaction X E C tx =
     (if signer_log_panics C tx then State_Monad.return Panicked
      else do {
        r \<leftarrow> vault_sign E (transit_key_name C) (message_data X (message tx));
        (case r of
           Inl e \<Rightarrow> State_Monad.return (Err (VaultSigningFailed e))
         | Inr sig \<Rightarrow> State_Monad.return (attach_signature tx sig))
      })"

text \<open>The branch \<open>key_id == "platform_admin"\<close>: blockhash, simulation, signature.\<close>

definition prepare_signed ::
  "externals \<Rightarrow> env \<Rightarrow> config \<Rightarrow> spiffe_identity \<Rightarrow> string \<Rightarrow> transaction \<Rightarrow>
   (sign_submit_stage, transaction) outcome io" where
  "prepare_signed X E C ident corr tx = do {
     filled \<leftarrow> fill_blockhash E tx;
     (case filled of
        Ok tx1 \<Rightarrow> do {
          rejected \<leftarrow> presign_simulate E C ident corr tx1;
          (case rejected of
             Some st \<Rightarrow> State_Monad.return (Err st)
           | None \<Rightarrow> vault_sign_transaction X E C tx1)
        }
      | Err st \<Rightarrow> State_Monad.return (Err st)
      | Panicked \<Rightarrow> State_Monad.return Panicked)
   }"

text \<open>The submission and the audit entry of its outcome.\<close>

definition submit_audited ::
  "externals \<Rightarrow> env \<Rightarrow> spiffe_identity \<Rightarrow> string \<Rightarrow> transaction \<Rightarrow>
   (sign_submit_stage, signature \<times> u64) outcome io" where
  "submit_audited X E ident corr tx = do {
     r \<leftarrow> provider_send E tx;
     (case r of
        Inl e \<Rightarrow> do {
          sas_audit E corr ident (Rejected ''submit'' e);
          State_Monad.return (Err (SubmissionFailed e))
        }
      | Inr sig \<Rightarrow> do {
          sas_audit E corr ident (Submitted (show_signature X sig) 0);
          State_Monad.return (Ok (sig, 0))
        })
   }"

text \<open>A transaction of the \<open>platform_admin\<close> key is submitted once it carries the signature.\<close>

definition submit_signed ::
  "externals \<Rightarrow> env \<Rightarrow> config \<Rightarrow> spiffe_identity \<Rightarrow> string \<Rightarrow> transaction \<Rightarrow>
   (sign_submit_stage, signature \<times> u64) outcome io" where
  "submit_signed X E C ident corr tx = do {
     signed \<leftarrow> prepare_signed X E C ident corr tx;
     (case signed of
        Ok tx' \<Rightarrow> submit_audited X E ident corr tx'
      | Err st \<Rightarrow> State_Monad.return (Err st)
      | Panicked \<Rightarrow> State_Monad.return Panicked)
   }"

text \<open>\<open>ChainBridgeGrpcService::sign_and_submit\<close>\<close>

definition sign_and_submit ::
  "externals \<Rightarrow> env \<Rightarrow> config \<Rightarrow> bytes \<Rightarrow> string \<Rightarrow> spiffe_identity \<Rightarrow> string \<Rightarrow>
   (sign_submit_stage, signature \<times> u64) outcome io" where
  "sign_and_submit X E C serialized_tx key_id ident corr =
     (case deserialize_tx X serialized_tx of
        Inl e \<Rightarrow> State_Monad.return (Err (InvalidFormat e))
      | Inr tx \<Rightarrow>
          (case validate_transaction X ident tx of
             Inl reason \<Rightarrow> do {
               sas_audit E corr ident (Rejected ''policy'' reason);
               State_Monad.return (Err (PolicyRejected reason))
             }
           | Inr _ \<Rightarrow>
               if key_id = ''platform_admin'' then submit_signed X E C ident corr tx
               else if key_id \<noteq> [] then do {
                 sas_audit E corr ident (Rejected ''auth'' (''Key ID not authorized: '' @ key_id));
                 State_Monad.return (Err (KeyNotAuthorized key_id))
               }
               else submit_audited X E ident corr tx))"

section \<open>Events of the pipeline\<close>

lemma emits_record_audit [emits_rules]:
  "(\<And>t. P (EvClock t)) \<Longrightarrow>
   (\<And>t r. P (EvAudit (audit_entry_new corr ident act out t) r)) \<Longrightarrow>
   emits P (record_audit E corr ident act out)"
  unfolding record_audit_def port_defs by (intro emits_rules) auto

lemma emits_fill_blockhash [emits_rules]:
  "(\<And>r. P (EvLatestBlockhash r)) \<Longrightarrow> emits P (fill_blockhash E tx)"
  unfolding fill_blockhash_def blockhash_get_def port_defs by (intro emits_rules) auto

lemma emits_presign_simulate [emits_rules]:
  "(\<And>r. P (EvSimulate tx r)) \<Longrightarrow> (\<And>t. P (EvClock t)) \<Longrightarrow>
   (\<And>t reason r. P (EvAudit (audit_entry_new corr ident ''sign_and_submit''
       (Rejected ''simulation'' reason) t) r)) \<Longrightarrow>
   emits P (presign_simulate E C ident corr tx)"
  unfolding presign_simulate_def port_defs by (intro emits_rules) auto

lemma emits_vault_sign_transaction [emits_rules]:
  "(\<And>r. P (EvSign (transit_key_name C) (message_data X (message tx)) r)) \<Longrightarrow>
   emits P (vault_sign_transaction X E C tx)"
  unfolding vault_sign_transaction_def port_defs by (intro emits_rules) auto

lemma emits_submit_audited [emits_rules]:
  "(\<And>r. P (EvSend tx r)) \<Longrightarrow> (\<And>t. P (EvClock t)) \<Longrightarrow>
   (\<And>t out r. P (EvAudit (audit_entry_new corr ident ''sign_and_submit'' out t) r)) \<Longrightarrow>
   emits P (submit_audited X E ident corr tx)"
  unfolding submit_audited_def port_defs by (intro emits_rules) auto

section \<open>The effects of one run\<close>

text \<open>
  The effects (Vault signatures and submissions) of a run come in one of four shapes. They are
  described once here; the properties of the pipeline are read off this description.
\<close>

definition blockhash_filled :: "transaction \<Rightarrow> transaction \<Rightarrow> bool" where
  "blockhash_filled tx tx1 \<longleftrightarrow>
     (\<exists>bh. tx1 = set_blockhash tx bh) \<and>
     (recent_blockhash (message tx) \<noteq> default_hash \<longrightarrow> tx1 = tx)"

lemma blockhash_filled_refl [simp]: "blockhash_filled tx tx"
  by (auto simp: blockhash_filled_def set_blockhash_def
      intro: exI [of _ "recent_blockhash (message tx)"])

lemma blockhash_filled_set [simp]:
  "recent_blockhash (message tx) = default_hash \<Longrightarrow> blockhash_filled tx (set_blockhash tx bh)"
  by (auto simp: blockhash_filled_def)

definition send_answer :: "string + signature \<Rightarrow> (sign_submit_stage, signature \<times> u64) outcome \<Rightarrow> bool" where
  "send_answer a r \<longleftrightarrow>
     r = (case a of Inl e \<Rightarrow> Err (SubmissionFailed e) | Inr sig \<Rightarrow> Ok (sig, 0))"

lemma send_answerD:
  "send_answer a r \<Longrightarrow> (\<exists>e. a = Inl e \<and> r = Err (SubmissionFailed e)) \<or>
     (\<exists>sig. a = Inr sig \<and> r = Ok (sig, 0))"
  by (cases a) (auto simp: send_answer_def)

text \<open>How a run ends whose only effect was a signature request.\<close>

definition sign_failed :: "(sign_submit_stage, 'a) outcome \<Rightarrow> bool" where
  "sign_failed r \<longleftrightarrow> r = Panicked \<or> (\<exists>e. r = Err (VaultSigningFailed e))"

lemma sign_failed_simps [simp]:
  "sign_failed Panicked" "sign_failed (Err st) \<longleftrightarrow> (\<exists>e. st = VaultSigningFailed e)"
  "\<not> sign_failed (Ok a)"
  by (simp_all add: sign_failed_def)

lemma attach_signature_not_Err [simp]: "attach_signature tx sig \<noteq> Err st"
  by (simp add: attach_signature_def split: list.split)

definition pipeline_effects ::
  "externals \<Rightarrow> config \<Rightarrow> string \<Rightarrow> transaction \<Rightarrow>
   (sign_submit_stage, signature \<times> u64) outcome \<Rightarrow> event list \<Rightarrow> bool" where
  "pipeline_effects X C key tx r effs \<longleftrightarrow>
     effs = [] \<and> \<not> is_ok r \<or>
     key = ''platform_admin'' \<and> sign_failed r \<and>
       (\<exists>msg a. effs = [EvSign (transit_key_name C) msg a]) \<or>
     key = ''platform_admin'' \<and>
       (\<exists>tx1 tx' sig a. blockhash_filled tx tx1 \<and> attach_signature tx1 sig = Ok tx' \<and>
          effs = [EvSign (transit_key_name C) (message_data X (message tx1)) (Inr sig),
                  EvSend tx' a] \<and> send_answer a r) \<or>
     key = [] \<and> (\<exists>a. effs = [EvSend tx a] \<and> send_answer a r)"

lemma fill_blockhash_run:
  assumes "run_state (fill_blockhash E tx) s = (r, s')"
  shows "\<exists>evs. s' = s\<lparr>trace := trace s @ evs\<rparr> \<and> filter is_effect evs = [] \<and>
    (\<forall>tx1. r = Ok tx1 \<longrightarrow> blockhash_filled tx tx1) \<and> r \<noteq> Panicked"
  using assms
  by (auto simp: fill_blockhash_def blockhash_get_def port_defs run_state_cases
      intro: exI [of _ "[]"] split: if_splits option.splits sum.splits)

lemma presign_simulate_run:
  assumes "run_state (presign_simulate E C ident corr tx) s = (r, s')"
  shows "\<exists>evs. s' = s\<lparr>trace := trace s @ evs\<rparr> \<and> filter is_effect evs = []"
proof -
  have "emits (\<lambda>e. \<not> is_effect e) (presign_simulate E C ident corr tx)"
    by (intro emits_rules) auto
  with assms show ?thesis unfolding emits_def by (metis filter_False snd_conv)
qed

lemma vault_sign_transaction_run:
  assumes "run_state (vault_sign_transaction X E C tx) s = (r, s')"
  shows "\<exists>evs. s' = s\<lparr>trace := trace s @ evs\<rparr> \<and>
     ((\<forall>tx'. r \<noteq> Ok tx') \<and>
        (evs = [] \<or> sign_failed r \<and>
          (\<exists>a. evs = [EvSign (transit_key_name C) (message_data X (message tx)) a])) \<or>
      (\<exists>tx' sig. r = Ok tx' \<and> attach_signature tx sig = Ok tx' \<and>
        evs = [EvSign (transit_key_name C) (message_data X (message tx)) (Inr sig)]))"
  using assms
  by (cases r) (auto simp: vault_sign_transaction_def port_defs run_state_cases
      intro: exI [of _ "[]"] split: if_splits sum.splits)

lemma prepare_signed_run:
  assumes "run_state (prepare_signed X E C ident corr tx) s = (r, s')"
  shows "\<exists>evs. s' = s\<lparr>trace := trace s @ evs\<rparr> \<and>
     ((\<forall>tx'. r \<noteq> Ok tx') \<and>
        (filter is_effect evs = [] \<or> sign_failed r \<and>
         (\<exists>msg a. filter is_effect evs = [EvSign (transit_key_name C) msg a])) \<or>
      (\<exists>tx1 tx' sig. r = Ok tx' \<and> blockhash_filled tx tx1 \<and> attach_signature tx1 sig = Ok tx' \<and>
        filter is_effect evs =
          [EvSign (transit_key_name C) (message_data X (message tx1)) (Inr sig)]))"
proof -
  obtain r1 s1 where run1: "run_state (fill_blockhash E tx) s = (r1, s1)"
    by (cases "run_state (fill_blockhash E tx) s")
  from fill_blockhash_run [OF this] obtain e1 where
    1: "s1 = s\<lparr>trace := trace s @ e1\<rparr>" "filter is_effect e1 = []"
       "\<forall>tx1. r1 = Ok tx1 \<longrightarrow> blockhash_filled tx tx1" "r1 \<noteq> Panicked" by blast
  show ?thesis
  proof (cases r1)
    case (Ok tx1)
    obtain r2 s2 where run2: "run_state (presign_simulate E C ident corr tx1) s1 = (r2, s2)"
      by (cases "run_state (presign_simulate E C ident corr tx1) s1")
    from presign_simulate_run [OF this] obtain e2 where
      2: "s2 = s1\<lparr>trace := trace s1 @ e2\<rparr>" "filter is_effect e2 = []" by blast
    show ?thesis
    proof (cases r2)
      case None
      with assms run1 run2 Ok have "run_state (vault_sign_transaction X E C tx1) s2 = (r, s')"
        by (simp add: prepare_signed_def)
      from vault_sign_transaction_run [OF this] 1 2 Ok show ?thesis
        by (elim exE conjE, intro exI [of _ "e1 @ e2 @ _"]) auto
    next
      case (Some st)
      with assms run1 run2 Ok 1 2 show ?thesis
        by (intro exI [of _ "e1 @ e2"]) (auto simp: prepare_signed_def)
    qed
  next
    case (Err st)
    with assms run1 1 show ?thesis by (intro exI [of _ e1]) (auto simp: prepare_signed_def)
  qed (use 1 in simp)
qed

lemma submit_audited_run:
  assumes "run_state (submit_audited X E ident corr tx) s = (r, s')"
  shows "\<exists>a t b. send_answer a r \<and> s' = s\<lparr>trace := trace s @ [EvSend tx a, EvClock t,
      EvAudit (audit_entry_new corr ident ''sign_and_submit''
        (case a of Inl e \<Rightarrow> Rejected ''submit'' e
         | Inr sig \<Rightarrow> Submitted (show_signature X sig) 0) t) b]\<rparr>"
  using assms
  by (auto simp: submit_audited_def record_audit_def port_defs run_state_cases send_answer_def
      split: sum.splits)

lemma submit_signed_run:
  assumes "run_state (submit_signed X E C ident corr tx) s = (r, s')"
  shows "\<exists>evs. s' = s\<lparr>trace := trace s @ evs\<rparr> \<and>
     pipeline_effects X C ''platform_admin'' tx r (filter is_effect evs)"
proof -
  obtain r1 s1 where run1: "run_state (prepare_signed X E C ident corr tx) s = (r1, s1)"
    by (cases "run_state (prepare_signed X E C ident corr tx) s")
  from prepare_signed_run [OF this] obtain e1 where
    1: "s1 = s\<lparr>trace := trace s @ e1\<rparr>" and
    eff: "(\<forall>tx'. r1 \<noteq> Ok tx') \<and>
        (filter is_effect e1 = [] \<or> sign_failed r1 \<and>
         (\<exists>msg a. filter is_effect e1 = [EvSign (transit_key_name C) msg a])) \<or>
      (\<exists>tx1 tx' sig. r1 = Ok tx' \<and> blockhash_filled tx tx1 \<and> attach_signature tx1 sig = Ok tx' \<and>
        filter is_effect e1 =
          [EvSign (transit_key_name C) (message_data X (message tx1)) (Inr sig)])" by blast
  show ?thesis
  proof (cases r1)
    case (Ok tx')
    with assms run1 have "run_state (submit_audited X E ident corr tx') s1 = (r, s')"
      by (simp add: submit_signed_def)
    from submit_audited_run [OF this] 1 eff Ok show ?thesis
      by (elim exE conjE, intro exI [of _ "e1 @ _"]) (auto simp: pipeline_effects_def)
  next
    case (Err st)
    with assms run1 1 eff show ?thesis
      by (intro exI [of _ e1]) (auto simp: submit_signed_def pipeline_effects_def)
  next
    case Panicked
    with assms run1 1 eff show ?thesis
      by (intro exI [of _ e1]) (auto simp: submit_signed_def pipeline_effects_def)
  qed
qed

text \<open>A run is described by the decoded transaction, or has no effect at all.\<close>

lemma sign_and_submit_run:
  assumes "run_state (sign_and_submit X E C raw key ident corr) s = (r, s')"
  shows "\<exists>evs. s' = s\<lparr>trace := trace s @ evs\<rparr> \<and>
     (filter is_effect evs = [] \<and> \<not> is_ok r \<or>
      (\<exists>tx. deserialize_tx X raw = Inr tx \<and> validate_transaction X ident tx = Inr () \<and>
         pipeline_effects X C key tx r (filter is_effect evs)))"
proof (cases "deserialize_tx X raw")
  case (Inl e)
  with assms show ?thesis
    by (auto simp: sign_and_submit_def intro: exI [of _ "[]"])
next
  case des: (Inr tx)
  show ?thesis
  proof (cases "validate_transaction X ident tx")
    case (Inl e)
    with assms des show ?thesis
      by (auto simp: sign_and_submit_def record_audit_def port_defs)
  next
    case val: (Inr u)
    consider (admin) "key = ''platform_admin''" | (other) "key \<noteq> ''platform_admin''" "key \<noteq> []"
      | (none) "key = []" by blast
    then show ?thesis
    proof cases
      case admin
      with assms des val have "run_state (submit_signed X E C ident corr tx) s = (r, s')"
        by (simp add: sign_and_submit_def)
      from submit_signed_run [OF this] admin des val show ?thesis by auto
    next
      case other
      with assms des val show ?thesis
        by (auto simp: sign_and_submit_def record_audit_def port_defs)
    next
      case none
      with assms des val have "run_state (submit_audited X E ident corr tx) s = (r, s')"
        by (simp add: sign_and_submit_def)
      from submit_audited_run [OF this] none des val show ?thesis
        by (auto simp: pipeline_effects_def)
    qed
  qed
qed

text \<open>The same description, of the events a run adds.\<close>

lemma sign_and_submit_events:
  fixes X E C raw key ident corr s
  defines "m \<equiv> sign_and_submit X E C raw key ident corr"
  shows "final_of m s = s\<lparr>trace := trace s @ events_of m s\<rparr>"
    and "filter is_effect (events_of m s) = [] \<and> \<not> is_ok (result_of m s) \<or>
      (\<exists>tx. deserialize_tx X raw = Inr tx \<and> validate_transaction X ident tx = Inr () \<and>
         pipeline_effects X C key tx (result_of m s) (filter is_effect (events_of m s)))"
proof -
  obtain r s' where run: "run_state m s = (r, s')" by (cases "run_state m s")
  from sign_and_submit_run [OF this [unfolded m_def]] obtain evs where
    evs: "s' = s\<lparr>trace := trace s @ evs\<rparr>"
      "filter is_effect evs = [] \<and> \<not> is_ok r \<or>
       (\<exists>tx. deserialize_tx X raw = Inr tx \<and> validate_transaction X ident tx = Inr () \<and>
         pipeline_effects X C key tx r (filter is_effect evs))" by blast
  then have "events_of m s = evs" using run by (simp add: events_of_def)
  with run evs show "final_of m s = s\<lparr>trace := trace s @ events_of m s\<rparr>"
    and "filter is_effect (events_of m s) = [] \<and> \<not> is_ok (result_of m s) \<or>
      (\<exists>tx. deserialize_tx X raw = Inr tx \<and> validate_transaction X ident tx = Inr () \<and>
         pipeline_effects X C key tx (result_of m s) (filter is_effect (events_of m s)))"
    by simp_all
qed

text \<open>What the description says of one effect.\<close>

lemma pipeline_effect:
  assumes "pipeline_effects X C key tx r effs" "e \<in> set effs"
  shows "key = ''platform_admin'' \<or> key = []"
    and "e = EvSign k msg a \<Longrightarrow> key = ''platform_admin'' \<and> k = transit_key_name C"
  using assms by (auto simp: pipeline_effects_def)

lemma pipeline_sent:
  assumes "pipeline_effects X C ''platform_admin'' tx r effs" "EvSend tx' a \<in> set effs"
  shows "\<exists>tx1 sig. blockhash_filled tx tx1 \<and> attach_signature tx1 sig = Ok tx' \<and>
     EvSign (transit_key_name C) (message_data X (message tx1)) (Inr sig) \<in> set effs"
  using assms by (auto simp: pipeline_effects_def)

lemma pipeline_ok:
  assumes "pipeline_effects X C key tx r effs"
  shows "r = Ok (sig, slot) \<longleftrightarrow> slot = 0 \<and> (\<exists>tx'. EvSend tx' (Inr sig) \<in> set effs)"
  using assms unfolding pipeline_effects_def by (auto dest!: send_answerD)

lemma pipeline_shape:
  assumes "pipeline_effects X C key tx r effs"
  shows "effs = [] \<or> (\<exists>msg a. effs = [EvSign (transit_key_name C) msg a]) \<or>
     (\<exists>msg a tx' b. effs = [EvSign (transit_key_name C) msg (Inr a), EvSend tx' b]) \<or>
     (\<exists>b. key = [] \<and> effs = [EvSend tx b])"
  using assms unfolding pipeline_effects_def by auto

lemma effect_of_run:
  assumes "e \<in> set (events_of (sign_and_submit X E C raw key ident corr) s)" "is_effect e"
  obtains tx r effs where "deserialize_tx X raw = Inr tx" "validate_transaction X ident tx = Inr ()"
    "pipeline_effects X C key tx r effs" "e \<in> set effs"
    "set effs \<subseteq> set (events_of (sign_and_submit X E C raw key ident corr) s)"
proof -
  let ?evs = "events_of (sign_and_submit X E C raw key ident corr) s"
  have e: "e \<in> set (filter is_effect ?evs)" using assms by simp
  then have "filter is_effect ?evs \<noteq> []" by (metis list.set(1) empty_iff)
  with sign_and_submit_events(2) [of X E C raw key ident corr s] e show thesis
    by (metis that filter_is_subset)
qed

lemma emits_sign_and_submit [emits_rules]:
  assumes plain: "\<And>e. \<not> is_effect e \<Longrightarrow> P e"
    and eff: "\<And>e tx. is_effect e \<Longrightarrow> deserialize_tx X raw = Inr tx \<Longrightarrow>
      validate_transaction X ident tx = Inr () \<Longrightarrow> key = ''platform_admin'' \<or> key = [] \<Longrightarrow> P e"
  shows "emits P (sign_and_submit X E C raw key ident corr)"
proof -
  have "P e" if "e \<in> set (events_of (sign_and_submit X E C raw key ident corr) s)" for e s
  proof (cases "is_effect e")
    case True
    with that obtain tx r effs where
      "deserialize_tx X raw = Inr tx" "validate_transaction X ident tx = Inr ()"
      "pipeline_effects X C key tx r effs" "e \<in> set effs"
      by (rule effect_of_run)
    with eff [OF True] pipeline_effect(1) show ?thesis by metis
  qed (rule plain)
  with sign_and_submit_events(1) show ?thesis by (rule emitsI)
qed

end
