(* ===== verification/Peer_Identity.thy ===== *)
theory Peer_Identity
  imports Sign_Submit
begin

text \<open>
  The caller's identity on the RPC path: the TLS acceptor and \<open>ConnectionService\<close>
  (crates/chain-bridge-api/src/harness.rs) put the peer certificates into the request's
  extensions, \<open>PeerCertService::call\<close> (middleware.rs) turns the leaf's SPIFFE name into the
  synthetic header, and \<open>role_from\<close> (api/service.rs) reads the role from that header. X.509
  parsing is a parameter: \<open>certificate\<close> holds what the sources read of a parsed certificate.
\<close>

section \<open>Certificates\<close>

datatype general_name = URI string | OtherName string

datatype cert_extension = SubjectAlternativeName "general_name list" | OtherExtension

record certificate =
  cert_extensions :: "cert_extension list"
  subject_public_key :: bytes
  cert_tbs :: bytes \<comment> \<open>the rest of the certificate, read only by the library\<close>

type_synonym asn1_time = int

record pki =
  parse_x509_pem :: "bytes \<Rightarrow> string + bytes" \<comment> \<open>the DER contents of the first block\<close>
  certificate_from_der :: "bytes \<Rightarrow> string + certificate"
  asn1_from_timestamp :: "i64 \<Rightarrow> asn1_time option"
  asn1_now :: asn1_time
  is_valid_at :: "certificate \<Rightarrow> asn1_time \<Rightarrow> bool"
  verify_cert_signature :: "certificate \<Rightarrow> certificate \<Rightarrow> bool" \<comment> \<open>leaf, issuer\<close>
  base64_decode :: "string \<Rightarrow> string + bytes"
  verify_p256_signature :: "bytes \<Rightarrow> bytes \<Rightarrow> bytes \<Rightarrow> string + unit" \<comment> \<open>point, message, signature\<close>
  envelope_auth_scheme_v1 :: string
  header_value_parse :: "string \<Rightarrow> bytes option"

text \<open>\<open>extract_spiffe_id\<close>: the first SPIFFE URI, extensions and names in order.\<close>

fun first_spiffe_name :: "general_name list \<Rightarrow> string option" where
  "first_spiffe_name [] = None"
| "first_spiffe_name (URI uri # ns) =
     (if starts_with uri ''spiffe://'' then Some uri else first_spiffe_name ns)"
| "first_spiffe_name (OtherName _ # ns) = first_spiffe_name ns"

fun first_spiffe_extension :: "cert_extension list \<Rightarrow> string option" where
  "first_spiffe_extension [] = None"
| "first_spiffe_extension (SubjectAlternativeName names # es) =
     (case first_spiffe_name names of
        Some uri \<Rightarrow> Some uri
      | None \<Rightarrow> first_spiffe_extension es)"
| "first_spiffe_extension (OtherExtension # es) = first_spiffe_extension es"

definition extract_spiffe_id :: "pki \<Rightarrow> bytes \<Rightarrow> string option" where
  "extract_spiffe_id K cert_der =
     (case certificate_from_der K cert_der of
        Inl _ \<Rightarrow> None
      | Inr cert \<Rightarrow> first_spiffe_extension (cert_extensions cert))"

lemma first_spiffe_name_Some:
  "first_spiffe_name ns = Some uri \<Longrightarrow> URI uri \<in> set ns \<and> prefix ''spiffe://'' uri"
  by (induction ns rule: first_spiffe_name.induct) (auto simp: starts_with_def split: if_splits)

lemma first_spiffe_extension_Some:
  "first_spiffe_extension es = Some uri \<Longrightarrow>
     (\<exists>names. SubjectAlternativeName names \<in> set es \<and> URI uri \<in> set names) \<and> prefix ''spiffe://'' uri"
  by (induction es rule: first_spiffe_extension.induct)
    (auto dest: first_spiffe_name_Some split: option.splits)

section \<open>The request on its way in\<close>

type_synonym header_map = "string \<rightharpoonup> bytes"

record http_request =
  headers :: header_map
  ext_certs :: "bytes list option" \<comment> \<open>\<open>Arc<Vec<Vec<u8>>>\<close>\<close>
  ext_spiffe_uri :: "string option" \<comment> \<open>\<open>VerifiedSpiffeUri\<close>\<close>
  ext_spiffe_identity :: "spiffe_identity option" \<comment> \<open>\<open>SpiffeIdentity\<close>\<close>

definition spiffe_header :: string where
  "spiffe_header = ''z-gridtokenx-spiffe-id''"

text \<open>\<open>MtlsAcceptor::accept\<close>: the certificates the handshake verified, or none.\<close>

definition accept_certs :: "bytes list option \<Rightarrow> bytes list" where
  "accept_certs peer_certificates =
     (case peer_certificates of Some cs \<Rightarrow> cs | None \<Rightarrow> [])"

text \<open>\<open>ConnectionService::call\<close>\<close>

definition connection_call :: "bytes list \<Rightarrow> http_request \<Rightarrow> http_request" where
  "connection_call certs req = req\<lparr>ext_certs := Some certs\<rparr>"

text \<open>\<open>PeerCertService::call\<close>: the request handed to the inner service.\<close>

definition peer_cert_call :: "pki \<Rightarrow> http_request \<Rightarrow> http_request" where
  "peer_cert_call K req =
     (case ext_certs req of
        Some (leaf # _) \<Rightarrow>
          (case extract_spiffe_id K leaf of
             Some uri \<Rightarrow>
               (let req1 = req\<lparr>ext_spiffe_uri := Some uri\<rparr>;
                    req2 = (case header_value_parse K uri of
                              Some hv \<Rightarrow> req1\<lparr>headers := (headers req1)(spiffe_header \<mapsto> hv)\<rparr>
                            | None \<Rightarrow> req1)
                in req2\<lparr>ext_spiffe_identity := Some uri\<rparr>)
           | None \<Rightarrow> req)
      | _ \<Rightarrow> req)"

text \<open>A request over mutual TLS, from the socket to the handler.\<close>

definition mtls_request :: "pki \<Rightarrow> bytes list option \<Rightarrow> http_request \<Rightarrow> http_request" where
  "mtls_request K peer_certificates req =
     peer_cert_call K (connection_call (accept_certs peer_certificates) req)"

section \<open>Roles\<close>

text \<open>\<open>role_from\<close> and \<open>extract_role\<close>\<close>

definition spiffe_of_headers :: "externals \<Rightarrow> header_map \<Rightarrow> spiffe_identity option" where
  "spiffe_of_headers X hs =
     (case hs spiffe_header of Some v \<Rightarrow> header_to_str X v | None \<Rightarrow> None)"

definition role_from :: "externals \<Rightarrow> header_map \<Rightarrow> bool \<Rightarrow> bool \<Rightarrow> service_role" where
  "role_from X hs insecure header_auth =
     (case spiffe_of_headers X hs of
        Some spiffe_id \<Rightarrow> role_of_identity X spiffe_id
      | None \<Rightarrow>
          if insecure then Admin
          else if header_auth then role_of_headers X hs
          else Unknown)"

definition extract_role :: "externals \<Rightarrow> config \<Rightarrow> header_map \<Rightarrow> service_role" where
  "extract_role X C hs =
     role_from X hs (env_flag (insecure_var C)) (allow_header_auth_var C \<noteq> None)"

text \<open>How the certificates reach the header.\<close>

lemma mtls_headers_san:
  assumes "peer_certificates = Some (leaf # rest)" "extract_spiffe_id K leaf = Some uri"
    "header_value_parse K uri = Some hv"
  shows "headers (mtls_request K peer_certificates req) spiffe_header = Some hv"
  using assms
  by (simp add: mtls_request_def peer_cert_call_def connection_call_def accept_certs_def Let_def)

lemma mtls_headers_no_san:
  assumes "\<And>leaf rest. peer_certificates = Some (leaf # rest) \<Longrightarrow> extract_spiffe_id K leaf = None"
  shows "headers (mtls_request K peer_certificates req) = headers req"
  using assms
  by (auto simp: mtls_request_def peer_cert_call_def connection_call_def accept_certs_def Let_def
      split: option.splits list.splits)

lemma mtls_headers_other:
  "h \<noteq> spiffe_header \<Longrightarrow> headers (mtls_request K peer_certificates req) h = headers req h"
  by (auto simp: mtls_request_def peer_cert_call_def connection_call_def Let_def
      split: option.splits list.splits)

end
