(* ===== verification/Envelope_Auth.thy ===== *)
theory Envelope_Auth
  imports Peer_Identity
begin

text \<open>
  Authentication of a NATS envelope (crates/chain-bridge-api/src/nats_consumer/auth.rs): the
  policy object, the verification chain from the trusted CA to the signature over the canonical
  bytes, and the enforcement decision; then \<open>evaluate_envelope_auth\<close> of consumer.rs, which
  reads the clock and counts the outcome.
\<close>

section \<open>Policy\<close>

record nats_auth_policy =
  require_signed :: bool
  ca_der :: "bytes option"

text \<open>\<open>NatsAuthPolicy::new\<close>: no enforcement without a CA.\<close>

definition nats_auth_policy_new :: "bool \<Rightarrow> bytes option \<Rightarrow> nats_auth_policy" where
  "nats_auth_policy_new req ca =
     (if req \<and> ca = None then \<lparr>require_signed = False, ca_der = None\<rparr>
      else \<lparr>require_signed = req, ca_der = ca\<rparr>)"

text \<open>\<open>NatsAuthPolicy::from_env\<close>; \<open>read_file\<close> is the file system, by path.\<close>

definition nats_auth_policy_from_env ::
  "pki \<Rightarrow> (string \<Rightarrow> string + bytes) \<Rightarrow> string option \<Rightarrow> string option \<Rightarrow> nats_auth_policy" where
  "nats_auth_policy_from_env K read_file require_signed_var tls_ca_var =
     (let req = env_flag require_signed_var;
          ca_path = (case tls_ca_var of Some path \<Rightarrow> path | None \<Rightarrow> ''infra/certs/ca.crt'');
          ca = (case read_file ca_path of
                  Inr pem_bytes \<Rightarrow>
                    (case parse_x509_pem K pem_bytes of Inr der \<Rightarrow> Some der | Inl _ \<Rightarrow> None)
                | Inl _ \<Rightarrow> None)
      in nats_auth_policy_new req ca)"

lemma policy_requires_ca:
  "require_signed (nats_auth_policy_new req ca) \<Longrightarrow> \<exists>der. ca_der (nats_auth_policy_new req ca) = Some der"
  by (cases ca) (auto simp: nats_auth_policy_new_def split: if_splits)

section \<open>Verification\<close>

datatype auth_check = Verified | Unsigned | Failed string

text \<open>The last two steps of \<open>check_envelope_auth\<close>: the name and the signature.\<close>

definition check_leaf_binding ::
  "pki \<Rightarrow> bytes \<Rightarrow> certificate \<Rightarrow> envelope_auth \<Rightarrow> string \<Rightarrow> bytes \<Rightarrow> auth_check" where
  "check_leaf_binding K leaf_der leaf auth claimed_identity canonical =
     (case extract_spiffe_id K leaf_der of
        None \<Rightarrow> Failed ''certificate has no SPIFFE URI SAN''
      | Some san \<Rightarrow>
          if san \<noteq> claimed_identity
          then Failed (''cert SPIFFE SAN '' @ [CHR 0x27] @ san @ [CHR 0x27]
                       @ '' does not match claimed identity '' @ [CHR 0x27] @ claimed_identity @ [CHR 0x27])
          else
            (case base64_decode K (auth_signature auth) of
               Inl e \<Rightarrow> Failed (''signature is not valid base64: '' @ e)
             | Inr sig_der \<Rightarrow>
                 (case verify_p256_signature K (subject_public_key leaf) canonical sig_der of
                    Inr _ \<Rightarrow> Verified
                  | Inl e \<Rightarrow> Failed e)))"

text \<open>\<open>check_envelope_auth\<close>\<close>

definition check_envelope_auth ::
  "pki \<Rightarrow> bytes option \<Rightarrow> envelope_auth option \<Rightarrow> string \<Rightarrow> bytes \<Rightarrow> i64 \<Rightarrow> auth_check" where
  "check_envelope_auth K ca auth_opt claimed_identity canonical now_sec =
     (case auth_opt of
        None \<Rightarrow> Unsigned
      | Some auth \<Rightarrow>
     (case ca of
        None \<Rightarrow> Unsigned
      | Some ca_bytes \<Rightarrow>
     if scheme auth \<noteq> envelope_auth_scheme_v1 K
     then Failed (''unknown auth scheme: '' @ scheme auth)
     else
     (case parse_x509_pem K (as_bytes (cert_pem auth)) of
        Inl e \<Rightarrow> Failed (''cert_pem is not valid PEM: '' @ e)
      | Inr leaf_der \<Rightarrow>
     (case certificate_from_der K leaf_der of
        Inl e \<Rightarrow> Failed (''cert_pem is not a valid certificate: '' @ e)
      | Inr leaf \<Rightarrow>
          (let now = (case asn1_from_timestamp K now_sec of Some t \<Rightarrow> t | None \<Rightarrow> asn1_now K)
           in if \<not> is_valid_at K leaf now
              then Failed ''certificate outside validity window''
              else
                (case certificate_from_der K ca_bytes of
                   Inl e \<Rightarrow> Failed (''configured CA unparseable: '' @ e)
                 | Inr ca_cert \<Rightarrow>
                     if \<not> verify_cert_signature K leaf ca_cert
                     then Failed ''certificate not signed by the trusted CA''
                     else check_leaf_binding K leaf_der leaf auth claimed_identity canonical))))))"

text \<open>\<open>auth_decision\<close>\<close>

definition auth_decision :: "auth_check \<Rightarrow> bool \<Rightarrow> string + unit" where
  "auth_decision check req =
     (if \<not> req then Inr ()
      else (case check of
              Verified \<Rightarrow> Inr ()
            | Unsigned \<Rightarrow> Inl ''unsigned envelope (signing required)''
            | Failed reason \<Rightarrow> Inl reason))"

text \<open>
  What it means that an envelope is authentic: a certificate of the trusted CA, inside its
  validity window, that names the claimed identity, signed exactly the canonical bytes.
\<close>

definition authentic ::
  "pki \<Rightarrow> bytes \<Rightarrow> envelope_auth \<Rightarrow> string \<Rightarrow> bytes \<Rightarrow> i64 \<Rightarrow> bool" where
  "authentic K ca auth claimed canonical now_sec \<longleftrightarrow>
     (\<exists>leaf_der leaf ca_cert sig.
        scheme auth = envelope_auth_scheme_v1 K \<and>
        parse_x509_pem K (as_bytes (cert_pem auth)) = Inr leaf_der \<and>
        certificate_from_der K leaf_der = Inr leaf \<and>
        is_valid_at K leaf
          (case asn1_from_timestamp K now_sec of Some t \<Rightarrow> t | None \<Rightarrow> asn1_now K) \<and>
        certificate_from_der K ca = Inr ca_cert \<and> verify_cert_signature K leaf ca_cert \<and>
        extract_spiffe_id K leaf_der = Some claimed \<and>
        base64_decode K (auth_signature auth) = Inr sig \<and>
        verify_p256_signature K (subject_public_key leaf) canonical sig = Inr ())"

lemma check_envelope_auth_Verified:
  "check_envelope_auth K ca auth claimed canonical now = Verified \<longleftrightarrow>
     (\<exists>c a. ca = Some c \<and> auth = Some a \<and> authentic K c a claimed canonical now)"
  by (auto simp: check_envelope_auth_def check_leaf_binding_def authentic_def Let_def
      split: option.splits sum.splits if_splits)

lemma auth_decision_ok: "auth_decision check req = Inr () \<longleftrightarrow> \<not> req \<or> check = Verified"
  by (auto simp: auth_decision_def split: auth_check.splits)

section \<open>Evaluation in the consumer\<close>

text \<open>\<open>NatsConsumer::evaluate_envelope_auth\<close>\<close>

definition evaluate_envelope_auth ::
  "env \<Rightarrow> pki \<Rightarrow> nats_auth_policy \<Rightarrow> envelope_auth option \<Rightarrow> string \<Rightarrow> bytes \<Rightarrow> bool \<Rightarrow> (string + unit) io" where
  "evaluate_envelope_auth E K A auth claimed_identity canonical force_signed = do {
     let req = require_signed A \<or> force_signed;
     now \<leftarrow> now_secs E;
     let check = check_envelope_auth K (ca_der A) auth claimed_identity canonical now;
     (case check of
        Verified \<Rightarrow> track_operation ''nats_auth_verified'' True
      | Unsigned \<Rightarrow> track_operation ''nats_auth_unsigned'' True
      | Failed _ \<Rightarrow> track_operation ''nats_auth_failed'' False);
     State_Monad.return (auth_decision check req)
   }"

lemma evaluate_envelope_auth_result:
  "result_of (evaluate_envelope_auth E K A auth claimed canonical force_signed) s =
     auth_decision (check_envelope_auth K (ca_der A) auth claimed canonical (clock_secs E (trace s)))
       (require_signed A \<or> force_signed)"
  by (auto simp: evaluate_envelope_auth_def port_defs Let_def split: auth_check.splits)

lemma emits_evaluate_envelope_auth [emits_rules]:
  "(\<And>t. P (EvClockSecs t)) \<Longrightarrow> (\<And>n ok. P (EvMetric n ok)) \<Longrightarrow>
   emits P (evaluate_envelope_auth E K A auth claimed canonical force_signed)"
  unfolding evaluate_envelope_auth_def port_defs
  by (intro emits_rules) (auto split: auth_check.split intro: emits_rules)

end
