(* ===== verification/Mint_Status.thy ===== *)
theory Mint_Status
  imports Sign_Submit
begin

text \<open>
  The status query, the confirmation poll and the generation mint of \<open>ChainBridgeGrpcService\<close>
  (crates/chain-bridge-api/src/api/service.rs). The poll is a bounded loop, so it is a recursion
  on the number of attempts left and always returns.
\<close>

section \<open>Status of a signature\<close>

definition unwrap_or :: "'a option \<Rightarrow> 'a \<Rightarrow> 'a" where
  "unwrap_or x d = (case x of Some a \<Rightarrow> a | None \<Rightarrow> d)"

lemma unwrap_or_simps [simp]: "unwrap_or (Some a) d = a" "unwrap_or None d = d"
  by (simp_all add: unwrap_or_def)

text \<open>\<open>resp.value.first()\<close> when it holds a status.\<close>

fun first_status :: "json option list \<Rightarrow> json option" where
  "first_status (Some st # _) = Some st"
| "first_status _ = None"

text \<open>\<open>ChainBridgeGrpcService::signature_status\<close>: found, confirmed, status, slot.\<close>

definition signature_status ::
  "externals \<Rightarrow> env \<Rightarrow> string \<Rightarrow> (string + bool \<times> bool \<times> string \<times> u64) io" where
  "signature_status X E sig_text =
     (case signature_from_str X sig_text of
        Inl e \<Rightarrow> State_Monad.return (Inl (''invalid signature: '' @ e))
      | Inr sig \<Rightarrow> do {
          resp \<leftarrow> provider_statuses E [sig];
          (case resp of
             Inl e \<Rightarrow> State_Monad.return (Inl (''get_signature_statuses failed: '' @ e))
           | Inr values \<Rightarrow>
               (case first_status values of
                  Some st \<Rightarrow>
                    (let J = json X;
                         confirmed = j_is_null J (j_index J st ''err'');
                         conf_status =
                           unwrap_or (j_as_str J (j_index J st ''confirmation_status'')) ''processed'';
                         slot = unwrap_or (j_as_u64 J (j_index J st ''slot'')) 0
                     in State_Monad.return (Inr (True, confirmed, conf_status, slot)))
                | None \<Rightarrow> State_Monad.return (Inr (False, False, ''NotFound'', 0))))
        })"

section \<open>The confirmation poll\<close>

datatype confirm_outcome = Confirmed u64 | Errored | Pending

text \<open>What one answer of the poll decides, if anything.\<close>

definition poll_verdict :: "externals \<Rightarrow> string + json option list \<Rightarrow> confirm_outcome option" where
  "poll_verdict X resp =
     (case resp of
        Inl _ \<Rightarrow> None
      | Inr values \<Rightarrow>
          (case first_status values of
             None \<Rightarrow> None
           | Some st \<Rightarrow>
               (let J = json X;
                    errored = (case j_get J st ''err'' of Some e \<Rightarrow> \<not> j_is_null J e | None \<Rightarrow> False)
                in if errored then Some Errored
                   else (case j_get J st ''slot'' of
                           Some v \<Rightarrow> (case j_as_u64 J v of Some slot \<Rightarrow> Some (Confirmed slot) | None \<Rightarrow> None)
                         | None \<Rightarrow> None))))"

text \<open>\<open>resolve_confirmation_bounded\<close> and \<open>resolve_confirmation\<close>\<close>

primrec resolve_confirmation_bounded ::
  "externals \<Rightarrow> env \<Rightarrow> signature \<Rightarrow> nat \<Rightarrow> nat \<Rightarrow> confirm_outcome io" where
  "resolve_confirmation_bounded X E sig 0 delay = State_Monad.return Pending"
| "resolve_confirmation_bounded X E sig (Suc attempts) delay = do {
     resp \<leftarrow> provider_statuses E [sig];
     (case poll_verdict X resp of
        Some out \<Rightarrow> State_Monad.return out
      | None \<Rightarrow> do {
          sleep_ms delay;
          resolve_confirmation_bounded X E sig attempts delay
        })
   }"

definition resolve_confirmation :: "externals \<Rightarrow> env \<Rightarrow> signature \<Rightarrow> confirm_outcome io" where
  "resolve_confirmation X E sig = resolve_confirmation_bounded X E sig 24 250"

section \<open>The generation mint\<close>

text \<open>The transaction a mint intent becomes, for the signer's public key.\<close>

definition build_mint_tx ::
  "externals \<Rightarrow> pubkey \<Rightarrow> pubkey \<Rightarrow> u64 \<Rightarrow> bytes \<Rightarrow> i64 \<Rightarrow> string + bytes" where
  "build_mint_tx X payer recipient amount meter_id window_start_ms =
     (case build_generation_mint_instructions X payer recipient amount meter_id window_start_ms of
        Inl e \<Rightarrow> Inl (''building generation-mint instructions: '' @ e)
      | Inr ixs \<Rightarrow>
          (case serialize_tx X
                  (new_unsigned X (message_new X (set_compute_unit_limit X 400000 # ixs) (Some payer))) of
             Inl e \<Rightarrow> Inl (''serializing mint tx: '' @ e)
           | Inr raw \<Rightarrow> Inr raw))"

text \<open>Success is gated on the confirmation.\<close>

definition mint_confirmed ::
  "externals \<Rightarrow> env \<Rightarrow> signature \<Rightarrow> (string, signature \<times> u64) outcome io" where
  "mint_confirmed X E sig = do {
     out \<leftarrow> resolve_confirmation X E sig;
     State_Monad.return
       (case out of
          Confirmed slot \<Rightarrow> Ok (sig, slot)
        | Errored \<Rightarrow> Err (''generation mint '' @ show_signature X sig
                         @ '' landed with an on-chain error; not confirmed'')
        | Pending \<Rightarrow> Err (''generation mint '' @ show_signature X sig
                         @ '' unconfirmed within window; outbox will retry''))
   }"

text \<open>\<open>ChainBridgeGrpcService::build_and_submit_generation_mint\<close>\<close>

definition build_and_submit_generation_mint ::
  "externals \<Rightarrow> env \<Rightarrow> config \<Rightarrow> string \<Rightarrow> f64 \<Rightarrow> bytes \<Rightarrow> i64 \<Rightarrow> spiffe_identity \<Rightarrow> string \<Rightarrow>
   (string, signature \<times> u64) outcome io" where
  "build_and_submit_generation_mint X E C recipient_wallet energy_kwh meter_id window_start_ms ident corr =
     (case energy_kwh_to_base_units X energy_kwh of
        Inl e \<Rightarrow> State_Monad.return (Err e)
      | Inr amount \<Rightarrow>
     (case pubkey_from_str X recipient_wallet of
        Inl e \<Rightarrow> State_Monad.return
          (Err (''invalid recipient wallet '' @ [CHR 0x27] @ recipient_wallet @ [CHR 0x27] @ '': '' @ e))
      | Inr recipient \<Rightarrow> do {
          pk \<leftarrow> vault_public_key E (transit_key_name C);
          (case pk of
             Inl e \<Rightarrow> State_Monad.return
               (Err (''resolving bridge signer pubkey from Vault: '' @ e))
           | Inr payer \<Rightarrow>
               (case build_mint_tx X payer recipient amount meter_id window_start_ms of
                  Inl e \<Rightarrow> State_Monad.return (Err e)
                | Inr raw \<Rightarrow> do {
                    r \<leftarrow> sign_and_submit X E C raw ''platform_admin'' ident corr;
                    (case r of
                       Ok res \<Rightarrow> mint_confirmed X E (fst res)
                     | Err st \<Rightarrow> State_Monad.return (Err (show_stage st))
                     | Panicked \<Rightarrow> State_Monad.return Panicked)
                  }))
        }))"

section \<open>Events\<close>

lemma emits_signature_status [emits_rules]:
  "(\<And>sigs r. P (EvStatuses sigs r)) \<Longrightarrow> emits P (signature_status X E sig_text)"
  unfolding signature_status_def port_defs Let_def by (intro emits_rules) auto

lemma emits_resolve_bounded [emits_rules]:
  "(\<And>r. P (EvStatuses [sig] r)) \<Longrightarrow> P (EvSleep delay) \<Longrightarrow>
   emits P (resolve_confirmation_bounded X E sig attempts delay)"
proof (induction attempts)
  case (Suc attempts)
  then show ?case
    unfolding resolve_confirmation_bounded.simps port_defs by (intro emits_rules) auto
qed (simp add: emits_return)

lemma emits_mint_confirmed [emits_rules]:
  "(\<And>r. P (EvStatuses [sig] r)) \<Longrightarrow> P (EvSleep 250) \<Longrightarrow> emits P (mint_confirmed X E sig)"
  unfolding mint_confirmed_def resolve_confirmation_def by (intro emits_rules) auto

text \<open>
  A mint has an effect only on the transaction built from its own intent, and only if the policy
  engine accepts that transaction for the identity.
\<close>

definition mint_intent_tx ::
  "externals \<Rightarrow> string \<Rightarrow> f64 \<Rightarrow> bytes \<Rightarrow> i64 \<Rightarrow> pubkey \<Rightarrow> bytes \<Rightarrow> bool" where
  "mint_intent_tx X wallet kwh meter window payer raw \<longleftrightarrow>
     (\<exists>amount recipient. energy_kwh_to_base_units X kwh = Inr amount \<and>
        pubkey_from_str X wallet = Inr recipient \<and>
        build_mint_tx X payer recipient amount meter window = Inr raw)"

lemma emits_generation_mint [emits_rules]:
  assumes "\<And>e. \<not> is_effect e \<Longrightarrow> P e"
    and "\<And>e payer raw tx. is_effect e \<Longrightarrow> mint_intent_tx X wallet kwh meter window payer raw \<Longrightarrow>
      deserialize_tx X raw = Inr tx \<Longrightarrow> validate_transaction X ident tx = Inr () \<Longrightarrow> P e"
  shows "emits P (build_and_submit_generation_mint X E C wallet kwh meter window ident corr)"
  unfolding build_and_submit_generation_mint_def port_defs
  by (intro emits_rules) (auto simp: mint_intent_tx_def intro: assms)

section \<open>What the poll answers\<close>

lemma resolve_bounded_run:
  assumes "run_state (resolve_confirmation_bounded X E sig attempts delay) s = (r, s')"
  shows "\<exists>evs. s' = s\<lparr>trace := trace s @ evs\<rparr> \<and>
     length (filter (\<lambda>e. \<exists>a. e = EvStatuses [sig] a) evs) \<le> attempts \<and>
     (r = Pending \<and> (\<forall>a. EvStatuses [sig] a \<in> set evs \<longrightarrow> poll_verdict X a = None)
        \<and> length (filter (\<lambda>e. \<exists>a. e = EvStatuses [sig] a) evs) = attempts \<or>
      (\<exists>a. EvStatuses [sig] a \<in> set evs \<and> poll_verdict X a = Some r))"
  using assms
proof (induction attempts arbitrary: s)
  case 0
  then show ?case by (auto intro: exI [of _ "[]"])
next
  case (Suc n)
  let ?a = "on_statuses E (trace s) [sig]"
  let ?s1 = "s\<lparr>trace := trace s @ [EvStatuses [sig] ?a, EvSleep delay]\<rparr>"
  show ?case
  proof (cases "poll_verdict X ?a")
    case (Some out)
    with Suc.prems show ?thesis
      by (intro exI [of _ "[EvStatuses [sig] ?a]"]) (auto simp: port_defs)
  next
    case None
    with Suc.prems have "run_state (resolve_confirmation_bounded X E sig n delay) ?s1 = (r, s')"
      by (simp add: port_defs)
    from Suc.IH [OF this] None show ?thesis
      by (elim exE conjE, intro exI [of _ "EvStatuses [sig] ?a # EvSleep delay # _"]) auto
  qed
qed

lemma poll_verdict_not_pending: "poll_verdict X a \<noteq> Some Pending"
  by (auto simp: poll_verdict_def Let_def split: sum.splits option.splits)

lemma poll_verdict_confirmed:
  assumes "poll_verdict X a = Some (Confirmed slot)"
  shows "\<exists>values st v. a = Inr values \<and> first_status values = Some st \<and>
     (\<forall>e. j_get (json X) st ''err'' = Some e \<longrightarrow> j_is_null (json X) e) \<and>
     j_get (json X) st ''slot'' = Some v \<and> j_as_u64 (json X) v = Some slot"
  using assms
  by (auto simp: poll_verdict_def Let_def split: sum.splits option.splits if_splits)

end
