(* ===== verification/Nats_Handlers.thy ===== *)
theory Nats_Handlers
  imports Envelope_Auth Mint_Status
begin

text \<open>
  The NATS consumer (crates/chain-bridge-api/src/nats_consumer/consumer.rs): the four message
  handlers with all their guards in order, the dispatch by subject, the construction of the
  consumer and the body of its cleanup task. A handler returns nothing; \<open>Aborted\<close> is a panic
  inside the signing pipeline, after which nothing of the handler runs.
\<close>

section \<open>Parts shared by the handlers\<close>

datatype handled = Finished | Aborted

type_synonym retry =
  "nat list \<Rightarrow> (sign_submit_stage, signature \<times> u64) outcome io \<Rightarrow>
   (sign_submit_stage, signature \<times> u64) outcome io"

text \<open>The consumer's fields that do not change, and \<open>tokio_retry::Retry::spawn\<close>.\<close>

record consumer =
  cn_pki :: pki
  cn_auth_policy :: nats_auth_policy
  cn_retry :: retry

definition max_age_ms :: u64 where
  "max_age_ms = 55000"

text \<open>The four \<open>publish_\<close> functions; a result that does not serialize is not published.\<close>

definition publish_reply :: "externals \<Rightarrow> env \<Rightarrow> string \<Rightarrow> reply \<Rightarrow> unit io" where
  "publish_reply X E subject rep =
     (case serialize_reply X rep of
        Inl _ \<Rightarrow> State_Monad.return ()
      | Inr payload \<Rightarrow> do {
          _ \<leftarrow> ask (\<lambda>h. on_publish E h subject payload) (EvPublish subject rep);
          State_Monad.return ()
        })"

definition publish_result :: "externals \<Rightarrow> env \<Rightarrow> string \<Rightarrow> tx_result_message \<Rightarrow> unit io" where
  "publish_result X E subject r = publish_reply X E subject (TxResult r)"

definition publish_cancel_result ::
  "externals \<Rightarrow> env \<Rightarrow> string \<Rightarrow> tx_cancel_result_message \<Rightarrow> unit io" where
  "publish_cancel_result X E subject r = publish_reply X E subject (CancelResult r)"

definition publish_mint_result ::
  "externals \<Rightarrow> env \<Rightarrow> string \<Rightarrow> mint_energy_result_message \<Rightarrow> unit io" where
  "publish_mint_result X E subject r = publish_reply X E subject (MintResult r)"

definition publish_status_result ::
  "externals \<Rightarrow> env \<Rightarrow> string \<Rightarrow> tx_status_result_message \<Rightarrow> unit io" where
  "publish_status_result X E subject r = publish_reply X E subject (StatusResult r)"

text \<open>\<open>audit_rejection\<close>\<close>

definition audit_rejection ::
  "env \<Rightarrow> string \<Rightarrow> string \<Rightarrow> string \<Rightarrow> string \<Rightarrow> string \<Rightarrow> unit io" where
  "audit_rejection E corr claimed_identity act stage reason =
     record_audit E corr claimed_identity act (Rejected stage reason)"

definition finish :: "ack_kind \<Rightarrow> handled io" where
  "finish k = do { ack k; State_Monad.return Finished }"

text \<open>The atomic claim on the shared store.\<close>

definition dedup_claim :: "string option \<Rightarrow> string \<Rightarrow> u64 \<Rightarrow> tx_result_message option io" where
  "dedup_claim dedup_key corr now =
     State (\<lambda>s. let (r, store) = claim_or_replay (dedup_store s) dedup_key corr now
                in (r, s\<lparr>dedup_store := store\<rparr>))"

definition idempotency_insert :: "string \<Rightarrow> u64 \<Rightarrow> unit io" where
  "idempotency_insert k expiry =
     modify (\<lambda>s. s\<lparr>idempotency_cache := (idempotency_cache s)(k \<mapsto> expiry)\<rparr>)"

section \<open>\<open>handle_submit\<close>\<close>

text \<open>The UTF-8 bytes of the staleness text; its dash is U+2014.\<close>

definition stale_submit_text :: string where
  "stale_submit_text =
     ''Stale transaction '' @ [CHR 0xE2, CHR 0x80, CHR 0x94] @ '' blockhash may be expired''"

definition submit_failure :: "string \<Rightarrow> string \<Rightarrow> tx_result_message" where
  "submit_failure corr e =
     \<lparr>tr_correlation_id = corr, tr_success = False, tr_signature = None, tr_error = Some e,
      tr_slot = 0, tr_deduplicated = False\<rparr>"

text \<open>Step 5: sign and submit with retry, record the outcome, reply.\<close>

definition submit_execute ::
  "externals \<Rightarrow> env \<Rightarrow> config \<Rightarrow> consumer \<Rightarrow> tx_submit_message \<Rightarrow> string option \<Rightarrow> u64 \<Rightarrow> handled io" where
  "submit_execute X E C N m dedup_key now = do {
     result \<leftarrow> cn_retry N [500, 500, 500]
       (sign_and_submit X E C (ts_serialized_tx m) (ts_key_id m) (ts_service_identity m)
          (ts_correlation_id m));
     (case result of
        Panicked \<Rightarrow> State_Monad.return Aborted
      | Ok (sig, slot) \<Rightarrow> do {
          idempotency_insert (ts_correlation_id m) (now + idempotency_ttl_ms);
          modify (\<lambda>s. s\<lparr>dedup_store :=
            record_done (dedup_store s) dedup_key (show_signature X sig) slot now\<rparr>);
          track_operation ''nats_consumer_submit'' True;
          publish_result X E (ts_reply_subject m)
            \<lparr>tr_correlation_id = ts_correlation_id m, tr_success = True,
             tr_signature = Some (show_signature X sig), tr_error = None, tr_slot = slot,
             tr_deduplicated = False\<rparr>;
          finish Ack
        }
      | Err st \<Rightarrow> do {
          modify (\<lambda>s. s\<lparr>dedup_store := release_claim (dedup_store s) dedup_key\<rparr>);
          track_operation ''nats_consumer_submit'' False;
          publish_result X E (ts_reply_subject m)
            (submit_failure (ts_correlation_id m) (show_stage st));
          finish Ack
        })
   }"

text \<open>Step 4.5: claim the idempotency key or replay.\<close>

definition submit_claim ::
  "externals \<Rightarrow> env \<Rightarrow> config \<Rightarrow> consumer \<Rightarrow> tx_submit_message \<Rightarrow> u64 \<Rightarrow> handled io" where
  "submit_claim X E C N m now = do {
     let dedup_key = submit_dedup_key (ts_idempotency_key m);
     prior \<leftarrow> dedup_claim dedup_key (ts_correlation_id m) now;
     (case prior of
        Some result_msg \<Rightarrow> do {
          track_operation ''nats_submit_deduplicated'' (tr_success result_msg);
          publish_result X E (ts_reply_subject m) result_msg;
          finish Ack
        }
      | None \<Rightarrow> submit_execute X E C N m dedup_key now)
   }"

text \<open>Step 4: decoding, policy and key id, before anything is claimed.\<close>

definition submit_check ::
  "externals \<Rightarrow> env \<Rightarrow> config \<Rightarrow> consumer \<Rightarrow> tx_submit_message \<Rightarrow> u64 \<Rightarrow> handled io" where
  "submit_check X E C N m now =
     (let corr = ts_correlation_id m; ident = ts_service_identity m; key = ts_key_id m in
      case deserialize_tx X (ts_serialized_tx m) of
        Inl e \<Rightarrow> do {
          publish_result X E (ts_reply_subject m)
            (submit_failure corr (''Invalid transaction format: '' @ e));
          finish Term
        }
      | Inr tx \<Rightarrow>
          (case validate_transaction X ident tx of
             Inl e \<Rightarrow> do {
               audit_rejection E corr ident ''submit'' ''policy'' e;
               publish_result X E (ts_reply_subject m)
                 (submit_failure corr (''Policy Engine rejection: '' @ e));
               finish Term
             }
           | Inr _ \<Rightarrow>
               if key \<noteq> ''platform_admin'' \<and> key \<noteq> [] then do {
                 audit_rejection E corr ident ''submit'' ''auth'' (''Key ID not authorized: '' @ key);
                 publish_result X E (ts_reply_subject m)
                   (submit_failure corr (''Key ID not authorized: '' @ key));
                 finish Term
               }
               else submit_claim X E C N m now))"

text \<open>Step 3: staleness.\<close>

definition submit_fresh ::
  "externals \<Rightarrow> env \<Rightarrow> config \<Rightarrow> consumer \<Rightarrow> tx_submit_message \<Rightarrow> handled io" where
  "submit_fresh X E C N m = do {
     now \<leftarrow> now_ms E;
     let age = saturating_sub now (ts_created_at_ms m);
     (if max_age_ms < age then do {
        track_operation ''nats_submit_stale_rejected'' False;
        audit_rejection E (ts_correlation_id m) (ts_service_identity m) ''submit'' ''stale''
          (''stale envelope: age '' @ show_u64 age @ ''ms'');
        publish_result X E (ts_reply_subject m)
          (submit_failure (ts_correlation_id m) stale_submit_text);
        finish Ack
      }
      else submit_check X E C N m now)
   }"

text \<open>Steps 1 and 2: role, duplicate delivery.\<close>

definition submit_admit ::
  "externals \<Rightarrow> env \<Rightarrow> config \<Rightarrow> consumer \<Rightarrow> tx_submit_message \<Rightarrow> handled io" where
  "submit_admit X E C N m =
     (let corr = ts_correlation_id m; ident = ts_service_identity m in
      if role_of_identity X ident = Unknown then do {
        audit_rejection E corr ident ''submit'' ''rbac'' ''unknown service role'';
        publish_result X E (ts_reply_subject m)
          (submit_failure corr (''Unauthorised service identity: '' @ ident));
        finish Term
      }
      else do {
        cache \<leftarrow> gets idempotency_cache;
        (if cache corr \<noteq> None then finish Ack else submit_fresh X E C N m)
      })"

text \<open>Step 0: parsing and envelope authentication.\<close>

definition handle_submit ::
  "externals \<Rightarrow> env \<Rightarrow> config \<Rightarrow> consumer \<Rightarrow> bytes \<Rightarrow> handled io" where
  "handle_submit X E C N payload =
     (case parse_submit X payload of
        Inl _ \<Rightarrow> finish Term
      | Inr m \<Rightarrow> do {
          verdict \<leftarrow> evaluate_envelope_auth E (cn_pki N) (cn_auth_policy N) (ts_auth m)
            (ts_service_identity m) (canonical_submit_bytes X m) False;
          (case verdict of
             Inl why \<Rightarrow> do {
               track_operation ''nats_auth_rejected'' False;
               let reason = ''envelope authentication failed: '' @ why;
               audit_rejection E (ts_correlation_id m) (ts_service_identity m) ''submit'' ''auth'' reason;
               publish_result X E (ts_reply_subject m) (submit_failure (ts_correlation_id m) reason);
               finish Term
             }
           | Inr _ \<Rightarrow> submit_admit X E C N m)
        })"

section \<open>\<open>handle_cancel\<close>\<close>

definition cancel_reply :: "string \<Rightarrow> string option \<Rightarrow> tx_cancel_result_message" where
  "cancel_reply corr e = \<lparr>tcr_correlation_id = corr, tcr_success = (e = None), tcr_error = e\<rparr>"

definition cancel_admit :: "externals \<Rightarrow> env \<Rightarrow> tx_cancel_message \<Rightarrow> handled io" where
  "cancel_admit X E m =
     (let corr = tc_correlation_id m; ident = tc_service_identity m in
      if role_of_identity X ident = Unknown then do {
        audit_rejection E corr ident ''cancel'' ''rbac'' ''unknown service role'';
        publish_cancel_result X E (tc_reply_subject m)
          (cancel_reply corr (Some (''Unauthorised service identity: '' @ ident)));
        finish Term
      }
      else do {
        cache \<leftarrow> gets idempotency_cache;
        (if cache (''cancel:'' @ corr) \<noteq> None then finish Ack
         else do {
           now \<leftarrow> now_ms E;
           (if max_age_ms < saturating_sub now (tc_created_at_ms m) then do {
              audit_rejection E corr ident ''cancel'' ''stale'' ''stale cancellation request'';
              publish_cancel_result X E (tc_reply_subject m)
                (cancel_reply corr (Some ''Cancellation request stale''));
              finish Ack
            }
            else do {
              idempotency_insert (''cancel:'' @ corr) (now + idempotency_ttl_ms);
              idempotency_insert corr (now + idempotency_ttl_ms);
              track_operation ''nats_consumer_cancel'' True;
              publish_cancel_result X E (tc_reply_subject m) (cancel_reply corr None);
              finish Ack
            })
         })
      })"

definition handle_cancel ::
  "externals \<Rightarrow> env \<Rightarrow> consumer \<Rightarrow> bytes \<Rightarrow> handled io" where
  "handle_cancel X E N payload =
     (case parse_cancel X payload of
        Inl _ \<Rightarrow> finish Term
      | Inr m \<Rightarrow> do {
          verdict \<leftarrow> evaluate_envelope_auth E (cn_pki N) (cn_auth_policy N) (tc_auth m)
            (tc_service_identity m) (canonical_cancel_bytes X m) False;
          (case verdict of
             Inl why \<Rightarrow> do {
               track_operation ''nats_auth_rejected'' False;
               let reason = ''envelope authentication failed: '' @ why;
               audit_rejection E (tc_correlation_id m) (tc_service_identity m) ''cancel'' ''auth'' reason;
               publish_cancel_result X E (tc_reply_subject m)
                 (cancel_reply (tc_correlation_id m) (Some reason));
               finish Term
             }
           | Inr _ \<Rightarrow> cancel_admit X E m)
        })"

section \<open>\<open>handle_mint\<close>\<close>

definition mint_failure :: "string \<Rightarrow> string \<Rightarrow> mint_energy_result_message" where
  "mint_failure corr e =
     \<lparr>mr_correlation_id = corr, mr_success = False, mr_signature = None, mr_error = Some e,
      mr_slot = 0, mr_deduplicated = False\<rparr>"

text \<open>Step 5: build, sign, submit and confirm; record the outcome, reply.\<close>

definition mint_execute ::
  "externals \<Rightarrow> env \<Rightarrow> config \<Rightarrow> mint_energy_message \<Rightarrow> string option \<Rightarrow> u64 \<Rightarrow> handled io" where
  "mint_execute X E C m dedup_key now = do {
     result \<leftarrow> build_and_submit_generation_mint X E C (me_recipient_wallet m) (me_energy_kwh m)
       (me_meter_id m) (me_window_start_ms m) (me_service_identity m) (me_correlation_id m);
     (case result of
        Panicked \<Rightarrow> State_Monad.return Aborted
      | Ok (sig, slot) \<Rightarrow> do {
          idempotency_insert (me_correlation_id m) (now + idempotency_ttl_ms);
          modify (\<lambda>s. s\<lparr>dedup_store :=
            record_done (dedup_store s) dedup_key (show_signature X sig) slot now\<rparr>);
          track_operation ''nats_consumer_mint'' True;
          publish_mint_result X E (me_reply_subject m)
            \<lparr>mr_correlation_id = me_correlation_id m, mr_success = True,
             mr_signature = Some (show_signature X sig), mr_error = None, mr_slot = slot,
             mr_deduplicated = False\<rparr>;
          finish Ack
        }
      | Err e \<Rightarrow> do {
          modify (\<lambda>s. s\<lparr>dedup_store := release_claim (dedup_store s) dedup_key\<rparr>);
          track_operation ''nats_consumer_mint'' False;
          publish_mint_result X E (me_reply_subject m) (mint_failure (me_correlation_id m) e);
          finish Ack
        })
   }"

text \<open>Step 4: claim or replay; the prior result is copied into a mint result.\<close>

definition mint_claim ::
  "externals \<Rightarrow> env \<Rightarrow> config \<Rightarrow> mint_energy_message \<Rightarrow> u64 \<Rightarrow> handled io" where
  "mint_claim X E C m now = do {
     let dedup_key = mint_dedup_key (me_idempotency_key m);
     prior \<leftarrow> dedup_claim dedup_key (me_correlation_id m) now;
     (case prior of
        Some p \<Rightarrow> do {
          track_operation ''nats_mint_deduplicated'' (tr_success p);
          publish_mint_result X E (me_reply_subject m)
            \<lparr>mr_correlation_id = tr_correlation_id p, mr_success = tr_success p,
             mr_signature = tr_signature p, mr_error = tr_error p, mr_slot = tr_slot p,
             mr_deduplicated = True\<rparr>;
          finish Ack
        }
      | None \<Rightarrow> mint_execute X E C m dedup_key now)
   }"

text \<open>Step 3: staleness.\<close>

definition mint_fresh ::
  "externals \<Rightarrow> env \<Rightarrow> config \<Rightarrow> mint_energy_message \<Rightarrow> handled io" where
  "mint_fresh X E C m = do {
     now \<leftarrow> now_ms E;
     let age = saturating_sub now (me_created_at_ms m);
     (if max_age_ms < age then do {
        track_operation ''nats_mint_stale_rejected'' False;
        audit_rejection E (me_correlation_id m) (me_service_identity m) ''mint'' ''stale''
          (''stale envelope: age '' @ show_u64 age @ ''ms'');
        publish_mint_result X E (me_reply_subject m)
          (mint_failure (me_correlation_id m) ''Stale mint request'');
        finish Ack
      }
      else mint_claim X E C m now)
   }"

text \<open>Steps 1 and 2: role list, duplicate delivery.\<close>

definition mint_roles :: "service_role list" where
  "mint_roles = [AggregatorBridge, MeterService]"

definition mint_admit ::
  "externals \<Rightarrow> env \<Rightarrow> config \<Rightarrow> mint_energy_message \<Rightarrow> handled io" where
  "mint_admit X E C m =
     (let corr = me_correlation_id m; ident = me_service_identity m in
      case require_any X (role_of_identity X ident) mint_roles of
        Inl _ \<Rightarrow> do {
          audit_rejection E corr ident ''mint'' ''rbac'' ''role not permitted to mint'';
          publish_mint_result X E (me_reply_subject m)
            (mint_failure corr (''Unauthorised service identity for mint: '' @ ident));
          finish Term
        }
      | Inr _ \<Rightarrow> do {
          cache \<leftarrow> gets idempotency_cache;
          (if cache corr \<noteq> None then finish Ack else mint_fresh X E C m)
        })"

text \<open>Step 0: parsing and envelope authentication, with \<open>force_signed\<close>.\<close>

definition handle_mint ::
  "externals \<Rightarrow> env \<Rightarrow> config \<Rightarrow> consumer \<Rightarrow> bytes \<Rightarrow> handled io" where
  "handle_mint X E C N payload =
     (case parse_mint X payload of
        Inl _ \<Rightarrow> finish Term
      | Inr m \<Rightarrow> do {
          verdict \<leftarrow> evaluate_envelope_auth E (cn_pki N) (cn_auth_policy N) (me_auth m)
            (me_service_identity m) (canonical_mint_bytes X m) True;
          (case verdict of
             Inl why \<Rightarrow> do {
               track_operation ''nats_auth_rejected'' False;
               let reason = ''envelope authentication failed: '' @ why;
               audit_rejection E (me_correlation_id m) (me_service_identity m) ''mint'' ''auth'' reason;
               publish_mint_result X E (me_reply_subject m)
                 (mint_failure (me_correlation_id m) reason);
               finish Term
             }
           | Inr _ \<Rightarrow> mint_admit X E C m)
        })"

section \<open>\<open>handle_status\<close>\<close>

definition status_failure :: "string \<Rightarrow> string \<Rightarrow> tx_status_result_message" where
  "status_failure corr e =
     \<lparr>tqr_correlation_id = corr, tqr_found = False, tqr_confirmed = False, tqr_status = ''Error'',
      tqr_slot = 0, tqr_error = Some e\<rparr>"

definition status_roles :: "service_role list" where
  "status_roles = [MeterService, Admin]"

definition handle_status ::
  "externals \<Rightarrow> env \<Rightarrow> consumer \<Rightarrow> bytes \<Rightarrow> handled io" where
  "handle_status X E N payload =
     (case parse_status X payload of
        Inl _ \<Rightarrow> finish Term
      | Inr m \<Rightarrow> do {
          let corr = tq_correlation_id m;
          let ident = tq_service_identity m;
          verdict \<leftarrow> evaluate_envelope_auth E (cn_pki N) (cn_auth_policy N) (tq_auth m)
            ident (canonical_status_bytes X m) False;
          (case verdict of
             Inl why \<Rightarrow> do {
               track_operation ''nats_auth_rejected'' False;
               let reason = ''envelope authentication failed: '' @ why;
               audit_rejection E corr ident ''status'' ''auth'' reason;
               publish_status_result X E (tq_reply_subject m) (status_failure corr reason);
               finish Term
             }
           | Inr _ \<Rightarrow>
               (case require_any X (role_of_identity X ident) status_roles of
                  Inl _ \<Rightarrow> do {
                    audit_rejection E corr ident ''status'' ''rbac'' ''role not permitted to query status'';
                    publish_status_result X E (tq_reply_subject m)
                      (status_failure corr (''Unauthorised service identity for status: '' @ ident));
                    finish Term
                  }
                | Inr _ \<Rightarrow> do {
                    r \<leftarrow> signature_status X E (tq_signature m);
                    publish_status_result X E (tq_reply_subject m)
                      (case r of
                         Inr (found, confirmed, status, slot) \<Rightarrow>
                           \<lparr>tqr_correlation_id = corr, tqr_found = found, tqr_confirmed = confirmed,
                            tqr_status = status, tqr_slot = slot, tqr_error = None\<rparr>
                       | Inl e \<Rightarrow> status_failure corr e);
                    finish Ack
                  }))
        })"

section \<open>Dispatch, construction, cleanup\<close>

text \<open>The match on the subject in \<open>run_consumer\<close>.\<close>

definition handle_message ::
  "externals \<Rightarrow> env \<Rightarrow> config \<Rightarrow> consumer \<Rightarrow> string \<Rightarrow> bytes \<Rightarrow> handled io" where
  "handle_message X E C N subject payload =
     (if subject = ''chain.tx.submit'' then handle_submit X E C N payload
      else if subject = ''chain.tx.cancel'' then handle_cancel X E N payload
      else if subject = ''chain.tx.mint'' then handle_mint X E C N payload
      else if subject = ''chain.tx.status'' then handle_status X E N payload
      else finish Ack)"

text \<open>\<open>NatsConsumer::new\<close> and the clones \<open>start\<close> takes for the cleanup task.\<close>

definition nats_consumer_new :: "bridge \<Rightarrow> bridge" where
  "nats_consumer_new s = s\<lparr>idempotency_cache := Map.empty, dedup_store := Map.empty\<rparr>"

definition nats_consumer_start :: "bridge \<Rightarrow> bridge" where
  "nats_consumer_start s = s\<lparr>idempotency_clone := idempotency_cache s\<rparr>"

text \<open>The filters of the two pull consumers of \<open>start\<close>.\<close>

definition fast_filter_subjects :: "string list" where
  "fast_filter_subjects =
     [''chain.tx.submit'', ''chain.tx.simulate'', ''chain.tx.cancel'', ''chain.tx.status'']"

definition mint_filter_subjects :: "string list" where
  "mint_filter_subjects = [''chain.tx.mint'']"

text \<open>One tick of the cleanup task: the clone and the shared dedup store.\<close>

definition cleanup_tick :: "env \<Rightarrow> unit io" where
  "cleanup_tick E = do {
     now \<leftarrow> now_ms E;
     modify (\<lambda>s. s\<lparr>idempotency_clone := retain_idempotency (idempotency_clone s) now,
                    dedup_store := retain_dedup (dedup_store s) now\<rparr>)
   }"

end
