(* ===== verification/Handler_Logic.thy ===== *)
theory Handler_Logic
  imports Nats_Handlers
begin

text \<open>
  Reasoning about the NATS handlers: rules for the events of programs that also write the maps
  (\<open>extends\<close>), the contract of the retry library, and the judgement \<open>concludes\<close> for how a
  handler ends (the reply and the acknowledgement).
\<close>

section \<open>Events of programs that write the maps\<close>

named_theorems extends_rules \<open>introduction rules for the events of a handler\<close>

lemma extends_if [extends_rules]:
  "(b \<Longrightarrow> extends P m) \<Longrightarrow> (\<not> b \<Longrightarrow> extends P n) \<Longrightarrow> extends P (if b then m else n)"
  by simp

lemma extends_sum [extends_rules]:
  "(\<And>a. x = Inl a \<Longrightarrow> extends P (f a)) \<Longrightarrow> (\<And>b. x = Inr b \<Longrightarrow> extends P (g b)) \<Longrightarrow>
   extends P (case x of Inl a \<Rightarrow> f a | Inr b \<Rightarrow> g b)"
  by (cases x) auto

lemma extends_option [extends_rules]:
  "(x = None \<Longrightarrow> extends P m) \<Longrightarrow> (\<And>a. x = Some a \<Longrightarrow> extends P (f a)) \<Longrightarrow>
   extends P (case x of None \<Rightarrow> m | Some a \<Rightarrow> f a)"
  by (cases x) auto

lemma extends_prod [extends_rules]:
  "(\<And>a b. x = (a, b) \<Longrightarrow> extends P (f a b)) \<Longrightarrow> extends P (case x of (a, b) \<Rightarrow> f a b)"
  by (cases x) auto

lemma extends_outcome [extends_rules]:
  "(\<And>a. x = Ok a \<Longrightarrow> extends P (f a)) \<Longrightarrow> (\<And>e. x = Err e \<Longrightarrow> extends P (g e)) \<Longrightarrow>
   (x = Panicked \<Longrightarrow> extends P m) \<Longrightarrow>
   extends P (case x of Ok a \<Rightarrow> f a | Err e \<Rightarrow> g e | Panicked \<Rightarrow> m)"
  by (cases x) auto

lemma extends_Let [extends_rules]: "extends P (f x) \<Longrightarrow> extends P (Let x f)"
  by simp

declare extends_bind [extends_rules]

lemma extends_return [extends_rules]: "extends P (State_Monad.return x)"
  by (rule emits_extends [OF emits_return])

lemma extends_gets [extends_rules]: "extends P (gets f)"
  by (rule emits_extends [OF emits_gets])

text \<open>A bind whose first result is known to satisfy \<open>R\<close>.\<close>

lemma extends_bind_result:
  assumes "extends P m" "\<And>s. R (result_of m s)" "\<And>a. R a \<Longrightarrow> extends P (f a)"
  shows "extends P (State_Monad.bind m f)"
  unfolding extends_def
proof
  fix s
  obtain a s' where run: "run_state m s = (a, s')" by (cases "run_state m s")
  with assms(1) obtain evs where 1: "trace s' = trace s @ evs" "\<forall>e\<in>set evs. P e"
    unfolding extends_def by (metis snd_conv)
  have "R a" using assms(2) [of s] run by simp
  from assms(3) [OF this] obtain evs' where
    2: "trace (final_of (f a) s') = trace s' @ evs'" "\<forall>e\<in>set evs'. P e"
    unfolding extends_def by meson
  from 1 2 run show "\<exists>evs. trace (final_of (State_Monad.bind m f) s) = trace s @ evs \<and>
      (\<forall>e\<in>set evs. P e)"
    by (intro exI [of _ "evs @ evs'"]) auto
qed

lemma extends_dedup_claim [extends_rules]: "extends P (dedup_claim key corr now)"
  by (auto simp: extends_def dedup_claim_def split_beta)

lemma extends_idempotency_insert [extends_rules]: "extends P (idempotency_insert k x)"
  unfolding idempotency_insert_def by (rule extends_modify) simp

lemma extends_set_dedup [extends_rules]: "extends P (modify (\<lambda>s. s\<lparr>dedup_store := f s\<rparr>))"
  by (rule extends_modify) simp

lemma emits_publish_reply [emits_rules]:
  "(\<And>a. P (EvPublish subject rep a)) \<Longrightarrow> emits P (publish_reply X E subject rep)"
  unfolding publish_reply_def by (intro emits_rules) auto

lemma emits_publish [emits_rules]:
  "(\<And>a. P (EvPublish subject (TxResult r1) a)) \<Longrightarrow> emits P (publish_result X E subject r1)"
  "(\<And>a. P (EvPublish subject (CancelResult r2) a)) \<Longrightarrow> emits P (publish_cancel_result X E subject r2)"
  "(\<And>a. P (EvPublish subject (MintResult r3) a)) \<Longrightarrow> emits P (publish_mint_result X E subject r3)"
  "(\<And>a. P (EvPublish subject (StatusResult r4) a)) \<Longrightarrow> emits P (publish_status_result X E subject r4)"
  unfolding publish_result_def publish_cancel_result_def publish_mint_result_def
    publish_status_result_def by (auto intro: emits_publish_reply)

lemma emits_finish [emits_rules]: "P (EvAck k) \<Longrightarrow> emits P (finish k)"
  unfolding finish_def port_defs by (intro emits_rules)

lemma emits_audit_rejection [emits_rules]:
  "(\<And>t. P (EvClock t)) \<Longrightarrow> (\<And>entry r. P (EvAudit entry r)) \<Longrightarrow>
   emits P (audit_rejection E corr ident act stage reason)"
  unfolding audit_rejection_def by (intro emits_rules) auto

lemma emits_ports [emits_rules]:
  "P (EvMetric n ok) \<Longrightarrow> emits P (track_operation n ok)"
  "(\<And>t. P (EvClock t)) \<Longrightarrow> emits P (now_ms E)"
  unfolding port_defs by (auto intro: emits_rules)

text \<open>Every judgement \<open>emits\<close> of the parts gives one of \<open>extends\<close>.\<close>

lemmas extends_parts [extends_rules] =
  emits_publish [THEN emits_extends] emits_finish [THEN emits_extends]
  emits_audit_rejection [THEN emits_extends] emits_ports [THEN emits_extends]
  emits_evaluate_envelope_auth [THEN emits_extends] emits_signature_status [THEN emits_extends]
  emits_generation_mint [THEN emits_extends]

section \<open>Invariants of a program\<close>

text \<open>
  \<open>keeps I P m\<close>: from a state that satisfies \<open>I\<close>, the program ends in one that does, and all
  its events satisfy \<open>P\<close>. With a trivial \<open>I\<close> this is \<open>extends\<close>.
\<close>

definition keeps :: "(bridge \<Rightarrow> bool) \<Rightarrow> (event \<Rightarrow> bool) \<Rightarrow> 'a io \<Rightarrow> bool" where
  "keeps I P m \<longleftrightarrow>
     (\<forall>s. I s \<longrightarrow> I (final_of m s) \<and>
        (\<exists>evs. trace (final_of m s) = trace s @ evs \<and> (\<forall>e\<in>set evs. P e)))"

definition trace_free :: "(bridge \<Rightarrow> bool) \<Rightarrow> bool" where
  "trace_free I \<longleftrightarrow> (\<forall>s t. I s \<longrightarrow> I (s\<lparr>trace := t\<rparr>))"

named_theorems keeps_rules \<open>introduction rules for invariants of a program\<close>

lemma keepsD:
  assumes "keeps I P m" "I s"
  shows "I (final_of m s)" and "trace (final_of m s) = trace s @ events_of m s"
    and "\<And>e. e \<in> set (events_of m s) \<Longrightarrow> P e"
proof -
  from assms obtain evs where "trace (final_of m s) = trace s @ evs" "\<forall>e\<in>set evs. P e"
    "I (final_of m s)" unfolding keeps_def by meson
  then show "I (final_of m s)" and "trace (final_of m s) = trace s @ events_of m s"
    and "\<And>e. e \<in> set (events_of m s) \<Longrightarrow> P e"
    by (simp_all add: events_of_def)
qed

lemma keeps_emits:
  assumes "emits P m" "trace_free I"
  shows "keeps I P m"
  using assms unfolding keeps_def emits_def trace_free_def
  by (metis bridge.select_convs(1) bridge.surjective bridge.update_convs(1))

lemma keeps_bind_result:
  assumes "keeps I P m" "\<And>s. I s \<Longrightarrow> R (result_of m s)" "\<And>a. R a \<Longrightarrow> keeps I P (f a)"
  shows "keeps I P (State_Monad.bind m f)"
  unfolding keeps_def
proof (intro allI impI)
  fix s
  assume I: "I s"
  obtain a s' where run: "run_state m s = (a, s')" by (cases "run_state m s")
  have 1: "I s'" "trace s' = trace s @ events_of m s" "\<And>e. e \<in> set (events_of m s) \<Longrightarrow> P e"
    using keepsD [OF assms(1) I] run by simp_all
  have "R a" using assms(2) [OF I] run by simp
  from keepsD [OF assms(3) [OF this] 1(1)] 1 run
  show "I (final_of (State_Monad.bind m f) s) \<and>
      (\<exists>evs. trace (final_of (State_Monad.bind m f) s) = trace s @ evs \<and> (\<forall>e\<in>set evs. P e))"
    by (auto intro!: exI [of _ "events_of m s @ events_of (f a) s'"])
qed

lemma keeps_bind [keeps_rules]:
  "keeps I P m \<Longrightarrow> (\<And>a. keeps I P (f a)) \<Longrightarrow> keeps I P (State_Monad.bind m f)"
  by (rule keeps_bind_result [where R = "\<lambda>_. True"]) simp_all

lemma keeps_cases [keeps_rules]:
  "(b \<Longrightarrow> keeps I P m) \<Longrightarrow> (\<not> b \<Longrightarrow> keeps I P n) \<Longrightarrow> keeps I P (if b then m else n)"
  "(\<And>a. x = Inl a \<Longrightarrow> keeps I P (f a)) \<Longrightarrow> (\<And>b. x = Inr b \<Longrightarrow> keeps I P (g b)) \<Longrightarrow>
   keeps I P (case x of Inl a \<Rightarrow> f a | Inr b \<Rightarrow> g b)"
  "(y = None \<Longrightarrow> keeps I P m) \<Longrightarrow> (\<And>a. y = Some a \<Longrightarrow> keeps I P (h a)) \<Longrightarrow>
   keeps I P (case y of None \<Rightarrow> m | Some a \<Rightarrow> h a)"
  "(\<And>a b. p = (a, b) \<Longrightarrow> keeps I P (i a b)) \<Longrightarrow> keeps I P (case p of (a, b) \<Rightarrow> i a b)"
  "(\<And>a. z = Ok a \<Longrightarrow> keeps I P (j a)) \<Longrightarrow> (\<And>e. z = Err e \<Longrightarrow> keeps I P (k e)) \<Longrightarrow>
   (z = Panicked \<Longrightarrow> keeps I P m) \<Longrightarrow>
   keeps I P (case z of Ok a \<Rightarrow> j a | Err e \<Rightarrow> k e | Panicked \<Rightarrow> m)"
  "keeps I P (l w) \<Longrightarrow> keeps I P (Let w l)"
  by (auto split: sum.split option.split prod.split outcome.split)

lemma keeps_return [keeps_rules]: "keeps I P (State_Monad.return x)"
  by (simp add: keeps_def)

lemma keeps_gets [keeps_rules]: "keeps I P (gets f)"
  by (simp add: keeps_def)

lemma keeps_modify: "(\<And>s. I s \<Longrightarrow> I (f s) \<and> trace (f s) = trace s) \<Longrightarrow> keeps I P (modify f)"
  by (simp add: keeps_def)

lemma keeps_bind_gets:
  "(\<And>s. I s \<Longrightarrow> R (f s)) \<Longrightarrow> (\<And>a. R a \<Longrightarrow> keeps I P (g a)) \<Longrightarrow>
   keeps I P (State_Monad.bind (gets f) g)"
  by (rule keeps_bind_result [OF keeps_gets]) simp_all

section \<open>The retry library\<close>

text \<open>
  The documented behaviour of \<open>tokio_retry::Retry::spawn(strategy, action)\<close>: run the action; on
  an error sleep for the next delay of the strategy and try again, until the strategy is
  exhausted.
\<close>

definition retry_contract :: "retry \<Rightarrow> bool" where
  "retry_contract R \<longleftrightarrow>
     (\<forall>ds m. R ds m = do {
        r \<leftarrow> m;
        (case r of
           Err e \<Rightarrow>
             (case ds of
                [] \<Rightarrow> State_Monad.return (Err e)
              | d # ds' \<Rightarrow> do { sleep_ms d; R ds' m })
         | _ \<Rightarrow> State_Monad.return r)
      })"

lemma retry_unfold:
  assumes "retry_contract R"
  shows "R ds m = do {
        r \<leftarrow> m;
        (case r of
           Err e \<Rightarrow>
             (case ds of
                [] \<Rightarrow> State_Monad.return (Err e)
              | d # ds' \<Rightarrow> do { sleep_ms d; R ds' m })
         | _ \<Rightarrow> State_Monad.return r)
      }"
  using assms unfolding retry_contract_def by blast

lemma emits_retry:
  assumes "retry_contract R" "emits P m" "\<And>d. P (EvSleep d)"
  shows "emits P (R ds m)"
proof (induction ds)
  case Nil
  show ?case
    by (subst retry_unfold [OF assms(1)])
      (auto intro!: emits_bind emits_return assms(2) split: outcome.split)
next
  case (Cons d ds)
  show ?case
    by (subst retry_unfold [OF assms(1)])
      (auto simp: port_defs intro!: emits_bind emits_return emits_emit assms(2,3) Cons
        split: outcome.split)
qed

text \<open>A computable instance of the contract.\<close>

primrec retry_fixed :: retry where
  "retry_fixed [] m = do {
     r \<leftarrow> m;
     (case r of Err e \<Rightarrow> State_Monad.return (Err e) | _ \<Rightarrow> State_Monad.return r)
   }"
| "retry_fixed (d # ds) m = do {
     r \<leftarrow> m;
     (case r of Err e \<Rightarrow> do { sleep_ms d; retry_fixed ds m } | _ \<Rightarrow> State_Monad.return r)
   }"

lemma retry_fixed_contract: "retry_contract retry_fixed"
  unfolding retry_contract_def
proof (intro allI)
  show "retry_fixed ds m = do {
        r \<leftarrow> m;
        (case r of
           Err e \<Rightarrow>
             (case ds of
                [] \<Rightarrow> State_Monad.return (Err e)
              | d # ds' \<Rightarrow> do { sleep_ms d; retry_fixed ds' m })
         | _ \<Rightarrow> State_Monad.return r)
      }" for ds m
    by (cases ds) (simp_all cong: outcome.case_cong)
qed

section \<open>How a handler ends\<close>

text \<open>Neither a reply nor an acknowledgement.\<close>

definition quiet :: "event \<Rightarrow> bool" where
  "quiet e \<longleftrightarrow> \<not> is_ack e \<and> \<not> is_publish e"

lemma quiet_simps [simp]:
  "quiet (EvClock t)" "quiet (EvClockSecs u)" "quiet (EvMetric n ok)" "quiet (EvAudit entry r)"
  "quiet (EvStatuses sigs st)" "quiet (EvSleep d)" "\<not> quiet (EvAck k)"
  "\<not> quiet (EvPublish sub rep a)" "quiet (EvPublicKey key pk)" "is_effect e \<Longrightarrow> quiet e"
  by (simp_all add: quiet_def) (cases e; simp)

lemma emits_quiet_pipeline: "emits quiet (sign_and_submit X E C raw key ident corr)"
  unfolding sign_and_submit_def submit_signed_def prepare_signed_def
  by (intro emits_rules) (simp_all add: quiet_def)

lemma emits_quiet_mint: "emits quiet (build_and_submit_generation_mint X E C wallet kwh meter window ident corr)"
  unfolding build_and_submit_generation_mint_def port_defs
  by (intro emits_bind emits_sum emits_outcome emits_return emits_ask emits_quiet_pipeline
      emits_mint_confirmed) (simp_all add: quiet_def)

text \<open>
  A handler either aborts, before any reply or acknowledgement, or ends with a tail and in a
  state that satisfy \<open>Q\<close> and has no reply or acknowledgement before that tail.
\<close>

definition concludes :: "(event list \<Rightarrow> bridge \<Rightarrow> bool) \<Rightarrow> handled io \<Rightarrow> bool" where
  "concludes Q m \<longleftrightarrow>
     (\<forall>s. \<exists>evs tail. trace (final_of m s) = trace s @ evs @ tail \<and> (\<forall>e\<in>set evs. quiet e) \<and>
        (if result_of m s = Aborted then tail = [] else Q tail (final_of m s)))"

named_theorems concludes_rules \<open>introduction rules for the end of a handler\<close>

lemma concludes_finish [concludes_rules]: "(\<And>s. Q [EvAck k] s) \<Longrightarrow> concludes Q (finish k)"
  by (auto simp: concludes_def finish_def port_defs intro: exI [of _ "[]"])

lemma concludes_abort [concludes_rules]: "concludes Q (State_Monad.return Aborted)"
  by (auto simp: concludes_def)

lemma concludes_bind_result:
  assumes "extends quiet m" "\<And>s. R (result_of m s)" "\<And>a. R a \<Longrightarrow> concludes Q (f a)"
  shows "concludes Q (State_Monad.bind m f)"
  unfolding concludes_def
proof
  fix s
  obtain a s' where run: "run_state m s = (a, s')" by (cases "run_state m s")
  with assms(1) obtain evs where 1: "trace s' = trace s @ evs" "\<forall>e\<in>set evs. quiet e"
    unfolding extends_def by (metis snd_conv)
  have "R a" using assms(2) [of s] run by simp
  from assms(3) [OF this] obtain evs' tail where
    2: "trace (final_of (f a) s') = trace s' @ evs' @ tail" "\<forall>e\<in>set evs'. quiet e"
      "if result_of (f a) s' = Aborted then tail = [] else Q tail (final_of (f a) s')"
    unfolding concludes_def by blast
  from 1 2 run show "\<exists>evs tail. trace (final_of (State_Monad.bind m f) s) = trace s @ evs @ tail \<and>
      (\<forall>e\<in>set evs. quiet e) \<and>
      (if result_of (State_Monad.bind m f) s = Aborted then tail = []
       else Q tail (final_of (State_Monad.bind m f) s))"
    by (intro exI [of _ "evs @ evs'"] exI [of _ tail]) auto
qed

lemma concludes_bind:
  "extends quiet m \<Longrightarrow> (\<And>a. concludes Q (f a)) \<Longrightarrow> concludes Q (State_Monad.bind m f)"
  by (rule concludes_bind_result [where R = "\<lambda>_. True"]) simp_all

lemma concludes_reply_finish:
  assumes "\<And>a s. result_ok (serialize_reply X rep) \<Longrightarrow> Q [EvPublish subject rep a, EvAck k] s"
    and "\<And>s. \<not> result_ok (serialize_reply X rep) \<Longrightarrow> Q [EvAck k] s"
  shows "concludes Q (State_Monad.bind (publish_reply X E subject rep) (\<lambda>_. finish k))"
proof (cases "serialize_reply X rep")
  case (Inl e)
  with assms(2) show ?thesis
    by (auto simp: publish_reply_def intro: concludes_rules)
next
  case (Inr p)
  with assms(1) show ?thesis
    by (simp add: publish_reply_def concludes_def finish_def port_defs)
      (intro allI, rule exI [of _ "[]"], simp)
qed

lemma concludes_replies [concludes_rules]:
  "(\<And>a s. result_ok (serialize_reply X (TxResult r1)) \<Longrightarrow>
      Q [EvPublish subject (TxResult r1) a, EvAck k] s) \<Longrightarrow>
   (\<And>s. \<not> result_ok (serialize_reply X (TxResult r1)) \<Longrightarrow> Q [EvAck k] s) \<Longrightarrow>
   concludes Q (State_Monad.bind (publish_result X E subject r1) (\<lambda>_. finish k))"
  "(\<And>a s. result_ok (serialize_reply X (CancelResult r2)) \<Longrightarrow>
      Q [EvPublish subject (CancelResult r2) a, EvAck k] s) \<Longrightarrow>
   (\<And>s. \<not> result_ok (serialize_reply X (CancelResult r2)) \<Longrightarrow> Q [EvAck k] s) \<Longrightarrow>
   concludes Q (State_Monad.bind (publish_cancel_result X E subject r2) (\<lambda>_. finish k))"
  "(\<And>a s. result_ok (serialize_reply X (MintResult r3)) \<Longrightarrow>
      Q [EvPublish subject (MintResult r3) a, EvAck k] s) \<Longrightarrow>
   (\<And>s. \<not> result_ok (serialize_reply X (MintResult r3)) \<Longrightarrow> Q [EvAck k] s) \<Longrightarrow>
   concludes Q (State_Monad.bind (publish_mint_result X E subject r3) (\<lambda>_. finish k))"
  "(\<And>a s. result_ok (serialize_reply X (StatusResult r4)) \<Longrightarrow>
      Q [EvPublish subject (StatusResult r4) a, EvAck k] s) \<Longrightarrow>
   (\<And>s. \<not> result_ok (serialize_reply X (StatusResult r4)) \<Longrightarrow> Q [EvAck k] s) \<Longrightarrow>
   concludes Q (State_Monad.bind (publish_status_result X E subject r4) (\<lambda>_. finish k))"
  unfolding publish_result_def publish_cancel_result_def publish_mint_result_def
    publish_status_result_def by (blast intro: concludes_reply_finish)+

declare concludes_bind [concludes_rules]

lemma concludes_cases [concludes_rules]:
  "(b \<Longrightarrow> concludes Q m) \<Longrightarrow> (\<not> b \<Longrightarrow> concludes Q n) \<Longrightarrow> concludes Q (if b then m else n)"
  "(\<And>a. x = Inl a \<Longrightarrow> concludes Q (f a)) \<Longrightarrow> (\<And>b. x = Inr b \<Longrightarrow> concludes Q (g b)) \<Longrightarrow>
   concludes Q (case x of Inl a \<Rightarrow> f a | Inr b \<Rightarrow> g b)"
  "(y = None \<Longrightarrow> concludes Q m) \<Longrightarrow> (\<And>a. y = Some a \<Longrightarrow> concludes Q (h a)) \<Longrightarrow>
   concludes Q (case y of None \<Rightarrow> m | Some a \<Rightarrow> h a)"
  "(\<And>a b. p = (a, b) \<Longrightarrow> concludes Q (i a b)) \<Longrightarrow> concludes Q (case p of (a, b) \<Rightarrow> i a b)"
  "(\<And>a. z = Ok a \<Longrightarrow> concludes Q (j a)) \<Longrightarrow> (\<And>e. z = Err e \<Longrightarrow> concludes Q (k e)) \<Longrightarrow>
   (z = Panicked \<Longrightarrow> concludes Q m) \<Longrightarrow>
   concludes Q (case z of Ok a \<Rightarrow> j a | Err e \<Rightarrow> k e | Panicked \<Rightarrow> m)"
  "concludes Q (l w) \<Longrightarrow> concludes Q (Let w l)"
  by (auto split: sum.split option.split prod.split outcome.split)

end
