(* ===== verification/Rpc_Handlers.thy ===== *)
theory Rpc_Handlers
  imports Peer_Identity Mint_Status
begin

text \<open>
  The eleven RPC methods of \<open>impl ChainBridgeService for ChainBridgeGrpcService\<close>
  (crates/chain-bridge-api/src/api/service.rs), each with its role list, argument parsing, one
  call of the provider and the mapping of the answer. Requests and responses are the fields the
  handlers read and write; unset fields keep the default of the generated message types. The
  locale \<open>guarded_rpc\<close> is the contract every method keeps, \<open>read_rpc\<close> that of the ten read
  methods.
\<close>

section \<open>Errors and responses\<close>

datatype error_code = InvalidArgument | PermissionDenied | FailedPrecondition | Unavailable | Internal

type_synonym connect_error = "error_code \<times> string"

type_synonym 'r rpc_result = "(connect_error, 'r) outcome"

record submit_transaction_response =
  st_success :: bool
  st_signature :: string
  st_error_message :: string
  st_slot :: u64

record account_data_response =
  gd_exists :: bool
  gd_data :: bytes

record latest_blockhash_response =
  lb_blockhash :: string
  lb_last_valid_block_height :: u64

record token_balance_response =
  tb_amount :: string
  tb_decimals :: u32
  tb_ui_amount :: f64

record signature_status_response =
  gs_confirmed :: bool
  gs_status :: string
  gs_error :: string

record airdrop_response =
  ra_success :: bool
  ra_signature :: string

record transaction_details_response =
  td_found :: bool
  td_slot :: u64
  td_account_keys :: "string list"

record epoch_info_response =
  er_epoch :: u64
  er_slot :: u64

text \<open>The remaining provider calls.\<close>

definition provider_balance :: "env \<Rightarrow> pubkey \<Rightarrow> (string + u64) io" where
  "provider_balance E k = ask (\<lambda>h. on_balance E h k) (EvBalance k)"

definition provider_account :: "env \<Rightarrow> pubkey \<Rightarrow> (string + account_data) io" where
  "provider_account E k = ask (\<lambda>h. on_account E h k) (EvAccount k)"

definition provider_fees :: "env \<Rightarrow> pubkey list \<Rightarrow> (string + prioritization_fee list) io" where
  "provider_fees E ks = ask (\<lambda>h. on_fees E h ks) (EvFees ks)"

definition provider_token_balance :: "env \<Rightarrow> pubkey \<Rightarrow> (string + json) io" where
  "provider_token_balance E k = ask (\<lambda>h. on_token_balance E h k) (EvTokenBalance k)"

definition provider_slot :: "env \<Rightarrow> (string + u64) io" where
  "provider_slot E = ask (on_slot E) EvSlot"

definition provider_airdrop :: "env \<Rightarrow> pubkey \<Rightarrow> u64 \<Rightarrow> (string + signature) io" where
  "provider_airdrop E k lamports = ask (\<lambda>h. on_airdrop E h k lamports) (EvAirdrop k lamports)"

definition provider_transaction :: "env \<Rightarrow> signature \<Rightarrow> (string + json) io" where
  "provider_transaction E sig = ask (\<lambda>h. on_transaction E h sig) (EvTransaction sig)"

definition provider_epoch :: "env \<Rightarrow> (string + epoch_info) io" where
  "provider_epoch E = ask (on_epoch E) EvEpoch"

lemmas read_port_defs = provider_balance_def provider_account_def provider_fees_def
  provider_token_balance_def provider_slot_def provider_airdrop_def provider_transaction_def
  provider_epoch_def

section \<open>Role guard\<close>

text \<open>The role lists, in the order the handlers write them.\<close>

definition submit_roles :: "service_role list" where
  "submit_roles =
     [TradingApi, TradingMatcher, AggregatorBridge, IamService, SettlementService, Admin]"

definition all_read_roles :: "service_role list" where
  "all_read_roles =
     [ApiGateway, TradingApi, TradingMatcher, AggregatorBridge, IamService, SettlementService,
      ReportingService, Admin]"

definition internal_read_roles :: "service_role list" where
  "internal_read_roles =
     [TradingApi, TradingMatcher, AggregatorBridge, IamService, SettlementService,
      ReportingService, Admin]"

definition airdrop_roles :: "service_role list" where
  "airdrop_roles = [Admin, IamService]"

definition epoch_roles :: "service_role list" where
  "epoch_roles = [ApiGateway, TradingApi, TradingMatcher, AggregatorBridge, IamService, Admin]"

text \<open>
  \<open>role.require_any(..).map_err(|(_, msg)| ConnectError::permission_denied(msg))?\<close> and the rest
  of the handler after it.
\<close>

definition with_roles ::
  "externals \<Rightarrow> config \<Rightarrow> header_map \<Rightarrow> service_role list \<Rightarrow> 'r rpc_result io \<Rightarrow> 'r rpc_result io" where
  "with_roles X C hs roles body =
     (case require_any X (extract_role X C hs) roles of
        Inl msg \<Rightarrow> State_Monad.return (Err (PermissionDenied, msg))
      | Inr _ \<Rightarrow> body)"

text \<open>\<open>Pubkey::from_str(..).map_err(..)?\<close> and the signature variant.\<close>

definition with_pubkey :: "externals \<Rightarrow> string \<Rightarrow> (pubkey \<Rightarrow> 'r rpc_result io) \<Rightarrow> 'r rpc_result io" where
  "with_pubkey X text body =
     (case pubkey_from_str X text of
        Inl e \<Rightarrow> State_Monad.return (Err (InvalidArgument, ''Invalid pubkey: '' @ e))
      | Inr k \<Rightarrow> body k)"

definition with_signature ::
  "externals \<Rightarrow> string \<Rightarrow> (signature \<Rightarrow> 'r rpc_result io) \<Rightarrow> 'r rpc_result io" where
  "with_signature X text body =
     (case signature_from_str X text of
        Inl e \<Rightarrow> State_Monad.return (Err (InvalidArgument, ''Invalid signature: '' @ e))
      | Inr k \<Rightarrow> body k)"

section \<open>Submission\<close>

text \<open>The status code of a failed stage.\<close>

fun stage_status :: "sign_submit_stage \<Rightarrow> connect_error" where
  "stage_status (InvalidFormat _) = (InvalidArgument, ''Invalid transaction format'')"
| "stage_status (PolicyRejected _) = (PermissionDenied, ''Policy Engine rejection'')"
| "stage_status (KeyNotAuthorized _) = (PermissionDenied, ''Key ID not authorized'')"
| "stage_status (SimulationRejected _) = (FailedPrecondition, ''Transaction would fail simulation'')"
| "stage_status (BlockhashRefreshFailed _) = (Unavailable, ''Transaction submission failed'')"
| "stage_status (VaultSigningFailed _) = (Unavailable, ''Transaction submission failed'')"
| "stage_status (SubmissionFailed _) = (Unavailable, ''Transaction submission failed'')"

definition submit_transaction ::
  "externals \<Rightarrow> env \<Rightarrow> config \<Rightarrow> header_map \<Rightarrow> bytes \<Rightarrow> string \<Rightarrow>
   submit_transaction_response rpc_result io" where
  "submit_transaction X E C hs serialized_transaction key_id =
     with_roles X C hs submit_roles (do {
       let ident = unwrap_or (spiffe_of_headers X hs) ''unknown'';
       r \<leftarrow> sign_and_submit X E C serialized_transaction key_id ident [];
       State_Monad.return
         (case r of
            Ok (sig, slot) \<Rightarrow>
              Ok \<lparr>st_success = True, st_signature = show_signature X sig, st_error_message = [],
                  st_slot = slot\<rparr>
          | Err st \<Rightarrow> Err (stage_status st)
          | Panicked \<Rightarrow> Panicked)
     })"

section \<open>Reads\<close>

definition get_balance ::
  "externals \<Rightarrow> env \<Rightarrow> config \<Rightarrow> header_map \<Rightarrow> string \<Rightarrow> u64 rpc_result io" where
  "get_balance X E C hs pubkey_text =
     with_roles X C hs all_read_roles (with_pubkey X pubkey_text (\<lambda>k. do {
       r \<leftarrow> provider_balance E k;
       State_Monad.return
         (case r of Inr lamports \<Rightarrow> Ok lamports | Inl _ \<Rightarrow> Err (Internal, ''Failed to fetch balance''))
     }))"

definition get_account_data ::
  "externals \<Rightarrow> env \<Rightarrow> config \<Rightarrow> header_map \<Rightarrow> string \<Rightarrow> account_data_response rpc_result io" where
  "get_account_data X E C hs pubkey_text =
     with_roles X C hs all_read_roles (with_pubkey X pubkey_text (\<lambda>k. do {
       r \<leftarrow> provider_account E k;
       State_Monad.return
         (case r of
            Inr acc \<Rightarrow> Ok \<lparr>gd_exists = True, gd_data = ac_data acc\<rparr>
          | Inl e \<Rightarrow>
              if contains e ''AccountNotFound'' then Ok \<lparr>gd_exists = False, gd_data = []\<rparr>
              else Err (Internal, ''Failed to fetch account data''))
     }))"

definition get_latest_blockhash ::
  "externals \<Rightarrow> env \<Rightarrow> config \<Rightarrow> header_map \<Rightarrow> latest_blockhash_response rpc_result io" where
  "get_latest_blockhash X E C hs =
     with_roles X C hs internal_read_roles (do {
       r \<leftarrow> provider_latest_blockhash E;
       State_Monad.return
         (case r of
            Inr (bh, height) \<Rightarrow>
              Ok \<lparr>lb_blockhash = show_hash X bh, lb_last_valid_block_height = height\<rparr>
          | Inl _ \<Rightarrow> Err (Internal, ''Failed to fetch blockhash''))
     })"

text \<open>\<open>collect::<Result<Vec<_>, _>>()\<close>: the first key that does not parse is the error.\<close>

fun parse_account_keys :: "externals \<Rightarrow> string list \<Rightarrow> connect_error + pubkey list" where
  "parse_account_keys X [] = Inr []"
| "parse_account_keys X (k # ks) =
     (case pubkey_from_str X k of
        Inl e \<Rightarrow> Inl (InvalidArgument,
          ''Invalid account key '' @ [CHR 0x27] @ k @ [CHR 0x27] @ '': '' @ e)
      | Inr pk \<Rightarrow>
          (case parse_account_keys X ks of Inl e \<Rightarrow> Inl e | Inr pks \<Rightarrow> Inr (pk # pks)))"

definition get_recent_prioritization_fees ::
  "externals \<Rightarrow> env \<Rightarrow> config \<Rightarrow> header_map \<Rightarrow> string list \<Rightarrow> prioritization_fee list rpc_result io" where
  "get_recent_prioritization_fees X E C hs account_key_texts =
     with_roles X C hs internal_read_roles
       (case parse_account_keys X account_key_texts of
          Inl e \<Rightarrow> State_Monad.return (Err e)
        | Inr ks \<Rightarrow> do {
            r \<leftarrow> provider_fees E ks;
            State_Monad.return
              (case r of
                 Inr fees \<Rightarrow>
                   Ok (map (\<lambda>f. \<lparr>pf_slot = pf_slot f,
                                  pf_prioritization_fee = pf_prioritization_fee f\<rparr>) fees)
               | Inl _ \<Rightarrow> Err (Internal, ''Failed to fetch prioritization fees''))
          })"

definition get_token_account_balance ::
  "externals \<Rightarrow> env \<Rightarrow> config \<Rightarrow> header_map \<Rightarrow> string \<Rightarrow> token_balance_response rpc_result io" where
  "get_token_account_balance X E C hs pubkey_text =
     with_roles X C hs all_read_roles (with_pubkey X pubkey_text (\<lambda>k. do {
       r \<leftarrow> provider_token_balance E k;
       State_Monad.return
         (case r of
            Inr b \<Rightarrow>
              (let J = json X
               in Ok \<lparr>tb_amount = unwrap_or (j_as_str J (j_index J b ''amount'')) ''0'',
                      tb_decimals = ucast (unwrap_or (j_as_u64 J (j_index J b ''decimals'')) 0),
                      tb_ui_amount = unwrap_or (j_as_f64 J (j_index J b ''ui_amount'')) 0\<rparr>)
          | Inl _ \<Rightarrow> Err (Internal, ''Failed to fetch token balance''))
     }))"

definition get_signature_status ::
  "externals \<Rightarrow> env \<Rightarrow> config \<Rightarrow> header_map \<Rightarrow> string \<Rightarrow> signature_status_response rpc_result io" where
  "get_signature_status X E C hs signature_text =
     with_roles X C hs all_read_roles (with_signature X signature_text (\<lambda>sig. do {
       r \<leftarrow> provider_statuses E [sig];
       State_Monad.return
         (case r of
            Inr values \<Rightarrow>
              (case first_status values of
                 Some st \<Rightarrow>
                   (let J = json X; err = j_index J st ''err''
                    in Ok \<lparr>gs_confirmed =
                             (j_as_u64 J (j_index J st ''confirmations'') \<noteq> None \<or> j_is_null J err),
                           gs_status =
                             unwrap_or (j_as_str J (j_index J st ''confirmation_status'')) ''Unknown'',
                           gs_error = (if j_is_null J err then [] else j_to_string J err)\<rparr>)
               | None \<Rightarrow> Ok \<lparr>gs_confirmed = False, gs_status = ''NotFound'', gs_error = []\<rparr>)
          | Inl _ \<Rightarrow> Err (Internal, ''Failed to fetch signature status''))
     }))"

definition get_slot :: "externals \<Rightarrow> env \<Rightarrow> config \<Rightarrow> header_map \<Rightarrow> u64 rpc_result io" where
  "get_slot X E C hs =
     with_roles X C hs internal_read_roles (do {
       r \<leftarrow> provider_slot E;
       State_Monad.return
         (case r of Inr slot \<Rightarrow> Ok slot | Inl _ \<Rightarrow> Err (Internal, ''Failed to fetch current slot''))
     })"

definition request_airdrop ::
  "externals \<Rightarrow> env \<Rightarrow> config \<Rightarrow> header_map \<Rightarrow> string \<Rightarrow> u64 \<Rightarrow> airdrop_response rpc_result io" where
  "request_airdrop X E C hs pubkey_text lamports =
     with_roles X C hs airdrop_roles (with_pubkey X pubkey_text (\<lambda>k. do {
       r \<leftarrow> provider_airdrop E k lamports;
       State_Monad.return
         (case r of
            Inr sig \<Rightarrow> Ok \<lparr>ra_success = True, ra_signature = show_signature X sig\<rparr>
          | Inl _ \<Rightarrow> Err (Internal, ''Airdrop request failed''))
     }))"

definition get_transaction_details ::
  "externals \<Rightarrow> env \<Rightarrow> config \<Rightarrow> header_map \<Rightarrow> string \<Rightarrow> transaction_details_response rpc_result io" where
  "get_transaction_details X E C hs signature_text =
     with_roles X C hs all_read_roles (with_signature X signature_text (\<lambda>sig. do {
       r \<leftarrow> provider_transaction E sig;
       State_Monad.return
         (case r of
            Inr v \<Rightarrow>
              (let J = json X;
                   keys = j_index J (j_index J (j_index J v ''transaction'') ''message'') ''accountKeys''
               in Ok \<lparr>td_found = True,
                      td_slot = unwrap_or (j_as_u64 J (j_index J v ''slot'')) 0,
                      td_account_keys =
                        (case j_as_array J keys of
                           Some accs \<Rightarrow> map (\<lambda>a. unwrap_or (j_as_str J a) []) accs
                         | None \<Rightarrow> [])\<rparr>)
          | Inl e \<Rightarrow>
              if contains e ''TransactionNotFound'' \<or> contains e ''not found''
              then Ok \<lparr>td_found = False, td_slot = 0, td_account_keys = []\<rparr>
              else Err (Internal, ''Failed to fetch transaction details''))
     }))"

definition get_epoch_info ::
  "externals \<Rightarrow> env \<Rightarrow> config \<Rightarrow> header_map \<Rightarrow> epoch_info_response rpc_result io" where
  "get_epoch_info X E C hs =
     with_roles X C hs epoch_roles (do {
       r \<leftarrow> provider_epoch E;
       State_Monad.return
         (case r of
            Inr i \<Rightarrow> Ok \<lparr>er_epoch = ei_epoch i, er_slot = ei_absolute_slot i\<rparr>
          | Inl _ \<Rightarrow> Err (Internal, ''Failed to fetch epoch info''))
     })"

section \<open>The contract of a guarded method\<close>

text \<open>
  A method is a role list and a body: a caller whose role is not in the list gets
  \<open>PermissionDenied\<close>, and the services see nothing of the call.
\<close>

locale guarded_rpc =
  fixes X :: externals
    and C :: config
    and roles :: "service_role list"
    and handler :: "header_map \<Rightarrow> 'r rpc_result io"
  assumes denied: "require_any X (extract_role X C hs) roles = Inl msg \<Longrightarrow>
      handler hs = State_Monad.return (Err (PermissionDenied, msg))"
begin

lemma denied_run:
  assumes "require_any X (extract_role X C hs) roles = Inl msg"
  shows "run_state (handler hs) s = (Err (PermissionDenied, msg), s)"
  by (simp add: denied [OF assms])

lemma event_requires_role:
  assumes "e \<in> set (events_of (handler hs) s)"
  shows "require_any X (extract_role X C hs) roles = Inr ()"
proof (cases "require_any X (extract_role X C hs) roles")
  case (Inl msg)
  with assms show ?thesis by (simp add: denied_run events_of_def)
qed simp

end

locale read_rpc = guarded_rpc X C roles handler
  for X C roles and handler :: "header_map \<Rightarrow> 'r rpc_result io" +
  assumes reads: "emits (\<lambda>e. \<not> is_effect e \<and> \<not> is_audit e) (handler hs)"
begin

lemma read_only:
  shows "filter is_effect (events_of (handler hs) s) = []"
    and "filter is_audit (events_of (handler hs) s) = []"
    and "blockhash_cache (final_of (handler hs) s) = blockhash_cache s"
    and "idempotency_cache (final_of (handler hs) s) = idempotency_cache s"
    and "dedup_store (final_of (handler hs) s) = dedup_store s"
  using emits_events(2) [OF reads] emits_frame [OF reads] by (auto intro!: filter_False)

end

lemma emits_with_roles [emits_rules]:
  "(require_any X (extract_role X C hs) roles = Inr () \<Longrightarrow> emits P body) \<Longrightarrow>
   emits P (with_roles X C hs roles body)"
  unfolding with_roles_def by (auto intro: emits_return split: sum.split)

lemma emits_with_pubkey [emits_rules]:
  "(\<And>k. emits P (body k)) \<Longrightarrow> emits P (with_pubkey X t body)"
  unfolding with_pubkey_def by (auto intro: emits_return split: sum.split)

lemma emits_with_signature [emits_rules]:
  "(\<And>k. emits P (body k)) \<Longrightarrow> emits P (with_signature X t body)"
  unfolding with_signature_def by (auto intro: emits_return split: sum.split)

lemma emits_read_ports [emits_rules]:
  "(\<And>r. P (EvBalance k r)) \<Longrightarrow> emits P (provider_balance E k)"
  "(\<And>r. P (EvAccount k r)) \<Longrightarrow> emits P (provider_account E k)"
  "(\<And>r. P (EvFees ks r)) \<Longrightarrow> emits P (provider_fees E ks)"
  "(\<And>r. P (EvTokenBalance k r)) \<Longrightarrow> emits P (provider_token_balance E k)"
  "(\<And>r. P (EvSlot r)) \<Longrightarrow> emits P (provider_slot E)"
  "(\<And>r. P (EvAirdrop k n r)) \<Longrightarrow> emits P (provider_airdrop E k n)"
  "(\<And>r. P (EvTransaction sig r)) \<Longrightarrow> emits P (provider_transaction E sig)"
  "(\<And>r. P (EvEpoch r)) \<Longrightarrow> emits P (provider_epoch E)"
  "(\<And>r. P (EvLatestBlockhash r)) \<Longrightarrow> emits P (provider_latest_blockhash E)"
  "(\<And>r. P (EvStatuses sigs r)) \<Longrightarrow> emits P (provider_statuses E sigs)"
  unfolding read_port_defs port_defs by (auto intro: emits_ask)

lemma guarded_rpc_with_roles:
  assumes "\<And>hs. handler hs = with_roles X C hs roles (body hs)"
  shows "guarded_rpc X C roles handler"
  by unfold_locales (simp add: assms with_roles_def)

lemma read_rpc_with_roles:
  assumes "\<And>hs. handler hs = with_roles X C hs roles (body hs)"
    and "\<And>hs. emits (\<lambda>e. \<not> is_effect e \<and> \<not> is_audit e) (body hs)"
  shows "read_rpc X C roles handler"
  using guarded_rpc_with_roles [of handler, OF assms(1)] assms
  by (auto simp: read_rpc_def read_rpc_axioms_def intro!: emits_with_roles)

interpretation submit_rpc: guarded_rpc X C submit_roles
  "\<lambda>hs. submit_transaction X E C hs raw key" for X C E raw key
  by (rule guarded_rpc_with_roles, rule submit_transaction_def)

interpretation balance_rpc: read_rpc X C all_read_roles "\<lambda>hs. get_balance X E C hs k" for X C E k
  by (rule read_rpc_with_roles, rule get_balance_def, intro emits_rules) simp_all

interpretation account_rpc: read_rpc X C all_read_roles "\<lambda>hs. get_account_data X E C hs k"
  for X C E k
  by (rule read_rpc_with_roles, rule get_account_data_def, intro emits_rules) simp_all

interpretation blockhash_rpc: read_rpc X C internal_read_roles "\<lambda>hs. get_latest_blockhash X E C hs"
  for X C E
  by (rule read_rpc_with_roles, rule get_latest_blockhash_def, intro emits_rules) simp_all

interpretation fees_rpc: read_rpc X C internal_read_roles
  "\<lambda>hs. get_recent_prioritization_fees X E C hs ks" for X C E ks
  by (rule read_rpc_with_roles, rule get_recent_prioritization_fees_def, intro emits_rules) simp_all

interpretation token_rpc: read_rpc X C all_read_roles "\<lambda>hs. get_token_account_balance X E C hs k"
  for X C E k
  by (rule read_rpc_with_roles, rule get_token_account_balance_def, intro emits_rules) simp_all

interpretation status_rpc: read_rpc X C all_read_roles "\<lambda>hs. get_signature_status X E C hs t"
  for X C E t
  by (rule read_rpc_with_roles, rule get_signature_status_def, intro emits_rules) simp_all

interpretation slot_rpc: read_rpc X C internal_read_roles "\<lambda>hs. get_slot X E C hs" for X C E
  by (rule read_rpc_with_roles, rule get_slot_def, intro emits_rules) simp_all

interpretation airdrop_rpc: read_rpc X C airdrop_roles "\<lambda>hs. request_airdrop X E C hs k n"
  for X C E k n
  by (rule read_rpc_with_roles, rule request_airdrop_def, intro emits_rules) simp_all

interpretation details_rpc: read_rpc X C all_read_roles "\<lambda>hs. get_transaction_details X E C hs t"
  for X C E t
  by (rule read_rpc_with_roles, rule get_transaction_details_def, intro emits_rules) simp_all

interpretation epoch_rpc: read_rpc X C epoch_roles "\<lambda>hs. get_epoch_info X E C hs" for X C E
  by (rule read_rpc_with_roles, rule get_epoch_info_def, intro emits_rules) simp_all

end
