(* ===== verification/Sample_World.thy ===== *)
theory Sample_World
  imports Sign_Submit
begin

text \<open>
  One concrete instance of the external libraries and services, small enough to evaluate. The
  properties hold for all instances; this one shows that their hypotheses can be met. Requests
  succeed: the decoder returns one fixed transaction for any non-empty input, the policy accepts
  every known identity, Vault and the cluster answer.
\<close>

definition trading_identity :: string where
  "trading_identity = ''spiffe://gridtokenx.th/prod/trading-service/matcher''"

definition aggregator_identity :: string where
  "aggregator_identity = ''spiffe://gridtokenx.th/prod/aggregator-bridge''"

definition meter_identity :: string where
  "meter_identity = ''spiffe://gridtokenx.th/prod/meter-service''"

definition sample_message :: message where
  "sample_message =
     \<lparr>header = \<lparr>num_required_signatures = 1, num_readonly_signed_accounts = 0,
                num_readonly_unsigned_accounts = 1\<rparr>,
      account_keys = [[1], [2]], recent_blockhash = default_hash,
      instructions = [\<lparr>program_id_index = 1, accounts = [0], ix_data = [7]\<rparr>]\<rparr>"

definition sample_tx :: transaction where
  "sample_tx = \<lparr>signatures = [], message = sample_message\<rparr>"

definition sample_json :: json_api where
  "sample_json =
     \<lparr>j_index = (\<lambda>v k. case v of JObject kvs \<Rightarrow> (case map_of kvs k of Some w \<Rightarrow> w | None \<Rightarrow> JNull)
                   | _ \<Rightarrow> JNull),
      j_get = (\<lambda>v k. case v of JObject kvs \<Rightarrow> map_of kvs k | _ \<Rightarrow> None),
      j_is_null = (\<lambda>v. v = JNull),
      j_as_str = (\<lambda>v. case v of JString t \<Rightarrow> Some t | _ \<Rightarrow> None),
      j_as_u64 = (\<lambda>v. case v of JUInt n \<Rightarrow> Some n | _ \<Rightarrow> None),
      j_as_f64 = (\<lambda>v. case v of JFloat x \<Rightarrow> Some x | _ \<Rightarrow> None),
      j_as_array = (\<lambda>v. case v of JArray xs \<Rightarrow> Some xs | _ \<Rightarrow> None),
      j_to_string = (\<lambda>v. ''json'')\<rparr>"

definition sample_role :: "string \<Rightarrow> service_role" where
  "sample_role i =
     (if i = trading_identity then TradingMatcher
      else if i = aggregator_identity then AggregatorBridge
      else if i = meter_identity then MeterService
      else Unknown)"

definition sample_auth :: envelope_auth where
  "sample_auth = \<lparr>scheme = ''p256-v1'', cert_pem = ''pem'', auth_signature = ''sig''\<rparr>"

definition sample_submit :: tx_submit_message where
  "sample_submit =
     \<lparr>ts_correlation_id = ''c1'', ts_idempotency_key = ''k1'', ts_reply_subject = ''reply'',
      ts_serialized_tx = [9, 9, 9], ts_key_id = ''platform_admin'', ts_skip_preflight = False,
      ts_retry_count = 0, ts_service_identity = trading_identity, ts_created_at_ms = 1000,
      ts_auth = None\<rparr>"

definition sample_cancel :: tx_cancel_message where
  "sample_cancel =
     \<lparr>tc_correlation_id = ''c1'', tc_reply_subject = ''reply'',
      tc_service_identity = trading_identity, tc_created_at_ms = 1000, tc_auth = None\<rparr>"

definition sample_mint :: mint_energy_message where
  "sample_mint =
     \<lparr>me_correlation_id = ''m1'', me_idempotency_key = ''k1'', me_reply_subject = ''reply'',
      me_recipient_wallet = ''wallet'', me_energy_kwh = 0, me_meter_id = replicate 16 1,
      me_window_start_ms = 0, me_service_identity = aggregator_identity, me_created_at_ms = 1000,
      me_auth = Some sample_auth\<rparr>"

definition sample_status :: tx_status_message where
  "sample_status =
     \<lparr>tq_correlation_id = ''q1'', tq_reply_subject = ''reply'', tq_signature = ''sig'',
      tq_service_identity = meter_identity, tq_auth = None\<rparr>"

definition sample_ext :: externals where
  "sample_ext =
     \<lparr>deserialize_tx = (\<lambda>b. if b = [] then Inl ''eof'' else Inr sample_tx),
      serialize_tx = (\<lambda>tx. Inr [1]),
      message_data = (\<lambda>m. concat (account_keys m) @ recent_blockhash m),
      validate_transaction = (\<lambda>i tx. if sample_role i = Unknown then Inl ''unknown identity'' else Inr ()),
      role_of_identity = sample_role,
      role_of_headers = (\<lambda>h. Unknown),
      require_any = (\<lambda>r rs. if r = Admin \<or> r \<in> set rs then Inr () else Inl ''forbidden''),
      show_signature = (\<lambda>sig. ''sig''),
      show_hash = (\<lambda>h. ''hash''),
      pubkey_from_str = (\<lambda>t. if t = [] then Inl ''empty'' else Inr [5]),
      signature_from_str = (\<lambda>t. if t = [] then Inl ''empty'' else Inr [6]),
      header_to_str = (\<lambda>b. Some (map (\<lambda>w. char_of (unat w)) b)),
      parse_submit = (\<lambda>b. if b = [] then Inl ''eof'' else Inr sample_submit),
      parse_cancel = (\<lambda>b. if b = [] then Inl ''eof'' else Inr sample_cancel),
      parse_mint = (\<lambda>b. if b = [] then Inl ''eof'' else Inr sample_mint),
      parse_status = (\<lambda>b. if b = [] then Inl ''eof'' else Inr sample_status),
      serialize_reply = (\<lambda>r. Inr []),
      canonical_submit_bytes = (\<lambda>m. [1]),
      canonical_cancel_bytes = (\<lambda>m. [2]),
      canonical_mint_bytes = (\<lambda>m. [3]),
      canonical_status_bytes = (\<lambda>m. [4]),
      energy_kwh_to_base_units = (\<lambda>k. Inr 5),
      build_generation_mint_instructions = (\<lambda>p r a m w. Inr []),
      set_compute_unit_limit = (\<lambda>u. \<lparr>program_id = [3], account_metas = [], instruction_data = []\<rparr>),
      message_new = (\<lambda>ixs p. sample_message),
      new_unsigned = (\<lambda>m. \<lparr>signatures = [], message = m\<rparr>),
      json = sample_json\<rparr>"

definition sample_status_json :: json where
  "sample_status_json = JObject [(''slot'', JUInt 42), (''err'', JNull)]"

definition sample_env :: env where
  "sample_env =
     \<lparr>clock_ms = (\<lambda>h. 2000), clock_secs = (\<lambda>h. 2),
      on_latest_blockhash = (\<lambda>h. Inr (replicate 32 8, 100)),
      on_simulate = (\<lambda>h tx. Inr \<lparr>sim_err = None, sim_logs = None, units_consumed = None\<rparr>),
      on_send = (\<lambda>h tx. Inr (hd (signatures tx))),
      on_sign = (\<lambda>h key msg. Inr [77]),
      on_public_key = (\<lambda>h key. Inr [1]),
      on_statuses = (\<lambda>h sigs. Inr [Some sample_status_json]),
      on_balance = (\<lambda>h p. Inr 10), on_account = (\<lambda>h p. Inl ''AccountNotFound''),
      on_fees = (\<lambda>h ps. Inr []), on_token_balance = (\<lambda>h p. Inl ''none''),
      on_slot = (\<lambda>h. Inr 3), on_airdrop = (\<lambda>h p l. Inr [78]),
      on_transaction = (\<lambda>h sig. Inl ''not found''),
      on_epoch = (\<lambda>h. Inr \<lparr>ei_epoch = 1, ei_absolute_slot = 3\<rparr>),
      on_audit = (\<lambda>h e. Inr 1), on_publish = (\<lambda>h sub p. Inr ())\<rparr>"

definition sample_cfg :: config where
  "sample_cfg =
     \<lparr>transit_key_name = ''gridtokenx-bridge'', presign_disable_var = None,
      insecure_var = None, allow_header_auth_var = None, info_enabled = True\<rparr>"

definition sample_state :: bridge where
  "sample_state =
     \<lparr>trace = [], blockhash_cache = Some (replicate 32 9, 100),
      idempotency_cache = Map.empty, idempotency_clone = Map.empty, dedup_store = Map.empty\<rparr>"

lemmas sample_defs = sample_ext_def sample_env_def sample_cfg_def sample_state_def sample_tx_def
  sample_message_def sample_json_def sample_status_json_def sample_submit_def sample_cancel_def
  sample_mint_def sample_status_def sample_auth_def

lemma sample_identities [simp]:
  "sample_role trading_identity = TradingMatcher"
  "sample_role aggregator_identity = AggregatorBridge"
  "sample_role meter_identity = MeterService"
  by (simp_all add: sample_role_def trading_identity_def aggregator_identity_def meter_identity_def)

text \<open>The transaction the sample world signs and sends, and the whole run of the pipeline on it.\<close>

definition sample_filled :: transaction where
  "sample_filled = set_blockhash sample_tx (replicate 32 9)"

definition sample_signed :: transaction where
  "sample_signed = sample_filled\<lparr>signatures := [[77]]\<rparr>"

lemmas pipeline_defs = sign_and_submit_def submit_signed_def prepare_signed_def fill_blockhash_def
  blockhash_get_def presign_simulate_def vault_sign_transaction_def submit_audited_def
  record_audit_def port_defs

lemma sample_run:
  "events_of (sign_and_submit sample_ext sample_env sample_cfg [9, 9, 9] ''platform_admin''
     trading_identity ''c1'') sample_state =
   [EvSimulate sample_filled (Inr \<lparr>sim_err = None, sim_logs = None, units_consumed = None\<rparr>),
    EvSign ''gridtokenx-bridge'' ([1, 2] @ replicate 32 9) (Inr [77]),
    EvSend sample_signed (Inr [77]), EvClock 2000,
    EvAudit (audit_entry_new ''c1'' trading_identity ''sign_and_submit'' (Submitted ''sig'' 0) 2000)
      (Inr 1)]"
  by (simp add: pipeline_defs events_of_def sample_defs sample_filled_def sample_signed_def
      set_blockhash_def signer_log_panics_def required_signatures_def attach_signature_def
      grow_signatures_def resize_def default_hash_def)

lemma sample_run_result:
  "result_of (sign_and_submit sample_ext sample_env sample_cfg [9, 9, 9] ''platform_admin''
     trading_identity ''c1'') sample_state = Ok ([77], 0)"
  by (simp add: pipeline_defs sample_defs set_blockhash_def signer_log_panics_def
      required_signatures_def attach_signature_def grow_signatures_def resize_def default_hash_def)

text \<open>A decoder that yields a transaction with no signature slot.\<close>

definition unsigned_tx :: transaction where
  "unsigned_tx =
     \<lparr>signatures = [], message = sample_message\<lparr>
        header := (header sample_message)\<lparr>num_required_signatures := 0\<rparr>,
        recent_blockhash := replicate 32 9\<rparr>\<rparr>"

definition unsigned_ext :: externals where
  "unsigned_ext = sample_ext\<lparr>deserialize_tx := \<lambda>b. Inr unsigned_tx\<rparr>"

end
