(* ===== verification/Rpc_Properties.thy ===== *)
theory Rpc_Properties
  imports Rpc_Handlers Sample_World
begin

text \<open>
  The properties of the synchronous path, from the peer certificate to the status code: whose
  role a call runs with, that the role guard precedes every service call, that only
  \<open>SubmitTransaction\<close> can sign or send, and what an error code says about effects.
\<close>

section \<open>All methods as one service\<close>

datatype rpc_request =
    SubmitTransaction bytes string
  | GetBalance string
  | GetAccountData string
  | GetLatestBlockhash
  | GetRecentPrioritizationFees "string list"
  | GetTokenAccountBalance string
  | GetSignatureStatus string
  | GetSlot
  | RequestAirdrop string u64
  | GetTransactionDetails string
  | GetEpochInfo

datatype rpc_response =
    RSubmit submit_transaction_response
  | RLamports u64
  | RAccount account_data_response
  | RBlockhash latest_blockhash_response
  | RFees "prioritization_fee list"
  | RToken token_balance_response
  | RStatus signature_status_response
  | RSlot u64
  | RAirdrop airdrop_response
  | RDetails transaction_details_response
  | REpoch epoch_info_response

definition respond :: "('a \<Rightarrow> 'b) \<Rightarrow> 'a rpc_result io \<Rightarrow> 'b rpc_result io" where
  "respond f m = do { r \<leftarrow> m; State_Monad.return (map_outcome id f r) }"

fun serve_rpc :: "externals \<Rightarrow> env \<Rightarrow> config \<Rightarrow> rpc_request \<Rightarrow> header_map \<Rightarrow> rpc_response rpc_result io" where
  "serve_rpc X E C (SubmitTransaction raw key) hs = respond RSubmit (submit_transaction X E C hs raw key)"
| "serve_rpc X E C (GetBalance k) hs = respond RLamports (get_balance X E C hs k)"
| "serve_rpc X E C (GetAccountData k) hs = respond RAccount (get_account_data X E C hs k)"
| "serve_rpc X E C GetLatestBlockhash hs = respond RBlockhash (get_latest_blockhash X E C hs)"
| "serve_rpc X E C (GetRecentPrioritizationFees ks) hs =
     respond RFees (get_recent_prioritization_fees X E C hs ks)"
| "serve_rpc X E C (GetTokenAccountBalance k) hs = respond RToken (get_token_account_balance X E C hs k)"
| "serve_rpc X E C (GetSignatureStatus t) hs = respond RStatus (get_signature_status X E C hs t)"
| "serve_rpc X E C GetSlot hs = respond RSlot (get_slot X E C hs)"
| "serve_rpc X E C (RequestAirdrop k n) hs = respond RAirdrop (request_airdrop X E C hs k n)"
| "serve_rpc X E C (GetTransactionDetails t) hs = respond RDetails (get_transaction_details X E C hs t)"
| "serve_rpc X E C GetEpochInfo hs = respond REpoch (get_epoch_info X E C hs)"

fun allowed_roles :: "rpc_request \<Rightarrow> service_role list" where
  "allowed_roles (SubmitTransaction _ _) = submit_roles"
| "allowed_roles (RequestAirdrop _ _) = airdrop_roles"
| "allowed_roles GetEpochInfo = epoch_roles"
| "allowed_roles GetLatestBlockhash = internal_read_roles"
| "allowed_roles (GetRecentPrioritizationFees _) = internal_read_roles"
| "allowed_roles GetSlot = internal_read_roles"
| "allowed_roles _ = all_read_roles"

lemma respond_denied [simp]:
  "respond f (State_Monad.return (Err e)) = State_Monad.return (Err e)"
  by (simp add: respond_def)

lemma emits_respond [emits_rules]: "emits P m \<Longrightarrow> emits P (respond f m)"
  unfolding respond_def by (intro emits_rules)

lemma serve_rpc_denied:
  "require_any X (extract_role X C hs) (allowed_roles req) = Inl msg \<Longrightarrow>
   serve_rpc X E C req hs = State_Monad.return (Err (PermissionDenied, msg))"
  by (cases req)
    (simp_all add: submit_rpc.denied balance_rpc.denied account_rpc.denied blockhash_rpc.denied
      fees_rpc.denied token_rpc.denied status_rpc.denied slot_rpc.denied airdrop_rpc.denied
      details_rpc.denied epoch_rpc.denied)

interpretation service: guarded_rpc X C "allowed_roles req" "serve_rpc X E C req" for X C req E
  by unfold_locales (rule serve_rpc_denied)

section \<open>Identity\<close>

text \<open>The certificate decides the identity. When the leaf certificate of the connection names a
  SPIFFE identity, the role of the call is the role of that identity, whatever headers the client
  sent and however the development flags are set.\<close>

lemma certificate_decides_role:
  assumes "extract_spiffe_id K leaf = Some uri"
    and "header_value_parse K uri = Some hv" and "header_to_str X hv = Some uri"
  shows "extract_role X C (headers (mtls_request K (Some (leaf # rest)) req)) = role_of_identity X uri"
  using mtls_headers_san [OF refl assms(1,2)] assms(3)
  by (simp add: extract_role_def role_from_def spiffe_of_headers_def)

definition sample_pki :: pki where
  "sample_pki =
     \<lparr>parse_x509_pem = (\<lambda>b. if b = [] then Inl ''empty'' else Inr [1]),
      certificate_from_der = (\<lambda>der. if der = [0] then Inl ''bad''
        else Inr \<lparr>cert_extensions =
                   [OtherExtension, SubjectAlternativeName [OtherName ''x'', URI aggregator_identity]],
                  subject_public_key = [4], cert_tbs = der\<rparr>),
      asn1_from_timestamp = (\<lambda>t. Some 0), asn1_now = 0,
      is_valid_at = (\<lambda>c t. True), verify_cert_signature = (\<lambda>leaf ca. True),
      base64_decode = (\<lambda>t. Inr [3]),
      verify_p256_signature = (\<lambda>point msg sig. if sig = [3] then Inr () else Inl ''bad signature''),
      envelope_auth_scheme_v1 = ''p256-v1'',
      header_value_parse = (\<lambda>t. Some (as_bytes t))\<rparr>"

lemma sample_spiffe: "extract_spiffe_id sample_pki [1] = Some aggregator_identity"
  by (simp add: extract_spiffe_id_def sample_pki_def starts_with_def aggregator_identity_def)

lemma sample_header_text: "header_to_str sample_ext (as_bytes t) = Some t"
  by (simp add: sample_ext_def as_bytes_def comp_def unsigned_of_nat take_bit_eq_mod)

definition plain_request :: "header_map \<Rightarrow> http_request" where
  "plain_request hs =
     \<lparr>headers = hs, ext_certs = None, ext_spiffe_uri = None, ext_spiffe_identity = None\<rparr>"

lemma certificate_decides_role_witness:
  "extract_role sample_ext sample_cfg
     (headers (mtls_request sample_pki (Some [[1]])
       (plain_request [spiffe_header \<mapsto> as_bytes trading_identity]))) = AggregatorBridge"
proof -
  have "header_value_parse sample_pki aggregator_identity = Some (as_bytes aggregator_identity)"
    by (simp add: sample_pki_def)
  from certificate_decides_role [OF sample_spiffe this sample_header_text] show ?thesis
    by (simp add: sample_ext_def)
qed

text \<open>A client header survives a certificate without a SPIFFE name. If the connection carries no
  certificate or its leaf has no SPIFFE URI, the identity header the client sent itself reaches
  the handler unchanged and decides the role.\<close>

lemma client_header_kept_without_san:
  assumes "\<And>leaf rest. certs = Some (leaf # rest) \<Longrightarrow> extract_spiffe_id K leaf = None"
    and "headers req spiffe_header = Some v" and "header_to_str X v = Some ident"
  shows "extract_role X C (headers (mtls_request K certs req)) = role_of_identity X ident"
  using mtls_headers_no_san [of certs K, OF assms(1)] assms(2,3)
  by (simp add: extract_role_def role_from_def spiffe_of_headers_def)

lemma client_header_kept_without_san_witness:
  "extract_role sample_ext sample_cfg
     (headers (mtls_request sample_pki (Some [[0]])
       (plain_request [spiffe_header \<mapsto> as_bytes trading_identity]))) = TradingMatcher"
proof -
  have "extract_role sample_ext sample_cfg
     (headers (mtls_request sample_pki (Some [[0]])
       (plain_request [spiffe_header \<mapsto> as_bytes trading_identity]))) =
     role_of_identity sample_ext trading_identity"
    by (rule client_header_kept_without_san [OF _ _ sample_header_text])
      (simp_all add: plain_request_def extract_spiffe_id_def sample_pki_def)
  then show ?thesis by (simp add: sample_ext_def)
qed

section \<open>Authorization of a call\<close>

text \<open>A denied call is invisible. A caller whose role is not accepted for the method gets
  \<open>PermissionDenied\<close> with the guard's message; no service is called, nothing is audited and the
  bridge's state is unchanged.\<close>

lemma denied_rpc_has_no_effect:
  assumes "require_any X (extract_role X C hs) (allowed_roles req) = Inl msg"
  shows "run_state (serve_rpc X E C req hs) s = (Err (PermissionDenied, msg), s)"
  by (rule service.denied_run [OF assms])

lemma denied_rpc_has_no_effect_witness:
  "run_state (serve_rpc sample_ext sample_env sample_cfg (RequestAirdrop ''w'' 1) Map.empty) sample_state
     = (Err (PermissionDenied, ''forbidden''), sample_state)"
  by (rule denied_rpc_has_no_effect)
    (simp add: sample_defs extract_role_def role_from_def spiffe_of_headers_def airdrop_roles_def)

lemma read_requests_emit:
  assumes "\<nexists>raw key. req = SubmitTransaction raw key"
  shows "emits (\<lambda>e. \<not> is_effect e \<and> \<not> is_audit e) (serve_rpc X E C req hs)"
  using assms
  by (cases req)
    (simp_all add: emits_respond balance_rpc.reads account_rpc.reads blockhash_rpc.reads
      fees_rpc.reads token_rpc.reads status_rpc.reads slot_rpc.reads airdrop_rpc.reads
      details_rpc.reads epoch_rpc.reads)

lemma emits_submit_transaction:
  assumes "\<And>e. \<not> is_effect e \<Longrightarrow> P e"
    and "\<And>e tx. is_effect e \<Longrightarrow> require_any X (extract_role X C hs) submit_roles = Inr () \<Longrightarrow>
      deserialize_tx X raw = Inr tx \<Longrightarrow>
      validate_transaction X (unwrap_or (spiffe_of_headers X hs) ''unknown'') tx = Inr () \<Longrightarrow>
      key = ''platform_admin'' \<or> key = [] \<Longrightarrow> P e"
  shows "emits P (submit_transaction X E C hs raw key)"
  unfolding submit_transaction_def Let_def
  by (intro emits_rules) (auto intro: assms)

lemma rpc_effects_guarded:
  assumes "e \<in> set (events_of (serve_rpc X E C req hs) s)" and "is_effect e"
  shows "\<exists>raw key tx. req = SubmitTransaction raw key \<and>
     require_any X (extract_role X C hs) submit_roles = Inr () \<and>
     deserialize_tx X raw = Inr tx \<and>
     validate_transaction X (unwrap_or (spiffe_of_headers X hs) ''unknown'') tx = Inr () \<and>
     (key = ''platform_admin'' \<or> key = [])"
proof -
  obtain raw key where req: "req = SubmitTransaction raw key"
    using emits_events(2) [OF read_requests_emit assms(1)] assms(2) by blast
  let ?P = "\<lambda>e. is_effect e \<longrightarrow> require_any X (extract_role X C hs) submit_roles = Inr () \<and>
     (\<exists>tx. deserialize_tx X raw = Inr tx \<and>
       validate_transaction X (unwrap_or (spiffe_of_headers X hs) ''unknown'') tx = Inr ()) \<and>
     (key = ''platform_admin'' \<or> key = [])"
  have "emits ?P (serve_rpc X E C req hs)"
    unfolding req serve_rpc.simps by (intro emits_respond emits_submit_transaction) auto
  from emits_events(2) [OF this assms(1)] assms(2) req show ?thesis by blast
qed

text \<open>C11: complete mediation of the synchronous path. A Vault signature or a submission happens
  during an RPC only if the call is \<open>SubmitTransaction\<close>, the caller's role is on the submit list,
  the payload decodes and the policy engine accepts it for the caller's identity, and the key id is
  \<open>platform_admin\<close> or empty.\<close>

theorem rpc_effects_mediated:
  assumes "e \<in> set (events_of (serve_rpc X E C req hs) s)" and "is_effect e"
  shows "\<exists>raw key tx. req = SubmitTransaction raw key \<and>
     require_any X (extract_role X C hs) submit_roles = Inr () \<and>
     deserialize_tx X raw = Inr tx \<and>
     validate_transaction X (unwrap_or (spiffe_of_headers X hs) ''unknown'') tx = Inr () \<and>
     (key = ''platform_admin'' \<or> key = [])"
  using assms by (rule rpc_effects_guarded)

definition trading_headers :: header_map where
  "trading_headers = [spiffe_header \<mapsto> as_bytes trading_identity]"

lemma trading_role:
  "spiffe_of_headers sample_ext trading_headers = Some trading_identity"
  "extract_role sample_ext sample_cfg trading_headers = TradingMatcher"
proof -
  show 1: "spiffe_of_headers sample_ext trading_headers = Some trading_identity"
    by (simp add: spiffe_of_headers_def trading_headers_def sample_header_text)
  then show "extract_role sample_ext sample_cfg trading_headers = TradingMatcher"
    by (simp add: extract_role_def role_from_def) (simp add: sample_ext_def)
qed

lemma trading_allowed:
  "require_any sample_ext (extract_role sample_ext sample_cfg trading_headers) submit_roles = Inr ()"
  unfolding trading_role by (simp add: sample_ext_def submit_roles_def)

lemma trading_submit_events:
  "events_of (serve_rpc sample_ext sample_env sample_cfg (SubmitTransaction [9, 9, 9] ''platform_admin'')
     trading_headers) sample_state =
   events_of (sign_and_submit sample_ext sample_env sample_cfg [9, 9, 9] ''platform_admin''
     trading_identity []) sample_state"
  by (simp add: respond_def submit_transaction_def with_roles_def trading_allowed trading_role(1)
      events_of_def split_beta)

theorem rpc_effects_mediated_witness:
  "\<exists>raw key tx. SubmitTransaction [9, 9, 9] ''platform_admin'' = SubmitTransaction raw key \<and>
     require_any sample_ext (extract_role sample_ext sample_cfg trading_headers) submit_roles = Inr () \<and>
     deserialize_tx sample_ext raw = Inr tx \<and>
     validate_transaction sample_ext (unwrap_or (spiffe_of_headers sample_ext trading_headers) ''unknown'')
       tx = Inr () \<and>
     (key = ''platform_admin'' \<or> key = [])"
proof (rule rpc_effects_mediated)
  show "EvSend sample_signed (Inr [77]) \<in> set (events_of (serve_rpc sample_ext sample_env sample_cfg
      (SubmitTransaction [9, 9, 9] ''platform_admin'') trading_headers) sample_state)"
    unfolding trading_submit_events
    by (simp add: pipeline_defs events_of_def sample_defs sample_filled_def sample_signed_def
      set_blockhash_def signer_log_panics_def required_signatures_def attach_signature_def
      grow_signatures_def resize_def default_hash_def)
qed simp




section \<open>Status codes\<close>

lemma early_failure_no_effect:
  assumes "result_of (sign_and_submit X E C raw key ident corr) s = Err st"
    and "fst (stage_status st) \<noteq> Unavailable"
  shows "filter is_effect (events_of (sign_and_submit X E C raw key ident corr) s) = []"
  using sign_and_submit_events(2) [of X E C raw key ident corr s] assms
  by (auto simp: pipeline_effects_def dest!: send_answerD)

text \<open>C36: what an error code promises. If \<open>SubmitTransaction\<close> fails with any code other than
  \<open>Unavailable\<close>, nothing was signed and nothing was sent; with \<open>Unavailable\<close> the client must
  assume that the transaction may have reached the cluster.\<close>

theorem submit_error_code_effect:
  assumes "result_of (submit_transaction X E C hs raw key) s = Err (code, msg)"
    and "code \<noteq> Unavailable"
  shows "filter is_effect (events_of (submit_transaction X E C hs raw key) s) = []"
proof (cases "require_any X (extract_role X C hs) submit_roles")
  case (Inl m)
  then show ?thesis by (simp add: submit_rpc.denied events_of_def)
next
  case (Inr u)
  let ?m = "sign_and_submit X E C raw key (unwrap_or (spiffe_of_headers X hs) ''unknown'') []"
  have ev: "events_of (submit_transaction X E C hs raw key) s = events_of ?m s"
    using Inr by (simp add: submit_transaction_def with_roles_def Let_def events_of_def split_beta)
  from assms(1) Inr obtain st where "result_of ?m s = Err st" "stage_status st = (code, msg)"
    by (auto simp: submit_transaction_def with_roles_def Let_def split_beta
        split: outcome.splits prod.splits)
  with early_failure_no_effect assms(2) show ?thesis unfolding ev by (metis fst_conv)
qed

theorem submit_error_code_effect_witness:
  "filter is_effect (events_of (submit_transaction sample_ext sample_env sample_cfg trading_headers []
     ''platform_admin'') sample_state) = []"
proof (rule submit_error_code_effect)
  show "result_of (submit_transaction sample_ext sample_env sample_cfg trading_headers []
      ''platform_admin'') sample_state = Err (InvalidArgument, ''Invalid transaction format'')"
    by (simp add: submit_transaction_def with_roles_def trading_allowed sign_and_submit_def Let_def)
      (simp add: sample_ext_def)
qed simp

end
