(* ===== verification/Nats_Properties.thy ===== *)
theory Nats_Properties
  imports Handler_Logic Rpc_Properties
begin

text \<open>
  The properties of the asynchronous path: complete mediation, with the stricter rule for mints;
  one acknowledgement and at most one reply per message; staleness; the bound on submissions; the
  effect of cancellations; what survives in the two maps.
\<close>

section \<open>Effects of the handlers\<close>

text \<open>The conditions under which \<open>handle_submit\<close> may sign or send for an envelope.\<close>

definition submit_guards :: "externals \<Rightarrow> consumer \<Rightarrow> tx_submit_message \<Rightarrow> i64 \<Rightarrow> bool" where
  "submit_guards X N m now \<longleftrightarrow>
     auth_decision (check_envelope_auth (cn_pki N) (ca_der (cn_auth_policy N)) (ts_auth m)
         (ts_service_identity m) (canonical_submit_bytes X m) now)
       (require_signed (cn_auth_policy N)) = Inr () \<and>
     role_of_identity X (ts_service_identity m) \<noteq> Unknown \<and>
     (\<exists>tx. deserialize_tx X (ts_serialized_tx m) = Inr tx \<and>
        validate_transaction X (ts_service_identity m) tx = Inr ()) \<and>
     (ts_key_id m = ''platform_admin'' \<or> ts_key_id m = [])"

text \<open>The same for \<open>handle_mint\<close>: the envelope must be authentic whatever the policy says.\<close>

definition mint_guards :: "externals \<Rightarrow> consumer \<Rightarrow> mint_energy_message \<Rightarrow> i64 \<Rightarrow> bool" where
  "mint_guards X N m now \<longleftrightarrow>
     (\<exists>ca auth. ca_der (cn_auth_policy N) = Some ca \<and> me_auth m = Some auth \<and>
        authentic (cn_pki N) ca auth (me_service_identity m) (canonical_mint_bytes X m) now) \<and>
     require_any X (role_of_identity X (me_service_identity m)) mint_roles = Inr () \<and>
     (\<exists>payer raw tx.
        mint_intent_tx X (me_recipient_wallet m) (me_energy_kwh m) (me_meter_id m)
          (me_window_start_ms m) payer raw \<and>
        deserialize_tx X raw = Inr tx \<and> validate_transaction X (me_service_identity m) tx = Inr ())"

lemma extends_submit_execute:
  assumes "retry_contract (cn_retry N)" "\<And>e. \<not> is_effect e \<Longrightarrow> P e"
    and "\<And>e tx. is_effect e \<Longrightarrow> deserialize_tx X (ts_serialized_tx m) = Inr tx \<Longrightarrow>
      validate_transaction X (ts_service_identity m) tx = Inr () \<Longrightarrow>
      ts_key_id m = ''platform_admin'' \<or> ts_key_id m = [] \<Longrightarrow> P e"
  shows "extends P (submit_execute X E C N m dk now)"
  unfolding submit_execute_def
  by (intro extends_rules emits_retry [of "cn_retry N", THEN emits_extends] emits_sign_and_submit)
    (auto intro: assms)

lemma extends_submit_claim:
  assumes "retry_contract (cn_retry N)" "\<And>e. \<not> is_effect e \<Longrightarrow> P e"
    and "\<And>e tx. is_effect e \<Longrightarrow> deserialize_tx X (ts_serialized_tx m) = Inr tx \<Longrightarrow>
      validate_transaction X (ts_service_identity m) tx = Inr () \<Longrightarrow>
      ts_key_id m = ''platform_admin'' \<or> ts_key_id m = [] \<Longrightarrow> P e"
  shows "extends P (submit_claim X E C N m now)"
  unfolding submit_claim_def
  by (intro extends_rules extends_submit_execute) (auto intro: assms)

lemma extends_submit_admit:
  assumes "retry_contract (cn_retry N)" "\<And>e. \<not> is_effect e \<Longrightarrow> P e"
    and "\<And>e tx. is_effect e \<Longrightarrow> role_of_identity X (ts_service_identity m) \<noteq> Unknown \<Longrightarrow>
      deserialize_tx X (ts_serialized_tx m) = Inr tx \<Longrightarrow>
      validate_transaction X (ts_service_identity m) tx = Inr () \<Longrightarrow>
      ts_key_id m = ''platform_admin'' \<or> ts_key_id m = [] \<Longrightarrow> P e"
  shows "extends P (submit_admit X E C N m)"
  unfolding submit_admit_def submit_fresh_def submit_check_def
  by (intro extends_rules extends_submit_claim) (auto intro: assms)

lemma extends_auth_bind:
  assumes "extends P (evaluate_envelope_auth E K A auth claimed canonical force_signed)"
    and "\<And>why. extends P (f (Inl why))"
    and "\<And>now. now \<in> range (clock_secs E) \<Longrightarrow>
      auth_decision (check_envelope_auth K (ca_der A) auth claimed canonical now)
        (require_signed A \<or> force_signed) = Inr () \<Longrightarrow> extends P (f (Inr ()))"
  shows "extends P (State_Monad.bind (evaluate_envelope_auth E K A auth claimed canonical force_signed) f)"
proof (rule extends_bind_result [OF assms(1)])
  let ?R = "\<lambda>r. \<exists>now\<in>range (clock_secs E).
      r = auth_decision (check_envelope_auth K (ca_der A) auth claimed canonical now)
        (require_signed A \<or> force_signed)"
  show "?R (result_of (evaluate_envelope_auth E K A auth claimed canonical force_signed) s)" for s
    unfolding evaluate_envelope_auth_result by blast
  show "extends P (f r)" if "?R r" for r
  proof (cases r)
    case (Inr u)
    from that obtain now where now: "now \<in> range (clock_secs E)"
      "r = auth_decision (check_envelope_auth K (ca_der A) auth claimed canonical now)
        (require_signed A \<or> force_signed)" by blast
    from assms(3) [OF now(1)] now(2) Inr show ?thesis by simp
  qed (simp add: assms(2))
qed

lemma extends_handle_submit:
  assumes "retry_contract (cn_retry N)" "parse_submit X payload = Inr m"
  shows "extends (\<lambda>e. is_effect e \<longrightarrow> (\<exists>now\<in>range (clock_secs E). submit_guards X N m now)) (handle_submit X E C N payload)"
  unfolding handle_submit_def assms(2) sum.case
proof (rule extends_auth_bind, goal_cases)
  case (3 now)
  show ?case
    unfolding sum.case
    by (rule extends_submit_admit [OF assms(1)])
      (use 3 in \<open>auto simp: submit_guards_def intro!: bexI [of _ now]\<close>)
qed (intro extends_rules; simp)+

lemma extends_mint_admit:
  assumes "\<And>e. \<not> is_effect e \<Longrightarrow> P e"
    and "\<And>e payer raw tx. is_effect e \<Longrightarrow>
      require_any X (role_of_identity X (me_service_identity m)) mint_roles = Inr () \<Longrightarrow>
      mint_intent_tx X (me_recipient_wallet m) (me_energy_kwh m) (me_meter_id m)
        (me_window_start_ms m) payer raw \<Longrightarrow>
      deserialize_tx X raw = Inr tx \<Longrightarrow> validate_transaction X (me_service_identity m) tx = Inr () \<Longrightarrow> P e"
  shows "extends P (mint_admit X E C m)"
  unfolding mint_admit_def mint_fresh_def mint_claim_def mint_execute_def
  by (intro extends_rules) (auto intro: assms)

lemma extends_handle_mint:
  assumes "parse_mint X payload = Inr m"
  shows "extends (\<lambda>e. is_effect e \<longrightarrow> (\<exists>now\<in>range (clock_secs E). mint_guards X N m now)) (handle_mint X E C N payload)"
  unfolding handle_mint_def assms sum.case
proof (rule extends_auth_bind, goal_cases)
  case (3 now)
  then have ver: "\<exists>ca auth. ca_der (cn_auth_policy N) = Some ca \<and> me_auth m = Some auth \<and>
        authentic (cn_pki N) ca auth (me_service_identity m) (canonical_mint_bytes X m) now"
    by (simp add: auth_decision_ok check_envelope_auth_Verified)
  show ?case
    unfolding sum.case
    by (rule extends_mint_admit) (use ver 3(1) in \<open>auto simp: mint_guards_def intro!: bexI [of _ now]\<close>)
qed (intro extends_rules; simp)+

lemma extends_other_handlers:
  assumes "\<And>e. \<not> is_effect e \<Longrightarrow> P e"
  shows "extends P (handle_cancel X E N payload)" and "extends P (handle_status X E N payload)"
  unfolding handle_cancel_def cancel_admit_def handle_status_def
  by (intro extends_rules; simp add: assms)+

lemma message_effects_guarded:
  assumes "retry_contract (cn_retry N)"
    and "e \<in> set (events_of (handle_message X E C N subject payload) s)" and "is_effect e"
  shows "(\<exists>m. \<exists>now\<in>range (clock_secs E). subject = ''chain.tx.submit'' \<and>
        parse_submit X payload = Inr m \<and> submit_guards X N m now) \<or>
     (\<exists>m. \<exists>now\<in>range (clock_secs E). subject = ''chain.tx.mint'' \<and>
        parse_mint X payload = Inr m \<and> mint_guards X N m now)"
proof -
  have none: "\<not> is_effect e'" if "extends (\<lambda>e. \<not> is_effect e) m" "e' \<in> set (events_of m s)"
    for m :: "handled io" and e'
    using extends_events(2) [OF that(1) that(2)] .
  have fin: "extends (\<lambda>e. \<not> is_effect e) (finish k)" for k by (intro extends_rules) simp
  consider (submit) "subject = ''chain.tx.submit''" | (mint) "subject = ''chain.tx.mint''"
    | (other) "subject \<noteq> ''chain.tx.submit''" "subject \<noteq> ''chain.tx.mint''" by blast
  then show ?thesis
  proof cases
    case submit
    then have ev: "e \<in> set (events_of (handle_submit X E C N payload) s)"
      using assms(2) by (simp add: handle_message_def)
    show ?thesis
    proof (cases "parse_submit X payload")
      case (Inl err)
      then have "handle_submit X E C N payload = finish Term" by (simp add: handle_submit_def)
      with none [OF fin] ev assms(3) show ?thesis by metis
    next
      case (Inr m)
      from extends_events(2) [OF extends_handle_submit [OF assms(1) Inr] ev] assms(3) Inr submit
      show ?thesis by blast
    qed
  next
    case mint
    then have ev: "e \<in> set (events_of (handle_mint X E C N payload) s)"
      using assms(2) by (simp add: handle_message_def)
    show ?thesis
    proof (cases "parse_mint X payload")
      case (Inl err)
      then have "handle_mint X E C N payload = finish Term" by (simp add: handle_mint_def)
      with none [OF fin] ev assms(3) show ?thesis by metis
    next
      case (Inr m)
      from extends_events(2) [OF extends_handle_mint [OF Inr] ev] assms(3) Inr mint
      show ?thesis by blast
    qed
  next
    case other
    then have "extends (\<lambda>e. \<not> is_effect e) (handle_message X E C N subject payload)"
      unfolding handle_message_def by (simp add: extends_other_handlers fin)
    with none assms(2,3) show ?thesis by blast
  qed
qed

text \<open>C3: complete mediation of the asynchronous path. Whatever message arrives on whatever subject, a
  Vault signature or a submission happens only for a submit message whose envelope passed the
  configured authentication, whose sender has a known role, whose transaction the policy engine
  accepts for that sender and whose key id is \<open>platform_admin\<close> or empty; or for a mint message
  with an authentic signature of the trusted CA's certificate holder over exactly its canonical
  bytes, a minting role, and a transaction built from the message's own intent that the policy
  engine accepts.\<close>

theorem nats_effects_mediated:
  assumes "retry_contract (cn_retry N)"
    and "e \<in> set (events_of (handle_message X E C N subject payload) s)" and "is_effect e"
  shows "(\<exists>m. \<exists>now\<in>range (clock_secs E). subject = ''chain.tx.submit'' \<and>
        parse_submit X payload = Inr m \<and> submit_guards X N m now) \<or>
     (\<exists>m. \<exists>now\<in>range (clock_secs E). subject = ''chain.tx.mint'' \<and>
        parse_mint X payload = Inr m \<and> mint_guards X N m now)"
  using assms by (rule message_effects_guarded)

definition sample_consumer :: consumer where
  "sample_consumer =
     \<lparr>cn_pki = sample_pki, cn_auth_policy = nats_auth_policy_new False (Some [2]),
      cn_retry = retry_fixed\<rparr>"

lemma sample_consumer_simps [simp]:
  "cn_pki sample_consumer = sample_pki" "cn_retry sample_consumer = retry_fixed"
  "ca_der (cn_auth_policy sample_consumer) = Some [2]"
  "require_signed (cn_auth_policy sample_consumer) = False"
  by (simp_all add: sample_consumer_def nats_auth_policy_new_def)

lemmas handler_defs = handle_message_def handle_submit_def submit_admit_def submit_fresh_def
  submit_check_def submit_claim_def submit_execute_def handle_cancel_def cancel_admit_def
  handle_mint_def mint_admit_def mint_fresh_def mint_claim_def mint_execute_def
  evaluate_envelope_auth_def audit_rejection_def publish_result_def publish_cancel_result_def
  publish_mint_result_def publish_reply_def finish_def dedup_claim_def idempotency_insert_def

lemmas sample_eval = Let_def check_envelope_auth_def auth_decision_def saturating_sub_def max_age_ms_def
  submit_dedup_key_def mint_dedup_key_def claim_or_replay_def record_done_def dedup_ttl_ms_def
  idempotency_ttl_ms_def pipeline_defs events_of_def sample_defs sample_filled_def sample_signed_def
  set_blockhash_def signer_log_panics_def required_signatures_def attach_signature_def
  grow_signatures_def resize_def default_hash_def

lemma sample_submit_sends:
  "EvSend sample_signed (Inr [77]) \<in> set (events_of (handle_message sample_ext sample_env sample_cfg
     sample_consumer ''chain.tx.submit'' [1]) sample_state)"
  by (simp add: handler_defs sample_eval)

theorem nats_effects_mediated_witness:
  "(\<exists>m. \<exists>now\<in>range (clock_secs sample_env). ''chain.tx.submit'' = ''chain.tx.submit'' \<and>
        parse_submit sample_ext [1] = Inr m \<and> submit_guards sample_ext sample_consumer m now) \<or>
     (\<exists>m. \<exists>now\<in>range (clock_secs sample_env). ''chain.tx.submit'' = ''chain.tx.mint'' \<and>
        parse_mint sample_ext [1] = Inr m \<and> mint_guards sample_ext sample_consumer m now)"
proof (rule nats_effects_mediated)
  show "retry_contract (cn_retry sample_consumer)" by (simp add: retry_fixed_contract)
  show "EvSend sample_signed (Inr [77]) \<in> set (events_of (handle_message sample_ext sample_env sample_cfg
      sample_consumer ''chain.tx.submit'' [1]) sample_state)"
    by (rule sample_submit_sends)
qed simp

section \<open>Replies and acknowledgements\<close>

lemmas extends_quiet_parts =
  emits_quiet_pipeline [THEN emits_extends] emits_quiet_mint [THEN emits_extends]

lemma extends_quiet_retry:
  "retry_contract (cn_retry N) \<Longrightarrow>
   extends quiet (cn_retry N ds (sign_and_submit X E C raw key ident corr))"
  by (rule emits_extends, rule emits_retry [of "cn_retry N"]) (simp_all add: emits_quiet_pipeline)

text \<open>The two ways a handler ends: the acknowledgement alone, or a reply and the acknowledgement.\<close>

definition settled :: "event list \<Rightarrow> bool" where
  "settled tail \<longleftrightarrow>
     (\<exists>k. tail = [EvAck k] \<or> (\<exists>sub rep a. tail = [EvPublish sub rep a, EvAck k]))"

lemma settled_simps [simp]: "settled [EvAck k]" "settled [EvPublish sub rep a, EvAck k]"
  by (auto simp: settled_def)

lemma claim_correlation:
  "fst (claim_or_replay store key corr now) = Some r \<Longrightarrow> tr_correlation_id r = corr \<and> tr_deduplicated r"
  by (auto simp: claim_or_replay_def Let_def split: option.splits if_splits)

lemma dedup_claim_result:
  "result_of (dedup_claim key corr now) s = fst (claim_or_replay (dedup_store s) key corr now)"
  by (simp add: dedup_claim_def split_beta)

lemma concludes_dedup_claim:
  assumes "\<And>r. tr_correlation_id r = corr \<Longrightarrow> tr_deduplicated r \<Longrightarrow> concludes Q (f (Some r))"
    and "concludes Q (f None)"
  shows "concludes Q (State_Monad.bind (dedup_claim key corr now) f)"
proof (rule concludes_bind_result [where R =
      "\<lambda>x. \<forall>r. x = Some r \<longrightarrow> tr_correlation_id r = corr \<and> tr_deduplicated r"])
  show "extends quiet (dedup_claim key corr now)" by (rule extends_dedup_claim)
  show "\<forall>r. result_of (dedup_claim key corr now) s = Some r \<longrightarrow>
      tr_correlation_id r = corr \<and> tr_deduplicated r" for s
    unfolding dedup_claim_result using claim_correlation by blast
  show "concludes Q (f a)"
    if "\<forall>r. a = Some r \<longrightarrow> tr_correlation_id r = corr \<and> tr_deduplicated r" for a
    using that assms by (cases a) auto
qed

lemma concludes_submit_fresh:
  assumes "retry_contract (cn_retry N)"
    and "\<And>k r a s. tr_correlation_id r = ts_correlation_id m \<Longrightarrow>
      Q [EvPublish (ts_reply_subject m) (TxResult r) a, EvAck k] s"
    and "\<And>k r s. \<not> result_ok (serialize_reply X (TxResult r)) \<Longrightarrow> Q [EvAck k] s"
  shows "concludes Q (submit_fresh X E C N m)"
  unfolding submit_fresh_def submit_check_def submit_claim_def submit_execute_def
  by (intro concludes_dedup_claim concludes_rules extends_rules extends_quiet_retry)
    (simp_all add: assms submit_failure_def)

lemma concludes_handle_submit:
  assumes "retry_contract (cn_retry N)"
  shows "concludes (\<lambda>tail s. settled tail) (handle_submit X E C N payload)"
  unfolding handle_submit_def submit_admit_def
  by (intro concludes_rules extends_rules concludes_submit_fresh) (simp_all add: assms)

lemma concludes_other_handlers:
  "concludes (\<lambda>tail s. settled tail) (handle_cancel X E N payload)"
  "concludes (\<lambda>tail s. settled tail) (handle_status X E N payload)"
  "concludes (\<lambda>tail s. settled tail) (handle_mint X E C N payload)"
  unfolding handle_cancel_def cancel_admit_def handle_status_def handle_mint_def mint_admit_def
    mint_fresh_def mint_claim_def mint_execute_def
  by (intro concludes_rules extends_quiet_parts extends_rules; simp)+

lemma concludes_run:
  assumes "concludes Q m"
  obtains evs tail where "events_of m s = evs @ tail" "\<forall>e\<in>set evs. quiet e"
    "if result_of m s = Aborted then tail = [] else Q tail (final_of m s)"
  using assms unfolding concludes_def events_of_def by (metis append_eq_conv_conj)

text \<open>C13: every message is acknowledged exactly once, as the last thing its handler does, and gets at
  most one reply, published directly before the acknowledgement; a handler that aborts leaves the
  message unacknowledged and unanswered, so the broker redelivers it.\<close>

theorem message_settled_once:
  assumes "retry_contract (cn_retry N)"
  shows "\<exists>evs tail. events_of (handle_message X E C N subject payload) s = evs @ tail \<and>
     filter is_ack evs = [] \<and> filter is_publish evs = [] \<and>
     (if result_of (handle_message X E C N subject payload) s = Aborted then tail = []
      else settled tail)"
proof -
  have "concludes (\<lambda>tail s. settled tail) (handle_message X E C N subject payload)"
    unfolding handle_message_def
    by (intro concludes_cases concludes_other_handlers concludes_handle_submit assms concludes_finish)
      simp
  then obtain evs tail where "events_of (handle_message X E C N subject payload) s = evs @ tail"
    "\<forall>e\<in>set evs. quiet e" "if result_of (handle_message X E C N subject payload) s = Aborted
       then tail = [] else settled tail"
    by (rule concludes_run)
  then show ?thesis
    by (intro exI [of _ evs] exI [of _ tail]) (auto simp: quiet_def filter_empty_conv)
qed

theorem message_settled_once_witness:
  "\<exists>evs tail. events_of (handle_message sample_ext sample_env sample_cfg sample_consumer
       ''chain.tx.submit'' [1]) sample_state = evs @ tail \<and>
     filter is_ack evs = [] \<and> filter is_publish evs = [] \<and>
     (if result_of (handle_message sample_ext sample_env sample_cfg sample_consumer
       ''chain.tx.submit'' [1]) sample_state = Aborted then tail = [] else settled tail)"
  by (rule message_settled_once) (simp add: retry_fixed_contract)

text \<open>A reply to the envelope \<open>m\<close>: on its reply subject, with its correlation id.\<close>

definition submit_replied :: "tx_submit_message \<Rightarrow> event list \<Rightarrow> bool" where
  "submit_replied m tail \<longleftrightarrow>
     (\<exists>r a k. tail = [EvPublish (ts_reply_subject m) (TxResult r) a, EvAck k] \<and>
        tr_correlation_id r = ts_correlation_id m)"

lemma concludes_from:
  assumes "concludes Q m'" "run_state m s = run_state m' s1"
    and "trace s1 = trace s @ pre" "\<forall>e\<in>set pre. quiet e" "result_of m s = Finished"
  shows "\<exists>evs tail. events_of m s = evs @ tail \<and> filter is_publish evs = [] \<and> Q tail (final_of m s)"
proof -
  from assms(1) obtain evs tail where
    "trace (final_of m' s1) = trace s1 @ evs @ tail" "\<forall>e\<in>set evs. quiet e"
    "if result_of m' s1 = Aborted then tail = [] else Q tail (final_of m' s1)"
    unfolding concludes_def by meson
  with assms(2-) show ?thesis
    by (intro exI [of _ "pre @ evs"] exI [of _ tail])
      (auto simp: events_of_def quiet_def filter_empty_conv)
qed

text \<open>C14: every submitter is answered. If the message parses, its correlation id is not already in the
  idempotency cache, results serialize and no panic occurs, then the handler publishes exactly one
  result, on the message's reply subject and with its correlation id, and then acknowledges;
  this holds for every rejection, replay, failure and success.\<close>

theorem submitter_is_answered:
  assumes "retry_contract (cn_retry N)" and "parse_submit X payload = Inr m"
    and "idempotency_cache s (ts_correlation_id m) = None"
    and "\<And>r. result_ok (serialize_reply X (TxResult r))"
    and "result_of (handle_submit X E C N payload) s = Finished"
  shows "\<exists>evs tail. events_of (handle_submit X E C N payload) s = evs @ tail \<and>
     filter is_publish evs = [] \<and> submit_replied m tail"
proof -
  let ?Q = "\<lambda>tail (s :: bridge). submit_replied m tail"
  let ?auth = "evaluate_envelope_auth E (cn_pki N) (cn_auth_policy N) (ts_auth m)
      (ts_service_identity m) (canonical_submit_bytes X m) False"
  have fresh: "concludes ?Q (submit_fresh X E C N m)"
    by (rule concludes_submit_fresh) (simp_all add: assms(1,4) submit_replied_def)
  obtain v s1 where run: "run_state ?auth s = (v, s1)" by (cases "run_state ?auth s")
  have em: "emits quiet ?auth" by (intro emits_rules) simp_all
  have pre: "trace s1 = trace s @ events_of ?auth s" "\<forall>e\<in>set (events_of ?auth s). quiet e"
    using emits_events(1) [OF em, of s] emits_events(2) [OF em] run by auto
  have cache: "idempotency_cache s1 (ts_correlation_id m) = None"
    using emits_frame(2) [OF em, of s] run assms(3) by simp
  show ?thesis
  proof (cases v)
    case (Inl why)
    show ?thesis
    proof (rule concludes_from [OF _ _ pre assms(5)])
      show "run_state (handle_submit X E C N payload) s = run_state (do {
           track_operation ''nats_auth_rejected'' False;
           let reason = ''envelope authentication failed: '' @ why;
           audit_rejection E (ts_correlation_id m) (ts_service_identity m) ''submit'' ''auth'' reason;
           publish_result X E (ts_reply_subject m) (submit_failure (ts_correlation_id m) reason);
           finish Term }) s1"
        using run Inl by (simp add: handle_submit_def assms(2))
    qed (intro concludes_rules extends_rules;
        simp add: assms(4) submit_replied_def submit_failure_def)
  next
    case (Inr u)
    then have admit: "run_state (handle_submit X E C N payload) s = run_state (submit_admit X E C N m) s1"
      using run by (simp add: handle_submit_def assms(2))
    show ?thesis
    proof (cases "role_of_identity X (ts_service_identity m) = Unknown")
      case True
      have "concludes ?Q (submit_admit X E C N m)"
        unfolding submit_admit_def using True
        by (simp add: Let_def) (intro concludes_rules extends_rules;
          simp add: assms(4) submit_replied_def submit_failure_def)
      from concludes_from [OF this admit pre assms(5)] show ?thesis .
    next
      case False
      with cache admit have "run_state (handle_submit X E C N payload) s =
          run_state (submit_fresh X E C N m) s1"
        by (simp add: submit_admit_def Let_def)
      from concludes_from [OF fresh this pre assms(5)] show ?thesis .
    qed
  qed
qed

theorem submitter_is_answered_witness:
  "\<exists>evs tail. events_of (handle_submit sample_ext sample_env sample_cfg sample_consumer [1]) sample_state
       = evs @ tail \<and> filter is_publish evs = [] \<and> submit_replied sample_submit tail"
  by (rule submitter_is_answered)
    (simp_all add: retry_fixed_contract handler_defs sample_eval)

end
