(* ===== verification/Nats_State.thy ===== *)
theory Nats_State
  imports Nats_Properties
begin

text \<open>
  The state of the NATS consumer over many messages: sequences of deliveries and cleanup
  ticks, which entries of the idempotency cache survive them, and that a cancellation stays in force.
\<close>

section \<open>Sequences of deliveries and cleanup ticks\<close>

datatype consumer_step = Deliver string bytes | Tick

definition consumer_step_io ::
  "externals \<Rightarrow> env \<Rightarrow> config \<Rightarrow> consumer \<Rightarrow> consumer_step \<Rightarrow> unit io" where
  "consumer_step_io X E C N st =
     (case st of
        Deliver subject payload \<Rightarrow> do {
          _ \<leftarrow> handle_message X E C N subject payload;
          State_Monad.return ()
        }
      | Tick \<Rightarrow> cleanup_tick E)"

fun consumer_run :: "externals \<Rightarrow> env \<Rightarrow> config \<Rightarrow> consumer \<Rightarrow> consumer_step list \<Rightarrow> unit io" where
  "consumer_run X E C N [] = State_Monad.return ()"
| "consumer_run X E C N (st # sts) = do {
     consumer_step_io X E C N st;
     consumer_run X E C N sts
   }"

lemma keeps_step:
  assumes "\<And>subject payload. keeps I P (handle_message X E C N subject payload)"
    and "keeps I P (cleanup_tick E)"
  shows "keeps I P (consumer_step_io X E C N st)"
  unfolding consumer_step_io_def
  by (cases st) (auto intro!: keeps_bind keeps_return assms)

lemma keeps_run:
  assumes "\<And>subject payload. keeps I P (handle_message X E C N subject payload)"
    and "keeps I P (cleanup_tick E)"
  shows "keeps I P (consumer_run X E C N sts)"
  by (induction sts) (simp_all add: keeps_return, intro keeps_rules keeps_step assms)

section \<open>Rules for the parts\<close>

lemma keeps_now:
  assumes "trace_free I" "\<And>t. P (EvClock t)"
    and "\<And>now. now \<in> range (clock_ms E) \<Longrightarrow> keeps I P (f now)"
  shows "keeps I P (State_Monad.bind (now_ms E) f)"
proof (rule keeps_bind_result [where R = "\<lambda>a. a \<in> range (clock_ms E)"])
  show "keeps I P (now_ms E)" by (intro keeps_emits emits_ports assms(1,2))
qed (simp_all add: assms(3) port_defs)

lemma keeps_parts:
  assumes "trace_free I"
  shows "(\<And>a. P (EvPublish subject (TxResult r1) a)) \<Longrightarrow> keeps I P (publish_result X E subject r1)"
    and "(\<And>a. P (EvPublish subject (CancelResult r2) a)) \<Longrightarrow> keeps I P (publish_cancel_result X E subject r2)"
    and "(\<And>a. P (EvPublish subject (MintResult r3) a)) \<Longrightarrow> keeps I P (publish_mint_result X E subject r3)"
    and "(\<And>a. P (EvPublish subject (StatusResult r4) a)) \<Longrightarrow> keeps I P (publish_status_result X E subject r4)"
    and "P (EvAck k) \<Longrightarrow> keeps I P (finish k)"
    and "P (EvMetric n ok) \<Longrightarrow> keeps I P (track_operation n ok)"
    and "(\<And>t. P (EvClock t)) \<Longrightarrow> (\<And>entry r. P (EvAudit entry r)) \<Longrightarrow>
      keeps I P (audit_rejection E corr ident act stage reason)"
    and "(\<And>t. P (EvClockSecs t)) \<Longrightarrow> (\<And>n ok. P (EvMetric n ok)) \<Longrightarrow>
      keeps I P (evaluate_envelope_auth E K A auth claimed canonical force_signed)"
    and "(\<And>sigs r. P (EvStatuses sigs r)) \<Longrightarrow> keeps I P (signature_status X E sig_text)"
  by (auto intro!: keeps_emits [OF _ assms] emits_publish emits_finish emits_ports
      emits_audit_rejection emits_evaluate_envelope_auth emits_signature_status)

lemma keeps_pipelines:
  assumes "trace_free I" "retry_contract (cn_retry N)"
  shows "keeps I (\<lambda>_. True) (cn_retry N ds (sign_and_submit X E C raw key ident corr))"
    and "keeps I (\<lambda>_. True)
      (build_and_submit_generation_mint X E C wallet kwh meter window ident corr)"
proof -
  show "keeps I (\<lambda>_. True) (cn_retry N ds (sign_and_submit X E C raw key ident corr))"
    by (rule keeps_emits [OF _ assms(1)], rule emits_retry [OF assms(2)])
      (auto intro: emits_sign_and_submit)
  show "keeps I (\<lambda>_. True) (build_and_submit_generation_mint X E C wallet kwh meter window ident corr)"
    by (rule keeps_emits [OF _ assms(1)]) (auto intro: emits_generation_mint)
qed

section \<open>The idempotency cache only grows\<close>

definition cached :: "string \<Rightarrow> bridge \<Rightarrow> bool" where
  "cached k s \<longleftrightarrow> idempotency_cache s k \<noteq> None"

lemma trace_free_cached: "trace_free (cached k)"
  by (simp add: trace_free_def cached_def)

lemma keeps_cached_writes:
  "keeps (cached k) P (idempotency_insert k' x)"
  "keeps (cached k) P (modify (\<lambda>s. s\<lparr>dedup_store := f s\<rparr>))"
  "keeps (cached k) P (dedup_claim key corr now)"
  by (simp_all add: keeps_def cached_def idempotency_insert_def dedup_claim_def split_beta)

lemma keeps_cached_tick: "keeps (cached k) (\<lambda>_. True) (cleanup_tick E)"
  by (simp add: keeps_def cached_def cleanup_tick_def port_defs)

lemma keeps_cached_message:
  assumes "retry_contract (cn_retry N)"
  shows "keeps (cached k) (\<lambda>_. True) (handle_message X E C N subject payload)"
  unfolding handle_message_def handle_submit_def submit_admit_def submit_fresh_def
    submit_check_def submit_claim_def submit_execute_def handle_cancel_def cancel_admit_def
    handle_mint_def mint_admit_def mint_fresh_def mint_claim_def mint_execute_def handle_status_def
  by (intro keeps_now [OF trace_free_cached] keeps_rules keeps_parts [OF trace_free_cached]
      keeps_cached_writes keeps_pipelines [OF trace_free_cached assms]) simp_all

lemma keeps_cached_run:
  assumes "retry_contract (cn_retry N)"
  shows "keeps (cached k) (\<lambda>_. True) (consumer_run X E C N sts)"
  by (intro keeps_run keeps_cached_message keeps_cached_tick assms)

text \<open>Entries of the idempotency cache never expire. Whatever messages are delivered and however
  often the cleanup task runs, an entry that is in the cache stays in it: the cleanup works on a
  copy, and no handler removes or checks the expiry.\<close>

lemma idempotency_entries_never_expire:
  assumes "retry_contract (cn_retry N)" and "k \<in> dom (idempotency_cache s)"
  shows "k \<in> dom (idempotency_cache (final_of (consumer_run X E C N sts) s))"
  using keepsD(1) [OF keeps_cached_run [OF assms(1), of k], of s X E C sts] assms(2)
  by (simp add: cached_def dom_def)

lemma idempotency_entries_never_expire_witness:
  "''c1'' \<in> dom (idempotency_cache (final_of (consumer_run sample_ext sample_env sample_cfg
     sample_consumer [Tick, Deliver ''chain.tx.submit'' [1], Tick])
     (sample_state\<lparr>idempotency_cache := [''c1'' \<mapsto> 1]\<rparr>)))"
  by (rule idempotency_entries_never_expire) (simp_all add: retry_fixed_contract)

section \<open>Cancellation\<close>

lemma cached_submit_no_effect:
  assumes "parse_submit X payload = Inr m"
  shows "keeps (cached (ts_correlation_id m)) (\<lambda>e. \<not> is_effect e) (handle_submit X E C N payload)"
  unfolding handle_submit_def submit_admit_def assms sum.case Let_def
  by (intro keeps_bind_gets [where R = "\<lambda>cache. cache (ts_correlation_id m) \<noteq> None"] keeps_rules
      keeps_parts [OF trace_free_cached]) (simp_all add: cached_def)

lemma cached_mint_no_effect:
  assumes "parse_mint X payload = Inr m"
  shows "keeps (cached (me_correlation_id m)) (\<lambda>e. \<not> is_effect e) (handle_mint X E C N payload)"
  unfolding handle_mint_def mint_admit_def assms sum.case Let_def
  by (intro keeps_bind_gets [where R = "\<lambda>cache. cache (me_correlation_id m) \<noteq> None"] keeps_rules
      keeps_parts [OF trace_free_cached]) (simp_all add: cached_def)

text \<open>A fact a write establishes and the rest of the handler keeps holds at its end.\<close>

lemma concludes_established:
  assumes "extends quiet w" "\<And>s. I (final_of w s)" "keeps I (\<lambda>_. True) rest"
    and "concludes (\<lambda>tail _. R tail) rest" "\<And>tail s. R tail \<Longrightarrow> I s \<Longrightarrow> Q tail s"
  shows "concludes Q (State_Monad.bind w (\<lambda>_. rest))"
  unfolding concludes_def
proof
  fix s
  obtain a s' where run: "run_state w s = (a, s')" by (cases "run_state w s")
  have I: "I (final_of rest s')"
    using keepsD(1) [OF assms(3)] assms(2) [of s] run by simp
  from assms(1) run obtain pre where 1: "trace s' = trace s @ pre" "\<forall>e\<in>set pre. quiet e"
    unfolding extends_def by (metis snd_conv)
  from assms(4) obtain evs tail where
    2: "trace (final_of rest s') = trace s' @ evs @ tail" "\<forall>e\<in>set evs. quiet e"
      "if result_of rest s' = Aborted then tail = [] else R tail"
    unfolding concludes_def by meson
  show "\<exists>evs tail. trace (final_of (State_Monad.bind w (\<lambda>_. rest)) s) = trace s @ evs @ tail \<and>
      (\<forall>e\<in>set evs. quiet e) \<and>
      (if result_of (State_Monad.bind w (\<lambda>_. rest)) s = Aborted then tail = []
       else Q tail (final_of (State_Monad.bind w (\<lambda>_. rest)) s))"
    using 1 2 run I assms(5)
    by (intro exI [of _ "pre @ evs"] exI [of _ tail]) auto
qed

text \<open>A tail that reports a successful cancellation of \<open>corr\<close>.\<close>

definition cancel_reported :: "event list \<Rightarrow> bool" where
  "cancel_reported evs \<longleftrightarrow>
     (\<exists>sub r a. EvPublish sub (CancelResult r) a \<in> set evs \<and> tcr_success r)"

lemma cancel_reported_simps [simp]:
  "\<not> cancel_reported [EvAck k]"
  "cancel_reported [EvPublish sub (CancelResult r) a, EvAck k] \<longleftrightarrow> tcr_success r"
  by (auto simp: cancel_reported_def)

lemma concludes_cancel:
  assumes "parse_cancel X payload = Inr m"
  shows "concludes (\<lambda>tail s. cancel_reported tail \<longrightarrow> cached (tc_correlation_id m) s)
    (handle_cancel X E N payload)"
  unfolding handle_cancel_def cancel_admit_def assms sum.case Let_def
  by (intro concludes_established [where w = "idempotency_insert (tc_correlation_id m) _" and
        I = "cached (tc_correlation_id m)" and R = "\<lambda>_. True"] concludes_rules extends_rules
      keeps_rules keeps_parts [OF trace_free_cached])
    (simp_all add: cancel_reply_def cached_def idempotency_insert_def)

text \<open>A cancellation stays in force. Once a cancel message for a correlation id was answered with success,
  no submit or mint message with that correlation id signs or sends anything any more, whatever
  messages this consumer handles and whatever cleanup ticks come in between, one after the other.\<close>

lemma cancellation_is_final:
  assumes "retry_contract (cn_retry N)"
    and "parse_cancel X p1 = Inr mc" and "cancel_reported (events_of (handle_cancel X E N p1) s)"
    and "s' = final_of (consumer_run X E C N sts) (final_of (handle_cancel X E N p1) s)"
  shows "(parse_submit X p2 = Inr ms \<and> ts_correlation_id ms = tc_correlation_id mc \<longrightarrow>
       filter is_effect (events_of (handle_submit X E C N p2) s') = []) \<and>
     (parse_mint X p2 = Inr mm \<and> me_correlation_id mm = tc_correlation_id mc \<longrightarrow>
       filter is_effect (events_of (handle_mint X E C N p2) s') = [])"
proof -
  let ?k = "tc_correlation_id mc"
  from concludes_cancel [OF assms(2), of E N] obtain evs tail where
    1: "events_of (handle_cancel X E N p1) s = evs @ tail" "\<forall>e\<in>set evs. quiet e"
    "if result_of (handle_cancel X E N p1) s = Aborted then tail = []
     else cancel_reported tail \<longrightarrow> cached ?k (final_of (handle_cancel X E N p1) s)"
    by (rule concludes_run)
  have "cancel_reported tail"
    using assms(3) 1(1,2) by (auto simp: cancel_reported_def)
  then have "cached ?k (final_of (handle_cancel X E N p1) s)"
    using 1(3) by (auto simp: cancel_reported_def split: if_splits)
  from keepsD(1) [OF keeps_cached_run [OF assms(1)] this] have "cached ?k s'"
    unfolding assms(4) .
  then show ?thesis
    using keepsD(3) [OF cached_submit_no_effect [of X p2 ms]]
      keepsD(3) [OF cached_mint_no_effect [of X p2 mm]]
    by (auto intro!: filter_False)
qed

lemma cancellation_is_final_witness:
  "filter is_effect (events_of (handle_submit sample_ext sample_env sample_cfg sample_consumer [1])
     (final_of (consumer_run sample_ext sample_env sample_cfg sample_consumer [Tick])
       (final_of (handle_cancel sample_ext sample_env sample_consumer [1]) sample_state))) = []"
proof -
  have "cancel_reported (events_of (handle_cancel sample_ext sample_env sample_consumer [1]) sample_state)"
    by (simp add: handler_defs sample_eval cancel_reply_def) (simp add: cancel_reported_def)
  from cancellation_is_final [OF _ _ this refl, where C = sample_cfg and sts = "[Tick]" and
      ?p2.0 = "[1]" and ms = sample_submit and mc = sample_cancel] show ?thesis
    by (simp add: retry_fixed_contract sample_ext_def sample_cancel_def sample_submit_def)
qed

end
