(* ===== verification/Nats_Replay.thy ===== *)
theory Nats_Replay
  imports Nats_State
begin

text \<open>
  Effect-level deduplication seen from the handlers: a success is recorded under the namespaced
  idempotency key, the record survives everything that happens within its lifetime, and a
  re-send with that key is answered from it without a second effect.
\<close>

section \<open>A live record is kept\<close>

text \<open>The key holds a completed effect that no clock reading finds expired.\<close>

definition done_record :: "env \<Rightarrow> string \<Rightarrow> dedup_record \<Rightarrow> bridge \<Rightarrow> bool" where
  "done_record E k rec s \<longleftrightarrow>
     dedup_store s k = Some rec \<and> (\<exists>sig slot. state rec = Done sig slot) \<and>
     (\<forall>t\<in>range (clock_ms E). t < expiry_ms rec)"

lemma trace_free_done: "trace_free (done_record E k rec)"
  by (simp add: trace_free_def done_record_def)

lemma claim_live:
  assumes "done_record E k rec s" "now \<in> range (clock_ms E)"
  shows "claim_or_replay (dedup_store s) (Some k) corr now =
     (Some (replay_result corr (state rec)), dedup_store s)"
  using assms by (auto simp: claim_or_replay_def done_record_def)

lemma claim_other_key:
  "key \<noteq> Some k \<Longrightarrow> snd (claim_or_replay store key corr now) k = store k"
  by (cases key) (auto simp: claim_or_replay_def Let_def split: option.split)

lemma keeps_done_claim:
  assumes "now \<in> range (clock_ms E)"
  shows "keeps (done_record E k rec) P (dedup_claim key corr now)"
proof (cases "key = Some k")
  case True
  then show ?thesis
    using claim_live [OF _ assms] by (simp add: keeps_def dedup_claim_def)
next
  case False
  then show ?thesis
    using claim_other_key by (simp add: keeps_def dedup_claim_def split_beta done_record_def)
qed

lemma keeps_done_writes:
  "key \<noteq> Some k \<Longrightarrow> keeps (done_record E k rec) P (modify (\<lambda>s. s\<lparr>dedup_store :=
     record_done (dedup_store s) key sig slot now\<rparr>))"
  "key \<noteq> Some k \<Longrightarrow> keeps (done_record E k rec) P (modify (\<lambda>s. s\<lparr>dedup_store :=
     release_claim (dedup_store s) key\<rparr>))"
  "keeps (done_record E k rec) P (idempotency_insert c x)"
  by (cases key; simp add: keeps_def done_record_def record_done_def release_claim_def
      idempotency_insert_def)+

lemma keeps_done_tick: "keeps (done_record E k rec) (\<lambda>_. True) (cleanup_tick E)"
  by (simp add: keeps_def cleanup_tick_def port_defs done_record_def retain_dedup_def)

text \<open>A claim on the key itself is answered from the record, so nothing is executed.\<close>

lemma keeps_done_claim_bind:
  assumes "now \<in> range (clock_ms E)"
    and "\<And>r. (key = Some k \<Longrightarrow> r = replay_result corr (state rec)) \<Longrightarrow>
      keeps (done_record E k rec) P (f (Some r))"
    and "key \<noteq> Some k \<Longrightarrow> keeps (done_record E k rec) P (f None)"
  shows "keeps (done_record E k rec) P (State_Monad.bind (dedup_claim key corr now) f)"
proof (rule keeps_bind_result [where R =
      "\<lambda>x. key = Some k \<longrightarrow> x = Some (replay_result corr (state rec))"])
  show "keeps (done_record E k rec) P (dedup_claim key corr now)"
    by (rule keeps_done_claim [OF assms(1)])
  show "key = Some k \<longrightarrow> result_of (dedup_claim key corr now) s = Some (replay_result corr (state rec))"
    if "done_record E k rec s" for s
    using claim_live [OF that assms(1)] by (auto simp: dedup_claim_result)
  show "keeps (done_record E k rec) P (f a)"
    if "key = Some k \<longrightarrow> a = Some (replay_result corr (state rec))" for a
    using that assms(2,3) by (cases a) auto
qed

lemma keeps_done_message:
  assumes "retry_contract (cn_retry N)"
  shows "keeps (done_record E k rec) (\<lambda>_. True) (handle_message X E C N subject payload)"
  unfolding handle_message_def handle_submit_def submit_admit_def submit_fresh_def
    submit_check_def submit_claim_def submit_execute_def handle_cancel_def cancel_admit_def
    handle_mint_def mint_admit_def mint_fresh_def mint_claim_def mint_execute_def handle_status_def
    Let_def
  by (intro keeps_done_claim_bind keeps_now [OF trace_free_done] keeps_rules
      keeps_parts [OF trace_free_done] keeps_done_writes
      keeps_pipelines [OF trace_free_done assms]) simp_all

text \<open>A reply that reports success is the replay of the record.\<close>

definition replays :: "dedup_record \<Rightarrow> event \<Rightarrow> bool" where
  "replays rec e \<longleftrightarrow>
     (\<forall>sub r a. e = EvPublish sub (TxResult r) a \<longrightarrow> tr_success r \<longrightarrow>
        tr_deduplicated r \<and> state rec = Done (tr_signature r) (tr_slot r))"

lemma replays_simps [simp]:
  "\<not> is_publish e \<Longrightarrow> replays rec e"
  "replays rec (EvPublish sub (TxResult (submit_failure corr msg)) a)"
  "replays rec (EvPublish sub (TxResult (replay_result corr (state rec))) a)"
  by (auto simp: replays_def submit_failure_def) (cases "state rec"; simp)

lemma done_submit_replayed:
  assumes "parse_submit X payload = Inr m" "submit_dedup_key (ts_idempotency_key m) = Some k"
  shows "keeps (done_record E k rec) (\<lambda>e. \<not> is_effect e \<and> replays rec e)
    (handle_submit X E C N payload)"
  unfolding handle_submit_def assms(1) sum.case submit_admit_def submit_fresh_def
    submit_check_def submit_claim_def Let_def assms(2)
  by (intro keeps_done_claim_bind keeps_now [OF trace_free_done] keeps_rules
      keeps_parts [OF trace_free_done]) auto

section \<open>A success is recorded\<close>

text \<open>A first-hand success among the events, and the record it leaves.\<close>

definition executed :: "tx_result_message \<Rightarrow> event list \<Rightarrow> bool" where
  "executed r evs \<longleftrightarrow>
     (\<exists>sub a. EvPublish sub (TxResult r) a \<in> set evs) \<and> tr_success r \<and> \<not> tr_deduplicated r"

definition recorded :: "env \<Rightarrow> string \<Rightarrow> tx_result_message \<Rightarrow> bridge \<Rightarrow> bool" where
  "recorded E k r s \<longleftrightarrow>
     (\<exists>now\<in>range (clock_ms E). dedup_store s k =
        Some \<lparr>expiry_ms = now + dedup_ttl_ms, state = Done (tr_signature r) (tr_slot r)\<rparr>)"

lemma executed_simps [simp]:
  "\<not> executed r [EvAck c]"
  "executed r [EvPublish sub (TxResult r') a, EvAck c] \<longleftrightarrow> r = r' \<and> tr_success r \<and> \<not> tr_deduplicated r"
  by (auto simp: executed_def)

lemma concludes_execute_recorded:
  assumes "retry_contract (cn_retry N)" "now \<in> range (clock_ms E)"
  shows "concludes (\<lambda>tail s. executed r tail \<longrightarrow> recorded E k r s)
     (submit_execute X E C N m (Some k) now)"
proof -
  have tf: "trace_free (\<lambda>s. dedup_store s k = v)" for v by (simp add: trace_free_def)
  have succ: "concludes (\<lambda>tail s. executed r tail \<longrightarrow> recorded E k r s) (do {
      modify (\<lambda>s. s\<lparr>dedup_store := record_done (dedup_store s) (Some k) (show_signature X sig) slot now\<rparr>);
      track_operation name ok;
      publish_result X E sub \<lparr>tr_correlation_id = corr, tr_success = True,
        tr_signature = Some (show_signature X sig), tr_error = None, tr_slot = slot,
        tr_deduplicated = False\<rparr>;
      finish Ack })" (is "concludes _ (State_Monad.bind ?w (\<lambda>_. ?rest))")
    for sig slot name ok sub corr
  proof (rule concludes_established [where I = "\<lambda>s. dedup_store s k =
        Some \<lparr>expiry_ms = now + dedup_ttl_ms, state = Done (Some (show_signature X sig)) slot\<rparr>" and
      R = "\<lambda>tail. executed r tail \<longrightarrow> tr_signature r = Some (show_signature X sig) \<and> tr_slot r = slot"])
    show "extends quiet ?w" by (rule extends_set_dedup)
    show "concludes (\<lambda>tail _. executed r tail \<longrightarrow>
        tr_signature r = Some (show_signature X sig) \<and> tr_slot r = slot) ?rest"
      by (intro concludes_rules extends_rules) simp_all
    show "keeps (\<lambda>s. dedup_store s k = Some \<lparr>expiry_ms = now + dedup_ttl_ms,
        state = Done (Some (show_signature X sig)) slot\<rparr>) (\<lambda>_. True) ?rest"
      by (intro keeps_rules keeps_parts [OF tf]) simp_all
  qed (use assms(2) in \<open>auto simp: record_done_def recorded_def\<close>)
  show ?thesis
    unfolding submit_execute_def
    by (intro succ concludes_rules extends_rules extends_quiet_retry assms(1))
      (auto simp: submit_failure_def)
qed

lemma concludes_now:
  assumes "\<And>now. now \<in> range (clock_ms E) \<Longrightarrow> concludes Q (f now)"
  shows "concludes Q (State_Monad.bind (now_ms E) f)"
proof (rule concludes_bind_result [where R = "\<lambda>a. a \<in> range (clock_ms E)"])
  show "extends quiet (now_ms E)" by (intro extends_rules) simp
qed (simp_all add: assms port_defs)

lemma concludes_submit_recorded:
  assumes "retry_contract (cn_retry N)" "parse_submit X payload = Inr m"
    and "submit_dedup_key (ts_idempotency_key m) = Some k"
  shows "concludes (\<lambda>tail s. executed r tail \<longrightarrow> recorded E k r s) (handle_submit X E C N payload)"
  unfolding handle_submit_def assms(2) sum.case submit_admit_def submit_fresh_def
    submit_check_def submit_claim_def Let_def assms(3)
  by (intro concludes_now concludes_dedup_claim concludes_execute_recorded assms(1)
      concludes_rules extends_rules) (auto simp: submit_failure_def)

text \<open>C5: exactly one effect per idempotency key. Once a submit message with an idempotency key was
  answered with a first-hand success, then within the record's lifetime no other submit message
  with that key signs or sends anything, whatever other messages and cleanup ticks came in
  between, and every success reported for it is a replay of the first signature and slot.\<close>

theorem resubmission_is_replayed:
  assumes "retry_contract (cn_retry N)"
    and "parse_submit X p1 = Inr m1" "parse_submit X p2 = Inr m2"
    and "ts_idempotency_key m1 \<noteq> []" "ts_idempotency_key m2 = ts_idempotency_key m1"
    and "executed r (events_of (handle_submit X E C N p1) s)"
    and "\<And>h h'. clock_ms E h < clock_ms E h' + dedup_ttl_ms"
    and "s' = final_of (consumer_run X E C N sts) (final_of (handle_submit X E C N p1) s)"
    and "e \<in> set (events_of (handle_submit X E C N p2) s')"
  shows "\<not> is_effect e \<and>
     (\<forall>sub r' a. e = EvPublish sub (TxResult r') a \<longrightarrow> tr_success r' \<longrightarrow>
        tr_deduplicated r' \<and> tr_signature r' = tr_signature r \<and> tr_slot r' = tr_slot r)"
proof -
  obtain k where k: "submit_dedup_key (ts_idempotency_key m1) = Some k"
    using assms(4) by (simp add: submit_dedup_key_def)
  let ?m = "handle_submit X E C N p1"
  from concludes_submit_recorded [OF assms(1,2) k, of r E] obtain evs tail where
    1: "events_of ?m s = evs @ tail" "\<forall>e\<in>set evs. quiet e"
      "if result_of ?m s = Aborted then tail = [] else executed r tail \<longrightarrow> recorded E k r (final_of ?m s)"
    by (rule concludes_run)
  have "executed r tail" using assms(6) 1(1,2) by (auto simp: executed_def)
  then have "recorded E k r (final_of ?m s)"
    using 1(3) by (auto simp: executed_def split: if_splits)
  then obtain now where now: "now \<in> range (clock_ms E)" "dedup_store (final_of ?m s) k =
      Some \<lparr>expiry_ms = now + dedup_ttl_ms, state = Done (tr_signature r) (tr_slot r)\<rparr>"
    unfolding recorded_def by blast
  define rec where "rec = \<lparr>expiry_ms = now + dedup_ttl_ms, state = Done (tr_signature r) (tr_slot r)\<rparr>"
  have rec: "state rec = Done (tr_signature r) (tr_slot r)" by (simp add: rec_def)
  have fin: "done_record E k rec (final_of ?m s)"
    using now assms(7) by (auto simp: done_record_def rec_def)
  have "keeps (done_record E k rec) (\<lambda>_. True) (consumer_run X E C N sts)"
    by (intro keeps_run keeps_done_message keeps_done_tick assms(1))
  from keepsD(1) [OF this fin] have "done_record E k rec s'" unfolding assms(8) .
  from keepsD(3) [OF done_submit_replayed [OF assms(3)] this assms(9)] k assms(5) rec
  show ?thesis by (auto simp: replays_def)
qed

text \<open>A decoder with two envelopes that differ in their correlation ids only.\<close>

definition resend_ext :: externals where
  "resend_ext = sample_ext\<lparr>parse_submit :=
     (\<lambda>b. if b = [2] then Inr (sample_submit\<lparr>ts_correlation_id := ''c2''\<rparr>) else Inr sample_submit)\<rparr>"

theorem resubmission_is_replayed_witness:
  "filter is_effect (events_of (handle_submit resend_ext sample_env sample_cfg sample_consumer [2])
     (final_of (consumer_run resend_ext sample_env sample_cfg sample_consumer [Tick])
       (final_of (handle_submit resend_ext sample_env sample_cfg sample_consumer [1]) sample_state))) = []"
proof -
  let ?r = "\<lparr>tr_correlation_id = ''c1'', tr_success = True, tr_signature = Some ''sig'',
     tr_error = None, tr_slot = 0, tr_deduplicated = False\<rparr>"
  have ex: "executed ?r (events_of (handle_submit resend_ext sample_env sample_cfg sample_consumer [1])
     sample_state)"
    by (simp add: resend_ext_def handler_defs sample_eval) (simp add: executed_def)
  have key: "ts_idempotency_key sample_submit \<noteq> []"
    "ts_idempotency_key (sample_submit\<lparr>ts_correlation_id := ''c2''\<rparr>) = ts_idempotency_key sample_submit"
    by (simp_all add: sample_submit_def)
  have clock: "clock_ms sample_env h < clock_ms sample_env h' + dedup_ttl_ms" for h h'
    by (simp add: sample_env_def dedup_ttl_ms_def)
  have parse: "parse_submit resend_ext [1] = Inr sample_submit"
    "parse_submit resend_ext [2] = Inr (sample_submit\<lparr>ts_correlation_id := ''c2''\<rparr>)"
    by (simp_all add: resend_ext_def)
  have retry: "retry_contract (cn_retry sample_consumer)" by (simp add: retry_fixed_contract)
  show ?thesis
    using resubmission_is_replayed [OF retry parse key ex clock refl]
    by (intro filter_False ballI) blast
qed

section \<open>Namespaces\<close>

lemma trace_free_entry: "trace_free (\<lambda>s. dedup_store s k = v)"
  by (simp add: trace_free_def)

lemma keeps_entry_writes:
  "keeps (\<lambda>s. dedup_store s k = v) P (idempotency_insert c x)"
  "key \<noteq> Some k \<Longrightarrow> keeps (\<lambda>s. dedup_store s k = v) P (dedup_claim key corr now)"
  "key \<noteq> Some k \<Longrightarrow> keeps (\<lambda>s. dedup_store s k = v) P (modify (\<lambda>s. s\<lparr>dedup_store :=
     record_done (dedup_store s) key sig slot now\<rparr>))"
  "key \<noteq> Some k \<Longrightarrow> keeps (\<lambda>s. dedup_store s k = v) P (modify (\<lambda>s. s\<lparr>dedup_store :=
     release_claim (dedup_store s) key\<rparr>))"
  by (cases key; simp add: keeps_def idempotency_insert_def record_done_def release_claim_def
      dedup_claim_def split_beta claim_other_key)+

lemma keeps_entry_mint:
  assumes "retry_contract (cn_retry N)" "\<And>i. mint_dedup_key i \<noteq> Some k"
  shows "keeps (\<lambda>s. dedup_store s k = v) (\<lambda>_. True) (handle_mint X E C N payload)"
  unfolding handle_mint_def mint_admit_def mint_fresh_def mint_claim_def mint_execute_def Let_def
  by (intro keeps_now [OF trace_free_entry] keeps_rules keeps_parts [OF trace_free_entry]
      keeps_entry_writes keeps_pipelines(2) [OF trace_free_entry assms(1)]) (simp_all add: assms(2))

lemma keeps_entry_submit:
  assumes "retry_contract (cn_retry N)" "\<And>i. submit_dedup_key i \<noteq> Some k"
  shows "keeps (\<lambda>s. dedup_store s k = v) (\<lambda>_. True) (handle_submit X E C N payload)"
  unfolding handle_submit_def submit_admit_def submit_fresh_def submit_check_def submit_claim_def
    submit_execute_def Let_def
  by (intro keeps_now [OF trace_free_entry] keeps_rules keeps_parts [OF trace_free_entry]
      keeps_entry_writes keeps_pipelines(1) [OF trace_free_entry assms(1)]) (simp_all add: assms(2))

text \<open>Submits and mints have separate idempotency namespaces. No mint message changes the record of
  any submit key and no submit message that of any mint key, even when the two carry the same
  idempotency key, so a recorded submit can never be replayed as a mint.\<close>

lemma dedup_namespaces_disjoint:
  assumes "retry_contract (cn_retry N)"
  shows "dedup_store (final_of (handle_mint X E C N payload) s) (''submit:'' @ i) =
       dedup_store s (''submit:'' @ i) \<and>
     dedup_store (final_of (handle_submit X E C N payload) s) (''mint:'' @ i) =
       dedup_store s (''mint:'' @ i)"
proof
  have "mint_dedup_key j \<noteq> Some (''submit:'' @ i)" "submit_dedup_key j \<noteq> Some (''mint:'' @ i)" for j
    by (simp_all add: mint_dedup_key_def submit_dedup_key_def)
  then show "dedup_store (final_of (handle_mint X E C N payload) s) (''submit:'' @ i) =
       dedup_store s (''submit:'' @ i)"
    and "dedup_store (final_of (handle_submit X E C N payload) s) (''mint:'' @ i) =
       dedup_store s (''mint:'' @ i)"
    using keepsD(1) [OF keeps_entry_mint [OF assms, of "''submit:'' @ i"] refl]
      keepsD(1) [OF keeps_entry_submit [OF assms, of "''mint:'' @ i"] refl]
    by metis+
qed

lemma dedup_namespaces_disjoint_witness:
  "dedup_store (final_of (handle_mint sample_ext sample_env sample_cfg sample_consumer [1]) sample_state)
     (''submit:'' @ ''k1'') = None"
proof -
  have "retry_contract (cn_retry sample_consumer)" by (simp add: retry_fixed_contract)
  from dedup_namespaces_disjoint [OF this, of sample_ext sample_env sample_cfg "[1]" sample_state "''k1''"]
  show ?thesis by (simp add: sample_state_def)
qed

end
