(* ===== verification/Nats_Limits.thy ===== *)
theory Nats_Limits
  imports Nats_Replay
begin

text \<open>
  Bounds and refusals of the asynchronous path: how often one message can send, stale and unsigned
  messages, subjects without a handler, and that a mint is reported only when the cluster
  confirmed it.
\<close>

section \<open>Number of submissions\<close>

definition sends :: "'a io \<Rightarrow> bridge \<Rightarrow> nat" where
  "sends m s = length (filter is_send (events_of m s))"

definition sends_le :: "nat \<Rightarrow> 'a io \<Rightarrow> bool" where
  "sends_le n m \<longleftrightarrow> extends (\<lambda>_. True) m \<and> (\<forall>s. sends m s \<le> n)"

lemma sends_bind:
  assumes "extends P m" "\<And>a. extends Q (f a)"
  shows "sends (State_Monad.bind m f) s = sends m s + sends (f (result_of m s)) (final_of m s)"
  unfolding sends_def events_of_bind [OF assms] by simp

lemma sends_silent: "extends (\<lambda>e. \<not> is_send e) m \<Longrightarrow> sends m s = 0"
  unfolding sends_def length_0_conv by (auto intro!: filter_False dest: extends_events(2))

lemma sends_le_silent: "extends (\<lambda>e. \<not> is_send e) m \<Longrightarrow> sends_le n m"
  by (auto simp: sends_le_def sends_silent intro: extends_mono)

lemma sends_le_bind:
  assumes "sends_le a m" "\<And>x. sends_le b (f x)"
  shows "sends_le (a + b) (State_Monad.bind m f)"
proof -
  have "extends (\<lambda>_. True) m" "\<And>x. extends (\<lambda>_. True) (f x)"
    using assms by (simp_all add: sends_le_def)
  note bind = sends_bind [OF this] and ext = extends_bind [OF this]
  have "sends m s \<le> a" "sends (f x) t \<le> b" for s x t
    using assms by (simp_all add: sends_le_def)
  then show ?thesis using ext by (simp add: sends_le_def bind add_mono)
qed

lemma sends_le_after [extends_rules]:
  "extends (\<lambda>e. \<not> is_send e) m \<Longrightarrow> (\<And>x. sends_le n (f x)) \<Longrightarrow> sends_le n (State_Monad.bind m f)"
  by (rule sends_le_bind [of 0 m n f, simplified], rule sends_le_silent)

lemma sends_le_cases [extends_rules]:
  "(b \<Longrightarrow> sends_le n m) \<Longrightarrow> (\<not> b \<Longrightarrow> sends_le n m') \<Longrightarrow> sends_le n (if b then m else m')"
  "(\<And>a. x = Inl a \<Longrightarrow> sends_le n (f a)) \<Longrightarrow> (\<And>b. x = Inr b \<Longrightarrow> sends_le n (g b)) \<Longrightarrow>
   sends_le n (case x of Inl a \<Rightarrow> f a | Inr b \<Rightarrow> g b)"
  "(y = None \<Longrightarrow> sends_le n m) \<Longrightarrow> (\<And>a. y = Some a \<Longrightarrow> sends_le n (h a)) \<Longrightarrow>
   sends_le n (case y of None \<Rightarrow> m | Some a \<Rightarrow> h a)"
  "(\<And>a. z = Ok a \<Longrightarrow> sends_le n (j a)) \<Longrightarrow> (\<And>e. z = Err e \<Longrightarrow> sends_le n (k e)) \<Longrightarrow>
   (z = Panicked \<Longrightarrow> sends_le n m) \<Longrightarrow>
   sends_le n (case z of Ok a \<Rightarrow> j a | Err e \<Rightarrow> k e | Panicked \<Rightarrow> m)"
  "sends_le n (l w) \<Longrightarrow> sends_le n (Let w l)"
  by (auto split: sum.split option.split outcome.split)

lemma sends_le_finish [extends_rules]: "sends_le n (finish k)" "sends_le n (State_Monad.return x)"
  by (auto intro!: sends_le_silent extends_rules)

lemma extends_pipeline: "extends (\<lambda>_. True) (sign_and_submit X E C raw key ident corr)"
  by (rule emits_extends, rule emits_sign_and_submit) simp_all

lemma pipeline_sends: "pipeline_effects X C key tx r effs \<Longrightarrow> length (filter is_send effs) \<le> 1"
  by (drule pipeline_shape) auto

lemma sends_le_pipeline: "sends_le 1 (sign_and_submit X E C raw key ident corr)"
proof -
  have "sends (sign_and_submit X E C raw key ident corr) s \<le> 1" for s
  proof -
    let ?evs = "events_of (sign_and_submit X E C raw key ident corr) s"
    have "filter is_send xs = filter is_send (filter is_effect xs)" for xs
      by (induction xs) (auto simp: is_effect_iff)
    then have f: "sends (sign_and_submit X E C raw key ident corr) s =
        length (filter is_send (filter is_effect ?evs))" by (simp add: sends_def)
    from sign_and_submit_events(2) [of X E C raw key ident corr s] show ?thesis
      unfolding f
    proof (elim disjE exE conjE)
      assume "filter is_effect ?evs = []"
      then show "length (filter is_send (filter is_effect ?evs)) \<le> 1"
        unfolding \<open>filter is_effect ?evs = []\<close> by simp
    qed (rule pipeline_sends)
  qed
  then show ?thesis by (simp add: sends_le_def extends_pipeline)
qed

lemma sends_le_retry:
  assumes "retry_contract R" "sends_le 1 m"
  shows "sends_le (Suc (length ds)) (R ds m)"
proof (induction ds)
  case Nil
  have "sends_le (1 + 0) (R [] m)"
    by (subst retry_unfold [OF assms(1)], rule sends_le_bind [OF assms(2)])
      (auto intro!: extends_rules split: outcome.split)
  then show ?case by simp
next
  case (Cons d ds)
  have "sends_le (1 + Suc (length ds)) (R (d # ds) m)"
    by (subst retry_unfold [OF assms(1)], rule sends_le_bind [OF assms(2)])
      (auto intro!: extends_rules Cons emits_emit [THEN emits_extends] simp: port_defs
        split: outcome.split)
  then show ?case by simp
qed

lemma sends_le_handle_submit:
  assumes "retry_contract (cn_retry N)"
  shows "sends_le 4 (handle_submit X E C N payload)"
proof -
  have attempts: "Suc (length [500 :: nat, 500, 500]) = 4" by simp
  have exec: "sends_le 4 (submit_execute X E C N m dk now)" for m dk now
  proof -
    have "sends_le (4 + 0) (submit_execute X E C N m dk now)"
      unfolding submit_execute_def
    proof (rule sends_le_bind)
      show "sends_le 4 (cn_retry N [500, 500, 500] (sign_and_submit X E C (ts_serialized_tx m)
          (ts_key_id m) (ts_service_identity m) (ts_correlation_id m)))"
        using sends_le_retry [OF assms sends_le_pipeline] by (metis attempts)
    qed (rule sends_le_silent, intro extends_rules; simp)
    then show ?thesis by simp
  qed
  show ?thesis
    unfolding handle_submit_def submit_admit_def submit_fresh_def submit_check_def submit_claim_def
    by (intro exec extends_rules) simp_all
qed

lemma sends_le_handle_mint: "sends_le 1 (handle_mint X E C N payload)"
proof -
  have build: "sends_le 1 (build_and_submit_generation_mint X E C w kwh meter win ident corr)"
    for w kwh meter win ident corr
  proof -
    have sub: "sends_le (1 + 0) (do {
        r \<leftarrow> sign_and_submit X E C raw ''platform_admin'' ident corr;
        (case r of
           Ok res \<Rightarrow> mint_confirmed X E (fst res)
         | Err st \<Rightarrow> State_Monad.return (Err (show_stage st))
         | Panicked \<Rightarrow> State_Monad.return Panicked) })" for raw
      by (rule sends_le_bind [OF sends_le_pipeline], rule sends_le_silent,
          intro extends_rules emits_mint_confirmed [THEN emits_extends]) simp_all
    show ?thesis
      unfolding build_and_submit_generation_mint_def port_defs
      by (intro sub [unfolded add_0_right] extends_rules emits_ask [THEN emits_extends]) simp_all
  qed
  have exec: "sends_le 1 (mint_execute X E C m dk now)" for m dk now
  proof -
    have "sends_le (1 + 0) (mint_execute X E C m dk now)"
      unfolding mint_execute_def
      by (rule sends_le_bind [OF build], rule sends_le_silent, intro extends_rules) simp_all
    then show ?thesis by simp
  qed
  show ?thesis
    unfolding handle_mint_def mint_admit_def mint_fresh_def mint_claim_def
    by (intro exec extends_rules) simp_all
qed

text \<open>C23: one message sends at most four transactions: a submit message the first attempt and three
  retries, a mint message one, every other message none.\<close>

theorem submissions_per_message:
  assumes "retry_contract (cn_retry N)"
  shows "sends (handle_message X E C N subject payload) s \<le>
     (if subject = ''chain.tx.submit'' then 4 else if subject = ''chain.tx.mint'' then 1 else 0)"
proof -
  have none: "sends_le 0 (handle_cancel X E N payload)" "sends_le 0 (handle_status X E N payload)"
    by (auto intro!: sends_le_silent extends_other_handlers simp: is_effect_iff)
  show ?thesis
    using sends_le_handle_submit [OF assms, of X E C payload]
      sends_le_handle_mint [of X E C N payload] none sends_le_finish(1) [of 0 Ack]
    by (auto simp: handle_message_def sends_le_def)
qed

theorem submissions_per_message_witness:
  "sends (handle_message sample_ext sample_env sample_cfg sample_consumer ''chain.tx.submit'' [1])
     sample_state \<le> 4"
proof -
  have "retry_contract (cn_retry sample_consumer)" by (simp add: retry_fixed_contract)
  from submissions_per_message [OF this, of sample_ext sample_env sample_cfg "''chain.tx.submit''" "[1]"
      sample_state]
  show ?thesis by simp
qed

lemma sends_retry_all:
  assumes "retry_contract R" "extends (\<lambda>_. True) m"
    and "\<And>s. sends m s = 1" "\<And>s. \<exists>e. result_of m s = Err e"
  shows "extends (\<lambda>_. True) (R ds m) \<and> (\<forall>s. sends (R ds m) s = Suc (length ds))"
proof (induction ds)
  case Nil
  let ?f = "\<lambda>r. case r of Err e \<Rightarrow> State_Monad.return (Err e) | _ \<Rightarrow> State_Monad.return r"
  have R: "R [] m = State_Monad.bind m ?f"
    by (subst retry_unfold [OF assms(1)]) (simp cong: outcome.case_cong)
  have ext: "extends (\<lambda>e. \<not> is_send e) (?f r)" for r
    by (auto intro!: extends_rules split: outcome.split)
  show ?case
    unfolding R sends_bind [where f = ?f, OF assms(2) ext] sends_silent [OF ext] assms(3)
    using extends_bind [where f = ?f, OF assms(2) extends_mono [OF ext TrueI]] by simp
next
  case (Cons d ds)
  let ?f = "\<lambda>r. case r of Err e \<Rightarrow> do { sleep_ms d; R ds m } | _ \<Rightarrow> State_Monad.return r"
  have R: "R (d # ds) m = State_Monad.bind m ?f"
    by (subst retry_unfold [OF assms(1)]) (simp cong: outcome.case_cong)
  have sleep: "extends (\<lambda>e. \<not> is_send e) (sleep_ms d)" "extends (\<lambda>_. True) (sleep_ms d)"
    by (auto simp: port_defs intro!: emits_emit [THEN emits_extends])
  have IH: "extends (\<lambda>_. True) (R ds m)" "\<And>s. sends (R ds m) s = Suc (length ds)"
    using Cons by simp_all
  have ext: "extends (\<lambda>_. True) (?f r)" for r
    by (auto intro!: extends_rules IH(1) sleep split: outcome.split)
  have "sends (?f (result_of m s)) (final_of m s) = Suc (length ds)" for s
    using assms(4) [of s] sends_bind [OF sleep(2) IH(1)] sends_silent [OF sleep(1)] IH(2) by auto
  then show ?case
    unfolding R sends_bind [where f = ?f, OF assms(2) ext] assms(3)
    using extends_bind [where f = ?f, OF assms(2) ext] by simp
qed

text \<open>The retry budget is four submissions. A transaction that decodes and passes the policy but
  that the cluster always refuses is sent exactly four times by one submit message, whatever the
  reason of the refusal.\<close>

lemma refused_submission_is_sent_four_times:
  assumes "retry_contract (cn_retry N)" and "\<And>h tx. \<exists>e. on_send E h tx = Inl e"
    and "deserialize_tx X (ts_serialized_tx m) = Inr tx"
    and "validate_transaction X (ts_service_identity m) tx = Inr ()" and "ts_key_id m = []"
  shows "sends (submit_execute X E C N m dedup_key now) s = 4"
proof -
  let ?m = "sign_and_submit X E C (ts_serialized_tx m) (ts_key_id m) (ts_service_identity m)
     (ts_correlation_id m)"
  have one: "sends ?m s = 1" "\<exists>e. result_of ?m s = Err e" for s
    using assms(2) [of "trace s" tx]
    by (auto simp: sends_def events_of_def sign_and_submit_def assms(3-5) submit_audited_def
        record_audit_def port_defs)
  have attempts: "Suc (length [500 :: nat, 500, 500]) = 4" by simp
  from sends_retry_all [OF assms(1) extends_pipeline one, of "[500, 500, 500]"] attempts
  have all: "extends (\<lambda>_. True) (cn_retry N [500, 500, 500] ?m)"
    "sends (cn_retry N [500, 500, 500] ?m) s = 4" for s by simp_all
  have rest: "extends (\<lambda>e. \<not> is_send e) (case r of
        Panicked \<Rightarrow> State_Monad.return Aborted
      | Ok (sig, slot) \<Rightarrow> do {
          idempotency_insert (ts_correlation_id m) (now + idempotency_ttl_ms);
          modify (\<lambda>s. s\<lparr>dedup_store :=
            record_done (dedup_store s) dedup_key (show_signature X sig) slot now\<rparr>);
          track_operation ''nats_consumer_submit'' True;
          publish_result X E (ts_reply_subject m)
            \<lparr>tr_correlation_id = ts_correlation_id m, tr_success = True,
             tr_signature = Some (show_signature X sig), tr_error = None, tr_slot = slot,
             tr_deduplicated = False\<rparr>;
          finish Ack
        }
      | Err st \<Rightarrow> do {
          modify (\<lambda>s. s\<lparr>dedup_store := release_claim (dedup_store s) dedup_key\<rparr>);
          track_operation ''nats_consumer_submit'' False;
          publish_result X E (ts_reply_subject m)
            (submit_failure (ts_correlation_id m) (show_stage st));
          finish Ack
        })" for r
    by (intro extends_rules) simp_all
  show ?thesis
    unfolding submit_execute_def sends_bind [OF all(1) rest] all(2) sends_silent [OF rest] by simp
qed

definition refusing_env :: env where
  "refusing_env = sample_env\<lparr>on_send := \<lambda>h tx. Inl ''blockhash not found''\<rparr>"

lemma refused_submission_is_sent_four_times_witness:
  "sends (submit_execute sample_ext refusing_env sample_cfg sample_consumer
     (sample_submit\<lparr>ts_key_id := []\<rparr>) None 2000) sample_state = 4"
  by (rule refused_submission_is_sent_four_times)
    (simp_all add: retry_fixed_contract refusing_env_def sample_defs)

section \<open>Stale messages\<close>

definition same_maps :: "bridge \<Rightarrow> bridge \<Rightarrow> bool" where
  "same_maps s s' \<longleftrightarrow>
     dedup_store s' = dedup_store s \<and> idempotency_cache s' = idempotency_cache s"

lemma trace_free_same_maps: "trace_free (same_maps s)"
  by (simp add: trace_free_def same_maps_def)

lemma stale_age:
  assumes "unat created + 55000 < unat now"
  shows "max_age_ms < saturating_sub now created"
  using assms by (simp add: max_age_ms_def word_less_nat_alt unat_saturating_sub)

lemma fresh_age:
  assumes "unat now \<le> unat created + 55000"
  shows "\<not> max_age_ms < saturating_sub now created"
  using assms by (simp add: max_age_ms_def word_less_nat_alt unat_saturating_sub)

text \<open>C22: stale messages have no effect. If every clock reading is more than 55 seconds after the
  creation time in the envelope, a submit or mint message signs and sends nothing, claims no
  idempotency key and leaves both maps unchanged; up to 55 seconds the message is not stale.\<close>

theorem stale_message_has_no_effect:
  assumes "\<And>h. unat created + 55000 < unat (clock_ms E h)"
  shows "(parse_submit X payload = Inr m \<and> ts_created_at_ms m = created \<longrightarrow>
       filter is_effect (events_of (handle_submit X E C N payload) s) = [] \<and>
       same_maps s (final_of (handle_submit X E C N payload) s)) \<and>
     (parse_mint X payload = Inr mm \<and> me_created_at_ms mm = created \<longrightarrow>
       filter is_effect (events_of (handle_mint X E C N payload) s) = [] \<and>
       same_maps s (final_of (handle_mint X E C N payload) s)) \<and>
     (\<forall>now. unat now \<le> unat created + 55000 \<longrightarrow> \<not> max_age_ms < saturating_sub now created)"
proof (intro conjI impI allI)
  have stale: "max_age_ms < saturating_sub now created" if "now \<in> range (clock_ms E)" for now
    using that stale_age assms by auto
  have submit: "keeps (same_maps s) (\<lambda>e. \<not> is_effect e) (handle_submit X E C N payload)"
    if "parse_submit X payload = Inr m \<and> ts_created_at_ms m = created"
    unfolding handle_submit_def conjunct1 [OF that] sum.case submit_admit_def submit_fresh_def Let_def
      conjunct2 [OF that]
    by (intro keeps_now [OF trace_free_same_maps] keeps_rules keeps_parts [OF trace_free_same_maps])
      (simp_all add: stale)
  have mint: "keeps (same_maps s) (\<lambda>e. \<not> is_effect e) (handle_mint X E C N payload)"
    if "parse_mint X payload = Inr mm \<and> me_created_at_ms mm = created"
    unfolding handle_mint_def conjunct1 [OF that] sum.case mint_admit_def mint_fresh_def Let_def
      conjunct2 [OF that]
    by (intro keeps_now [OF trace_free_same_maps] keeps_rules keeps_parts [OF trace_free_same_maps])
      (simp_all add: stale)
  have same: "same_maps s s" by (simp add: same_maps_def)
  note no_effect = filter_False [where P = is_effect]
  show "filter is_effect (events_of (handle_submit X E C N payload) s) = []"
    and "same_maps s (final_of (handle_submit X E C N payload) s)"
    if "parse_submit X payload = Inr m \<and> ts_created_at_ms m = created"
    using keepsD(1,3) [OF submit [OF that] same] by (auto intro!: no_effect)
  show "filter is_effect (events_of (handle_mint X E C N payload) s) = []"
    and "same_maps s (final_of (handle_mint X E C N payload) s)"
    if "parse_mint X payload = Inr mm \<and> me_created_at_ms mm = created"
    using keepsD(1,3) [OF mint [OF that] same] by (auto intro!: no_effect)
qed (rule fresh_age)

theorem stale_message_has_no_effect_witness:
  "filter is_effect (events_of (handle_submit sample_ext (sample_env\<lparr>clock_ms := \<lambda>h. 56001\<rparr>) sample_cfg
     sample_consumer [1]) sample_state) = []"
proof -
  have "unat (1000 :: u64) + 55000 < unat (clock_ms (sample_env\<lparr>clock_ms := \<lambda>h. 56001\<rparr>) h)" for h
    by simp
  from stale_message_has_no_effect [OF this, of sample_ext "[1]" sample_submit sample_cfg sample_consumer
      sample_state] show ?thesis
    by (simp add: sample_ext_def sample_submit_def)
qed

section \<open>Unsigned mints, unhandled subjects\<close>

text \<open>C21: a mint fails closed. A mint message without a signature, or any mint message while no CA is
  loaded, is rejected even when the policy does not require signatures: nothing is signed, sent or
  claimed, the rejection is audited under the claimed identity, and the message is terminated.\<close>

theorem unsigned_mint_is_rejected:
  assumes "parse_mint X payload = Inr m"
    and "me_auth m = None \<or> ca_der (cn_auth_policy N) = None"
  shows "result_of (handle_mint X E C N payload) s = Finished \<and>
     filter is_effect (events_of (handle_mint X E C N payload) s) = [] \<and>
     same_maps s (final_of (handle_mint X E C N payload) s) \<and>
     last (events_of (handle_mint X E C N payload) s) = EvAck Term \<and>
     (\<exists>t a. EvAudit (audit_entry_new (me_correlation_id m) (me_service_identity m) ''mint''
         (Rejected ''auth'' ''envelope authentication failed: unsigned envelope (signing required)'') t) a
       \<in> set (events_of (handle_mint X E C N payload) s))"
proof -
  have "check_envelope_auth (cn_pki N) (ca_der (cn_auth_policy N)) (me_auth m) ident canonical now
      = Unsigned" for ident canonical now
    using assms(2) by (auto simp: check_envelope_auth_def split: option.split)
  then have auth: "evaluate_envelope_auth E (cn_pki N) (cn_auth_policy N) (me_auth m) ident canonical True
      = do { _ \<leftarrow> now_secs E; track_operation ''nats_auth_unsigned'' True;
             State_Monad.return (Inl ''unsigned envelope (signing required)'') }" for ident canonical
    by (simp add: evaluate_envelope_auth_def auth_decision_def Let_def)
  show ?thesis
    by (cases "serialize_reply X (MintResult (mint_failure (me_correlation_id m)
        ''envelope authentication failed: unsigned envelope (signing required)''))")
      (auto simp: handle_mint_def assms(1) auth port_defs audit_rejection_def record_audit_def
        publish_mint_result_def publish_reply_def finish_def events_of_def same_maps_def Let_def)
qed

theorem unsigned_mint_is_rejected_witness:
  "result_of (handle_mint sample_ext sample_env sample_cfg
     (sample_consumer\<lparr>cn_auth_policy := nats_auth_policy_new True None\<rparr>) [1]) sample_state = Finished"
  by (rule unsigned_mint_is_rejected [THEN conjunct1, of _ _ sample_mint])
    (simp_all add: sample_ext_def nats_auth_policy_new_def)

text \<open>Subjects without a handler. A message on any subject other than the four handled ones,
  among them \<open>chain.tx.simulate\<close> although the consumer subscribes to it, is acknowledged and
  dropped without a reply; the subject filters of the two pull consumers are disjoint and cover
  the four handled subjects.\<close>

lemma unhandled_subject_is_dropped:
  assumes "subject \<notin> {''chain.tx.submit'', ''chain.tx.cancel'', ''chain.tx.mint'', ''chain.tx.status''}"
  shows "run_state (handle_message X E C N subject payload) s =
       (Finished, s\<lparr>trace := trace s @ [EvAck Ack]\<rparr>) \<and>
     ''chain.tx.simulate'' \<in> set fast_filter_subjects \<and>
     set fast_filter_subjects \<inter> set mint_filter_subjects = {} \<and>
     {''chain.tx.submit'', ''chain.tx.cancel'', ''chain.tx.mint'', ''chain.tx.status''} \<subseteq>
       set fast_filter_subjects \<union> set mint_filter_subjects"
  using assms
  by (simp add: handle_message_def finish_def port_defs fast_filter_subjects_def
      mint_filter_subjects_def)

lemma unhandled_subject_is_dropped_witness:
  "run_state (handle_message sample_ext sample_env sample_cfg sample_consumer ''chain.tx.simulate'' [1])
     sample_state = (Finished, sample_state\<lparr>trace := [EvAck Ack]\<rparr>)"
  using unhandled_subject_is_dropped [of "''chain.tx.simulate''" sample_ext sample_env sample_cfg
      sample_consumer "[1]" sample_state]
  by (simp add: sample_state_def)

section \<open>Mints are confirmed\<close>

lemma mint_confirmed_ok:
  assumes "result_of (mint_confirmed X E sig) s = Ok (sig', slot)"
  shows "sig' = sig \<and> (\<exists>a. EvStatuses [sig] a \<in> set (events_of (mint_confirmed X E sig) s) \<and>
     poll_verdict X a = Some (Confirmed slot))"
proof -
  obtain r s' where run: "run_state (resolve_confirmation_bounded X E sig 24 250) s = (r, s')"
    by (cases "run_state (resolve_confirmation_bounded X E sig 24 250) s")
  from resolve_bounded_run [OF this] obtain evs where
    evs: "s' = s\<lparr>trace := trace s @ evs\<rparr>"
      "r = Pending \<or> (\<exists>a. EvStatuses [sig] a \<in> set evs \<and> poll_verdict X a = Some r)" by blast
  have r: "r = Confirmed slot \<and> sig' = sig"
    using assms run
    by (auto simp: mint_confirmed_def resolve_confirmation_def split: confirm_outcome.splits)
  moreover have "events_of (mint_confirmed X E sig) s = evs"
    using run evs(1) by (simp add: mint_confirmed_def resolve_confirmation_def events_of_def)
  ultimately show ?thesis using evs(2) by auto
qed

lemma sign_and_submit_ok_sent:
  assumes "result_of (sign_and_submit X E C raw key ident corr) s = Ok (sig, slot)"
  shows "\<exists>tx'. EvSend tx' (Inr sig) \<in> set (events_of (sign_and_submit X E C raw key ident corr) s)"
proof -
  let ?m = "sign_and_submit X E C raw key ident corr"
  from sign_and_submit_events(2) [of X E C raw key ident corr s] assms obtain tx where
    "pipeline_effects X C key tx (result_of ?m s) (filter is_effect (events_of ?m s))" by auto
  from pipeline_ok [OF this] assms obtain tx' where
    "EvSend tx' (Inr sig) \<in> set (filter is_effect (events_of ?m s))" by blast
  then show ?thesis by auto
qed

text \<open>The signing and confirming half of a mint.\<close>

definition mint_submit ::
  "externals \<Rightarrow> env \<Rightarrow> config \<Rightarrow> spiffe_identity \<Rightarrow> string \<Rightarrow> bytes \<Rightarrow>
   (string, signature \<times> u64) outcome io" where
  "mint_submit X E C ident corr raw = do {
     r \<leftarrow> sign_and_submit X E C raw ''platform_admin'' ident corr;
     (case r of
        Ok res \<Rightarrow> mint_confirmed X E (fst res)
      | Err st \<Rightarrow> State_Monad.return (Err (show_stage st))
      | Panicked \<Rightarrow> State_Monad.return Panicked)
   }"

lemma mint_submit_ok:
  assumes "result_of (mint_submit X E C ident corr raw) s = Ok (sig, slot)"
  shows "(\<exists>tx'. EvSend tx' (Inr sig) \<in> set (events_of (mint_submit X E C ident corr raw) s)) \<and>
     (\<exists>a. EvStatuses [sig] a \<in> set (events_of (mint_submit X E C ident corr raw) s) \<and>
        poll_verdict X a = Some (Confirmed slot))"
proof -
  let ?sign = "sign_and_submit X E C raw ''platform_admin'' ident corr"
  obtain r s1 where run: "run_state ?sign s = (r, s1)" by (cases "run_state ?sign s")
  with assms obtain res where r: "r = Ok res"
    and conf: "result_of (mint_confirmed X E (fst res)) s1 = Ok (sig, slot)"
    by (cases r) (auto simp: mint_submit_def)
  have ext: "extends (\<lambda>_. True) (case r of
        Ok res \<Rightarrow> mint_confirmed X E (fst res)
      | Err st \<Rightarrow> State_Monad.return (Err (show_stage st))
      | Panicked \<Rightarrow> State_Monad.return Panicked)" for r
    by (intro extends_rules emits_mint_confirmed [THEN emits_extends]) simp_all
  have ev: "events_of (mint_submit X E C ident corr raw) s =
      events_of ?sign s @ events_of (mint_confirmed X E (fst res)) s1"
    unfolding mint_submit_def events_of_bind [OF extends_pipeline ext] using run r by simp
  from mint_confirmed_ok [OF conf] have "sig = fst res" by simp
  moreover from run r have "result_of ?sign s = Ok (fst res, snd res)" by simp
  ultimately show ?thesis
    using sign_and_submit_ok_sent [of X E C raw "''platform_admin''" ident corr s "fst res" "snd res"]
      mint_confirmed_ok [OF conf] unfolding ev by auto
qed

text \<open>C15: a mint is reported as done only when it is on chain. If building and submitting a generation
  mint returns a signature and a slot, then in that run the cluster accepted a transaction with
  that signature, and a status answer for that signature showed no error and that slot.\<close>

theorem generation_mint_is_confirmed:
  assumes "result_of (build_and_submit_generation_mint X E C wallet kwh meter window ident corr) s
     = Ok (sig, slot)"
  shows "\<exists>tx' values st v.
     EvSend tx' (Inr sig)
       \<in> set (events_of (build_and_submit_generation_mint X E C wallet kwh meter window ident corr) s) \<and>
     EvStatuses [sig] (Inr values)
       \<in> set (events_of (build_and_submit_generation_mint X E C wallet kwh meter window ident corr) s) \<and>
     first_status values = Some st \<and>
     (\<forall>e. j_get (json X) st ''err'' = Some e \<longrightarrow> j_is_null (json X) e) \<and>
     j_get (json X) st ''slot'' = Some v \<and> j_as_u64 (json X) v = Some slot"
proof -
  let ?m = "build_and_submit_generation_mint X E C wallet kwh meter window ident corr"
  let ?s1 = "s\<lparr>trace := trace s @ [EvPublicKey (transit_key_name C)
      (on_public_key E (trace s) (transit_key_name C))]\<rparr>"
  from assms obtain raw where run: "run_state ?m s = run_state (mint_submit X E C ident corr raw) ?s1"
    by (auto simp: build_and_submit_generation_mint_def port_defs mint_submit_def run_state_cases
        split: sum.splits)
  have ext: "extends (\<lambda>_. True) (mint_submit X E C ident corr raw)"
    unfolding mint_submit_def
    by (intro extends_bind extends_pipeline extends_rules emits_mint_confirmed [THEN emits_extends])
      simp_all
  have sub: "set (events_of (mint_submit X E C ident corr raw) ?s1) \<subseteq> set (events_of ?m s)"
    using extends_events(1) [OF ext, of ?s1] run by (auto simp: events_of_def [of ?m])
  from mint_submit_ok [of X E C ident corr raw ?s1 sig slot] assms run obtain tx' a where
    "EvSend tx' (Inr sig) \<in> set (events_of ?m s)" "EvStatuses [sig] a \<in> set (events_of ?m s)"
    "poll_verdict X a = Some (Confirmed slot)" using sub by auto
  with poll_verdict_confirmed [of X a slot] show ?thesis by blast
qed

lemma resolve_confirmation_first:
  "resolve_confirmation X E sig = do {
     resp \<leftarrow> provider_statuses E [sig];
     (case poll_verdict X resp of
        Some out \<Rightarrow> State_Monad.return out
      | None \<Rightarrow> do { sleep_ms 250; resolve_confirmation_bounded X E sig 23 250 })
   }"
  unfolding resolve_confirmation_def
  using resolve_confirmation_bounded.simps(2) [of X E sig 23 250] by simp

theorem generation_mint_is_confirmed_witness:
  "\<exists>tx' values st v.
     EvSend tx' (Inr [77])
       \<in> set (events_of (build_and_submit_generation_mint sample_ext sample_env sample_cfg ''wallet'' 0
         [1] 0 aggregator_identity ''m1'') sample_state) \<and>
     EvStatuses [[77]] (Inr values)
       \<in> set (events_of (build_and_submit_generation_mint sample_ext sample_env sample_cfg ''wallet'' 0
         [1] 0 aggregator_identity ''m1'') sample_state) \<and>
     first_status values = Some st \<and>
     (\<forall>e. j_get (json sample_ext) st ''err'' = Some e \<longrightarrow> j_is_null (json sample_ext) e) \<and>
     j_get (json sample_ext) st ''slot'' = Some v \<and> j_as_u64 (json sample_ext) v = Some 42"
  by (rule generation_mint_is_confirmed)
    (simp add: build_and_submit_generation_mint_def build_mint_tx_def mint_confirmed_def
      resolve_confirmation_first poll_verdict_def sample_eval)

end
