(* ===== verification/Agent_Memory.thy ===== *)
theory Agent_Memory
  imports Bridge_Types
begin

text \<open>
  The agent memory of \<open>agent_memory.rs\<close>: cosine similarity, the local and the remote embedding
  provider, the short-term buffer, the long-term vector store, the episode log and the
  \<open>AgentMemorySystem\<close> that coordinates them.

  A \<open>f32\<close> is its IEEE bit pattern. Comparisons are computed on the patterns; the rounding
  arithmetic is the record \<open>f32_arith\<close>, so the theorems hold for any. The clock values a call
  reads and the answer of the embedding provider to that call are arguments.
\<close>

section \<open>Single-precision floats\<close>

type_synonym f32 = "32 word"

record f32_arith =
  f_add :: "f32 \<Rightarrow> f32 \<Rightarrow> f32"
  f_mul :: "f32 \<Rightarrow> f32 \<Rightarrow> f32"
  f_div :: "f32 \<Rightarrow> f32 \<Rightarrow> f32"
  f_sqrt :: "f32 \<Rightarrow> f32"
  f_of_f64 :: "f64 \<Rightarrow> f32" \<comment> \<open>\<open>as f32\<close>\<close>
  f_sum_start :: f32 \<comment> \<open>the value \<open>Iterator::sum\<close> starts from, a zero of either sign\<close>

datatype ordering = Less | Equal | Greater

definition f32_zero :: f32 where
  "f32_zero = 0"

definition f32_one :: f32 where
  "f32_one = 0x3F800000"

text \<open>All ones in the exponent and a non-zero fraction.\<close>

definition f32_is_nan :: "f32 \<Rightarrow> bool" where
  "f32_is_nan w \<longleftrightarrow> 0x7F800000 < (w AND 0x7FFFFFFF)"

text \<open>Sign and magnitude; both zeros have key 0.\<close>

definition f32_key :: "f32 \<Rightarrow> int" where
  "f32_key w = (let mag = uint (w AND 0x7FFFFFFF) in if bit w 31 then - mag else mag)"

definition f32_partial_cmp :: "f32 \<Rightarrow> f32 \<Rightarrow> ordering option" where
  "f32_partial_cmp a b =
     (if f32_is_nan a \<or> f32_is_nan b then None
      else Some (if f32_key a < f32_key b then Less
                 else if f32_key a = f32_key b then Equal else Greater))"

definition f32_eq :: "f32 \<Rightarrow> f32 \<Rightarrow> bool" where
  "f32_eq a b \<longleftrightarrow> f32_partial_cmp a b = Some Equal"

definition f32_gt :: "f32 \<Rightarrow> f32 \<Rightarrow> bool" where
  "f32_gt a b \<longleftrightarrow> f32_partial_cmp a b = Some Greater"

definition f32_ge :: "f32 \<Rightarrow> f32 \<Rightarrow> bool" where
  "f32_ge a b \<longleftrightarrow> f32_partial_cmp a b = Some Greater \<or> f32_partial_cmp a b = Some Equal"

lemma f32_ge_iff: "f32_ge a b \<longleftrightarrow> \<not> f32_is_nan a \<and> \<not> f32_is_nan b \<and> f32_key b \<le> f32_key a"
  by (auto simp: f32_ge_def f32_partial_cmp_def)

lemma f32_partial_cmp_swap:
  "f32_partial_cmp a b = Some Less \<longleftrightarrow> f32_partial_cmp b a = Some Greater"
  by (auto simp: f32_partial_cmp_def)

section \<open>Errors and similarity\<close>

datatype memory_error =
    EmbeddingFailed string
  | Serialization string
  | HttpError string
  | MemoryInternal string

text \<open>One pass over the indices with three accumulators.\<close>

definition cosine_similarity :: "f32_arith \<Rightarrow> f32 list \<Rightarrow> f32 list \<Rightarrow> f32" where
  "cosine_similarity A a b =
     (if length a \<noteq> length b \<or> a = [] then f32_zero
      else
        (let (dot_product, norm_a, norm_b) =
           fold (\<lambda>(x, y) (d, na, nb).
                   (f_add A d (f_mul A x y), f_add A na (f_mul A x x), f_add A nb (f_mul A y y)))
             (zip a b) (f32_zero, f32_zero, f32_zero)
         in if f32_eq norm_a f32_zero \<or> f32_eq norm_b f32_zero then f32_zero
            else f_div A dot_product (f_mul A (f_sqrt A norm_a) (f_sqrt A norm_b))))"

section \<open>Embedding providers\<close>

type_synonym 'a mem_result = "(memory_error, 'a) outcome"

text \<open>\<open>str::chars\<close>: the code points of a UTF-8 byte string, as their numbers.\<close>

fun utf8_chars :: "nat list \<Rightarrow> nat list" where
  "utf8_chars [] = []"
| "utf8_chars (b # bs) =
     (if b < 0x80 \<or> bs = [] then b # utf8_chars bs
      else if b < 0xE0 then
        (b mod 0x20 * 0x40 + hd bs mod 0x40) # utf8_chars (drop 1 bs)
      else if b < 0xF0 then
        (b mod 0x10 * 0x1000 + hd bs mod 0x40 * 0x40 + hd (drop 1 bs @ [0]) mod 0x40)
          # utf8_chars (drop 2 bs)
      else
        (b mod 8 * 0x40000 + hd bs mod 0x40 * 0x1000 + hd (drop 1 bs @ [0]) mod 0x40 * 0x40
           + hd (drop 2 bs @ [0]) mod 0x40)
          # utf8_chars (drop 3 bs))"

definition str_chars :: "string \<Rightarrow> nat list" where
  "str_chars s = utf8_chars (map of_char s)"

text \<open>\<open>%\<close> on \<open>usize\<close> panics when the divisor is zero.\<close>

definition rem_usize :: "nat \<Rightarrow> nat \<Rightarrow> nat mem_result" where
  "rem_usize n d = (if d = 0 then Panicked else Ok (n mod d))"

text \<open>The increments of \<open>vector[(char + i * 31) % dimension]\<close>, from position \<open>i\<close> on.\<close>

fun count_chars :: "f32_arith \<Rightarrow> nat \<Rightarrow> nat \<Rightarrow> nat list \<Rightarrow> f32 list \<Rightarrow> f32 list mem_result" where
  "count_chars A dim i [] vector = Ok vector"
| "count_chars A dim i (c # cs) vector =
     (case rem_usize (c + i * 31) dim of
        Ok idx \<Rightarrow> count_chars A dim (i + 1) cs (vector[idx := f_add A (vector ! idx) f32_one])
      | Err e \<Rightarrow> Err e
      | Panicked \<Rightarrow> Panicked)"

definition normalize_vector :: "f32_arith \<Rightarrow> f32 list \<Rightarrow> f32 list" where
  "normalize_vector A vector =
     (let norm = f_sqrt A (foldl (f_add A) (f_sum_start A) (map (\<lambda>x. f_mul A x x) vector))
      in if f32_gt norm f32_zero then map (\<lambda>x. f_div A x norm) vector else vector)"

text \<open>
  \<open>LocalEmbeddingProvider::get_embedding\<close>. With dimension 0 the first character panics.
\<close>

definition local_get_embedding :: "f32_arith \<Rightarrow> nat \<Rightarrow> string \<Rightarrow> f32 list mem_result" where
  "local_get_embedding A dim txt =
     (let vector = replicate dim f32_zero in
      if txt = [] then Ok vector
      else
        (case count_chars A dim 0 (str_chars txt) vector of
           Ok counted \<Rightarrow> Ok (normalize_vector A counted)
         | Err e \<Rightarrow> Err e
         | Panicked \<Rightarrow> Panicked))"

definition local_default_dimension :: nat where
  "local_default_dimension = 1536"

text \<open>The batch is embedded in order; the first error ends it.\<close>

fun local_get_embeddings :: "f32_arith \<Rightarrow> nat \<Rightarrow> string list \<Rightarrow> f32 list list mem_result" where
  "local_get_embeddings A dim [] = Ok []"
| "local_get_embeddings A dim (t # ts) =
     (case local_get_embedding A dim t of
        Ok v \<Rightarrow>
          (case local_get_embeddings A dim ts of
             Ok vs \<Rightarrow> Ok (v # vs)
           | Err e \<Rightarrow> Err e
           | Panicked \<Rightarrow> Panicked)
      | Err e \<Rightarrow> Err e
      | Panicked \<Rightarrow> Panicked)"

record remote_provider =
  rp_api_key :: string
  rp_model_name :: string
  rp_endpoint :: string
  rp_dimension :: nat

record embedding_request =
  rq_url :: string
  rq_headers :: "(string \<times> string) list"
  rq_body :: json

text \<open>What the HTTP client hands back: status, body text and the parsed body.\<close>

record embedding_response =
  rs_success :: bool
  rs_status :: string
  rs_text :: "string + string"
  rs_json :: "string + json"

definition remote_request :: "remote_provider \<Rightarrow> string list \<Rightarrow> embedding_request" where
  "remote_request R texts =
     \<lparr>rq_url = rp_endpoint R,
      rq_headers = [(''Authorization'', ''Bearer '' @ rp_api_key R),
                    (''Content-Type'', ''application/json'')],
      rq_body = JObject [(''model'', JString (rp_model_name R)),
                         (''input'', JArray (map JString texts))]\<rparr>"

text \<open>The numbers of one \<open>embedding\<close> array; a value that is no number fails the call.\<close>

fun parse_floats :: "f32_arith \<Rightarrow> json_api \<Rightarrow> json list \<Rightarrow> string + f32 list" where
  "parse_floats A J [] = Inr []"
| "parse_floats A J (v # vs) =
     (case j_as_f64 J v of
        None \<Rightarrow> Inl ''Invalid float in embedding''
      | Some x \<Rightarrow>
          (case parse_floats A J vs of
             Inl e \<Rightarrow> Inl e
           | Inr xs \<Rightarrow> Inr (f_of_f64 A x # xs)))"

text \<open>The loop over \<open>data\<close>: an item without an \<open>embedding\<close> array is skipped.\<close>

fun parse_embeddings :: "f32_arith \<Rightarrow> json_api \<Rightarrow> json list \<Rightarrow> f32 list list \<Rightarrow> string + f32 list list" where
  "parse_embeddings A J [] results = Inr results"
| "parse_embeddings A J (item # items) results =
     (case Option.bind (j_get J item ''embedding'') (j_as_array J) of
        None \<Rightarrow> parse_embeddings A J items results
      | Some emb_val \<Rightarrow>
          (case parse_floats A J emb_val of
             Inl e \<Rightarrow> Inl e
           | Inr v \<Rightarrow> parse_embeddings A J items (results @ [v])))"

text \<open>\<open>RemoteEmbeddingProvider::get_embeddings\<close>; \<open>post\<close> is the HTTP client.\<close>

definition remote_get_embeddings ::
  "f32_arith \<Rightarrow> json_api \<Rightarrow> (embedding_request \<Rightarrow> string + embedding_response) \<Rightarrow>
   remote_provider \<Rightarrow> string list \<Rightarrow> f32 list list mem_result" where
  "remote_get_embeddings A J post R texts =
     (case post (remote_request R texts) of
        Inl e \<Rightarrow> Err (HttpError e)
      | Inr response \<Rightarrow>
          if \<not> rs_success response then
            Err (EmbeddingFailed (''API returned error status: '' @ rs_status response @ ''. Body: ''
              @ (case rs_text response of Inl _ \<Rightarrow> [] | Inr body \<Rightarrow> body)))
          else
            (case rs_json response of
               Inl e \<Rightarrow> Err (HttpError e)
             | Inr parsed \<Rightarrow>
                 (case (case Option.bind (j_get J parsed ''data'') (j_as_array J) of
                          None \<Rightarrow> Inr []
                        | Some items \<Rightarrow> parse_embeddings A J items []) of
                    Inl e \<Rightarrow> Err (EmbeddingFailed e)
                  | Inr results \<Rightarrow>
                      if results = []
                      then Err (EmbeddingFailed ''No embedding data extracted from response'')
                      else Ok results)))"

definition remote_get_embedding ::
  "f32_arith \<Rightarrow> json_api \<Rightarrow> (embedding_request \<Rightarrow> string + embedding_response) \<Rightarrow>
   remote_provider \<Rightarrow> string \<Rightarrow> f32 list mem_result" where
  "remote_get_embedding A J post R txt =
     (case remote_get_embeddings A J post R [txt] of
        Ok (v # _) \<Rightarrow> Ok v
      | Ok [] \<Rightarrow> Err (EmbeddingFailed ''API returned an empty embeddings array'')
      | Err e \<Rightarrow> Err e
      | Panicked \<Rightarrow> Panicked)"

section \<open>Short-term memory\<close>

datatype message_role = RoleSystem | RoleUser | RoleAssistant | RoleTool

type_synonym metadata = "string \<rightharpoonup> string"

record chat_message =
  cm_role :: message_role
  cm_content :: string
  cm_timestamp_ms :: u64
  cm_metadata :: metadata

record short_term =
  stm_messages :: "chat_message list"
  stm_max_messages :: nat

definition short_term_new :: "nat \<Rightarrow> short_term" where
  "short_term_new max_messages = \<lparr>stm_messages = [], stm_max_messages = max_messages\<rparr>"

definition short_term_add ::
  "u64 \<Rightarrow> message_role \<Rightarrow> string \<Rightarrow> metadata \<Rightarrow> short_term \<Rightarrow> short_term" where
  "short_term_add now role content meta st =
     st\<lparr>stm_messages := stm_messages st @
       [\<lparr>cm_role = role, cm_content = content, cm_timestamp_ms = now, cm_metadata = meta\<rparr>]\<rparr>"

definition short_term_clear :: "short_term \<Rightarrow> short_term" where
  "short_term_clear st = st\<lparr>stm_messages := []\<rparr>"

definition needs_consolidation :: "short_term \<Rightarrow> bool" where
  "needs_consolidation st \<longleftrightarrow> stm_max_messages st \<le> length (stm_messages st)"

text \<open>\<open>drain(0..split_idx)\<close>: the older messages and the buffer without them.\<close>

definition truncate_older :: "nat \<Rightarrow> short_term \<Rightarrow> chat_message list \<times> short_term" where
  "truncate_older keep st =
     (if length (stm_messages st) \<le> keep then ([], st)
      else
        (let split_idx = length (stm_messages st) - keep
         in (take split_idx (stm_messages st),
             st\<lparr>stm_messages := drop split_idx (stm_messages st)\<rparr>)))"

section \<open>Long-term memory\<close>

record memory_entry =
  en_id :: string
  en_content :: string
  en_embedding :: "f32 list"
  en_created_at_ms :: u64
  en_last_accessed_at_ms :: u64
  en_access_count :: u64
  en_tags :: "string list"
  en_metadata :: metadata

text \<open>
  \<open>slice::sort_by\<close> is stable: equal elements keep their order. For a comparison that is a total
  preorder there is one stable order, which this insertion sort computes.
\<close>

fun insert_by :: "('a \<Rightarrow> 'a \<Rightarrow> ordering) \<Rightarrow> 'a \<Rightarrow> 'a list \<Rightarrow> 'a list" where
  "insert_by cmp x [] = [x]"
| "insert_by cmp x (y # ys) =
     (if cmp x y = Greater then y # insert_by cmp x ys else x # y # ys)"

definition sort_by :: "('a \<Rightarrow> 'a \<Rightarrow> ordering) \<Rightarrow> 'a list \<Rightarrow> 'a list" where
  "sort_by cmp xs = foldr (insert_by cmp) xs []"

text \<open>\<open>b.1.partial_cmp(&a.1).unwrap_or(Ordering::Equal)\<close>: descending scores.\<close>

definition score_cmp :: "'a \<times> f32 \<Rightarrow> 'a \<times> f32 \<Rightarrow> ordering" where
  "score_cmp a b = (case f32_partial_cmp (snd b) (snd a) of Some ord \<Rightarrow> ord | None \<Rightarrow> Equal)"

definition scored ::
  "f32_arith \<Rightarrow> f32 list \<Rightarrow> f32 \<Rightarrow> memory_entry list \<Rightarrow> (memory_entry \<times> f32) list" where
  "scored A query_embedding min_score entries =
     filter (\<lambda>r. f32_ge (snd r) min_score)
       (map (\<lambda>e. (e, cosine_similarity A query_embedding (en_embedding e))) entries)"

definition long_term_query ::
  "f32_arith \<Rightarrow> f32 list \<Rightarrow> nat \<Rightarrow> f32 \<Rightarrow> memory_entry list \<Rightarrow> (memory_entry \<times> f32) list" where
  "long_term_query A query_embedding limit min_score entries =
     take limit (sort_by score_cmp (scored A query_embedding min_score entries))"

text \<open>\<open>touch_entry\<close>: the first entry with the id.\<close>

fun touch_entry :: "u64 \<Rightarrow> string \<Rightarrow> memory_entry list \<Rightarrow> memory_entry list" where
  "touch_entry now i [] = []"
| "touch_entry now i (e # es) =
     (if en_id e = i
      then e\<lparr>en_last_accessed_at_ms := now, en_access_count := en_access_count e + 1\<rparr> # es
      else e # touch_entry now i es)"

section \<open>Episodic memory\<close>

record episode_step =
  es_action :: string
  es_observation :: string
  es_timestamp_ms :: u64
  es_metadata :: metadata

record episode =
  ep_id :: string
  ep_task :: string
  ep_steps :: "episode_step list"
  ep_success :: bool
  ep_reward :: "f32 option"
  ep_timestamp_ms :: u64

definition get_last_n_episodes :: "nat \<Rightarrow> episode list \<Rightarrow> episode list" where
  "get_last_n_episodes n eps =
     (if length eps \<le> n then eps else drop (length eps - n) eps)"

section \<open>Identifiers\<close>

text \<open>\<open>uuid_v4_placeholder\<close>: the sixteen bytes of the nanosecond clock, two of them patched.\<close>

definition uuid_bytes :: "nat \<Rightarrow> bytes" where
  "uuid_bytes nanos =
     (let raw = map (\<lambda>i. word_of_nat (nanos div 2 ^ (i * 8)) :: u8) [0..<16]
      in raw[6 := (raw ! 6 AND 0x0F) OR 0x40, 8 := (raw ! 8 AND 0x3F) OR 0x80])"

definition uuid_v4_placeholder :: "nat \<Rightarrow> string" where
  "uuid_v4_placeholder nanos =
     (let b = uuid_bytes nanos; hex = (\<lambda>i j. concat (map hex2 (take (j - i) (drop i b))))
      in hex 0 4 @ ''-'' @ hex 4 6 @ ''-'' @ hex 6 8 @ ''-'' @ hex 8 10 @ ''-'' @ hex 10 16)"

section \<open>The coordinator\<close>

record agent_memory =
  am_short_term :: short_term
  am_long_term :: "memory_entry list"
  am_episodic :: "episode list"

definition agent_memory_new :: "nat \<Rightarrow> agent_memory" where
  "agent_memory_new max_short_term_messages =
     \<lparr>am_short_term = short_term_new max_short_term_messages, am_long_term = [], am_episodic = []\<rparr>"

definition add_message ::
  "u64 \<Rightarrow> message_role \<Rightarrow> string \<Rightarrow> metadata \<Rightarrow> agent_memory \<Rightarrow> agent_memory" where
  "add_message now role content meta M =
     M\<lparr>am_short_term := short_term_add now role content meta (am_short_term M)\<rparr>"

text \<open>
  The embedding provider is a function from the text to its answer; \<open>nanos\<close> and \<open>now\<close> are the
  two clock readings of the call.
\<close>

type_synonym embedder = "string \<Rightarrow> f32 list mem_result"

definition new_entry ::
  "nat \<Rightarrow> u64 \<Rightarrow> string \<Rightarrow> f32 list \<Rightarrow> string list \<Rightarrow> metadata \<Rightarrow> memory_entry" where
  "new_entry nanos now content embedding tags meta =
     \<lparr>en_id = uuid_v4_placeholder nanos, en_content = content, en_embedding = embedding,
      en_created_at_ms = now, en_last_accessed_at_ms = now, en_access_count = 1,
      en_tags = tags, en_metadata = meta\<rparr>"

definition remember_fact ::
  "embedder \<Rightarrow> nat \<Rightarrow> u64 \<Rightarrow> string \<Rightarrow> string list \<Rightarrow> metadata \<Rightarrow> agent_memory \<Rightarrow>
   string mem_result \<times> agent_memory" where
  "remember_fact get_embedding nanos now fact_text tags meta M =
     (case get_embedding fact_text of
        Ok embedding \<Rightarrow>
          (Ok (uuid_v4_placeholder nanos),
           M\<lparr>am_long_term := am_long_term M @ [new_entry nanos now fact_text embedding tags meta]\<rparr>)
      | Err e \<Rightarrow> (Err e, M)
      | Panicked \<Rightarrow> (Panicked, M))"

text \<open>\<open>recall\<close> touches its results in order; touch \<open>i\<close> reads the clock as \<open>now i\<close>.\<close>

definition recall ::
  "f32_arith \<Rightarrow> embedder \<Rightarrow> (nat \<Rightarrow> u64) \<Rightarrow> string \<Rightarrow> nat \<Rightarrow> f32 \<Rightarrow> agent_memory \<Rightarrow>
   (memory_entry \<times> f32) list mem_result \<times> agent_memory" where
  "recall A get_embedding now query limit min_score M =
     (case get_embedding query of
        Ok query_embedding \<Rightarrow>
          (let results = long_term_query A query_embedding limit min_score (am_long_term M)
           in (Ok results,
               M\<lparr>am_long_term :=
                 fold (\<lambda>(i, entry, _). touch_entry (now i) (en_id entry)) (enumerate 0 results)
                   (am_long_term M)\<rparr>))
      | Err e \<Rightarrow> (Err e, M)
      | Panicked \<Rightarrow> (Panicked, M))"

fun role_str :: "message_role \<Rightarrow> string" where
  "role_str RoleSystem = ''System''"
| "role_str RoleUser = ''User''"
| "role_str RoleAssistant = ''Assistant''"
| "role_str RoleTool = ''Tool''"

definition newline :: string where
  "newline = [CHR 0x0A]"

definition digest :: "chat_message list \<Rightarrow> string" where
  "digest ms =
     ''Summary of past conversation steps:'' @ newline @
     concat (map (\<lambda>m. ''- '' @ role_str (cm_role m) @ '': '' @ cm_content m @ newline) ms)"

text \<open>
  \<open>consolidate\<close>: the messages leave the buffer before the embedding is asked for, and an error
  of the provider returns after they left.
\<close>

definition consolidate ::
  "embedder \<Rightarrow> nat \<Rightarrow> u64 \<Rightarrow> nat \<Rightarrow> agent_memory \<Rightarrow> string option mem_result \<times> agent_memory" where
  "consolidate get_embedding nanos now keep_recent M =
     (if \<not> needs_consolidation (am_short_term M) then (Ok None, M)
      else
        (let (truncated, st) = truncate_older keep_recent (am_short_term M);
             M' = M\<lparr>am_short_term := st\<rparr>
         in if truncated = [] then (Ok None, M')
            else
              (case get_embedding (digest truncated) of
                 Ok embedding \<Rightarrow>
                   (Ok (Some (uuid_v4_placeholder nanos)),
                    M'\<lparr>am_long_term := am_long_term M' @
                      [new_entry nanos now (digest truncated) embedding
                         [''consolidation_summary''] [''source'' \<mapsto> ''consolidation'']]\<rparr>)
               | Err e \<Rightarrow> (Err e, M')
               | Panicked \<Rightarrow> (Panicked, M'))))"

definition record_episode ::
  "nat \<Rightarrow> u64 \<Rightarrow> string \<Rightarrow> episode_step list \<Rightarrow> bool \<Rightarrow> f32 option \<Rightarrow> agent_memory \<Rightarrow>
   string \<times> agent_memory" where
  "record_episode nanos now task steps success reward M =
     (uuid_v4_placeholder nanos,
      M\<lparr>am_episodic := am_episodic M @
        [\<lparr>ep_id = uuid_v4_placeholder nanos, ep_task = task, ep_steps = steps,
          ep_success = success, ep_reward = reward, ep_timestamp_ms = now\<rparr>]\<rparr>)"

end
