(* ===== verification/Memory_Properties.thy ===== *)
theory Memory_Properties
  imports Agent_Memory "HOL-Library.Multiset"
begin

text \<open>
  Correctness of the agent memory: what \<open>recall\<close> returns and touches, where consolidated messages
  go, which clock readings give the same identifier, and the shape of the local embeddings.
\<close>

section \<open>The stable sort by score\<close>

abbreviation score_key :: "'a \<times> f32 \<Rightarrow> int" where
  "score_key r \<equiv> f32_key (snd r)"

abbreviation descending :: "('a \<times> f32) list \<Rightarrow> bool" where
  "descending rs \<equiv> sorted_wrt (\<lambda>a b. score_key b \<le> score_key a) rs"

abbreviation no_nan :: "('a \<times> f32) list \<Rightarrow> bool" where
  "no_nan rs \<equiv> \<forall>r\<in>set rs. \<not> f32_is_nan (snd r)"

lemma score_cmp_Greater:
  "\<not> f32_is_nan (snd a) \<Longrightarrow> \<not> f32_is_nan (snd b) \<Longrightarrow>
   score_cmp a b = Greater \<longleftrightarrow> score_key a < score_key b"
  by (simp add: score_cmp_def f32_partial_cmp_def)

lemma set_insert_by [simp]: "set (insert_by cmp x ys) = insert x (set ys)"
  by (induction ys) auto

lemma sort_by_simps [simp]:
  "sort_by cmp [] = []" "sort_by cmp (x # xs) = insert_by cmp x (sort_by cmp xs)"
  by (simp_all add: sort_by_def)

lemma set_sort_by [simp]: "set (sort_by cmp xs) = set xs"
  by (induction xs) simp_all

lemma mset_insert_by [simp]: "mset (insert_by cmp x ys) = add_mset x (mset ys)"
  by (induction ys) simp_all

lemma mset_sort_by [simp]: "mset (sort_by cmp xs) = mset xs"
  by (induction xs) simp_all

lemma descending_insert_by:
  "no_nan (x # ys) \<Longrightarrow> descending ys \<Longrightarrow> descending (insert_by score_cmp x ys)"
  by (induction ys) (auto simp: score_cmp_Greater)

lemma descending_sort_by: "no_nan xs \<Longrightarrow> descending (sort_by score_cmp xs)"
  by (induction xs) (auto intro!: descending_insert_by)

lemma stable_insert_by:
  "no_nan (x # ys) \<Longrightarrow>
   filter (\<lambda>r. score_key r = k) (insert_by score_cmp x ys) =
   filter (\<lambda>r. score_key r = k) (x # ys)"
  by (induction ys) (auto simp: score_cmp_Greater)

lemma stable_sort_by:
  "no_nan xs \<Longrightarrow>
   filter (\<lambda>r. score_key r = k) (sort_by score_cmp xs) = filter (\<lambda>r. score_key r = k) xs"
  by (induction xs) (simp_all add: stable_insert_by del: insert_by.simps)

text \<open>
  The filter on \<open>score >= min_score\<close> drops every NaN score, so the fallback
  \<open>Ordering::Equal\<close> of the comparison is never taken.
\<close>

lemma no_nan_scored: "no_nan (scored A q min_score entries)"
  by (auto simp: scored_def f32_ge_iff)

lemma f32_ge_key:
  "\<not> f32_is_nan a \<Longrightarrow> \<not> f32_is_nan b \<Longrightarrow> f32_ge a b \<longleftrightarrow> f32_key b \<le> f32_key a"
  by (simp add: f32_ge_iff)

lemma long_term_query_split:
  "\<exists>rest. long_term_query A q limit min_score entries @ rest =
            sort_by score_cmp (scored A q min_score entries) \<and>
          (rest \<noteq> [] \<longrightarrow> length (long_term_query A q limit min_score entries) = limit)"
  unfolding long_term_query_def
  by (rule exI [of _ "drop limit (sort_by score_cmp (scored A q min_score entries))"]) auto

section \<open>Recall\<close>

text \<open>C29: \<open>recall\<close> returns the best matches. The answer and some rest together are the entries
  whose similarity reaches the minimum, each score in the order of insertion; the scores of the answer
  descend, none of the rest scores higher than any of the answer, the answer has at most \<open>limit\<close>
  elements and leaves something out only when it has exactly \<open>limit\<close>.\<close>

theorem recall_returns_best:
  assumes "get_embedding query = Ok qe"
    and "fst (recall A get_embedding now query limit min_score M) = Ok rs"
  shows "\<exists>rest.
     (\<forall>k. filter (\<lambda>r. f32_key (snd r) = k) (rs @ rest) =
          filter (\<lambda>r. f32_key (snd r) = k) (scored A qe min_score (am_long_term M))) \<and>
     sorted_wrt (\<lambda>a b. f32_ge (snd a) (snd b)) rs \<and>
     (\<forall>r\<in>set rs. \<forall>x\<in>set rest. f32_ge (snd r) (snd x)) \<and>
     length rs \<le> limit \<and> (rest \<noteq> [] \<longrightarrow> length rs = limit)"
proof -
  let ?S = "scored A qe min_score (am_long_term M)"
  have rs: "rs = long_term_query A qe limit min_score (am_long_term M)"
    using assms by (simp add: recall_def Let_def)
  obtain rest where split: "rs @ rest = sort_by score_cmp ?S"
    and full: "rest \<noteq> [] \<longrightarrow> length rs = limit"
    using long_term_query_split [of A qe limit min_score "am_long_term M"] unfolding rs by blast
  have "no_nan (rs @ rest)" unfolding split using no_nan_scored [of A qe] by simp
  moreover have "descending (rs @ rest)"
    unfolding split by (rule descending_sort_by [OF no_nan_scored])
  ultimately have "sorted_wrt (\<lambda>a b. f32_ge (snd a) (snd b)) (rs @ rest)"
    by (elim sorted_wrt_mono_rel [rotated]) (simp add: f32_ge_key)
  then have "sorted_wrt (\<lambda>a b. f32_ge (snd a) (snd b)) rs"
    and "\<forall>r\<in>set rs. \<forall>x\<in>set rest. f32_ge (snd r) (snd x)"
    by (simp_all add: sorted_wrt_append)
  moreover have "\<forall>k. filter (\<lambda>r. score_key r = k) (rs @ rest) = filter (\<lambda>r. score_key r = k) ?S"
    unfolding split by (auto intro: stable_sort_by [OF no_nan_scored])
  moreover have "length rs \<le> limit" by (simp add: rs long_term_query_def)
  ultimately show ?thesis using full by blast
qed

text \<open>A concrete arithmetic for closed instances: it multiplies small whole numbers.\<close>

definition sample_arith :: f32_arith where
  "sample_arith =
     \<lparr>f_add = (\<lambda>a b. if a = f32_zero then b else a), f_mul = (\<lambda>a b. if a = f32_zero then a else b),
      f_div = (\<lambda>a b. a), f_sqrt = (\<lambda>a. a), f_of_f64 = (\<lambda>_. f32_one), f_sum_start = f32_zero\<rparr>"

definition sample_entry :: "string \<Rightarrow> f32 list \<Rightarrow> memory_entry" where
  "sample_entry i v =
     \<lparr>en_id = i, en_content = [], en_embedding = v, en_created_at_ms = 0,
      en_last_accessed_at_ms = 0, en_access_count = 1, en_tags = [], en_metadata = Map.empty\<rparr>"

definition sample_memory :: agent_memory where
  "sample_memory =
     \<lparr>am_short_term = \<lparr>stm_messages = [], stm_max_messages = 2\<rparr>,
      am_long_term = [sample_entry ''a'' [f32_one], sample_entry ''b'' [f32_zero]],
      am_episodic = []\<rparr>"

lemmas sample_memory_defs = sample_memory_def sample_entry_def sample_arith_def recall_def
  long_term_query_def scored_def cosine_similarity_def score_cmp_def f32_zero_def f32_one_def
  f32_eq_def f32_ge_def f32_partial_cmp_def f32_is_nan_def f32_key_def

lemma sample_recall:
  "recall sample_arith (\<lambda>_. Ok [f32_one]) (\<lambda>i. 9) ''q'' 2 f32_one sample_memory =
     (Ok [(sample_entry ''a'' [f32_one], f32_one)],
      sample_memory\<lparr>am_long_term :=
        [(sample_entry ''a'' [f32_one])\<lparr>en_last_accessed_at_ms := 9, en_access_count := 2\<rparr>,
         sample_entry ''b'' [f32_zero]]\<rparr>)"
  by (simp add: sample_memory_defs)

theorem recall_returns_best_witness:
  "\<exists>rest.
     (\<forall>k. filter (\<lambda>r. f32_key (snd r) = k) ([(sample_entry ''a'' [f32_one], f32_one)] @ rest) =
          filter (\<lambda>r. f32_key (snd r) = k)
            (scored sample_arith [f32_one] f32_one (am_long_term sample_memory))) \<and>
     sorted_wrt (\<lambda>a b. f32_ge (snd a) (snd b)) [(sample_entry ''a'' [f32_one], f32_one)] \<and>
     (\<forall>r\<in>set [(sample_entry ''a'' [f32_one], f32_one)]. \<forall>x\<in>set rest. f32_ge (snd r) (snd x)) \<and>
     length [(sample_entry ''a'' [f32_one], f32_one)] \<le> 2 \<and>
     (rest \<noteq> [] \<longrightarrow> length [(sample_entry ''a'' [f32_one], f32_one)] = 2)"
  by (rule recall_returns_best [where get_embedding = "\<lambda>_. Ok [f32_one]" and query = "''q''"
        and now = "\<lambda>i. 9"]) (simp_all add: sample_recall)

text \<open>The access statistics \<open>recall\<close> updates.\<close>

definition touched :: "u64 \<Rightarrow> memory_entry \<Rightarrow> memory_entry" where
  "touched now e = e\<lparr>en_last_accessed_at_ms := now, en_access_count := en_access_count e + 1\<rparr>"

lemma en_id_touched [simp]: "en_id (touched now e) = en_id e"
  by (simp add: touched_def)

lemma touch_entry_map:
  "distinct (map en_id es) \<Longrightarrow>
   touch_entry now i es = map (\<lambda>e. if en_id e = i then touched now e else e) es"
  by (induction es) (auto simp: touched_def rev_image_eqI intro!: map_idI [symmetric])

text \<open>The touches as a table from identifiers to times.\<close>

lemma fold_touch_map:
  "distinct (map en_id es) \<Longrightarrow> distinct (map fst ts) \<Longrightarrow>
   fold (\<lambda>(i, now). touch_entry now i) ts es =
     map (\<lambda>e. case map_of ts (en_id e) of None \<Rightarrow> e | Some now \<Rightarrow> touched now e) es"
proof (induction ts arbitrary: es)
  case (Cons t ts)
  obtain i now where t: "t = (i, now)" by fastforce
  let ?es = "touch_entry now i es"
  have es: "?es = map (\<lambda>e. if en_id e = i then touched now e else e) es"
    using Cons.prems by (simp add: touch_entry_map)
  then have "map en_id ?es = map en_id es" by simp
  with Cons.prems have "distinct (map en_id ?es)" by simp
  moreover have "map_of ts i = None" using Cons.prems(2) by (simp add: t map_of_eq_None_iff)
  ultimately show ?case using Cons.IH Cons.prems(2) by (auto simp: t es)
qed simp

lemma recall_touches:
  "fold (\<lambda>(i, entry, _). touch_entry (now i) (en_id entry)) (enumerate n rs) es =
   fold (\<lambda>(i, now). touch_entry now i) (zip (map (en_id \<circ> fst) rs) (map now [n..<n + length rs])) es"
proof (induction rs arbitrary: n es)
  case (Cons r rs)
  have "[n..<n + length (r # rs)] = n # [Suc n..<Suc n + length rs]" by (simp add: upt_conv_Cons del: upt_Suc)
  with Cons [of "Suc n"] show ?case by (cases r) (simp del: upt_Suc)
qed simp

lemma distinct_result_ids:
  assumes "distinct (map en_id entries)"
  shows "distinct (map (en_id \<circ> fst) (long_term_query A q limit min_score entries))"
proof -
  have "distinct (map (en_id \<circ> fst) (scored A q min_score entries))"
    unfolding scored_def using assms
    by (intro distinct_map_filter) (simp add: comp_def)
  then have "distinct (map (en_id \<circ> fst) (sort_by score_cmp (scored A q min_score entries)))"
    by (metis mset_eq_imp_distinct_iff mset_map mset_sort_by)
  then show ?thesis
    unfolding long_term_query_def take_map [symmetric] by (rule distinct_take)
qed

text \<open>\<open>recall\<close> updates the access statistics of exactly the entries it returns. When the
  identifiers are distinct, the entry at position \<open>i\<close> of the answer gets the time of the \<open>i\<close>-th
  clock reading and one more access, and nothing else of the memory changes.\<close>

lemma recall_touches_answer:
  assumes "distinct (map en_id (am_long_term M))"
    and "recall A get_embedding now query limit min_score M = (Ok rs, M')"
  shows "M' = M\<lparr>am_long_term :=
     map (\<lambda>e. case map_of (zip (map (en_id \<circ> fst) rs) (map now [0..<length rs])) (en_id e) of
                None \<Rightarrow> e
              | Some t \<Rightarrow>
                  e\<lparr>en_last_accessed_at_ms := t, en_access_count := en_access_count e + 1\<rparr>)
       (am_long_term M)\<rparr>"
proof -
  obtain qe where qe: "get_embedding query = Ok qe"
    using assms(2) by (auto simp: recall_def split: outcome.splits)
  then have rs: "rs = long_term_query A qe limit min_score (am_long_term M)"
    and "M' = M\<lparr>am_long_term := fold (\<lambda>(i, entry, _). touch_entry (now i) (en_id entry))
      (enumerate 0 rs) (am_long_term M)\<rparr>"
    using assms(2) by (auto simp: recall_def Let_def)
  then have M': "M' = M\<lparr>am_long_term := fold (\<lambda>(i, now). touch_entry now i)
      (zip (map (en_id \<circ> fst) rs) (map now [0..<length rs])) (am_long_term M)\<rparr>"
    using recall_touches [of now 0 rs] by simp
  have "distinct (map fst (zip (map (en_id \<circ> fst) rs) (map now [0..<length rs])))"
    using distinct_result_ids [OF assms(1), of A qe limit min_score] by (simp add: rs)
  from fold_touch_map [OF assms(1) this] show ?thesis by (simp only: M' touched_def)
qed

lemma recall_touches_answer_witness:
  "am_long_term (snd (recall sample_arith (\<lambda>_. Ok [f32_one]) (\<lambda>i. 9) ''q'' 2 f32_one sample_memory)) =
     [(sample_entry ''a'' [f32_one])\<lparr>en_last_accessed_at_ms := 9, en_access_count := 2\<rparr>,
      sample_entry ''b'' [f32_zero]]"
proof -
  have "distinct (map en_id (am_long_term sample_memory))"
    by (simp add: sample_memory_def sample_entry_def)
  from recall_touches_answer [OF this sample_recall] show ?thesis
    unfolding sample_recall snd_conv by (simp add: sample_memory_def sample_entry_def)
qed

section \<open>Consolidation\<close>

lemma truncate_older_split:
  "truncate_older keep st = (older, st') \<Longrightarrow>
   stm_messages st = older @ stm_messages st' \<and> stm_max_messages st' = stm_max_messages st \<and>
   (older = [] \<longrightarrow> st' = st) \<and> (older \<noteq> [] \<longrightarrow> length (stm_messages st') = keep)"
  by (auto simp: truncate_older_def Let_def split: if_splits)

lemma consolidate_cases:
  assumes "consolidate get_embedding nanos now keep M = (r, M')"
  obtains (idle) "r = Ok None" "M' = M"
      "\<not> needs_consolidation (am_short_term M) \<or> length (stm_messages (am_short_term M)) \<le> keep"
  | (drained) older st where
      "truncate_older keep (am_short_term M) = (older, st)" "older \<noteq> []"
      "needs_consolidation (am_short_term M)"
      "(r, M') = (case get_embedding (digest older) of
         Ok v \<Rightarrow> (Ok (Some (uuid_v4_placeholder nanos)),
           M\<lparr>am_short_term := st, am_long_term := am_long_term M @
             [new_entry nanos now (digest older) v [''consolidation_summary'']
                [''source'' \<mapsto> ''consolidation'']]\<rparr>)
       | Err e \<Rightarrow> (Err e, M\<lparr>am_short_term := st\<rparr>)
       | Panicked \<Rightarrow> (Panicked, M\<lparr>am_short_term := st\<rparr>))"
proof (cases "needs_consolidation (am_short_term M)")
  case False
  with assms show ?thesis by (intro idle) (simp_all add: consolidate_def)
next
  case True
  obtain older st where t: "truncate_older keep (am_short_term M) = (older, st)" by fastforce
  show ?thesis
  proof (cases "older = []")
    case True
    with t have "length (stm_messages (am_short_term M)) \<le> keep" "st = am_short_term M"
      by (auto simp: truncate_older_def Let_def split: if_splits)
    with assms True t \<open>needs_consolidation _\<close> show ?thesis
      by (intro idle) (simp_all add: consolidate_def)
  next
    case False
    with assms t True show ?thesis
      by (intro drained [OF t False]) (simp_all add: consolidate_def Let_def split: outcome.splits)
  qed
qed

text \<open>C30: consolidation moves the oldest messages into one summary. On every outcome the buffer
  afterwards is the buffer before without an oldest part. A call that returns no identifier changes
  nothing. A call that returns one keeps exactly \<open>keep_recent\<close> messages and appends exactly one
  entry, under that identifier, whose text is the digest of the removed messages. A failed call has
  removed the messages and stored nothing: they are lost.\<close>

theorem consolidation_moves_messages:
  "case consolidate get_embedding nanos now keep M of (r, M') \<Rightarrow>
     am_episodic M' = am_episodic M \<and>
     (\<exists>older. stm_messages (am_short_term M) = older @ stm_messages (am_short_term M') \<and>
       (case r of
          Ok None \<Rightarrow> M' = M
        | Ok (Some i) \<Rightarrow>
            older \<noteq> [] \<and> length (stm_messages (am_short_term M')) = keep \<and>
            i = uuid_v4_placeholder nanos \<and>
            (\<exists>e. am_long_term M' = am_long_term M @ [e] \<and> en_id e = i \<and>
                 en_content e = digest older \<and> get_embedding (digest older) = Ok (en_embedding e))
        | _ \<Rightarrow>
            older \<noteq> [] \<and> length (stm_messages (am_short_term M')) = keep \<and>
            am_long_term M' = am_long_term M))"
proof -
  obtain r M' where c: "consolidate get_embedding nanos now keep M = (r, M')" by fastforce
  then show ?thesis
  proof (cases rule: consolidate_cases)
    case idle
    then show ?thesis by (simp add: c)
  next
    case (drained older st)
    note split = truncate_older_split [OF drained(1)]
    show ?thesis
    proof (cases "get_embedding (digest older)")
      case (Ok v)
      with drained split show ?thesis
        by (simp add: c new_entry_def)
    next
      case (Err e)
      with drained split show ?thesis by (simp add: c)
    next
      case Panicked
      with drained split show ?thesis by (simp add: c)
    qed
  qed
qed

section \<open>Identifiers\<close>

lemma length_uuid_bytes [simp]: "length (uuid_bytes nanos) = 16"
  by (simp add: uuid_bytes_def Let_def)

lemma concat_hex2_inj:
  "length xs = length ys \<Longrightarrow> concat (map hex2 xs) = concat (map hex2 ys) \<longleftrightarrow> xs = ys"
  by (induction xs ys rule: list_induct2) (auto simp: hex2_inj)

lemma length_concat_hex2 [simp]: "length (concat (map hex2 xs)) = 2 * length xs"
  by (induction xs) simp_all

lemma slices_16:
  "length b = 16 \<Longrightarrow>
   b = take 4 b @ take 2 (drop 4 b) @ take 2 (drop 6 b) @ take 2 (drop 8 b) @ take 6 (drop 10 b)"
  using take_add [of 4 2 b] take_add [of 6 2 b] take_add [of 8 2 b] take_add [of 10 6 b] by simp

lemma uuid_eq_iff_bytes:
  "uuid_v4_placeholder n = uuid_v4_placeholder m \<longleftrightarrow> uuid_bytes n = uuid_bytes m"
proof
  assume "uuid_v4_placeholder n = uuid_v4_placeholder m"
  then have
    "take 4 (uuid_bytes n) = take 4 (uuid_bytes m)"
    "take 2 (drop 4 (uuid_bytes n)) = take 2 (drop 4 (uuid_bytes m))"
    "take 2 (drop 6 (uuid_bytes n)) = take 2 (drop 6 (uuid_bytes m))"
    "take 2 (drop 8 (uuid_bytes n)) = take 2 (drop 8 (uuid_bytes m))"
    "take 6 (drop 10 (uuid_bytes n)) = take 6 (drop 10 (uuid_bytes m))"
    by (simp_all add: uuid_v4_placeholder_def Let_def concat_hex2_inj)
  then show "uuid_bytes n = uuid_bytes m"
    using slices_16 [of "uuid_bytes n"] slices_16 [of "uuid_bytes m"] by simp
qed (simp add: uuid_v4_placeholder_def)

text \<open>Byte \<open>i\<close> of the identifier holds bits \<open>8 * i\<close> to \<open>8 * i + 7\<close> of the clock.\<close>

lemma bit_clock_byte:
  "bit (word_of_nat (n div 2 ^ (i * 8)) :: u8) k \<longleftrightarrow> k < 8 \<and> bit n (i * 8 + k)"
  by (simp add: bit_of_nat_iff drop_bit_eq_div [symmetric] bit_drop_bit_eq)

definition kept_bits :: "nat set" where
  "kept_bits = {j. j < 128 \<and> j \<notin> {52..<56} \<and> j \<notin> {70, 71}}"

lemma bit_u8_less: "bit (w :: u8) k \<Longrightarrow> k < 8"
  using bit_imp_le_length [of w k] by simp

lemma less_8_cases: "k < 8 \<Longrightarrow> k \<in> {0, 1, 2, 3, 4, 5, 6, 7 :: nat}"
  by auto

lemma bit_patch:
  "bit ((w AND 0x0F) OR 0x40 :: u8) k \<longleftrightarrow> k = 6 \<or> k < 4 \<and> bit w k"
  "bit ((w AND 0x3F) OR 0x80 :: u8) k \<longleftrightarrow> k = 7 \<or> k < 6 \<and> bit w k"
proof -
  consider "k < 8" | "\<not> k < 8" by blast
  then show "bit ((w AND 0x0F) OR 0x40 :: u8) k \<longleftrightarrow> k = 6 \<or> k < 4 \<and> bit w k"
  proof cases
    case 1
    then show ?thesis by (drule_tac less_8_cases) (auto simp: bit_simps)
  qed (auto dest: bit_u8_less)
  consider "k < 8" | "\<not> k < 8" by blast
  then show "bit ((w AND 0x3F) OR 0x80 :: u8) k \<longleftrightarrow> k = 7 \<or> k < 6 \<and> bit w k"
  proof cases
    case 1
    then show ?thesis by (drule_tac less_8_cases) (auto simp: bit_simps)
  qed (auto dest: bit_u8_less)
qed

lemma uuid_byte_bit:
  assumes "i < 16"
  shows "bit (uuid_bytes n ! i) k \<longleftrightarrow>
    k < 8 \<and> (i * 8 + k \<in> kept_bits \<and> bit n (i * 8 + k) \<or> i = 6 \<and> k = 6 \<or> i = 8 \<and> k = 7)"
proof -
  consider "i = 6" | "i = 8" | "i \<noteq> 6" "i \<noteq> 8" by blast
  then show ?thesis
  proof cases
    case 3
    then have "i * 8 + k \<in> kept_bits" if "k < 8"
      using that assms by (auto simp: kept_bits_def)
    with 3 assms show ?thesis
      by (auto simp: uuid_bytes_def Let_def bit_clock_byte)
  qed (auto simp: uuid_bytes_def Let_def bit_patch bit_clock_byte kept_bits_def
      bit_clock_byte [of n 6, simplified] bit_clock_byte [of n 8, simplified])
qed

lemma uuid_bytes_eq_iff:
  "uuid_bytes n = uuid_bytes m \<longleftrightarrow> (\<forall>j\<in>kept_bits. bit n j = bit m j)"
proof
  assume eq: "uuid_bytes n = uuid_bytes m"
  show "\<forall>j\<in>kept_bits. bit n j = bit m j"
  proof
    fix j assume j: "j \<in> kept_bits"
    then have "j div 8 < 16" and free: "\<not> (j div 8 = 6 \<and> j mod 8 = 6 \<or> j div 8 = 8 \<and> j mod 8 = 7)"
      unfolding kept_bits_def by auto presburger+
    then have "bit (uuid_bytes x ! (j div 8)) (j mod 8) \<longleftrightarrow> bit x j" for x
      using j by (auto simp: uuid_byte_bit)
    then show "bit n j = bit m j" by (metis eq)
  qed
next
  assume "\<forall>j\<in>kept_bits. bit n j = bit m j"
  then have "uuid_bytes n ! i = uuid_bytes m ! i" if "i < 16" for i
    using that by (intro bit_eqI) (auto simp: uuid_byte_bit)
  then show "uuid_bytes n = uuid_bytes m" by (simp add: list_eq_iff_nth_eq)
qed

text \<open>Which clock readings share an identifier. Two readings of the nanosecond clock below
  \<open>2^64\<close> give the same identifier exactly when they agree modulo \<open>2^52\<close> and above bit 56: the
  version nibble overwrites bits 52 to 55. Within any window of \<open>2^52\<close> nanoseconds (52 days) aligned
  at a multiple of it, distinct readings give distinct identifiers, and equal readings the same one.\<close>

lemma uuid_collision_iff:
  assumes "n < 2 ^ 64" "m < 2 ^ 64"
  shows "uuid_v4_placeholder n = uuid_v4_placeholder m \<longleftrightarrow>
    n mod 2 ^ 52 = m mod 2 ^ 52 \<and> n div 2 ^ 56 = m div 2 ^ 56"
proof -
  have small: "\<not> bit x j" if "x < 2 ^ 64" "64 \<le> j" for x j :: nat
    using that by (metis bit_take_bit_iff linorder_not_le take_bit_nat_eq_self)
  have lo: "n mod 2 ^ 52 = m mod 2 ^ 52 \<longleftrightarrow> (\<forall>j<52. bit n j = bit m j)"
    unfolding take_bit_eq_mod [symmetric] by (auto simp: bit_eq_iff bit_take_bit_iff)
  have hi: "n div 2 ^ 56 = m div 2 ^ 56 \<longleftrightarrow> (\<forall>j\<ge>56. bit n j = bit m j)"
  proof -
    have "n div 2 ^ 56 = m div 2 ^ 56 \<longleftrightarrow> (\<forall>k. bit n (56 + k) = bit m (56 + k))"
      unfolding drop_bit_eq_div [symmetric] bit_eq_iff [of "drop_bit 56 n"]
      by (simp add: bit_drop_bit_eq)
    also have "\<dots> \<longleftrightarrow> (\<forall>j\<ge>56. bit n j = bit m j)"
      by (metis le_add1 le_add_diff_inverse)
    finally show ?thesis .
  qed
  have "(\<forall>j\<in>kept_bits. bit n j = bit m j) \<longleftrightarrow>
      (\<forall>j<52. bit n j = bit m j) \<and> (\<forall>j\<ge>56. bit n j = bit m j)" (is "?K \<longleftrightarrow> ?L \<and> ?H")
  proof
    assume ?K
    then have "bit n j = bit m j" if "j < 52 \<or> 56 \<le> j" for j
      using that small [OF assms(1), of j] small [OF assms(2), of j]
      by (cases "64 \<le> j") (auto simp: kept_bits_def)
    then show "?L \<and> ?H" by blast
  next
    assume "?L \<and> ?H"
    then show ?K by (auto simp: kept_bits_def)
  qed
  then show ?thesis unfolding uuid_eq_iff_bytes uuid_bytes_eq_iff lo hi .
qed

lemma uuid_collision_iff_witness:
  "uuid_v4_placeholder 1730000000000000001 = uuid_v4_placeholder (1730000000000000001 + 2 ^ 52) \<and>
   uuid_v4_placeholder 1730000000000000001 \<noteq> uuid_v4_placeholder 1730000000000000002"
  by (subst (1 2) uuid_collision_iff) simp_all

section \<open>Embeddings\<close>

lemma count_chars_ok:
  assumes "dim \<noteq> 0"
  shows "\<exists>w. count_chars A dim i cs v = Ok w \<and> length w = length v"
proof (induction cs arbitrary: i v)
  case (Cons c cs)
  from Cons [of "i + 1" "v[(c + i * 31) mod dim := f_add A (v ! ((c + i * 31) mod dim)) f32_one]"]
  show ?case using assms by (simp add: rem_usize_def)
qed simp

lemma str_chars_Nil [simp]: "str_chars t = [] \<longleftrightarrow> t = []"
  by (cases t) (simp_all add: str_chars_def)

lemma length_normalize_vector [simp]: "length (normalize_vector A v) = length v"
  by (simp add: normalize_vector_def Let_def)

lemma local_get_embedding_cases:
  "local_get_embedding A dim txt = Panicked \<and> dim = 0 \<and> txt \<noteq> [] \<or>
   (\<exists>v. local_get_embedding A dim txt = Ok v \<and> length v = dim \<and> (dim \<noteq> 0 \<or> txt = []))"
proof (cases "dim = 0")
  case True
  then show ?thesis
    by (cases "str_chars txt") (auto simp: local_get_embedding_def Let_def rem_usize_def simp flip: str_chars_Nil)
next
  case False
  with count_chars_ok [of dim A 0 "str_chars txt" "replicate dim f32_zero"] show ?thesis
    by (auto simp: local_get_embedding_def Let_def)
qed

text \<open>C38: the local embedding provider. A batch never reports an error; it panics exactly when the
  dimension is 0 and some text is not empty, since the remainder by zero is undefined; otherwise it
  answers one vector per text, in order, each the embedding of its text and of the provider's
  dimension.\<close>

theorem local_embedding_shape:
  "(local_get_embeddings A dim ts = Panicked) = (dim = 0 \<and> \<not> set ts \<subseteq> {[]}) \<and>
   (case local_get_embeddings A dim ts of
      Ok vs \<Rightarrow> list_all2 (\<lambda>t v. local_get_embedding A dim t = Ok v \<and> length v = dim) ts vs
    | Err e \<Rightarrow> False
    | Panicked \<Rightarrow> True)"
proof (induction ts)
  case (Cons t ts)
  show ?case
    using local_get_embedding_cases [of A dim t]
  proof
    assume "local_get_embedding A dim t = Panicked \<and> dim = 0 \<and> t \<noteq> []"
    then show ?thesis by auto
  next
    assume "\<exists>v. local_get_embedding A dim t = Ok v \<and> length v = dim \<and> (dim \<noteq> 0 \<or> t = [])"
    with Cons show ?thesis by (cases "local_get_embeddings A dim ts") auto
  qed
qed simp

end
