(* ===== verification/Memory_Locks.thy ===== *)
theory Memory_Locks
  imports Memory_Properties
begin

text \<open>
  The agent memory shared between tasks. Every tier has its own lock. \<open>add_message\<close> holds the lock of
  the buffer, \<open>remember_fact\<close> and \<open>recall\<close> ask the embedding provider first and then hold the lock of
  the long-term tier, \<open>record_episode\<close> holds the lock of the episodes: each of these changes its tier in
  one step. \<open>consolidate\<close> holds the lock of the buffer from the drain to its return and takes the lock
  of the long-term tier only for the insertion: it is two steps, and in between the other tiers may be used.
\<close>

section \<open>The sequential memory\<close>

datatype mem_call =
    AddMessage u64 message_role string metadata
  | RememberFact embedder nat u64 string "string list" metadata
  | Recall embedder "nat \<Rightarrow> u64" string nat f32
  | Consolidate embedder nat u64 nat
  | RecordEpisode nat u64 string "episode_step list" bool "f32 option"

datatype mem_answer =
    Done
  | Remembered "string mem_result"
  | Recalled "(memory_entry \<times> f32) list mem_result"
  | Consolidated "string option mem_result"
  | Recorded string

fun mem_apply :: "f32_arith \<Rightarrow> mem_call \<Rightarrow> agent_memory \<Rightarrow> mem_answer \<times> agent_memory" where
  "mem_apply A (AddMessage now role content meta) M = (Done, add_message now role content meta M)"
| "mem_apply A (RememberFact emb nanos now txt tags meta) M =
     map_prod Remembered id (remember_fact emb nanos now txt tags meta M)"
| "mem_apply A (Recall emb now query limit min_score) M =
     map_prod Recalled id (recall A emb now query limit min_score M)"
| "mem_apply A (Consolidate emb nanos now keep) M =
     map_prod Consolidated id (consolidate emb nanos now keep M)"
| "mem_apply A (RecordEpisode nanos now task steps success reward) M =
     map_prod Recorded id (record_episode nanos now task steps success reward M)"

primrec mem_run :: "f32_arith \<Rightarrow> mem_call list \<Rightarrow> agent_memory \<Rightarrow> mem_answer list \<times> agent_memory" where
  "mem_run A [] M = ([], M)"
| "mem_run A (c # cs) M =
     (let (a, M') = mem_apply A c M; (as, M'') = mem_run A cs M' in (a # as, M''))"

lemma mem_run_append:
  "mem_run A (cs @ ds) M =
     (let (as, M') = mem_run A cs M; (bs, M'') = mem_run A ds M' in (as @ bs, M''))"
  by (induction cs arbitrary: M) (auto simp: split_beta)

section \<open>The memory under its locks\<close>

text \<open>
  A consolidation that holds the lock of the buffer: what it keeps, and the messages it has drained.
  \<open>lm_buffer\<close> and \<open>lm_log\<close> are ghosts: the buffer when the lock was taken, and the calls that have
  returned, in the order of their last step, with their answers.
\<close>

record draining =
  dr_keep :: nat
  dr_truncated :: "chat_message list"
  dr_buffer :: short_term

record locked_memory =
  lm_memory :: agent_memory
  lm_draining :: "draining option"
  lm_log :: "(mem_call \<times> mem_answer) list"

datatype locked_step =
    Atomic mem_call
  | BeginConsolidate embedder nat u64 nat
  | FinishConsolidate embedder nat u64

fun touches_buffer :: "mem_call \<Rightarrow> bool" where
  "touches_buffer (AddMessage now role content meta) = True"
| "touches_buffer (Consolidate emb nanos now keep) = True"
| "touches_buffer _ = False"

text \<open>The steps; a step that has to wait for a lock changes nothing.\<close>

definition atomic_call :: "f32_arith \<Rightarrow> mem_call \<Rightarrow> locked_memory \<Rightarrow> locked_memory" where
  "atomic_call A c S =
     (case mem_apply A c (lm_memory S) of
        (a, M) \<Rightarrow> S\<lparr>lm_memory := M, lm_log := lm_log S @ [(c, a)]\<rparr>)"

text \<open>The first half of \<open>consolidate\<close>: up to the request for the embedding, or to its early return.\<close>

definition begin_consolidate :: "embedder \<Rightarrow> nat \<Rightarrow> u64 \<Rightarrow> nat \<Rightarrow> locked_memory \<Rightarrow> locked_memory" where
  "begin_consolidate emb nanos now keep S =
     (let st0 = am_short_term (lm_memory S);
          returned = S\<lparr>lm_log := lm_log S @ [(Consolidate emb nanos now keep, Consolidated (Ok None))]\<rparr>
      in if \<not> needs_consolidation st0 then returned
         else (case truncate_older keep st0 of
                 ([], st) \<Rightarrow> returned\<lparr>lm_memory := (lm_memory S)\<lparr>am_short_term := st\<rparr>\<rparr>
               | (truncated, st) \<Rightarrow>
                   S\<lparr>lm_memory := (lm_memory S)\<lparr>am_short_term := st\<rparr>,
                     lm_draining := Some \<lparr>dr_keep = keep, dr_truncated = truncated, dr_buffer = st0\<rparr>\<rparr>))"

text \<open>The second half: the answer of the provider, the insertion, the return.\<close>

definition finish_consolidate :: "embedder \<Rightarrow> nat \<Rightarrow> u64 \<Rightarrow> draining \<Rightarrow> locked_memory \<Rightarrow> locked_memory" where
  "finish_consolidate emb nanos now d S =
     (let txt = digest (dr_truncated d); M = lm_memory S;
          answer = (\<lambda>r M'. \<lparr>lm_memory = M', lm_draining = None,
            lm_log = lm_log S @ [(Consolidate emb nanos now (dr_keep d), Consolidated r)]\<rparr>)
      in case emb txt of
           Ok embedding \<Rightarrow>
             answer (Ok (Some (uuid_v4_placeholder nanos)))
               (M\<lparr>am_long_term := am_long_term M @
                 [new_entry nanos now txt embedding [''consolidation_summary'']
                    [''source'' \<mapsto> ''consolidation'']]\<rparr>)
         | Err e \<Rightarrow> answer (Err e) M
         | Panicked \<Rightarrow> answer Panicked M)"

fun locked_do :: "f32_arith \<Rightarrow> locked_step \<Rightarrow> locked_memory \<Rightarrow> locked_memory" where
  "locked_do A (Atomic (Consolidate emb nanos now keep)) S = S"
| "locked_do A (Atomic c) S =
     (if touches_buffer c \<and> lm_draining S \<noteq> None then S else atomic_call A c S)"
| "locked_do A (BeginConsolidate emb nanos now keep) S =
     (if lm_draining S \<noteq> None then S else begin_consolidate emb nanos now keep S)"
| "locked_do A (FinishConsolidate emb nanos now) S =
     (case lm_draining S of None \<Rightarrow> S | Some d \<Rightarrow> finish_consolidate emb nanos now d S)"

definition locked_start :: "nat \<Rightarrow> locked_memory" where
  "locked_start n = \<lparr>lm_memory = agent_memory_new n, lm_draining = None, lm_log = []\<rparr>"

definition locked_run :: "f32_arith \<Rightarrow> nat \<Rightarrow> locked_step list \<Rightarrow> locked_memory" where
  "locked_run A n steps = foldl (\<lambda>S st. locked_do A st S) (locked_start n) steps"

section \<open>Refinement of the sequential memory\<close>

text \<open>The memory as if a running consolidation had not begun.\<close>

definition before_drain :: "locked_memory \<Rightarrow> agent_memory" where
  "before_drain S =
     (case lm_draining S of
        None \<Rightarrow> lm_memory S
      | Some d \<Rightarrow> (lm_memory S)\<lparr>am_short_term := dr_buffer d\<rparr>)"

text \<open>While the lock is held the buffer is what the drain left.\<close>

definition lock_inv :: "locked_memory \<Rightarrow> bool" where
  "lock_inv S \<longleftrightarrow>
     (case lm_draining S of
        None \<Rightarrow> True
      | Some d \<Rightarrow>
          needs_consolidation (dr_buffer d) \<and> dr_truncated d \<noteq> [] \<and>
          truncate_older (dr_keep d) (dr_buffer d) = (dr_truncated d, am_short_term (lm_memory S)))"

definition refines :: "f32_arith \<Rightarrow> agent_memory \<Rightarrow> locked_memory \<Rightarrow> bool" where
  "refines A M0 S \<longleftrightarrow>
     lock_inv S \<and> mem_run A (map fst (lm_log S)) M0 = (map snd (lm_log S), before_drain S)"

lemma refines_log:
  assumes "refines A M0 S" "lock_inv S'" "lm_log S' = lm_log S @ [(c, a)]"
    and "mem_apply A c (before_drain S) = (a, before_drain S')"
  shows "refines A M0 S'"
  using assms by (simp add: refines_def mem_run_append)

text \<open>A call that does not use the buffer neither reads nor writes it.\<close>

lemma buffer_frame:
  assumes "\<not> touches_buffer c" "mem_apply A c M = (a, M')"
  shows "am_short_term M' = am_short_term M"
    and "mem_apply A c (M\<lparr>am_short_term := st\<rparr>) = (a, M'\<lparr>am_short_term := st\<rparr>)"
  using assms
  by (cases c; auto simp: remember_fact_def recall_def record_episode_def Let_def split: outcome.splits)+

lemma refines_atomic:
  assumes "refines A M0 S" "\<not> (touches_buffer c \<and> lm_draining S \<noteq> None)"
  shows "refines A M0 (atomic_call A c S)"
proof -
  obtain a M where c: "mem_apply A c (lm_memory S) = (a, M)" by (cases "mem_apply A c (lm_memory S)")
  have S': "atomic_call A c S = S\<lparr>lm_memory := M, lm_log := lm_log S @ [(c, a)]\<rparr>"
    by (simp add: atomic_call_def c)
  have "lock_inv (atomic_call A c S) \<and>
      mem_apply A c (before_drain S) = (a, before_drain (atomic_call A c S))"
  proof (cases "lm_draining S")
    case None
    with c show ?thesis by (simp add: S' before_drain_def lock_inv_def)
  next
    case (Some d)
    with assms(2) have "\<not> touches_buffer c" by simp
    from buffer_frame [OF this c] Some assms(1) show ?thesis
      by (simp add: S' before_drain_def lock_inv_def refines_def)
  qed
  then show ?thesis using refines_log [OF assms(1), of "atomic_call A c S" c a] by (simp add: S')
qed

lemma refines_begin:
  assumes "refines A M0 S" "lm_draining S = None"
  shows "refines A M0 (begin_consolidate emb nanos now keep S)"
proof -
  let ?M = "lm_memory S" and ?S' = "begin_consolidate emb nanos now keep S"
  have M: "before_drain S = ?M" using assms(2) by (simp add: before_drain_def)
  obtain truncated st where t: "truncate_older keep (am_short_term ?M) = (truncated, st)" by fastforce
  show ?thesis
  proof (cases "needs_consolidation (am_short_term ?M) \<and> truncated \<noteq> []")
    case True
    with t assms show ?thesis
      by (cases truncated) (auto simp: begin_consolidate_def Let_def refines_def lock_inv_def before_drain_def)
  next
    case False
    then have st: "st = am_short_term ?M" if "needs_consolidation (am_short_term ?M)"
      using truncate_older_split [OF t] that by simp
    have "mem_apply A (Consolidate emb nanos now keep) ?M = (Consolidated (Ok None), ?M)"
      using False t st by (auto simp: consolidate_def)
    moreover have "?S' = S\<lparr>lm_log := lm_log S @ [(Consolidate emb nanos now keep, Consolidated (Ok None))]\<rparr>"
      using False t st by (auto simp: begin_consolidate_def Let_def)
    ultimately show ?thesis
      using refines_log [OF assms(1), of ?S' "Consolidate emb nanos now keep" "Consolidated (Ok None)"]
        assms(2) M
      by (simp add: lock_inv_def before_drain_def)
  qed
qed

lemma refines_finish:
  assumes "refines A M0 S" "lm_draining S = Some d"
  shows "refines A M0 (finish_consolidate emb nanos now d S)"
proof -
  have inv: "needs_consolidation (dr_buffer d)" "dr_truncated d \<noteq> []"
    "truncate_older (dr_keep d) (dr_buffer d) = (dr_truncated d, am_short_term (lm_memory S))"
    using assms by (simp_all add: refines_def lock_inv_def)
  let ?S' = "finish_consolidate emb nanos now d S"
  define a where "a = snd (last (lm_log ?S'))"
  have log: "lm_log ?S' = lm_log S @ [(Consolidate emb nanos now (dr_keep d), a)]"
    by (simp add: a_def finish_consolidate_def Let_def split: outcome.split)
  have "mem_apply A (Consolidate emb nanos now (dr_keep d)) (before_drain S) = (a, before_drain ?S')"
    using inv assms(2)
    by (simp add: a_def before_drain_def finish_consolidate_def consolidate_def Let_def split: outcome.split)
  from refines_log [OF assms(1) _ log this] show ?thesis
    by (simp add: finish_consolidate_def lock_inv_def Let_def split: outcome.splits)
qed

lemma refines_step: "refines A M0 S \<Longrightarrow> refines A M0 (locked_do A st S)"
  by (cases "(A, st, S)" rule: locked_do.cases)
    (auto simp: refines_begin refines_finish intro: refines_atomic split: option.split)

text \<open>C31: the shared memory is linearizable. However the calls of concurrent tasks interleave, with
  other tiers in use while a consolidation waits for its embedding, the calls that have returned gave
  exactly the answers of running them one after another in the order of their last steps, and the
  memory is what that sequence leaves, but for the messages a running consolidation has drained.\<close>

theorem shared_memory_linearizable:
  "mem_run A (map fst (lm_log (locked_run A n steps))) (agent_memory_new n) =
     (map snd (lm_log (locked_run A n steps)), before_drain (locked_run A n steps))"
proof -
  have "refines A (agent_memory_new n) (locked_run A n steps)"
    unfolding locked_run_def
    by (induction steps rule: rev_induct)
      (simp_all add: refines_step, simp add: refines_def locked_start_def lock_inv_def before_drain_def)
  then show ?thesis by (simp add: refines_def)
qed

end
