(* ===== verification/Nonce_Leases.thy ===== *)
theory Nonce_Leases
  imports Bridge_Types
begin

text \<open>
  The durable-nonce leases of \<open>nonce_store.rs\<close> over the table \<open>nonce_allocations\<close>. A call takes
  what the database does around it: the rows other transactions hold locked, the clock, and the
  faults of the connection. The abstract pool is the set of free identifiers; the locale
  \<open>lease_pool\<close> states what a client may rely on and proves once that a lease is exclusive.
\<close>

section \<open>The table\<close>

type_synonym nonce_id = int

record nonce_row =
  nr_id :: nonce_id
  nr_status :: string
  nr_leased_at_ms :: "i64 option"
  nr_nonce_account :: string
  nr_nonce_authority :: string
  nr_nonce_value :: string

type_synonym nonce_table = "nonce_row list"

record nonce_allocation =
  na_id :: nonce_id
  na_nonce_account :: pubkey
  na_nonce_authority :: pubkey
  na_nonce_value :: hash

record nonce_lib =
  nonce_pubkey_from_str :: "string \<Rightarrow> string + pubkey"
  nonce_hash_from_str :: "string \<Rightarrow> string + hash"

text \<open>
  One call's surroundings. A failing statement may still have been committed; reading a column
  of the returned row may fail; rows locked by others are skipped.
\<close>

record nonce_db =
  db_now_ms :: i64
  db_locked :: "nonce_id list"
  db_statement_fault :: "(string \<times> bool) option"
  db_column_fault :: "string \<Rightarrow> string option"

definition is_free :: "nonce_row \<Rightarrow> bool" where
  "is_free r \<longleftrightarrow> nr_status r = ''free''"

text \<open>\<open>WHERE status = 'free' ORDER BY id ASC FOR UPDATE SKIP LOCKED LIMIT 1\<close>\<close>

fun min_id :: "nonce_row list \<Rightarrow> nonce_id option" where
  "min_id [] = None"
| "min_id (r # rs) =
     (case min_id rs of None \<Rightarrow> Some (nr_id r) | Some i \<Rightarrow> Some (min (nr_id r) i))"

definition select_free :: "nonce_db \<Rightarrow> nonce_table \<Rightarrow> nonce_id option" where
  "select_free D t = min_id (filter (\<lambda>r. is_free r \<and> nr_id r \<notin> set (db_locked D)) t)"

definition lease_row :: "nonce_db \<Rightarrow> nonce_id \<Rightarrow> nonce_table \<Rightarrow> nonce_table" where
  "lease_row D i t =
     map (\<lambda>r. if nr_id r = i
              then r\<lparr>nr_status := ''leased'', nr_leased_at_ms := Some (db_now_ms D)\<rparr> else r) t"

text \<open>The columns of the returned row and their parsers, in the order the code reads them.\<close>

definition read_columns :: "nonce_db \<Rightarrow> string list \<Rightarrow> string option" where
  "read_columns D cols = (case List.map_filter (db_column_fault D) cols of [] \<Rightarrow> None | e # _ \<Rightarrow> Some e)"

definition parse_allocation ::
  "nonce_lib \<Rightarrow> nonce_row \<Rightarrow> chain_bridge_error + nonce_allocation" where
  "parse_allocation L r =
     (case nonce_pubkey_from_str L (nr_nonce_account r) of
        Inl e \<Rightarrow> Inl (Nonce (''bad nonce_account: '' @ e))
      | Inr account \<Rightarrow>
     (case nonce_pubkey_from_str L (nr_nonce_authority r) of
        Inl e \<Rightarrow> Inl (Nonce (''bad nonce_authority: '' @ e))
      | Inr auth \<Rightarrow>
     (case nonce_hash_from_str L (nr_nonce_value r) of
        Inl e \<Rightarrow> Inl (Nonce (''bad nonce_value: '' @ e))
      | Inr v \<Rightarrow>
          Inr \<lparr>na_id = nr_id r, na_nonce_account = account, na_nonce_authority = auth,
               na_nonce_value = v\<rparr>)))"

text \<open>\<open>PostgresNonceStore::allocate\<close>; the key name is not used.\<close>

definition nonce_allocate ::
  "nonce_lib \<Rightarrow> nonce_db \<Rightarrow> nonce_table \<Rightarrow> (chain_bridge_error + nonce_allocation) \<times> nonce_table" where
  "nonce_allocate L D t =
     (let t' = (case select_free D t of None \<Rightarrow> t | Some i \<Rightarrow> lease_row D i t) in
      case db_statement_fault D of
        Some (e, committed) \<Rightarrow>
          (Inl (Nonce (''nonce allocate query failed: '' @ e)), if committed then t' else t)
      | None \<Rightarrow>
          (case Option.bind (select_free D t) (\<lambda>i. find (\<lambda>r. nr_id r = i) t') of
             None \<Rightarrow> (Inl (Nonce ''durable-nonce pool exhausted or unseeded''), t')
           | Some r \<Rightarrow>
               (case read_columns D [''id'', ''nonce_account'', ''nonce_authority'', ''nonce_value''] of
                  Some e \<Rightarrow> (Inl (Nonce e), t')
                | None \<Rightarrow> (parse_allocation L r, t'))))"

definition free_row :: "nonce_id \<Rightarrow> nonce_table \<Rightarrow> nonce_table" where
  "free_row i t =
     map (\<lambda>r. if nr_id r = i then r\<lparr>nr_status := ''free'', nr_leased_at_ms := None\<rparr> else r) t"

text \<open>\<open>PostgresNonceStore::release\<close>: by identifier alone, whoever holds the lease.\<close>

definition nonce_release ::
  "nonce_db \<Rightarrow> nonce_id \<Rightarrow> nonce_table \<Rightarrow> (chain_bridge_error + unit) \<times> nonce_table" where
  "nonce_release D i t =
     (case db_statement_fault D of
        Some (e, committed) \<Rightarrow>
          (Inl (Nonce (''nonce release failed: '' @ e)), if committed then free_row i t else t)
      | None \<Rightarrow> (Inr (), free_row i t))"

section \<open>The abstract pool\<close>

definition free_ids :: "nonce_table \<Rightarrow> nonce_id set" where
  "free_ids t = nr_id ` set (filter is_free t)"

definition row_ids :: "nonce_table \<Rightarrow> nonce_id set" where
  "row_ids t = nr_id ` set t"

text \<open>Identifiers are the primary key.\<close>

definition nonce_inv :: "nonce_table \<Rightarrow> bool" where
  "nonce_inv t \<longleftrightarrow> distinct (map nr_id t)"

lemma nonce_inv_unique:
  "nonce_inv t \<Longrightarrow> r \<in> set t \<Longrightarrow> r' \<in> set t \<Longrightarrow> nr_id r = nr_id r' \<Longrightarrow> r = r'"
  by (auto simp: nonce_inv_def distinct_map inj_on_def)

lemma table_simps [simp]:
  "free_ids [] = {}" "free_ids (r # t) = (if is_free r then insert (nr_id r) (free_ids t) else free_ids t)"
  "row_ids [] = {}" "row_ids (r # t) = insert (nr_id r) (row_ids t)"
  "lease_row D i [] = []" "free_row i [] = []"
  by (simp_all add: free_ids_def row_ids_def lease_row_def free_row_def)

lemma ids_updates [simp]:
  "map nr_id (lease_row D i t) = map nr_id t" "map nr_id (free_row i t) = map nr_id t"
  by (simp_all add: lease_row_def free_row_def)

lemma row_ids_updates [simp]:
  "row_ids (lease_row D i t) = row_ids t" "row_ids (free_row i t) = row_ids t"
  by (metis ids_updates list.set_map row_ids_def)+

lemma nonce_inv_updates [simp]:
  "nonce_inv (lease_row D i t) = nonce_inv t" "nonce_inv (free_row i t) = nonce_inv t"
  by (simp_all add: nonce_inv_def)

lemma free_ids_lease_row [simp]: "free_ids (lease_row D i t) = free_ids t - {i}"
proof (induction t)
  case (Cons r t)
  have "lease_row D i (r # t) =
      (if nr_id r = i then r\<lparr>nr_status := ''leased'', nr_leased_at_ms := Some (db_now_ms D)\<rparr> else r)
      # lease_row D i t"
    by (simp add: lease_row_def)
  then show ?case using Cons by (auto simp: is_free_def)
qed simp

lemma free_ids_free_row [simp]:
  "free_ids (free_row i t) = (if i \<in> row_ids t then insert i (free_ids t) else free_ids t)"
proof (induction t)
  case (Cons r t)
  have "free_row i (r # t) =
      (if nr_id r = i then r\<lparr>nr_status := ''free'', nr_leased_at_ms := None\<rparr> else r) # free_row i t"
    by (simp add: free_row_def)
  then show ?case using Cons by (auto simp: is_free_def)
qed simp

lemma min_id_Min: "min_id rs = (if rs = [] then None else Some (Min (nr_id ` set rs)))"
  by (induction rs) auto

lemma select_free_Some:
  "select_free D t = Some i \<longleftrightarrow>
     free_ids t - set (db_locked D) \<noteq> {} \<and> i = Min (free_ids t - set (db_locked D))"
proof -
  have "nr_id ` set (filter (\<lambda>r. is_free r \<and> nr_id r \<notin> set (db_locked D)) t) =
      free_ids t - set (db_locked D)"
    by (auto simp: free_ids_def)
  moreover have "filter (\<lambda>r. is_free r \<and> nr_id r \<notin> set (db_locked D)) t = [] \<longleftrightarrow>
      free_ids t - set (db_locked D) = {}"
    by (auto simp: filter_empty_conv free_ids_def)
  ultimately show ?thesis by (auto simp: select_free_def min_id_Min)
qed

lemma finite_free_ids [simp]: "finite (free_ids t)"
  by (auto simp: free_ids_def)

lemma select_free_free: "select_free D t = Some i \<Longrightarrow> i \<in> free_ids t \<and> i \<notin> set (db_locked D)"
  using Min_in [of "free_ids t - set (db_locked D)"] by (auto simp: select_free_Some)

section \<open>The contract of a lease pool\<close>

datatype 'w pool_op = Allocate 'w | Release 'w nonce_id

locale lease_pool =
  fixes alloc :: "'w \<Rightarrow> 's \<Rightarrow> ('e + 'a) \<times> 's"
    and rel :: "'w \<Rightarrow> nonce_id \<Rightarrow> 's \<Rightarrow> ('e + unit) \<times> 's"
    and id_of :: "'a \<Rightarrow> nonce_id"
    and free :: "'s \<Rightarrow> nonce_id set"
    and inv :: "'s \<Rightarrow> bool"
  assumes inv_alloc: "inv s \<Longrightarrow> inv (snd (alloc w s))"
    and inv_rel: "inv s \<Longrightarrow> inv (snd (rel w i s))"
    and alloc_takes: "inv s \<Longrightarrow> alloc w s = (Inr a, s') \<Longrightarrow> id_of a \<in> free s \<and> id_of a \<notin> free s'"
    and alloc_shrinks: "inv s \<Longrightarrow> free (snd (alloc w s)) \<subseteq> free s"
    and rel_frees_one: "inv s \<Longrightarrow> free (snd (rel w i s)) \<subseteq> insert i (free s)"
begin

primrec pool_step :: "'w pool_op \<Rightarrow> 's \<Rightarrow> 's" where
  "pool_step (Allocate w) s = snd (alloc w s)"
| "pool_step (Release w i) s = snd (rel w i s)"

lemma leased_stays_leased:
  assumes "inv s" "i \<notin> free s" "\<forall>w. Release w i \<notin> set ops"
  shows "inv (fold pool_step ops s) \<and> i \<notin> free (fold pool_step ops s)"
  using assms
proof (induction ops arbitrary: s)
  case (Cons p ops)
  have "inv (pool_step p s) \<and> i \<notin> free (pool_step p s)"
  proof (cases p)
    case (Allocate w)
    then show ?thesis using Cons.prems alloc_shrinks [of s w] by (auto simp: inv_alloc)
  next
    case (Release w j)
    then have "i \<noteq> j" using Cons.prems(3) by auto
    then show ?thesis using Cons.prems rel_frees_one [of s w j] Release by (auto simp: inv_rel)
  qed
  then show ?case using Cons.IH Cons.prems(3) by simp
qed simp

lemma exclusive:
  assumes "inv s" "alloc w s = (Inr a, s')" "\<forall>v. Release v (id_of a) \<notin> set ops"
    and "alloc w' (fold pool_step ops s') = (Inr b, s'')"
  shows "id_of b \<noteq> id_of a"
proof -
  have "inv s'" "id_of a \<notin> free s'"
    using inv_alloc [OF assms(1), of w] alloc_takes [OF assms(1,2)] assms(2) by simp_all
  then have "inv (fold pool_step ops s') \<and> id_of a \<notin> free (fold pool_step ops s')"
    using assms(3) by (rule leased_stays_leased)
  then show ?thesis using alloc_takes [OF _ assms(4)] by auto
qed

end

lemma parse_allocation_id: "parse_allocation L r = Inr a \<Longrightarrow> na_id a = nr_id r"
  by (auto simp: parse_allocation_def split: sum.splits)

lemma parse_allocation_lease:
  "parse_allocation L (r\<lparr>nr_status := st, nr_leased_at_ms := at\<rparr>) = parse_allocation L r"
  by (simp add: parse_allocation_def cong: sum.case_cong)

lemma find_leased:
  assumes "find (\<lambda>r. nr_id r = i) (lease_row D i t) = Some r"
  shows "nr_id r = i \<and> (\<exists>r0\<in>set t. nr_id r0 = i \<and> parse_allocation L r = parse_allocation L r0)"
proof -
  from assms have id: "nr_id r = i" and "r \<in> set (lease_row D i t)"
    by (auto simp: find_Some_iff)
  then obtain r0 where r0: "r0 \<in> set t"
    and r: "r = (if nr_id r0 = i
      then r0\<lparr>nr_status := ''leased'', nr_leased_at_ms := Some (db_now_ms D)\<rparr> else r0)"
    by (auto simp: lease_row_def simp del: if_image_distrib)
  from r id have "nr_id r0 = i" "parse_allocation L r = parse_allocation L r0"
    by (simp_all add: parse_allocation_lease split: if_splits)
  with r0 id show ?thesis by blast
qed

lemma nonce_inv_allocate: "nonce_inv t \<Longrightarrow> nonce_inv (snd (nonce_allocate L D t))"
  by (auto simp: nonce_allocate_def Let_def split: option.splits prod.splits)

lemma nonce_inv_release: "nonce_inv t \<Longrightarrow> nonce_inv (snd (nonce_release D i t))"
  by (auto simp: nonce_release_def split: option.splits prod.splits)

lemma nonce_allocate_Inr:
  assumes "nonce_allocate L D t = (Inr a, t')"
  shows "select_free D t = Some (na_id a)" "t' = lease_row D (na_id a) t"
proof -
  obtain i r where sel: "select_free D t = Some i"
    and r: "find (\<lambda>r. nr_id r = i) (lease_row D i t) = Some r"
    and res: "parse_allocation L r = Inr a" and t': "t' = lease_row D i t"
    using assms by (auto simp: nonce_allocate_def Let_def bind_eq_Some_conv
        split: option.splits prod.splits)
  from r have "nr_id r = i" by (auto simp: find_Some_iff)
  with res have "na_id a = i" by (simp add: parse_allocation_id)
  with sel t' show "select_free D t = Some (na_id a)" "t' = lease_row D (na_id a) t" by simp_all
qed

interpretation nonce_pool: lease_pool "nonce_allocate L" nonce_release na_id free_ids nonce_inv
proof
  show "na_id a \<in> free_ids t \<and> na_id a \<notin> free_ids t'"
    if "nonce_allocate L D t = (Inr a, t')" for D t a t'
    using nonce_allocate_Inr [OF that] select_free_free by simp
  show "free_ids (snd (nonce_allocate L D t)) \<subseteq> free_ids t" for D t
    by (auto simp: nonce_allocate_def Let_def split: option.splits prod.splits)
  show "free_ids (snd (nonce_release D i t)) \<subseteq> insert i (free_ids t)" for D i t
    by (auto simp: nonce_release_def split: option.splits prod.splits)
qed (simp_all add: nonce_inv_allocate nonce_inv_release)

section \<open>Correctness\<close>

text \<open>The operations as steps on the table.\<close>

definition nonce_step :: "nonce_lib \<Rightarrow> nonce_db pool_op \<Rightarrow> nonce_table \<Rightarrow> nonce_table" where
  "nonce_step L p t =
     (case p of
        Allocate D \<Rightarrow> snd (nonce_allocate L D t)
      | Release D i \<Rightarrow> snd (nonce_release D i t))"

lemma nonce_step_pool: "nonce_step L = nonce_pool.pool_step L"
  by (intro ext) (simp add: nonce_step_def split: pool_op.splits)

text \<open>C17: a nonce lease is exclusive. After a successful allocation, no allocation returns the same
  nonce as long as it is not released, whatever other allocations and releases happen in between, with any
  rows locked and any faults of the connection.\<close>

theorem nonce_lease_is_exclusive:
  assumes "nonce_inv t" and "nonce_allocate L D t = (Inr a, t')"
    and "\<forall>D. Release D (na_id a) \<notin> set ops"
    and "nonce_allocate L D' (fold (nonce_step L) ops t') = (Inr b, t'')"
  shows "na_id b \<noteq> na_id a"
  using nonce_pool.exclusive [OF assms(1-3)] assms(4) by (simp add: nonce_step_pool)

text \<open>The choice of the abstract pool: the least free identifier that is not locked.\<close>

definition pool_pick :: "nonce_id set \<Rightarrow> nonce_id set \<Rightarrow> nonce_id option" where
  "pool_pick locked F = (if F - locked = {} then None else Some (Min (F - locked)))"

lemma select_free_pick: "select_free D t = pool_pick (set (db_locked D)) (free_ids t)"
proof (cases "select_free D t")
  case None
  then show ?thesis
    using select_free_Some [of D t "Min (free_ids t - set (db_locked D))"] by (simp add: pool_pick_def)
next
  case (Some i)
  then show ?thesis by (auto simp: select_free_Some pool_pick_def)
qed

text \<open>C18: allocation refines the abstract pool. Without faults and with rows that parse, \<open>allocate\<close>
  answers the least free identifier no other transaction holds locked, an error exactly when there is
  none, and takes exactly that identifier out of the set of free ones.\<close>

theorem nonce_allocate_refines_pool:
  assumes "db_statement_fault D = None" and "db_column_fault D = (\<lambda>_. None)"
    and "\<forall>r\<in>set t. result_ok (parse_allocation L r)"
  shows "(case fst (nonce_allocate L D t) of Inl _ \<Rightarrow> None | Inr a \<Rightarrow> Some (na_id a)) =
      pool_pick (set (db_locked D)) (free_ids t) \<and>
    free_ids (snd (nonce_allocate L D t)) =
      free_ids t - set_option (pool_pick (set (db_locked D)) (free_ids t))"
proof (cases "select_free D t")
  case None
  then show ?thesis
    using assms by (simp add: nonce_allocate_def select_free_pick [symmetric])
next
  case (Some i)
  then have "i \<in> row_ids t"
    using select_free_free [OF Some] by (auto simp: free_ids_def row_ids_def)
  then have "i \<in> row_ids (lease_row D i t)" by simp
  then obtain r where r: "find (\<lambda>r. nr_id r = i) (lease_row D i t) = Some r"
    by (cases "find (\<lambda>r. nr_id r = i) (lease_row D i t)") (auto simp: find_None_iff row_ids_def)
  then have i: "nr_id r = i" and "result_ok (parse_allocation L r)"
    using assms(3) find_leased [of i D t r L] by fastforce+
  then obtain a where a: "parse_allocation L r = Inr a"
    by (cases "parse_allocation L r") simp_all
  have "read_columns D cols = None" for cols
    using assms(2) by (simp add: read_columns_def map_filter_def)
  with r a i Some assms(1) show ?thesis
    by (simp add: nonce_allocate_def select_free_pick [symmetric] parse_allocation_id)
qed

section \<open>Concrete instances\<close>

definition sample_nonce_lib :: nonce_lib where
  "sample_nonce_lib =
     \<lparr>nonce_pubkey_from_str = (\<lambda>s. if s = [] then Inl ''empty'' else Inr (as_bytes s)),
      nonce_hash_from_str = (\<lambda>s. Inr (as_bytes s))\<rparr>"

definition quiet_db :: nonce_db where
  "quiet_db =
     \<lparr>db_now_ms = 5, db_locked = [], db_statement_fault = None, db_column_fault = (\<lambda>_. None)\<rparr>"

definition sample_row :: "nonce_id \<Rightarrow> string \<Rightarrow> nonce_row" where
  "sample_row i account =
     \<lparr>nr_id = i, nr_status = ''free'', nr_leased_at_ms = None, nr_nonce_account = account,
      nr_nonce_authority = ''au'', nr_nonce_value = ''v''\<rparr>"

lemmas sample_nonce_defs = sample_nonce_lib_def quiet_db_def sample_row_def nonce_allocate_def
  nonce_release_def nonce_step_def select_free_def is_free_def lease_row_def free_row_def
  read_columns_def parse_allocation_def map_filter_def free_ids_def nonce_inv_def Let_def

definition sample_allocation :: "nonce_id \<Rightarrow> string \<Rightarrow> nonce_allocation" where
  "sample_allocation i account =
     \<lparr>na_id = i, na_nonce_account = as_bytes account, na_nonce_authority = as_bytes ''au'',
      na_nonce_value = as_bytes ''v''\<rparr>"

definition leased_row :: "nonce_id \<Rightarrow> string \<Rightarrow> nonce_row" where
  "leased_row i account = (sample_row i account)\<lparr>nr_status := ''leased'', nr_leased_at_ms := Some 5\<rparr>"

lemma sample_allocations:
  "nonce_allocate sample_nonce_lib quiet_db [sample_row 1 ''a'', sample_row 2 ''b''] =
     (Inr (sample_allocation 1 ''a''), [leased_row 1 ''a'', sample_row 2 ''b''])"
  "nonce_allocate sample_nonce_lib quiet_db
       (fold (nonce_step sample_nonce_lib) [Release quiet_db 7] [leased_row 1 ''a'', sample_row 2 ''b'']) =
     (Inr (sample_allocation 2 ''b''), [leased_row 1 ''a'', leased_row 2 ''b''])"
  by (simp_all add: sample_nonce_defs sample_allocation_def leased_row_def)

theorem nonce_lease_is_exclusive_witness:
  "na_id (sample_allocation 2 ''b'') \<noteq> na_id (sample_allocation 1 ''a'')"
  by (rule nonce_lease_is_exclusive [OF _ sample_allocations(1) _ sample_allocations(2)])
    (simp_all add: nonce_inv_def sample_row_def sample_allocation_def)

theorem nonce_allocate_refines_pool_witness:
  "free_ids (snd (nonce_allocate sample_nonce_lib quiet_db [sample_row 4 ''a'', sample_row 2 ''b''])) = {4}"
  using nonce_allocate_refines_pool [of quiet_db "[sample_row 4 ''a'', sample_row 2 ''b'']" sample_nonce_lib]
  by (simp add: pool_pick_def quiet_db_def sample_row_def sample_nonce_lib_def parse_allocation_def
      is_free_def insert_Diff_if)

text \<open>
  A row whose columns do not parse stays leased although the caller got an error: nothing
  returns it to the pool.
\<close>

lemma unparsable_row_is_leaked:
  assumes "select_free D t = Some i" "db_statement_fault D = None" "nonce_inv t"
    and "\<forall>r\<in>set t. nr_id r = i \<longrightarrow> \<not> result_ok (parse_allocation L r)"
  shows "\<not> result_ok (fst (nonce_allocate L D t)) \<and> i \<notin> free_ids (snd (nonce_allocate L D t))"
proof (cases "nonce_allocate L D t")
  case (Pair res t')
  show ?thesis
  proof (cases res)
    case (Inl e)
    with Pair assms show ?thesis
      by (auto simp: nonce_allocate_def Let_def split: option.splits)
  next
    case (Inr a)
    with Pair obtain r where "find (\<lambda>r. nr_id r = i) (lease_row D i t) = Some r"
      "parse_allocation L r = Inr a"
      using assms(1,2)
      by (auto simp: nonce_allocate_def Let_def bind_eq_Some_conv split: option.splits)
    with find_leased obtain r0 where "r0 \<in> set t" "nr_id r0 = i" "parse_allocation L r0 = Inr a"
      by metis
    with assms(4) have "\<not> result_ok (Inr a :: chain_bridge_error + nonce_allocation)" by metis
    then show ?thesis by simp
  qed
qed

text \<open>
  Release is by identifier: a second release of an old lease frees the nonce although another
  client holds it by then, and both then use one nonce.
\<close>

lemma sample_cycle:
  "nonce_allocate sample_nonce_lib quiet_db [sample_row 1 ''a''] =
     (Inr (sample_allocation 1 ''a''), [leased_row 1 ''a''])"
  "nonce_release quiet_db 1 [leased_row 1 ''a''] = (Inr (), [sample_row 1 ''a''])"
  by (simp_all add: sample_nonce_defs sample_allocation_def leased_row_def)

lemma late_release_breaks_exclusivity:
  "let t1 = snd (nonce_allocate sample_nonce_lib quiet_db [sample_row 1 ''a'']);
       t2 = snd (nonce_release quiet_db 1 t1); t3 = snd (nonce_allocate sample_nonce_lib quiet_db t2);
       t4 = snd (nonce_release quiet_db 1 t3)
   in fst (nonce_allocate sample_nonce_lib quiet_db t2) = fst (nonce_allocate sample_nonce_lib quiet_db t4) \<and>
      result_ok (fst (nonce_allocate sample_nonce_lib quiet_db t4))"
  by (simp only: Let_def sample_cycle snd_conv fst_conv result_ok_simps simp_thms)

end
