(* ===== verification/Store_Properties.thy ===== *)
theory Store_Properties
  imports Audit_Chain Dedup_Store
begin

text \<open>
  The properties of the two stores: the audit trail stays an intact, append-only hash chain
  whatever the database answers, its tip pins every earlier row, and the claim protocol of the
  dedup store admits one attempt per key and replays the result of the first. Two boundaries of
  the audit guarantee are stated as well: the hashed bytes have no field separators, and the
  Postgres adapter reads the tip and inserts in two separate statements.
\<close>

section \<open>The audit trail\<close>

definition pg_run :: "audit_lib \<Rightarrow> pg_table \<Rightarrow> (pg_faults \<times> audit_entry) list \<Rightarrow> pg_table" where
  "pg_run L t calls = foldl (\<lambda>t (P, e). snd (pg_append L P t e)) t calls"

definition inmem_run :: "audit_lib \<Rightarrow> inmem_store \<Rightarrow> audit_entry list \<Rightarrow> inmem_store" where
  "inmem_run L log es = foldl (\<lambda>l e. snd (inmem_append L l e)) log es"

lemma pg_empty_ok [simp]: "pg_inv pg_empty" "pg_links pg_empty = []"
  by (simp_all add: pg_inv_def pg_empty_def pg_links_def)

text \<open>C33: the Postgres audit log is an append-only intact hash chain. After any sequence of appends
  to the empty table, with the connection failing at any of the queries of any of them, every
  stored hash is the hash of its own row and of the stored hash before it, ids increase, and
  further appends only add rows at the end.\<close>

theorem pg_audit_chain_intact:
  "chain_ok L (pg_links (pg_run L pg_empty calls)) \<and> pg_inv (pg_run L pg_empty calls) \<and>
   prefix (pg_links (pg_run L pg_empty calls)) (pg_links (pg_run L pg_empty (calls @ later)))"
proof -
  have 1: "pg_inv (pg_run L pg_empty calls)" "chain_ok L (pg_links (pg_run L pg_empty calls))"
    using pg.appends_chain [of pg_empty L calls] by (simp_all add: pg_run_def)
  from pg.appends_chain [OF this, of later] 1 show ?thesis
    by (simp add: pg_run_def)
qed

lemma inmem_run_snoc: "inmem_run L log (es @ [e]) = snd (inmem_append L (inmem_run L log es) e)"
  by (simp add: inmem_run_def)

lemma inmem_run_content:
  "inmem_entries (inmem_run L [] es) = es \<and>
   map fst (inmem_run L [] es) = map (\<lambda>n. int n + 1) [0..<length es]"
proof (induction es rule: rev_induct)
  case (snoc e es)
  then have "length (inmem_run L [] es) = length es"
    by (metis length_map inmem_entries_def)
  with snoc show ?case
    by (simp add: inmem_run_snoc inmem_append_def inmem_entries_def Let_def)
qed (simp add: inmem_run_def inmem_entries_def)

text \<open>The in-memory audit log records every entry, in order, under the ids 1, 2, 3, and so on,
  and its hashes form an intact chain.\<close>

lemma inmem_audit_log:
  "inmem_entries (inmem_run L [] es) = es \<and>
   map fst (inmem_run L [] es) = map (\<lambda>n. int n + 1) [0..<length es] \<and>
   chain_ok L (inmem_links L (inmem_run L [] es))"
proof -
  have "inmem_run L [] es = foldl (\<lambda>s (c :: unit, e). snd (inmem_append L s e)) [] (map (Pair ()) es)"
    by (simp add: inmem_run_def foldl_map)
  with inmem.appends_chain [of L "[]" "map (Pair ()) es"]
  have "chain_ok L (inmem_links L (inmem_run L [] es))" by (simp add: inmem_links_def)
  with inmem_run_content show ?thesis by blast
qed

text \<open>C34: the audit tip is tamper evident. Two Postgres logs that are both intact chains of the
  same length and report the same latest hash hold, row by row, the same hashed bytes, provided
  the hash function gives 32-byte digests and has no collision among the inputs that occur.\<close>

theorem audit_tip_tamper_evident:
  assumes "digest_size L" "pg_inv t" "pg_inv t'"
    and "chain_ok L (pg_links t)" "chain_ok L (pg_links t')"
    and "length (pg_rows t) = length (pg_rows t')"
    and "pg_latest_hash P t = Inr h" "pg_latest_hash P' t' = Inr h"
    and "collision_free L (preimages None (pg_links t) \<union> preimages None (pg_links t'))"
  shows "map (\<lambda>r. concat (snd (row_link r))) (pg_rows t) =
         map (\<lambda>r. concat (snd (row_link r))) (pg_rows t')"
  using pg.same_tip_same_bytes [OF assms(1-5) _ assms(7-9)] assms(6)
  by (simp add: pg_links_def comp_def)

text \<open>A small instance: the digest is a one followed by the first 31 bytes of the input, padded.\<close>

definition toy_lib :: audit_lib where
  "toy_lib =
     \<lparr>hashv = (\<lambda>xs. take 32 (1 # concat xs @ replicate 32 0)),
      outcome_to_json = (\<lambda>out. case out of Submitted sig slot \<Rightarrow> Inr sig | Rejected st rs \<Rightarrow> Inr st)\<rparr>"

definition no_faults :: pg_faults where
  "no_faults =
     \<lparr>select_fault = \<lambda>_. None, read_tip_fault = \<lambda>_. None, insert_fault = \<lambda>_. None,
      read_id_fault = \<lambda>_. None\<rparr>"

definition toy_entry :: "string \<Rightarrow> audit_entry" where
  "toy_entry corr = audit_entry_new corr ''id'' ''act'' (Rejected ''policy'' ''no'') 7"

definition toy_table :: pg_table where
  "toy_table = pg_run toy_lib pg_empty [(no_faults, toy_entry ''a'')]"

lemma toy_digest: "digest_size toy_lib"
  by (auto simp: digest_size_def toy_lib_def min_def)

lemma toy_table_rows:
  "pg_rows toy_table =
     [\<lparr>row_id = 1, row_prev_hash = None, row_entry_hash = entry_hash toy_lib (toy_entry ''a'') None,
       row_correlation_id = ''a'', row_identity = ''id'', row_action = ''act'',
       row_outcome_json = ''policy'', row_created_at_ms = 7\<rparr>]"
  by (simp add: toy_table_def pg_run_def pg_append_def pg_latest_hash_def pg_insert_linked_def
      no_faults_def toy_entry_def audit_entry_new_def pg_empty_def toy_lib_def)

lemma toy_table_latest:
  "pg_latest_hash no_faults toy_table = Inr (Some (entry_hash toy_lib (toy_entry ''a'') None))"
  using toy_digest
  by (simp add: pg_latest_hash_def no_faults_def toy_table_rows vec_to_hash_def entry_hash_def
      link_hash_def digest_size_def)

theorem audit_tip_tamper_evident_witness:
  "pg_latest_hash no_faults toy_table = pg_latest_hash no_faults (toy_table\<lparr>pg_seq := 9\<rparr>) \<and>
   map (\<lambda>r. concat (snd (row_link r))) (pg_rows toy_table) =
   map (\<lambda>r. concat (snd (row_link r))) (pg_rows (toy_table\<lparr>pg_seq := 9\<rparr>))"
proof
  let ?t = "toy_table\<lparr>pg_seq := 9\<rparr>"
  have inv: "pg_inv toy_table" "chain_ok toy_lib (pg_links toy_table)"
    using pg.appends_chain [of pg_empty toy_lib "[(no_faults, toy_entry ''a'')]"]
    by (simp_all add: toy_table_def pg_run_def)
  have links: "pg_links ?t = pg_links toy_table" by (simp add: pg_links_def)
  have inv': "pg_inv ?t" by (simp add: pg_inv_def toy_table_rows)
  have latest: "pg_latest_hash no_faults ?t = pg_latest_hash no_faults toy_table"
    by (simp add: pg_latest_hash_def no_faults_def toy_table_rows)
  have cf: "collision_free toy_lib (preimages None (pg_links toy_table) \<union> preimages None (pg_links ?t))"
    unfolding links by (simp add: collision_free_def pg_links_def toy_table_rows row_link_def)
  show "pg_latest_hash no_faults toy_table = pg_latest_hash no_faults ?t" using latest by simp
  show "map (\<lambda>r. concat (snd (row_link r))) (pg_rows toy_table) =
      map (\<lambda>r. concat (snd (row_link r))) (pg_rows ?t)"
    using latest toy_table_latest
    by (intro audit_tip_tamper_evident [OF toy_digest inv(1) inv' inv(2) _ _ toy_table_latest _ cf])
      (simp_all add: links inv(2))
qed

text \<open>Field boundaries are not hashed. When the hash depends only on the concatenated input, as
  SHA-256 over several slices does, moving a suffix of the correlation id to the front of the
  identity leaves the entry hash unchanged.\<close>

lemma entry_hash_ignores_field_boundaries:
  assumes "\<And>xs ys. concat xs = concat ys \<Longrightarrow> hashv L xs = hashv L ys"
  shows "entry_hash L (audit_entry_new (a @ b) i act out now) prev =
         entry_hash L (audit_entry_new a (b @ i) act out now) prev"
  unfolding entry_hash_def link_hash_def
  by (rule assms) (simp add: entry_fields_def audit_entry_new_def)

lemma entry_hash_ignores_field_boundaries_witness:
  "entry_hash toy_lib (audit_entry_new ''c1spiffe'' ''://x'' ''a'' (Submitted ''s'' 0) 1) None =
   entry_hash toy_lib (audit_entry_new ''c1'' ''spiffe://x'' ''a'' (Submitted ''s'' 0) 1) None"
  using entry_hash_ignores_field_boundaries [of toy_lib "''c1''" "''spiffe''" "''://x''"]
  by (simp add: toy_lib_def)

text \<open>Concurrent appends can fork the chain. If two appends both read the tip before either
  inserts, both inserts succeed, the two new rows name the same previous hash, and the table is
  no longer an intact chain.\<close>

lemma pg_concurrent_appends_fork:
  assumes "pg_inv t" "chain_ok L (pg_links t)" "digest_size L" "pg_latest_hash P t = Inr prev"
    and "pg_insert_linked L P prev e t = (Inr i, t')"
    and "pg_insert_linked L P prev e' t' = (Inr j, t'')"
    and "entry_hash L e prev \<noteq> prev_bytes prev"
    and "collision_free L {prev_bytes prev # entry_fields L e',
        entry_hash L e prev # entry_fields L e'}"
  shows "\<not> chain_ok L (pg_links t'') \<and>
     (\<exists>r r'. pg_rows t'' = pg_rows t @ [r, r'] \<and> row_prev_hash r = prev \<and> row_prev_hash r' = prev)"
proof -
  have tip: "prev = chain_tip (pg_links t)" by (rule pg_latest_hash_tip [OF assms(1,4)])
  have len: "length (prev_bytes prev) = 32" "length (entry_hash L e prev) = 32"
    using chain_tip_length [OF assms(3,2)] assms(3) tip
    by (simp_all add: entry_hash_def link_hash_def digest_size_def)
  have step: "\<exists>r. pg_rows u' = pg_rows u @ [r] \<and> row_prev_hash r = prev \<and>
      row_link r = (entry_hash L x prev, entry_fields L x)"
    if "pg_insert_linked L P prev x u = (Inr k, u')" for x u k u'
    using that by (auto simp: pg_insert_linked_def Let_def row_link_def entry_fields_def
        outcome_json_def split: sum.splits option.splits)
  from step [OF assms(5)] step [OF assms(6)] obtain r r' where
    rows: "pg_rows t'' = pg_rows t @ [r, r']" "row_prev_hash r = prev" "row_prev_hash r' = prev"
      "row_link r = (entry_hash L e prev, entry_fields L e)"
      "row_link r' = (entry_hash L e' prev, entry_fields L e')" by auto
  have "entry_hash L e' prev \<noteq> link_hash L (Some (entry_hash L e prev)) (entry_fields L e')"
    using assms(7,8) len
    by (auto simp: collision_free_def entry_hash_def link_hash_def [of L "Some _"]
        link_hash_def [of L prev "entry_fields L e'"] prev_bytes_def [of "Some _"])
  then have "\<not> chain_ok L (pg_links t'')"
    using rows tip by (simp add: pg_links_def chain_from_append)
  with rows show ?thesis by auto
qed

lemma pg_concurrent_appends_fork_witness:
  "\<not> chain_ok toy_lib (pg_links (snd (pg_insert_linked toy_lib no_faults None (toy_entry ''b'')
     (snd (pg_insert_linked toy_lib no_faults None (toy_entry ''a'') pg_empty)))))"
proof -
  have nf: "select_fault no_faults u = None" "insert_fault no_faults u = None"
    "read_id_fault no_faults u = None" for u
    by (simp_all add: no_faults_def)
  have js: "outcome_to_json toy_lib (outcome (toy_entry x)) = Inr ''policy''" for x
    by (simp add: toy_lib_def toy_entry_def audit_entry_new_def)
  have ins: "\<exists>i. pg_insert_linked toy_lib no_faults None (toy_entry x) u =
      (Inr i, snd (pg_insert_linked toy_lib no_faults None (toy_entry x) u))" for x u
    by (simp add: pg_insert_linked_def js nf Let_def)
  have h: "entry_hash toy_lib (toy_entry x) None = 1 # replicate 31 0" for x
    by (simp add: entry_hash_def link_hash_def prev_bytes_def toy_lib_def numeral_eq_Suc)
  have cf: "collision_free toy_lib {prev_bytes None # entry_fields toy_lib (toy_entry ''b''),
      entry_hash toy_lib (toy_entry ''a'') None # entry_fields toy_lib (toy_entry ''b'')}"
    by (simp add: collision_free_def h) (simp add: prev_bytes_def toy_lib_def numeral_eq_Suc)
  obtain i where 1: "pg_insert_linked toy_lib no_faults None (toy_entry ''a'') pg_empty =
      (Inr i, snd (pg_insert_linked toy_lib no_faults None (toy_entry ''a'') pg_empty))"
    using ins by meson
  obtain j where 2: "pg_insert_linked toy_lib no_faults None (toy_entry ''b'')
       (snd (pg_insert_linked toy_lib no_faults None (toy_entry ''a'') pg_empty)) =
     (Inr j, snd (pg_insert_linked toy_lib no_faults None (toy_entry ''b'')
       (snd (pg_insert_linked toy_lib no_faults None (toy_entry ''a'') pg_empty))))"
    using ins by meson
  have latest: "pg_latest_hash no_faults pg_empty = Inr None"
    by (simp add: pg_latest_hash_def nf) (simp add: pg_empty_def)
  have ne: "entry_hash toy_lib (toy_entry ''a'') None \<noteq> prev_bytes None"
    by (simp add: h prev_bytes_def numeral_eq_Suc)
  have "chain_ok toy_lib (pg_links pg_empty)" by simp
  from pg_concurrent_appends_fork [OF pg_empty_ok(1) this toy_digest latest 1 2 ne cf]
  show ?thesis by blast
qed

section \<open>The dedup store\<close>

text \<open>One attempt per key. Once a claim on an idempotency key was granted, every further claim
  on that key within the 120 s lifetime is refused with the "already in flight" reply and leaves
  the store unchanged.\<close>

lemma duplicate_claim_refused:
  assumes "claim_or_replay store (Some k) c now = (None, store')"
    and "t < now + dedup_ttl_ms"
  shows "claim_or_replay store' (Some k) c' t = (Some (replay_result c' InFlight), store')"
  using claims.second_claim_refused [of store k c now t c'] assms by simp

lemma duplicate_claim_refused_witness:
  "fst (claim_or_replay (snd (claim_or_replay Map.empty (Some ''submit:k'') ''a'' 1000))
     (Some ''submit:k'') ''b'' 1500) = Some (replay_result ''b'' InFlight)"
proof -
  have "claim_or_replay Map.empty (Some ''submit:k'') ''a'' 1000 =
      (None, snd (claim_or_replay Map.empty (Some ''submit:k'') ''a'' 1000))"
    by (simp add: claim_or_replay_def Let_def)
  from duplicate_claim_refused [OF this, of 1500] show ?thesis
    by (simp add: dedup_ttl_ms_def)
qed

text \<open>The result of the first attempt is replayed. After a completed effect was recorded, every
  claim on its key within the lifetime is answered with the recorded signature and slot, marked
  deduplicated and successful, even when the cleanup task ran in between.\<close>

lemma completed_result_is_replayed:
  assumes "t < now + dedup_ttl_ms" "u \<le> t"
  shows "fst (claim_or_replay (retain_dedup (record_done store (Some k) sig slot now) u) (Some k) c t) =
     Some \<lparr>tr_correlation_id = c, tr_success = True, tr_signature = Some sig, tr_error = None,
           tr_slot = slot, tr_deduplicated = True\<rparr>"
  using claims.replay_survives_sweep [OF assms, of store k sig slot c] by simp

lemma completed_result_is_replayed_witness:
  "fst (claim_or_replay (retain_dedup (record_done Map.empty (Some ''submit:k'') ''sig'' 0 1000) 1200)
     (Some ''submit:k'') ''b'' 1500) =
   Some \<lparr>tr_correlation_id = ''b'', tr_success = True, tr_signature = Some ''sig'', tr_error = None,
         tr_slot = 0, tr_deduplicated = True\<rparr>"
  by (rule completed_result_is_replayed) (simp_all add: dedup_ttl_ms_def)

text \<open>A claim has no owner. An attempt that outlives its own claim and then fails releases the
  claim of the attempt that took the key over, so a third attempt is admitted while the second is
  still in flight.\<close>

lemma late_release_frees_foreign_claim:
  assumes "claim_or_replay store (Some k) a t0 = (None, store1)" "t0 + dedup_ttl_ms \<le> t1"
  shows "fst (claim_or_replay store1 (Some k) b t1) = None \<and>
     fst (claim_or_replay (release_claim (snd (claim_or_replay store1 (Some k) b t1)) (Some k))
       (Some k) c t2) = None"
proof -
  have "store1 k = Some \<lparr>expiry_ms = t0 + dedup_ttl_ms, state = InFlight\<rparr>"
    using assms(1) by (auto simp: claim_or_replay_def Let_def split: option.splits if_splits)
  with assms(2) have "live store1 t1 k = None" by (simp add: live_def)
  from claims.claim_free [OF this, of b] claims.retry_after_release show ?thesis by simp
qed

lemma late_release_frees_foreign_claim_witness:
  "fst (claim_or_replay (release_claim (snd (claim_or_replay
       (snd (claim_or_replay Map.empty (Some ''submit:k'') ''a'' 1000)) (Some ''submit:k'') ''b'' 121000))
     (Some ''submit:k'')) (Some ''submit:k'') ''c'' 121001) = None"
proof -
  have "claim_or_replay Map.empty (Some ''submit:k'') ''a'' 1000 =
      (None, snd (claim_or_replay Map.empty (Some ''submit:k'') ''a'' 1000))"
    by (simp add: claim_or_replay_def Let_def)
  from late_release_frees_foreign_claim [OF this, of 121000] show ?thesis
    by (simp add: dedup_ttl_ms_def)
qed

end
