(* ===== verification/Audit_Interleaving.thy ===== *)
theory Audit_Interleaving
  imports Store_Properties
begin

text \<open>
  Concurrent appends to the Postgres audit log. \<open>PostgresAuditStore::append\<close> reads the tip and
  inserts in two statements on a pool of connections, and the handlers that append run concurrently;
  so between the two statements of one append any number of others may run. What remains of the chain is
  a forest: every row verifies against the row it names, up to a row that names none.
\<close>

section \<open>Appends in two steps\<close>

datatype audit_step =
    ReadTip nat pg_faults audit_entry
  | InsertRow nat pg_faults

text \<open>The table and, by task, the appends that have read the tip.\<close>

record audit_pool =
  ap_table :: pg_table
  ap_pending :: "nat \<rightharpoonup> audit_entry \<times> audit_hash option"

text \<open>A task that cannot take the step stays where it is; a failed query ends its append.\<close>

fun audit_do :: "audit_lib \<Rightarrow> audit_step \<Rightarrow> audit_pool \<Rightarrow> audit_pool" where
  "audit_do L (ReadTip i P e) S =
     (if ap_pending S i \<noteq> None then S
      else (case pg_latest_hash P (ap_table S) of
              Inl _ \<Rightarrow> S
            | Inr prev \<Rightarrow> S\<lparr>ap_pending := (ap_pending S)(i \<mapsto> (e, prev))\<rparr>))"
| "audit_do L (InsertRow i P) S =
     (case ap_pending S i of
        None \<Rightarrow> S
      | Some (e, prev) \<Rightarrow>
          \<lparr>ap_table = snd (pg_insert_linked L P prev e (ap_table S)), ap_pending = (ap_pending S)(i := None)\<rparr>)"

definition audit_run :: "audit_lib \<Rightarrow> audit_pool \<Rightarrow> audit_step list \<Rightarrow> audit_pool" where
  "audit_run L = foldl (\<lambda>S st. audit_do L st S)"

definition audit_start :: audit_pool where
  "audit_start = \<lparr>ap_table = pg_empty, ap_pending = Map.empty\<rparr>"

text \<open>Without anything in between, the two steps are \<open>append\<close>.\<close>

lemma uninterrupted_append:
  assumes "ap_pending S i = None"
  shows "audit_run L S [ReadTip i P e, InsertRow i P] =
    S\<lparr>ap_table := snd (pg_append L P (ap_table S) e)\<rparr>"
  using assms by (cases S) (auto simp: audit_run_def pg_append_def split: sum.split)

section \<open>The forest\<close>

text \<open>Every row ends an intact chain of rows of the table.\<close>

definition rooted :: "audit_lib \<Rightarrow> pg_row list \<Rightarrow> bool" where
  "rooted L rows \<longleftrightarrow>
     (\<forall>r\<in>set rows. \<exists>rs. set rs \<subseteq> set rows \<and> chain_ok L (map row_link (rs @ [r])) \<and>
        row_prev_hash r = chain_tip (map row_link rs))"

lemma rooted_snoc:
  assumes "rooted L rows" and "set rs \<subseteq> set rows" "chain_ok L (map row_link (rs @ [r]))"
    and "row_prev_hash r = chain_tip (map row_link rs)"
  shows "rooted L (rows @ [r])"
  unfolding rooted_def
proof
  fix q assume "q \<in> set (rows @ [r])"
  then consider "q \<in> set rows" | "q = r" by auto
  then show "\<exists>rs. set rs \<subseteq> set (rows @ [r]) \<and> chain_ok L (map row_link (rs @ [q])) \<and>
      row_prev_hash q = chain_tip (map row_link rs)"
  proof cases
    case 1
    with assms(1) obtain rs' where "set rs' \<subseteq> set rows" "chain_ok L (map row_link (rs' @ [q]))"
      "row_prev_hash q = chain_tip (map row_link rs')"
      unfolding rooted_def by blast
    then show ?thesis by (intro exI [of _ rs']) auto
  next
    case 2
    with assms(2-4) show ?thesis by (intro exI [of _ rs]) auto
  qed
qed

lemma inserted_row:
  "pg_rows (snd (pg_insert_linked L P prev e t)) = pg_rows t \<or>
   (\<exists>r. pg_rows (snd (pg_insert_linked L P prev e t)) = pg_rows t @ [r] \<and> row_prev_hash r = prev \<and>
      row_link r = (entry_hash L e prev, entry_fields L e))"
  by (auto simp: pg_insert_linked_def Let_def row_link_def entry_fields_def outcome_json_def
      split: sum.splits option.splits insert_end.splits)

text \<open>A previous hash that is absent or stored in the table.\<close>

definition names_row :: "pg_row list \<Rightarrow> audit_hash option \<Rightarrow> bool" where
  "names_row rows prev \<longleftrightarrow> prev = None \<or> (\<exists>r\<in>set rows. prev = Some (row_entry_hash r))"

lemma names_row_prefix: "names_row rows prev \<Longrightarrow> prefix rows rows' \<Longrightarrow> names_row rows' prev"
  unfolding names_row_def by (meson set_mono_prefix subsetD)

definition forest_inv :: "audit_lib \<Rightarrow> audit_pool \<Rightarrow> bool" where
  "forest_inv L S \<longleftrightarrow>
     pg_inv (ap_table S) \<and> rooted L (pg_rows (ap_table S)) \<and>
     (\<forall>i e prev. ap_pending S i = Some (e, prev) \<longrightarrow> names_row (pg_rows (ap_table S)) prev)"

lemma tip_is_row:
  assumes "pg_inv t" "pg_latest_hash P t = Inr prev"
  shows "names_row (pg_rows t) prev"
  using pg_latest_hash_tip [OF assms]
  by (cases "pg_rows t" rule: rev_cases) (auto simp: names_row_def pg_links_def row_link_def)

lemma rooted_insert:
  assumes "rooted L rows" "row_prev_hash r = prev" "row_link r = (entry_hash L e prev, entry_fields L e)"
    and "names_row rows prev"
  shows "rooted L (rows @ [r])"
proof (cases prev)
  case None
  then show ?thesis
    using rooted_snoc [OF assms(1), of "[]" r] assms(2,3) by (simp add: entry_hash_def)
next
  case (Some h)
  with assms(4) obtain p where p: "p \<in> set rows" "h = row_entry_hash p" by (auto simp: names_row_def)
  with assms(1) obtain rs where rs: "set rs \<subseteq> set rows" "chain_ok L (map row_link (rs @ [p]))"
    unfolding rooted_def by blast
  have tip: "chain_tip (map row_link (rs @ [p])) = prev" using Some p(2) by (simp add: row_link_def)
  from rs(2) tip assms(3) have "chain_ok L (map row_link ((rs @ [p]) @ [r]))"
    by (simp only: map_append list.map chain_from_snoc entry_hash_def)
  from rooted_snoc [OF assms(1) _ this] rs(1) p(1) tip assms(2) show ?thesis by simp
qed

lemma forest_step:
  assumes "forest_inv L S"
  shows "forest_inv L (audit_do L st S) \<and> prefix (pg_rows (ap_table S)) (pg_rows (ap_table (audit_do L st S)))"
proof (cases st)
  case (ReadTip i P e)
  then show ?thesis
    using assms tip_is_row [of "ap_table S" P] by (auto simp: forest_inv_def split: sum.splits)
next
  case (InsertRow i P)
  show ?thesis
  proof (cases "ap_pending S i")
    case None
    with assms show ?thesis by (simp add: InsertRow)
  next
    case (Some ep)
    obtain e prev where ep: "ep = (e, prev)" by (cases ep)
    let ?t = "snd (pg_insert_linked L P prev e (ap_table S))"
    have inv: "pg_inv ?t"
      using pg_insert_linked_link [of "ap_table S" L P prev e] assms
      by (cases "pg_insert_linked L P prev e (ap_table S)") (auto simp: forest_inv_def)
    have "rooted L (pg_rows ?t) \<and> prefix (pg_rows (ap_table S)) (pg_rows ?t)"
      using inserted_row [of L P prev e "ap_table S"]
    proof (elim disjE exE conjE)
      fix r assume r: "pg_rows ?t = pg_rows (ap_table S) @ [r]" "row_prev_hash r = prev"
        "row_link r = (entry_hash L e prev, entry_fields L e)"
      have "rooted L (pg_rows (ap_table S) @ [r])"
        by (rule rooted_insert [OF _ r(2,3)]) (use assms Some ep in \<open>auto simp: forest_inv_def\<close>)
      with r(1) show ?thesis by simp
    qed (use assms in \<open>simp add: forest_inv_def\<close>)
    with assms inv Some ep show ?thesis
      by (auto simp: InsertRow forest_inv_def intro: names_row_prefix)
  qed
qed

lemma forest_run:
  "forest_inv L S \<Longrightarrow> forest_inv L (audit_run L S steps) \<and>
   prefix (pg_rows (ap_table S)) (pg_rows (ap_table (audit_run L S steps)))"
proof (induction steps arbitrary: S)
  case (Cons st steps)
  from forest_step [OF Cons.prems] Cons.IH [of "audit_do L st S"] show ?case
    by (auto simp: audit_run_def intro: prefix_order.trans)
qed (simp add: audit_run_def)

lemma forest_start: "forest_inv L audit_start"
  using pg_empty_ok(1) by (simp add: forest_inv_def audit_start_def rooted_def pg_empty_def)

text \<open>C35: concurrent appends leave a verifiable forest. However the two statements of the appends
  interleave, and whichever of them fail, every row of the audit log ends an intact hash chain of rows of
  the log whose tip it names as its previous hash, ids increase, and no row is ever changed or removed.\<close>

theorem interleaved_appends_forest:
  assumes "S = audit_run L audit_start steps" and "r \<in> set (pg_rows (ap_table S))"
  shows "(\<exists>rs. set rs \<subseteq> set (pg_rows (ap_table S)) \<and> chain_ok L (map row_link (rs @ [r])) \<and>
      row_prev_hash r = chain_tip (map row_link rs)) \<and>
    pg_inv (ap_table S) \<and> prefix (pg_rows (ap_table S)) (pg_rows (ap_table (audit_run L S later)))"
proof -
  have "forest_inv L S" using forest_run [OF forest_start] assms(1) by blast
  with forest_run [OF this, of later] assms(2) show ?thesis
    unfolding forest_inv_def rooted_def by blast
qed

text \<open>Two appends that both read the empty table: the second row starts a chain of its own.\<close>

theorem interleaved_appends_forest_witness:
  "\<exists>r r'. pg_rows (ap_table (audit_run toy_lib audit_start
      [ReadTip 0 no_faults (toy_entry ''a''), ReadTip 1 no_faults (toy_entry ''b''),
       InsertRow 0 no_faults, InsertRow 1 no_faults])) = [r, r'] \<and>
    (\<exists>rs. set rs \<subseteq> {r, r'} \<and> chain_ok toy_lib (map row_link (rs @ [r'])) \<and>
      None = chain_tip (map row_link rs))"
proof -
  let ?S = "audit_run toy_lib audit_start
      [ReadTip 0 no_faults (toy_entry ''a''), ReadTip 1 no_faults (toy_entry ''b''),
       InsertRow 0 no_faults, InsertRow 1 no_faults]"
  have js: "outcome_to_json toy_lib (outcome (toy_entry x)) = Inr ''policy''" for x
    by (simp add: toy_lib_def toy_entry_def audit_entry_new_def)
  obtain r r' where r: "pg_rows (ap_table ?S) = [r, r']" "row_prev_hash r' = None"
    by (simp add: audit_run_def audit_start_def pg_empty_def pg_latest_hash_def pg_insert_linked_def
        js no_faults_def Let_def)
  then have "r' \<in> set (pg_rows (ap_table ?S))" by simp
  from interleaved_appends_forest [OF refl this] r show ?thesis by auto
qed

end
