(* ===== verification/Nats_Loop.thy ===== *)
theory Nats_Loop
  imports Nats_State
begin

text \<open>
  The resilience of the NATS path: the two pull consumers of \<open>NatsConsumer::start\<close> with their
  reopening loops (\<open>run_consumer\<close>), and the supervisor of \<open>main.rs\<close> that connects, runs a consumer
  session until it returns, and reconnects. The loops run for ever, so they are step relations:
  a step is one answer of the NATS server (a stream opened or not, a message, the end of a stream), one
  tick of the cleanup task, or one connection attempt.
\<close>

section \<open>The pull consumers\<close>

datatype worker = Fast | MintWorker

record pull_config =
  pc_durable_name :: string
  pc_ack_wait_secs :: nat
  pc_max_batch :: nat
  pc_max_waiting :: nat
  pc_filter_subjects :: "string list"

definition pull_consumer :: "string \<Rightarrow> string list \<Rightarrow> nat \<Rightarrow> pull_config" where
  "pull_consumer durable filter_subjects ack_wait =
     \<lparr>pc_durable_name = durable, pc_ack_wait_secs = ack_wait, pc_max_batch = 128,
      pc_max_waiting = 512, pc_filter_subjects = filter_subjects\<rparr>"

primrec worker_config :: "worker \<Rightarrow> pull_config" where
  "worker_config Fast = pull_consumer ''chain-bridge-worker'' fast_filter_subjects 30"
| "worker_config MintWorker = pull_consumer ''chain-bridge-mint-worker'' mint_filter_subjects 90"

definition max_messages_per_batch :: nat where
  "max_messages_per_batch = 100"

section \<open>Opening the message stream\<close>

record worker_state =
  ws_open :: bool
  ws_backoff_ms :: nat
  ws_create_failures :: nat

definition worker_init :: worker_state where
  "worker_init = \<lparr>ws_open = False, ws_backoff_ms = 100, ws_create_failures = 0\<rparr>"

definition unrecoverable_text :: "string \<Rightarrow> nat \<Rightarrow> string \<Rightarrow> string" where
  "unrecoverable_text durable n e =
     ''NATS messages stream for '' @ [CHR 0x27] @ durable @ [CHR 0x27] @ '' unrecoverable after ''
     @ show_nat n @ '' attempts: '' @ e"

text \<open>
  One answer to \<open>messages().await\<close>: success resets both counters; the fifth failure in a row is
  returned; any other is slept on and doubles the backoff, up to five seconds.
\<close>

definition open_stream :: "string \<Rightarrow> string + unit \<Rightarrow> worker_state \<Rightarrow> (string + worker_state) io" where
  "open_stream durable answer w =
     (case answer of
        Inr _ \<Rightarrow>
          State_Monad.return (Inr \<lparr>ws_open = True, ws_backoff_ms = 100, ws_create_failures = 0\<rparr>)
      | Inl e \<Rightarrow>
          (let create_failures = ws_create_failures w + 1 in
           if 5 \<le> create_failures
           then State_Monad.return (Inl (unrecoverable_text durable create_failures e))
           else do {
             sleep_ms (ws_backoff_ms w);
             State_Monad.return
               (Inr (w\<lparr>ws_create_failures := create_failures,
                       ws_backoff_ms := min (ws_backoff_ms w * 2) 5000\<rparr>))
           }))"

text \<open>The end of a stream: a pause, then the loop opens the next one.\<close>

definition end_stream :: "worker_state \<Rightarrow> worker_state io" where
  "end_stream w = do { sleep_ms 200; State_Monad.return (w\<lparr>ws_open := False\<rparr>) }"

section \<open>A consumer session\<close>

text \<open>
  \<open>start\<close> runs both loops and the cleanup task; \<open>try_join!\<close> returns the first error of either
  loop and drops the other. A handler that panics aborts the process.
\<close>

record session =
  se_bridge :: bridge
  se_worker :: "worker \<Rightarrow> worker_state"

definition session_start :: "bridge \<Rightarrow> session" where
  "session_start b = \<lparr>se_bridge = nats_consumer_start (nats_consumer_new b), se_worker = (\<lambda>_. worker_init)\<rparr>"

datatype input =
    StreamAnswer worker "string + unit"
  | Message worker string bytes
  | MessageFailed worker string
  | StreamEnd worker
  | CleanupTick

datatype session_end = Returned string bridge | ProcessAborted bridge

definition set_worker :: "worker \<Rightarrow> worker_state \<Rightarrow> session \<Rightarrow> session" where
  "set_worker w ws S = S\<lparr>se_worker := (se_worker S)(w := ws)\<rparr>"

inductive session_step ::
  "externals \<Rightarrow> env \<Rightarrow> config \<Rightarrow> consumer \<Rightarrow> input \<Rightarrow> session \<Rightarrow> session_end + session \<Rightarrow> bool"
  for X E C N where
  stream_opened:
    "\<not> ws_open (se_worker S w) \<Longrightarrow>
     run_state (open_stream (pc_durable_name (worker_config w)) answer (se_worker S w)) (se_bridge S) =
       (Inr ws, b) \<Longrightarrow>
     session_step X E C N (StreamAnswer w answer) S (Inr ((set_worker w ws S)\<lparr>se_bridge := b\<rparr>))"
| stream_lost:
    "\<not> ws_open (se_worker S w) \<Longrightarrow>
     run_state (open_stream (pc_durable_name (worker_config w)) answer (se_worker S w)) (se_bridge S) =
       (Inl e, b) \<Longrightarrow>
     session_step X E C N (StreamAnswer w answer) S (Inl (Returned e b))"
| message_handled:
    "ws_open (se_worker S w) \<Longrightarrow> subject \<in> set (pc_filter_subjects (worker_config w)) \<Longrightarrow>
     run_state (handle_message X E C N subject payload) (se_bridge S) = (Finished, b) \<Longrightarrow>
     session_step X E C N (Message w subject payload) S (Inr (S\<lparr>se_bridge := b\<rparr>))"
| message_aborted:
    "ws_open (se_worker S w) \<Longrightarrow> subject \<in> set (pc_filter_subjects (worker_config w)) \<Longrightarrow>
     run_state (handle_message X E C N subject payload) (se_bridge S) = (Aborted, b) \<Longrightarrow>
     session_step X E C N (Message w subject payload) S (Inl (ProcessAborted b))"
| message_failed:
    "ws_open (se_worker S w) \<Longrightarrow>
     session_step X E C N (MessageFailed w e) S (Inr S)"
| stream_ended:
    "ws_open (se_worker S w) \<Longrightarrow>
     run_state (end_stream (se_worker S w)) (se_bridge S) = (ws, b) \<Longrightarrow>
     session_step X E C N (StreamEnd w) S (Inr ((set_worker w ws S)\<lparr>se_bridge := b\<rparr>))"
| cleaned_up:
    "run_state (cleanup_tick E) (se_bridge S) = ((), b) \<Longrightarrow>
     session_step X E C N CleanupTick S (Inr (S\<lparr>se_bridge := b\<rparr>))"

inductive_cases session_step_cases:
  "session_step X E C N (StreamAnswer w answer) S T"
  "session_step X E C N (Message w subject payload) S T"
  "session_step X E C N (MessageFailed w e) S T"
  "session_step X E C N (StreamEnd w) S T"
  "session_step X E C N CleanupTick S T"

section \<open>The supervisor\<close>

datatype supervisor =
    Disconnected nat bridge \<comment> \<open>the delay of the next pause\<close>
  | InSession session
  | Dead bridge

datatype supervisor_input =
    ConnectFailed string
  | Connected
  | StartFailed string
  | SessionInput input

text \<open>The pause after every round and the doubled delay.\<close>

definition pause :: "nat \<Rightarrow> bridge \<Rightarrow> supervisor" where
  "pause backoff_ms b =
     Disconnected (min (backoff_ms * 2) 30000) (final_of (sleep_ms backoff_ms) b)"

inductive supervisor_step ::
  "externals \<Rightarrow> env \<Rightarrow> config \<Rightarrow> consumer \<Rightarrow> supervisor_input \<Rightarrow> supervisor \<Rightarrow> supervisor \<Rightarrow> bool"
  for X E C N where
  connect_failed:
    "supervisor_step X E C N (ConnectFailed e) (Disconnected backoff b) (pause backoff b)"
| connected:
    "supervisor_step X E C N Connected (Disconnected backoff b) (InSession (session_start b))"
| start_failed:
    "supervisor_step X E C N (StartFailed e) (Disconnected backoff b)
       (pause 500 (se_bridge (session_start b)))"
| session_continues:
    "session_step X E C N i S (Inr S') \<Longrightarrow>
     supervisor_step X E C N (SessionInput i) (InSession S) (InSession S')"
| session_returned:
    "session_step X E C N i S (Inl (Returned e b)) \<Longrightarrow>
     supervisor_step X E C N (SessionInput i) (InSession S) (pause 500 b)"
| process_aborted:
    "session_step X E C N i S (Inl (ProcessAborted b)) \<Longrightarrow>
     supervisor_step X E C N (SessionInput i) (InSession S) (Dead b)"

inductive_cases supervisor_step_cases:
  "supervisor_step X E C N (ConnectFailed e) S T"
  "supervisor_step X E C N Connected S T"
  "supervisor_step X E C N (StartFailed e) S T"
  "supervisor_step X E C N (SessionInput i) S T"

text \<open>Runs with the inputs they took.\<close>

inductive supervisor_run ::
  "externals \<Rightarrow> env \<Rightarrow> config \<Rightarrow> consumer \<Rightarrow> supervisor_input list \<Rightarrow> supervisor \<Rightarrow> supervisor \<Rightarrow> bool"
  for X E C N where
  run_nil: "supervisor_run X E C N [] S S"
| run_snoc:
    "supervisor_run X E C N is S T \<Longrightarrow> supervisor_step X E C N i T U \<Longrightarrow>
     supervisor_run X E C N (is @ [i]) S U"

end
