(* ===== verification/Loop_Properties.thy ===== *)
theory Loop_Properties
  imports Nats_Loop
begin

text \<open>
  Bounds and progress of the resilience loops: the failure counter and the delays of the pull
  consumers, when a session gives up, and the delays between connection attempts.
\<close>

section \<open>Steps as equations\<close>

lemma supervisor_run_nil [simp]: "supervisor_run X E C N [] S T \<longleftrightarrow> T = S"
  by (auto elim: supervisor_run.cases intro: run_nil)

lemma supervisor_run_snoc [simp]:
  "supervisor_run X E C N (is @ [i]) S U \<longleftrightarrow>
     (\<exists>T. supervisor_run X E C N is S T \<and> supervisor_step X E C N i T U)"
  by (auto elim: supervisor_run.cases intro: run_snoc)

lemma supervisor_run_append:
  "supervisor_run X E C N js T U \<Longrightarrow> supervisor_run X E C N is S T \<Longrightarrow>
   supervisor_run X E C N (is @ js) S U"
  by (induction rule: supervisor_run.induct) (auto simp flip: append_assoc)

text \<open>The bridge after some pauses.\<close>

definition slept :: "nat list \<Rightarrow> bridge \<Rightarrow> bridge" where
  "slept ds b = b\<lparr>trace := trace b @ map EvSleep ds\<rparr>"

lemma slept_simps [simp]:
  "slept [] b = b" "slept ds' (slept ds b) = slept (ds @ ds') b"
  "final_of (sleep_ms d) b = slept [d] b"
  by (simp_all add: slept_def sleep_ms_def)

lemma open_stream_failed:
  "run_state (open_stream durable (Inl e) ws) b =
     (if 4 \<le> ws_create_failures ws
      then (Inl (unrecoverable_text durable (ws_create_failures ws + 1) e), b)
      else (Inr (ws\<lparr>ws_create_failures := ws_create_failures ws + 1,
                    ws_backoff_ms := min (ws_backoff_ms ws * 2) 5000\<rparr>),
            slept [ws_backoff_ms ws] b))"
  by (simp add: open_stream_def Let_def slept_def sleep_ms_def)

lemma open_stream_ok:
  "run_state (open_stream durable (Inr u) ws) b =
     (Inr \<lparr>ws_open = True, ws_backoff_ms = 100, ws_create_failures = 0\<rparr>, b)"
  by (simp add: open_stream_def)

lemma session_step_failed:
  "session_step X E C N (StreamAnswer w (Inl e)) S R \<longleftrightarrow>
     \<not> ws_open (se_worker S w) \<and>
     R = (let ws = se_worker S w in
          if 4 \<le> ws_create_failures ws
          then Inl (Returned (unrecoverable_text (pc_durable_name (worker_config w))
                 (ws_create_failures ws + 1) e) (se_bridge S))
          else Inr ((set_worker w (ws\<lparr>ws_create_failures := ws_create_failures ws + 1,
                 ws_backoff_ms := min (ws_backoff_ms ws * 2) 5000\<rparr>) S)
                 \<lparr>se_bridge := slept [ws_backoff_ms ws] (se_bridge S)\<rparr>))"
  (is "?step \<longleftrightarrow> ?spec")
proof
  assume ?step
  then show ?spec
    by cases (auto simp: open_stream_failed Let_def split: if_splits)
next
  assume spec: ?spec
  show ?step
  proof (cases "4 \<le> ws_create_failures (se_worker S w)")
    case True
    with spec show ?thesis by (simp add: Let_def) (rule stream_lost, simp_all add: open_stream_failed)
  next
    case False
    with spec show ?thesis by (simp add: Let_def) (rule stream_opened, simp_all add: open_stream_failed)
  qed
qed

definition after_session :: "session_end + session \<Rightarrow> supervisor" where
  "after_session R =
     (case R of
        Inr S \<Rightarrow> InSession S
      | Inl (Returned e b) \<Rightarrow> pause 500 b
      | Inl (ProcessAborted b) \<Rightarrow> Dead b)"

lemma supervisor_step_session:
  "supervisor_step X E C N (SessionInput i) (InSession S) T \<longleftrightarrow>
     (\<exists>R. session_step X E C N i S R \<and> T = after_session R)"
proof
  assume "supervisor_step X E C N (SessionInput i) (InSession S) T"
  then show "\<exists>R. session_step X E C N i S R \<and> T = after_session R"
    by cases (force simp: after_session_def)+
next
  assume "\<exists>R. session_step X E C N i S R \<and> T = after_session R"
  then obtain R where R: "session_step X E C N i S R" "T = after_session R" by blast
  show "supervisor_step X E C N (SessionInput i) (InSession S) T"
  proof (cases R)
    case (Inl a)
    with R show ?thesis
      by (cases a) (simp_all add: after_session_def session_returned process_aborted)
  next
    case (Inr S')
    with R show ?thesis by (simp add: after_session_def session_continues)
  qed
qed

section \<open>Invariants\<close>

text \<open>The counters of a worker.\<close>

definition worker_inv :: "worker_state \<Rightarrow> bool" where
  "worker_inv ws \<longleftrightarrow>
     ws_create_failures ws < 5 \<and> ws_backoff_ms ws = 100 * 2 ^ ws_create_failures ws"

definition delay_inv :: "nat \<Rightarrow> bool" where
  "delay_inv d \<longleftrightarrow> (\<exists>n. d = min 30000 (500 * 2 ^ n))"

definition supervisor_inv :: "supervisor \<Rightarrow> bool" where
  "supervisor_inv T =
     (case T of
        Disconnected d _ \<Rightarrow> delay_inv d
      | InSession S \<Rightarrow> (\<forall>w. worker_inv (se_worker S w))
      | Dead _ \<Rightarrow> True)"

lemma worker_inv_init [simp]: "worker_inv worker_init" "worker_inv \<lparr>ws_open = b, ws_backoff_ms = 100, ws_create_failures = 0\<rparr>"
  by (simp_all add: worker_inv_def worker_init_def)

lemma worker_inv_open:
  assumes "worker_inv ws" "run_state (open_stream durable answer ws) b = (Inr ws', b')"
  shows "worker_inv ws'"
proof (cases answer)
  case (Inl e)
  then have less: "ws_create_failures ws < 4"
    and ws': "ws' = ws\<lparr>ws_create_failures := ws_create_failures ws + 1,
      ws_backoff_ms := min (ws_backoff_ms ws * 2) 5000\<rparr>"
    using assms(2) by (auto simp: open_stream_failed split: if_splits)
  then have "(2 :: nat) ^ ws_create_failures ws \<le> 2 ^ 3"
    by (intro power_increasing) simp_all
  with assms(1) less ws' show ?thesis by (simp add: worker_inv_def)
qed (use assms in \<open>auto simp: open_stream_ok\<close>)

lemma worker_inv_end:
  "worker_inv ws \<Longrightarrow> run_state (end_stream ws) b = (ws', b') \<Longrightarrow> worker_inv ws'"
  by (auto simp: end_stream_def sleep_ms_def worker_inv_def)

lemma delay_inv_500 [simp]: "delay_inv 500"
  unfolding delay_inv_def by (rule exI [of _ 0]) simp

lemma delay_inv_double: "delay_inv d \<Longrightarrow> delay_inv (min (d * 2) 30000)"
proof -
  assume "delay_inv d"
  then obtain n where "d = min 30000 (500 * 2 ^ n)" by (auto simp: delay_inv_def)
  then have "min (d * 2) 30000 = min 30000 (500 * 2 ^ Suc n)" by simp
  then show ?thesis unfolding delay_inv_def by blast
qed

lemma session_step_inv:
  assumes "session_step X E C N i S (Inr S')" "\<forall>w. worker_inv (se_worker S w)"
  shows "\<forall>w. worker_inv (se_worker S' w)"
  using assms
  by cases (auto simp: set_worker_def intro: worker_inv_open worker_inv_end)

lemma supervisor_step_inv:
  assumes "supervisor_step X E C N i S T" "supervisor_inv S"
  shows "supervisor_inv T"
  using assms
proof cases
  case (session_continues j S1 S2)
  then show ?thesis using assms(2) session_step_inv by (simp add: supervisor_inv_def)
qed (auto simp: supervisor_inv_def pause_def session_start_def delay_inv_double
    intro: delay_inv_double [of 500, simplified])

lemma supervisor_run_inv:
  "supervisor_run X E C N is S T \<Longrightarrow> supervisor_inv S \<Longrightarrow> supervisor_inv T"
  by (induction rule: supervisor_run.induct) (auto intro: supervisor_step_inv)

text \<open>C28: the counters of the resilience loops stay in their bounds. In every state the supervisor
  reaches from its start, whatever NATS does, a pull consumer has failed less than five times in a row
  and waits \<open>100 * 2^failures\<close> milliseconds next, so never its limit of five seconds; and the supervisor
  waits \<open>500 * 2^n\<close> milliseconds for some \<open>n\<close>, at most thirty seconds.\<close>

theorem resilience_bounds:
  assumes "supervisor_run X E C N is (Disconnected 500 b) T"
  shows "case T of
     Disconnected d _ \<Rightarrow> \<exists>n. d = min 30000 (500 * 2 ^ n)
   | InSession S \<Rightarrow>
       \<forall>w. ws_create_failures (se_worker S w) < 5 \<and>
           ws_backoff_ms (se_worker S w) = 100 * 2 ^ ws_create_failures (se_worker S w)
   | Dead _ \<Rightarrow> True"
proof -
  have "supervisor_inv (Disconnected 500 b)" by (simp add: supervisor_inv_def)
  from supervisor_run_inv [OF assms this] show ?thesis
    by (cases T) (simp_all add: supervisor_inv_def delay_inv_def worker_inv_def)
qed

theorem resilience_bounds_witness:
  "\<forall>w. ws_create_failures (se_worker (session_start (slept [500] sample_state)) w) < 5 \<and>
     ws_backoff_ms (se_worker (session_start (slept [500] sample_state)) w) =
       100 * 2 ^ ws_create_failures (se_worker (session_start (slept [500] sample_state)) w)"
proof -
  have "supervisor_run sample_ext sample_env sample_cfg sample_consumer (([] @ [ConnectFailed ''refused'']) @ [Connected])
      (Disconnected 500 sample_state) (InSession (session_start (slept [500] sample_state)))"
    by (rule run_snoc [OF run_snoc [OF run_nil connect_failed]]) (simp add: pause_def connected)
  from resilience_bounds [OF this] show ?thesis by simp
qed

section \<open>Giving up\<close>

text \<open>The session after \<open>n\<close> failed answers to one worker, \<open>n\<close> at most four.\<close>

definition failing :: "worker \<Rightarrow> nat \<Rightarrow> session \<Rightarrow> session" where
  "failing w n S =
     (set_worker w (worker_init\<lparr>ws_create_failures := n, ws_backoff_ms := 100 * 2 ^ n\<rparr>) S)
     \<lparr>se_bridge := slept (map (\<lambda>k. 100 * 2 ^ k) [0..<n]) (se_bridge S)\<rparr>"

lemma failing_0: "se_worker S w = worker_init \<Longrightarrow> failing w 0 S = S"
  by (simp add: failing_def set_worker_def worker_init_def fun_upd_idem)

lemma supervisor_step_failing:
  assumes "n < 4"
  shows "supervisor_step X E C N (SessionInput (StreamAnswer w (Inl e))) (InSession (failing w n S)) T \<longleftrightarrow>
    T = InSession (failing w (Suc n) S)"
proof -
  have "(2 :: nat) ^ n \<le> 2 ^ 3" using assms by (intro power_increasing) simp_all
  then have "min (100 * 2 ^ n * 2) 5000 = (100 * 2 ^ Suc n :: nat)" by simp
  then have "session_step X E C N (StreamAnswer w (Inl e)) (failing w n S) R \<longleftrightarrow>
      R = Inr (failing w (Suc n) S)" for R
    using assms by (simp add: session_step_failed failing_def set_worker_def worker_init_def)
  then show ?thesis by (simp add: supervisor_step_session after_session_def)
qed

lemma supervisor_step_gives_up:
  "supervisor_step X E C N (SessionInput (StreamAnswer w (Inl e))) (InSession (failing w 4 S)) T \<longleftrightarrow>
    T = pause 500 (se_bridge (failing w 4 S))"
proof -
  have "session_step X E C N (StreamAnswer w (Inl e)) (failing w 4 S) R \<longleftrightarrow>
      R = Inl (Returned (unrecoverable_text (pc_durable_name (worker_config w)) 5 e)
            (se_bridge (failing w 4 S)))" for R
    by (simp add: session_step_failed failing_def set_worker_def worker_init_def)
  then show ?thesis by (simp add: supervisor_step_session after_session_def)
qed

abbreviation failed_answers :: "worker \<Rightarrow> string list \<Rightarrow> supervisor_input list" where
  "failed_answers w es \<equiv> map (\<lambda>e. SessionInput (StreamAnswer w (Inl e))) es"

lemma supervisor_run_failing:
  "length es \<le> 4 \<Longrightarrow>
   supervisor_run X E C N (failed_answers w es) (InSession (failing w 0 S)) T \<longleftrightarrow>
     T = InSession (failing w (length es) S)"
  by (induction es arbitrary: T rule: rev_induct) (simp_all add: supervisor_step_failing)

lemma failing_run:
  assumes "se_worker S w = worker_init" and "length es \<le> 5"
  shows "supervisor_run X E C N (failed_answers w es) (InSession S) T \<longleftrightarrow>
    T = (if length es = 5
         then Disconnected 1000 (slept [100, 200, 400, 800, 500] (se_bridge S))
         else InSession (failing w (length es) S))"
proof (cases "length es = 5")
  case True
  then obtain es' e where es: "es = es' @ [e]" "length es' = 4"
    by (metis append_butlast_last_id diff_Suc_1 eval_nat_numeral(3) length_0_conv length_butlast
        zero_neq_numeral)
  have four: "[0..<4] = [0, 1, 2, 3]" by (simp add: upt_rec)
  show ?thesis
    using supervisor_run_failing [of es' X E C N w S] es failing_0 [OF assms(1)]
      supervisor_step_gives_up [of X E C N w e S]
    by (simp add: True pause_def failing_def four)
next
  case False
  then show ?thesis
    using supervisor_run_failing [of es X E C N w S T] assms failing_0 [OF assms(1)] by simp
qed

text \<open>C27: a session gives up after five failures in a row, and not before. From a worker with no
  failures, five refused answers lead the supervisor to exactly one state: disconnected, after pauses of
  100, 200, 400 and 800 milliseconds between the attempts and 500 after the last, with a second as the
  next delay; after fewer refusals the session still runs.\<close>

theorem session_gives_up_after_five:
  assumes "se_worker S w = worker_init" and "length es \<le> 5"
  shows "supervisor_run X E C N (failed_answers w es) (InSession S) T \<longleftrightarrow>
    T = (if length es = 5
         then Disconnected 1000 (slept [100, 200, 400, 800, 500] (se_bridge S))
         else InSession (failing w (length es) S))"
  using assms by (rule failing_run)

theorem session_gives_up_after_five_witness:
  "supervisor_run sample_ext sample_env sample_cfg sample_consumer
     (failed_answers Fast [''a'', ''b'', ''c'', ''d'', ''e'']) (InSession (session_start sample_state))
     (Disconnected 1000 (slept [100, 200, 400, 800, 500] (se_bridge (session_start sample_state))))"
  by (subst session_gives_up_after_five) (simp_all add: session_start_def)

section \<open>Reconnecting\<close>

text \<open>The delay between connection attempts is the doubling sequence capped at thirty seconds. After
  \<open>n\<close> refused attempts the next delay is \<open>min 30000 (500 * 2^n)\<close>, and the pauses taken are exactly the
  first \<open>n\<close> elements of that sequence.\<close>

lemma reconnect_delays:
  "supervisor_run X E C N (map ConnectFailed es) (Disconnected 500 b) T \<longleftrightarrow>
     T = Disconnected (min 30000 (500 * 2 ^ length es))
           (slept (map (\<lambda>n. min 30000 (500 * 2 ^ n)) [0..<length es]) b)"
proof (induction es arbitrary: T rule: rev_induct)
  case (snoc e es)
  have step: "supervisor_step X E C N (ConnectFailed e) (Disconnected d b') U \<longleftrightarrow> U = pause d b'" for d b' U
    by (auto intro: connect_failed elim!: supervisor_step_cases)
  have "min (min 30000 (500 * 2 ^ length es) * 2) 30000 = (min 30000 (500 * 2 ^ Suc (length es)) :: nat)"
    by (simp add: min_def)
  then show ?case by (simp add: snoc step pause_def)
qed simp

end
