(* ===== verification/Solana_Providers.thy ===== *)
theory Solana_Providers
  imports Bridge_Effects
begin

text \<open>
  The two providers of \<open>provider.rs\<close>: \<open>RealSolanaProvider\<close> over an RPC client and
  \<open>SurfpoolSolanaProvider\<close> over an in-memory virtual machine that clones accounts lazily, with the
  port wrappers of \<open>solana_client.rs\<close> and \<open>litesvm_sim.rs\<close>. The RPC client and the virtual machine
  are third-party code: the fields of \<open>rpc_client\<close> are the answers of the node at the moment of the
  call, those of \<open>svm_lib\<close> the operations of the machine. Errors are their printed texts.
\<close>

section \<open>The RPC client\<close>

record account =
  a_lamports :: u64
  a_data :: bytes
  a_owner :: pubkey
  a_executable :: bool
  a_rent_epoch :: u64

record full_epoch_info =
  fe_absolute_slot :: u64
  fe_block_height :: u64
  fe_epoch :: u64
  fe_slots_in_epoch :: u64
  fe_slot_index :: u64
  fe_transaction_count :: "u64 option"

datatype commitment = CommitProcessed | CommitConfirmed | CommitFinalized

text \<open>An answer that the provider serialises comes with the outcome of \<open>serde_json::to_value\<close>.\<close>

record rpc_client =
  rpc_simulate :: "transaction \<Rightarrow> string + sim_result"
  rpc_send :: "transaction \<Rightarrow> string + signature"
  rpc_latest_blockhash :: "string + hash \<times> u64"
  rpc_balance :: "pubkey \<Rightarrow> string + u64"
  rpc_account :: "pubkey \<Rightarrow> string + account"
  rpc_fees :: "pubkey list \<Rightarrow> string + prioritization_fee list"
  rpc_token_balance :: "pubkey \<Rightarrow> string + (string + json)"
  rpc_statuses :: "signature list \<Rightarrow> string + (string + json) option list"
  rpc_slot :: "string + u64"
  rpc_airdrop :: "pubkey \<Rightarrow> u64 \<Rightarrow> string + signature"
  rpc_transaction :: "signature \<Rightarrow> string + (string + json)"
  rpc_epoch :: "string + full_epoch_info"

text \<open>The text of \<open>ClientErrorKind::Custom(..)\<close>.\<close>

type_synonym custom_error = "string \<Rightarrow> string"

section \<open>The real provider\<close>

text \<open>A node answers for the commitment the client was built with.\<close>

type_synonym node = "commitment \<Rightarrow> rpc_client"

definition real_provider_commitment :: commitment where
  "real_provider_commitment = CommitConfirmed"

definition serialized :: "custom_error \<Rightarrow> string \<Rightarrow> string + (string + json) \<Rightarrow> string + json" where
  "serialized custom what r =
     (case r of
        Inl e \<Rightarrow> Inl e
      | Inr (Inl e) \<Rightarrow> Inl (custom (what @ e))
      | Inr (Inr v) \<Rightarrow> Inr v)"

text \<open>\<open>opt.map(to_value).transpose()\<close>, collected: the first failure decides.\<close>

fun collect_statuses :: "(string + json) option list \<Rightarrow> string + json option list" where
  "collect_statuses [] = Inr []"
| "collect_statuses (None # rs) =
     (case collect_statuses rs of Inl e \<Rightarrow> Inl e | Inr vs \<Rightarrow> Inr (None # vs))"
| "collect_statuses (Some (Inl e) # rs) = Inl e"
| "collect_statuses (Some (Inr v) # rs) =
     (case collect_statuses rs of Inl e \<Rightarrow> Inl e | Inr vs \<Rightarrow> Inr (Some v # vs))"

definition real_signature_statuses ::
  "custom_error \<Rightarrow> rpc_client \<Rightarrow> signature list \<Rightarrow> string + json option list" where
  "real_signature_statuses custom R sigs =
     (case rpc_statuses R sigs of
        Inl e \<Rightarrow> Inl e
      | Inr vs \<Rightarrow>
          (case collect_statuses vs of
             Inl e \<Rightarrow> Inl (custom (''serialize signature status: '' @ e))
           | Inr values \<Rightarrow> Inr values))"

definition real_token_account_balance :: "custom_error \<Rightarrow> rpc_client \<Rightarrow> pubkey \<Rightarrow> string + json" where
  "real_token_account_balance custom R pk =
     serialized custom ''serialize token balance: '' (rpc_token_balance R pk)"

definition real_transaction :: "custom_error \<Rightarrow> rpc_client \<Rightarrow> signature \<Rightarrow> string + json" where
  "real_transaction custom R sig =
     serialized custom ''serialize transaction: '' (rpc_transaction R sig)"

definition real_epoch_info :: "rpc_client \<Rightarrow> string + full_epoch_info" where
  "real_epoch_info R =
     (case rpc_epoch R of
        Inl e \<Rightarrow> Inl e
      | Inr i \<Rightarrow>
          Inr \<lparr>fe_absolute_slot = fe_absolute_slot i, fe_block_height = fe_block_height i,
               fe_epoch = fe_epoch i, fe_slots_in_epoch = fe_slots_in_epoch i,
               fe_slot_index = fe_slot_index i, fe_transaction_count = fe_transaction_count i\<rparr>)"

text \<open>What the service uses of an account and of the epoch.\<close>

definition account_view :: "account \<Rightarrow> account_data" where
  "account_view a = \<lparr>ac_lamports = a_lamports a, ac_data = a_data a\<rparr>"

definition epoch_view :: "full_epoch_info \<Rightarrow> epoch_info" where
  "epoch_view i = \<lparr>ei_epoch = fe_epoch i, ei_absolute_slot = fe_absolute_slot i\<rparr>"

text \<open>\<open>impl SolanaProvider for RealSolanaProvider\<close>: every call goes to the client.\<close>

definition client_env :: "custom_error \<Rightarrow> (history \<Rightarrow> rpc_client) \<Rightarrow> env \<Rightarrow> env" where
  "client_env custom R E =
     E\<lparr>on_simulate := (\<lambda>h. rpc_simulate (R h)),
       on_send := (\<lambda>h. rpc_send (R h)),
       on_latest_blockhash := (\<lambda>h. rpc_latest_blockhash (R h)),
       on_balance := (\<lambda>h. rpc_balance (R h)),
       on_account := (\<lambda>h pk. map_sum id account_view (rpc_account (R h) pk)),
       on_fees := (\<lambda>h. rpc_fees (R h)),
       on_token_balance := (\<lambda>h. real_token_account_balance custom (R h)),
       on_statuses := (\<lambda>h. real_signature_statuses custom (R h)),
       on_slot := (\<lambda>h. rpc_slot (R h)),
       on_airdrop := (\<lambda>h. rpc_airdrop (R h)),
       on_transaction := (\<lambda>h. real_transaction custom (R h)),
       on_epoch := (\<lambda>h. map_sum id epoch_view (real_epoch_info (R h)))\<rparr>"

text \<open>The provider of the service.\<close>

definition real_env :: "custom_error \<Rightarrow> (history \<Rightarrow> node) \<Rightarrow> env \<Rightarrow> env" where
  "real_env custom nd E = client_env custom (\<lambda>h. nd h real_provider_commitment) E"

section \<open>The virtual machine\<close>

record 'svm svm_lib =
  svm_new :: 'svm
  svm_get_account :: "'svm \<Rightarrow> pubkey \<Rightarrow> account option"
  svm_set_account :: "'svm \<Rightarrow> pubkey \<Rightarrow> account \<Rightarrow> (string + unit) \<times> 'svm"
  svm_get_balance :: "'svm \<Rightarrow> pubkey \<Rightarrow> u64 option"
  svm_airdrop :: "'svm \<Rightarrow> pubkey \<Rightarrow> u64 \<Rightarrow> (string + unit) \<times> 'svm"
  svm_simulate :: "'svm \<Rightarrow> bytes \<Rightarrow> string + string list \<times> u64"
  svm_send :: "'svm \<Rightarrow> bytes \<Rightarrow> (string + unit) \<times> 'svm"
  svm_latest_blockhash :: "'svm \<Rightarrow> hash"
  svm_add_program :: "'svm \<Rightarrow> pubkey \<Rightarrow> bytes \<Rightarrow> 'svm"
  vtx_serialize :: "transaction \<Rightarrow> string + bytes"
  vtx_deserialize :: "bytes \<Rightarrow> string + unit"
  svm_pubkey_from_str :: "string \<Rightarrow> string + pubkey"
  find_program_address :: "bytes list \<Rightarrow> pubkey \<Rightarrow> pubkey"
  read_file :: "string \<Rightarrow> bytes option"
  svm_custom_error :: custom_error

section \<open>Start-up of the simulator\<close>

text \<open>\<open>data[i..i + n].copy_from_slice(..)\<close> and \<open>data[i] = b\<close>.\<close>

definition write_slice :: "nat \<Rightarrow> bytes \<Rightarrow> bytes \<Rightarrow> bytes" where
  "write_slice i src data = take i data @ src @ drop (i + length src) data"

lemma length_write_slice [simp]:
  "i + length src \<le> length data \<Longrightarrow> length (write_slice i src data) = length data"
  by (simp add: write_slice_def)

definition core_programs :: "(string \<times> string) list" where
  "core_programs =
     [(''HZR6b8GhzhDowyL6dX58qBjdSDNtFyJHU5dPF3kXDcTS'', ''gridtokenx-anchor/target/deploy/registry.so''),
      (''GjSjmPt8VSHr49ti4BijWZSu7rwb8o32pod7gNBnTY4U'', ''gridtokenx-anchor/target/deploy/energy_token.so''),
      (''DXxHdUar3pUUKRnt4XAMA8rdYRpAsNY1xk3Zo4crShvY'', ''gridtokenx-anchor/target/deploy/trading.so''),
      (''AiWcoPDEk3G4iKrDXj1wCN1ffWxQDEsgtJZKcjauoFJr'', ''gridtokenx-anchor/target/deploy/oracle.so''),
      (''6FsfuFEg8LHjSiejc8om8Q6iSaAgfEWHCgz78PT8jocw'', ''gridtokenx-anchor/target/deploy/governance.so'')]"

text \<open>A program file that is missing is skipped; an identifier that does not parse ends the start-up.\<close>

fun deploy_programs :: "'svm svm_lib \<Rightarrow> (string \<times> string) list \<Rightarrow> 'svm \<Rightarrow> string + 'svm" where
  "deploy_programs L [] svm = Inr svm"
| "deploy_programs L ((id_str, path) # rest) svm =
     (case svm_pubkey_from_str L id_str of
        Inl e \<Rightarrow> Inl e
      | Inr pk \<Rightarrow>
          deploy_programs L rest
            (case read_file L path of
               Some program_data \<Rightarrow> svm_add_program L svm pk program_data
             | None \<Rightarrow> svm))"

text \<open>The account images, written field by field into zeroed buffers.\<close>

definition mint_image :: "pubkey \<Rightarrow> u8 \<Rightarrow> bytes" where
  "mint_image auth decimals =
     (write_slice 4 auth (write_slice 0 [1, 0, 0, 0] (replicate 82 0)))[44 := decimals, 45 := 1]"

definition registry_image :: "pubkey \<Rightarrow> bytes" where
  "registry_image auth =
     write_slice 8 auth (write_slice 0 [47, 174, 110, 246, 184, 182, 252, 218] (replicate 104 0))"

definition shard_image :: bytes where
  "shard_image = write_slice 0 [98, 27, 121, 8, 54, 239, 169, 252] (replicate 32 0)"

definition token_info_image :: "pubkey \<Rightarrow> pubkey \<Rightarrow> pubkey \<Rightarrow> pubkey \<Rightarrow> bytes" where
  "token_info_image auth registry_pda registry_program mint =
     write_slice 104 mint (write_slice 72 registry_program (write_slice 40 registry_pda (write_slice 8 auth
       (write_slice 0 [109, 162, 52, 125, 77, 166, 37, 202] (replicate 320 0)))))"

definition owned_account :: "pubkey \<Rightarrow> bytes \<Rightarrow> account" where
  "owned_account owner data =
     \<lparr>a_lamports = 1000000000, a_data = data, a_owner = owner, a_executable = False, a_rent_epoch = 0\<rparr>"

text \<open>\<open>let _ = svm.set_account(..)\<close>: a refused account is ignored.\<close>

definition put_account :: "'svm svm_lib \<Rightarrow> pubkey \<Rightarrow> account \<Rightarrow> 'svm \<Rightarrow> 'svm" where
  "put_account L pk a svm = snd (svm_set_account L svm pk a)"

text \<open>The addresses and images of the five core accounts, in the order they are written.\<close>

definition core_accounts ::
  "'svm svm_lib \<Rightarrow> pubkey \<Rightarrow> pubkey \<Rightarrow> pubkey \<Rightarrow> pubkey \<Rightarrow> pubkey \<Rightarrow> pubkey \<Rightarrow> (pubkey \<times> account) list" where
  "core_accounts L auth registry_program energy_program token_program mint currency =
     (let registry_pda = find_program_address L [as_bytes ''registry''] registry_program;
          token_info_pda = find_program_address L [as_bytes ''token_info_2022''] energy_program;
          shard_pda = find_program_address L [as_bytes ''registry_shard'', [0]] registry_program
      in [(mint, owned_account token_program (mint_image token_info_pda 9)),
          (currency, owned_account token_program (mint_image auth 6)),
          (registry_pda, owned_account registry_program (registry_image auth)),
          (shard_pda, owned_account registry_program shard_image),
          (token_info_pda, owned_account energy_program
             (token_info_image auth registry_pda registry_program mint))])"

definition deploy_core_programs :: "'svm svm_lib \<Rightarrow> 'svm \<Rightarrow> string + 'svm" where
  "deploy_core_programs L svm =
     (case deploy_programs L core_programs svm of
        Inl e \<Rightarrow> Inl e
      | Inr svm1 \<Rightarrow>
     (case svm_pubkey_from_str L ''EzudwoHvNPAc4dpPi5ndU8MEZVHVzq3Pj3Thm9ooKmiJ'' of
        Inl e \<Rightarrow> Inl e
      | Inr auth \<Rightarrow>
     (case svm_pubkey_from_str L ''HZR6b8GhzhDowyL6dX58qBjdSDNtFyJHU5dPF3kXDcTS'' of
        Inl e \<Rightarrow> Inl e
      | Inr registry_program \<Rightarrow>
     (case svm_pubkey_from_str L ''GjSjmPt8VSHr49ti4BijWZSu7rwb8o32pod7gNBnTY4U'' of
        Inl e \<Rightarrow> Inl e
      | Inr energy_program \<Rightarrow>
     (case svm_pubkey_from_str L ''TokenkegQfeZyiNwAJbNbGKPFXCWuBvf9Ss623VQ5DA'' of
        Inl e \<Rightarrow> Inl e
      | Inr token_program \<Rightarrow>
     (case svm_pubkey_from_str L ''GpGDVgksF2ivMv3XXR4VZDXRmW9G6agA2AGkKUBQRzk6'' of
        Inl e \<Rightarrow> Inl e
      | Inr mint \<Rightarrow>
     (case svm_pubkey_from_str L ''8BGFtQLRaY9Nh5BGUwjJvdeXEsscCgJAi5zTgALk1Vg5'' of
        Inl e \<Rightarrow> Inl e
      | Inr currency \<Rightarrow>
          Inr (fold (\<lambda>(pk, a). put_account L pk a)
            (core_accounts L auth registry_program energy_program token_program mint currency)
            svm1))))))))"

definition surfpool_new :: "'svm svm_lib \<Rightarrow> string + 'svm" where
  "surfpool_new L = deploy_core_programs L (svm_new L)"

section \<open>The operations of the simulator\<close>

text \<open>\<open>ensure_account\<close>: an account the machine lacks is cloned from the node, when there is one.\<close>

definition ensure_account ::
  "'svm svm_lib \<Rightarrow> rpc_client option \<Rightarrow> 'svm \<Rightarrow> pubkey \<Rightarrow> (string + unit) \<times> 'svm" where
  "ensure_account L rpc svm pk =
     (case svm_get_account L svm pk of
        Some _ \<Rightarrow> (Inr (), svm)
      | None \<Rightarrow>
          (case rpc of
             None \<Rightarrow> (Inr (), svm)
           | Some R \<Rightarrow>
               (case rpc_account R pk of
                  Inl e \<Rightarrow> (Inl e, svm)
                | Inr a \<Rightarrow>
                    (case svm_set_account L svm pk a of
                       (Inl e, svm') \<Rightarrow> (Inl (svm_custom_error L e), svm')
                     | (Inr _, svm') \<Rightarrow> (Inr (), svm')))))"

fun ensure_accounts ::
  "'svm svm_lib \<Rightarrow> rpc_client option \<Rightarrow> 'svm \<Rightarrow> pubkey list \<Rightarrow> (string + unit) \<times> 'svm" where
  "ensure_accounts L rpc svm [] = (Inr (), svm)"
| "ensure_accounts L rpc svm (pk # pks) =
     (case ensure_account L rpc svm pk of
        (Inl e, svm') \<Rightarrow> (Inl e, svm')
      | (Inr _, svm') \<Rightarrow> ensure_accounts L rpc svm' pks)"

text \<open>The accounts the instructions name; an index out of range is skipped.\<close>

definition instruction_keys :: "transaction \<Rightarrow> pubkey list" where
  "instruction_keys tx =
     (let keys = account_keys (message tx) in
      map (\<lambda>i. keys ! unat i)
        (filter (\<lambda>i. unat i < length keys) (concat (map accounts (instructions (message tx))))))"

text \<open>The conversion to the machine's transaction type goes through the wire format.\<close>

definition versioned :: "'svm svm_lib \<Rightarrow> transaction \<Rightarrow> string + bytes" where
  "versioned L tx =
     (case vtx_serialize L tx of
        Inl e \<Rightarrow> Inl (svm_custom_error L e)
      | Inr bs \<Rightarrow>
          (case vtx_deserialize L bs of
             Inl e \<Rightarrow> Inl (svm_custom_error L e)
           | Inr _ \<Rightarrow> Inr bs))"

text \<open>A failing simulation is an \<open>Err\<close> here, never a result with \<open>err\<close>.\<close>

definition surfpool_simulate ::
  "'svm svm_lib \<Rightarrow> rpc_client option \<Rightarrow> 'svm \<Rightarrow> transaction \<Rightarrow> (string + sim_result) \<times> 'svm" where
  "surfpool_simulate L rpc svm tx =
     (case ensure_accounts L rpc svm (instruction_keys tx) of
        (Inl e, svm') \<Rightarrow> (Inl e, svm')
      | (Inr _, svm') \<Rightarrow>
          (case versioned L tx of
             Inl e \<Rightarrow> (Inl e, svm')
           | Inr vtx \<Rightarrow>
               (case svm_simulate L svm' vtx of
                  Inl e \<Rightarrow> (Inl (svm_custom_error L e), svm')
                | Inr (logs, cu) \<Rightarrow>
                    (Inr \<lparr>sim_err = None, sim_logs = Some logs, units_consumed = Some cu\<rparr>, svm'))))"

text \<open>The payer gets 10 SOL when it has less than one.\<close>

definition fund_payer :: "'svm svm_lib \<Rightarrow> 'svm \<Rightarrow> transaction \<Rightarrow> (string + unit) \<times> 'svm" where
  "fund_payer L svm tx =
     (case account_keys (message tx) of
        [] \<Rightarrow> (Inr (), svm)
      | payer # _ \<Rightarrow>
          (let balance = (case svm_get_balance L svm payer of Some b \<Rightarrow> b | None \<Rightarrow> 0) in
           if balance < 1000000000 then
             (case svm_airdrop L svm payer 10000000000 of
                (Inl e, svm') \<Rightarrow> (Inl (svm_custom_error L e), svm')
              | (Inr _, svm') \<Rightarrow> (Inr (), svm'))
           else (Inr (), svm)))"

definition surfpool_send ::
  "'svm svm_lib \<Rightarrow> 'svm \<Rightarrow> transaction \<Rightarrow> (string + signature) \<times> 'svm" where
  "surfpool_send L svm tx =
     (case fund_payer L svm tx of
        (Inl e, svm1) \<Rightarrow> (Inl e, svm1)
      | (Inr _, svm1) \<Rightarrow>
          (let signature = (case signatures tx of [] \<Rightarrow> default_signature | sig # _ \<Rightarrow> sig) in
           case versioned L tx of
             Inl e \<Rightarrow> (Inl e, svm1)
           | Inr vtx \<Rightarrow>
               (case svm_send L svm1 vtx of
                  (Inl e, svm2) \<Rightarrow> (Inl (svm_custom_error L e), svm2)
                | (Inr _, svm2) \<Rightarrow> (Inr signature, svm2))))"

definition surfpool_latest_blockhash :: "'svm svm_lib \<Rightarrow> 'svm \<Rightarrow> string + hash \<times> u64" where
  "surfpool_latest_blockhash L svm = Inr (svm_latest_blockhash L svm, 1000)"

definition surfpool_balance ::
  "'svm svm_lib \<Rightarrow> rpc_client option \<Rightarrow> 'svm \<Rightarrow> pubkey \<Rightarrow> (string + u64) \<times> 'svm" where
  "surfpool_balance L rpc svm pk =
     (case ensure_account L rpc svm pk of
        (Inl e, svm') \<Rightarrow> (Inl e, svm')
      | (Inr _, svm') \<Rightarrow>
          (Inr (case svm_get_balance L svm' pk of Some b \<Rightarrow> b | None \<Rightarrow> 0), svm'))"

definition surfpool_account ::
  "'svm svm_lib \<Rightarrow> rpc_client option \<Rightarrow> 'svm \<Rightarrow> pubkey \<Rightarrow> (string + account) \<times> 'svm" where
  "surfpool_account L rpc svm pk =
     (case ensure_account L rpc svm pk of
        (Inl e, svm') \<Rightarrow> (Inl e, svm')
      | (Inr _, svm') \<Rightarrow>
          (case svm_get_account L svm' pk of
             None \<Rightarrow> (Inl (svm_custom_error L ''Account not found''), svm')
           | Some a \<Rightarrow> (Inr a, svm')))"

definition surfpool_token_account_balance :: json where
  "surfpool_token_account_balance =
     JObject [(''amount'', JString ''1000000000''), (''decimals'', JUInt 9),
              (''uiAmount'', JFloat 0x3FF0000000000000)]"

definition surfpool_status :: json where
  "surfpool_status =
     JObject [(''slot'', JUInt 0), (''confirmations'', JUInt 1), (''err'', JNull),
              (''confirmationStatus'', JString ''finalized'')]"

definition surfpool_signature_statuses :: "signature list \<Rightarrow> string + json option list" where
  "surfpool_signature_statuses sigs = Inr (map (\<lambda>_. Some surfpool_status) sigs)"

definition surfpool_airdrop ::
  "'svm svm_lib \<Rightarrow> 'svm \<Rightarrow> pubkey \<Rightarrow> u64 \<Rightarrow> (string + signature) \<times> 'svm" where
  "surfpool_airdrop L svm pk lamports =
     (case svm_airdrop L svm pk lamports of
        (Inl e, svm') \<Rightarrow> (Inl (svm_custom_error L e), svm')
      | (Inr _, svm') \<Rightarrow> (Inr default_signature, svm'))"

definition surfpool_epoch_info :: full_epoch_info where
  "surfpool_epoch_info =
     \<lparr>fe_absolute_slot = 100, fe_block_height = 100, fe_epoch = 1, fe_slots_in_epoch = 432000,
      fe_slot_index = 100, fe_transaction_count = Some 1000\<rparr>"

section \<open>The simulator as the provider of the bridge\<close>

text \<open>
  The machine's state is a function of the calls made so far: each provider call of the history
  is applied to the state before it, with the node's answers of that moment.
\<close>

definition svm_step :: "'svm svm_lib \<Rightarrow> rpc_client option \<Rightarrow> event \<Rightarrow> 'svm \<Rightarrow> 'svm" where
  "svm_step L rpc e svm =
     (case e of
        EvSimulate tx _ \<Rightarrow> snd (surfpool_simulate L rpc svm tx)
      | EvSend tx _ \<Rightarrow> snd (surfpool_send L svm tx)
      | EvBalance pk _ \<Rightarrow> snd (surfpool_balance L rpc svm pk)
      | EvAccount pk _ \<Rightarrow> snd (surfpool_account L rpc svm pk)
      | EvAirdrop pk lamports _ \<Rightarrow> snd (surfpool_airdrop L svm pk lamports)
      | _ \<Rightarrow> svm)"

definition svm_after :: "'svm svm_lib \<Rightarrow> (history \<Rightarrow> rpc_client option) \<Rightarrow> 'svm \<Rightarrow> history \<Rightarrow> 'svm" where
  "svm_after L rpc svm = replay (\<lambda>h. svm_step L (rpc h)) svm"

lemma svm_after_snoc:
  "svm_after L rpc svm (h @ [e]) = svm_step L (rpc h) e (svm_after L rpc svm h)"
  by (simp add: svm_after_def)

text \<open>\<open>impl SolanaProvider for SurfpoolSolanaProvider\<close>\<close>

definition surfpool_env ::
  "'svm svm_lib \<Rightarrow> (history \<Rightarrow> rpc_client option) \<Rightarrow> 'svm \<Rightarrow> env \<Rightarrow> env" where
  "surfpool_env L rpc svm0 E =
     (let svm = svm_after L rpc svm0 in
      E\<lparr>on_simulate := (\<lambda>h tx. fst (surfpool_simulate L (rpc h) (svm h) tx)),
        on_send := (\<lambda>h tx. fst (surfpool_send L (svm h) tx)),
        on_latest_blockhash := (\<lambda>h. surfpool_latest_blockhash L (svm h)),
        on_balance := (\<lambda>h pk. fst (surfpool_balance L (rpc h) (svm h) pk)),
        on_account := (\<lambda>h pk. map_sum id account_view (fst (surfpool_account L (rpc h) (svm h) pk))),
        on_fees := (\<lambda>h pks. Inr []),
        on_token_balance := (\<lambda>h pk. Inr surfpool_token_account_balance),
        on_statuses := (\<lambda>h. surfpool_signature_statuses),
        on_slot := (\<lambda>h. Inr 0),
        on_airdrop := (\<lambda>h pk lamports. fst (surfpool_airdrop L (svm h) pk lamports)),
        on_transaction := (\<lambda>h sig. Inr (JObject [])),
        on_epoch := (\<lambda>h. Inr (epoch_view surfpool_epoch_info))\<rparr>)"

section \<open>The chain client and simulator ports\<close>

record simulation_outcome =
  so_success :: bool
  so_compute_units :: u64
  so_logs :: "string list"
  so_error :: "string option"

definition port_latest_blockhash :: "string + hash \<times> u64 \<Rightarrow> chain_bridge_error + hash \<times> u64" where
  "port_latest_blockhash r = (case r of Inl e \<Rightarrow> Inl (ChainClient e) | Inr v \<Rightarrow> Inr v)"

definition port_send_transaction :: "string + signature \<Rightarrow> chain_bridge_error + signature \<times> u64" where
  "port_send_transaction r = (case r of Inl e \<Rightarrow> Inl (ChainClient e) | Inr sig \<Rightarrow> Inr (sig, 0))"

definition port_simulate :: "string + sim_result \<Rightarrow> chain_bridge_error + simulation_outcome" where
  "port_simulate r =
     (case r of
        Inr v \<Rightarrow>
          Inr \<lparr>so_success = (sim_err v = None),
               so_compute_units = (case units_consumed v of Some u \<Rightarrow> u | None \<Rightarrow> 0),
               so_logs = (case sim_logs v of Some l \<Rightarrow> l | None \<Rightarrow> []),
               so_error = sim_err v\<rparr>
      | Inl e \<Rightarrow> Inl (Simulation e))"

end
