(* ===== verification/Provider_Properties.thy ===== *)
theory Provider_Properties
  imports Solana_Providers Rpc_Handlers Sample_World
begin

text \<open>
  What the two Solana providers guarantee the rest of the bridge, and how the pipeline, the
  confirmation poll and the status query behave on top of the simulator.
\<close>

section \<open>Account images\<close>

lemma write_slice_append:
  "length xs = i \<Longrightarrow> length ys = length src \<Longrightarrow> write_slice i src (xs @ ys @ zs) = xs @ src @ zs"
  by (simp add: write_slice_def)

lemma write_slice_zeros:
  assumes "i = length xs" "length src \<le> n"
  shows "write_slice i src (xs @ replicate n 0) = (xs @ src) @ replicate (n - length src) 0"
proof -
  have "replicate n 0 = replicate (length src) (0 :: u8) @ replicate (n - length src) 0"
    using assms(2) by (simp flip: replicate_add)
  then show ?thesis using assms(1) by (simp add: write_slice_append)
qed

lemma write_slice_fresh: "length src \<le> n \<Longrightarrow> write_slice 0 src (replicate n 0) = src @ replicate (n - length src) 0"
  using write_slice_zeros [of 0 "[]" src n] by simp

text \<open>The accounts the simulator starts with have the layout of their programs. The two token
  mints are the 82 bytes of a mint account: a present authority, a supply of zero, the decimals, the
  initialised flag and no freeze authority. The registry, its shard and the token info are an eight-byte
  discriminator, then their keys in order, then zeros.\<close>

lemma core_account_layouts:
  assumes "length auth = 32" "length reg = 32" "length prog = 32" "length mint = 32"
  shows "mint_image auth d = [1, 0, 0, 0] @ auth @ replicate 8 0 @ [d, 1] @ replicate 36 0 \<and>
    registry_image auth = [47, 174, 110, 246, 184, 182, 252, 218] @ auth @ replicate 64 0 \<and>
    shard_image = [98, 27, 121, 8, 54, 239, 169, 252] @ replicate 24 0 \<and>
    token_info_image auth reg prog mint =
      [109, 162, 52, 125, 77, 166, 37, 202] @ auth @ reg @ prog @ mint @ replicate 184 0"
proof (intro conjI)
  have zeros: "replicate 46 (0 :: u8) = replicate 8 0 @ [0, 0] @ replicate 36 0"
  proof -
    have "replicate 46 (0 :: u8) = replicate 8 0 @ replicate 2 0 @ replicate 36 0"
      by (simp flip: replicate_add)
    then show ?thesis by (simp add: numeral_2_eq_2)
  qed
  have "write_slice 4 auth ([1, 0, 0, 0] @ replicate 78 0) = ([1, 0, 0, 0] @ auth) @ replicate 46 0"
    using assms(1) write_slice_zeros [of 4 "[1, 0, 0, 0]" auth 78] by simp
  then have "write_slice 4 auth (write_slice 0 [1, 0, 0, 0] (replicate 82 0)) =
      ([1, 0, 0, 0] @ auth @ replicate 8 0) @ [0, 0] @ replicate 36 0"
    by (simp add: write_slice_fresh zeros)
  moreover have "length ([1, 0, 0, 0] @ auth @ replicate 8 (0 :: u8)) = 44" using assms by simp
  ultimately show "mint_image auth d = [1, 0, 0, 0] @ auth @ replicate 8 0 @ [d, 1] @ replicate 36 0"
    unfolding mint_image_def by (simp add: list_update_append)
  show "registry_image auth = [47, 174, 110, 246, 184, 182, 252, 218] @ auth @ replicate 64 0"
    using assms by (simp add: registry_image_def write_slice_fresh write_slice_zeros
        del: append_Cons append_assoc flip: append_assoc)
  show "shard_image = [98, 27, 121, 8, 54, 239, 169, 252] @ replicate 24 0"
    by (simp add: shard_image_def write_slice_fresh)
  show "token_info_image auth reg prog mint =
      [109, 162, 52, 125, 77, 166, 37, 202] @ auth @ reg @ prog @ mint @ replicate 184 0"
    using assms by (simp add: token_info_image_def write_slice_fresh write_slice_zeros
        del: append_Cons append_assoc flip: append_assoc)
qed

lemma core_account_layouts_witness:
  "length (mint_image (replicate 32 7) 9) = 82 \<and> length (registry_image (replicate 32 7)) = 104 \<and>
   length (token_info_image (replicate 32 7) (replicate 32 7) (replicate 32 7) (replicate 32 7)) = 320"
  using core_account_layouts [of "replicate 32 7" "replicate 32 7" "replicate 32 7" "replicate 32 7" 9]
  by simp

section \<open>Accounts of the simulator\<close>

text \<open>Writing one account leaves the others: what the provider relies on of the machine.\<close>

definition set_account_frame :: "'svm svm_lib \<Rightarrow> bool" where
  "set_account_frame L \<longleftrightarrow>
     (\<forall>svm p a q. q \<noteq> p \<longrightarrow>
        svm_get_account L (snd (svm_set_account L svm p a)) q = svm_get_account L svm q)"

text \<open>\<open>preserves L f\<close>: the accounts the machine has are the same after \<open>f\<close>.\<close>

definition preserves :: "'svm svm_lib \<Rightarrow> ('svm \<Rightarrow> 'svm) \<Rightarrow> bool" where
  "preserves L f \<longleftrightarrow>
     (\<forall>svm pk a. svm_get_account L svm pk = Some a \<longrightarrow> svm_get_account L (f svm) pk = Some a)"

lemma preserves_ensure_account:
  assumes "set_account_frame L"
  shows "preserves L (\<lambda>svm. snd (ensure_account L rpc svm pk))"
  unfolding preserves_def
proof (intro allI impI)
  fix svm q a assume q: "svm_get_account L svm q = Some a"
  show "svm_get_account L (snd (ensure_account L rpc svm pk)) q = Some a"
  proof (cases "svm_get_account L svm pk")
    case None
    with q have "q \<noteq> pk" by auto
    then have "svm_get_account L (snd (svm_set_account L svm pk b)) q = Some a" for b
      using assms q by (simp add: set_account_frame_def)
    then show ?thesis
      using q by (simp add: ensure_account_def None split: option.splits sum.splits prod.splits)
        (metis snd_conv)
  qed (simp add: ensure_account_def q)
qed

lemma preserves_ensure_accounts:
  assumes "set_account_frame L"
  shows "preserves L (\<lambda>svm. snd (ensure_accounts L rpc svm pks))"
proof (induction pks)
  case (Cons pk pks)
  then show ?case
    using preserves_ensure_account [OF assms, of rpc pk]
    by (simp add: preserves_def split: prod.splits sum.splits) (metis snd_conv)
qed (simp add: preserves_def)

lemma preserves_reads:
  assumes "set_account_frame L"
  shows "preserves L (\<lambda>svm. snd (surfpool_simulate L rpc svm tx))"
    and "preserves L (\<lambda>svm. snd (surfpool_balance L rpc svm pk))"
    and "preserves L (\<lambda>svm. snd (surfpool_account L rpc svm pk))"
proof -
  have "snd (surfpool_simulate L rpc svm tx) = snd (ensure_accounts L rpc svm (instruction_keys tx))" for svm
    by (simp add: surfpool_simulate_def split: prod.splits sum.splits)
  then show "preserves L (\<lambda>svm. snd (surfpool_simulate L rpc svm tx))"
    using preserves_ensure_accounts [OF assms] by simp
  have "snd (surfpool_balance L rpc svm pk) = snd (ensure_account L rpc svm pk)" for svm
    by (simp add: surfpool_balance_def split: prod.splits sum.splits)
  then show "preserves L (\<lambda>svm. snd (surfpool_balance L rpc svm pk))"
    using preserves_ensure_account [OF assms] by simp
  have "snd (surfpool_account L rpc svm pk) = snd (ensure_account L rpc svm pk)" for svm
    by (simp add: surfpool_account_def split: prod.splits sum.splits option.splits)
  then show "preserves L (\<lambda>svm. snd (surfpool_account L rpc svm pk))"
    using preserves_ensure_account [OF assms] by simp
qed

text \<open>The calls that write the machine: submissions and airdrops.\<close>

fun writes_svm :: "event \<Rightarrow> bool" where
  "writes_svm (EvSend _ _) = True"
| "writes_svm (EvAirdrop _ _ _) = True"
| "writes_svm _ = False"

lemma preserves_svm_step:
  "set_account_frame L \<Longrightarrow> \<not> writes_svm e \<Longrightarrow> preserves L (svm_step L rpc e)"
  using preserves_reads [of L rpc]
  by (cases e) (simp_all add: svm_step_def preserves_def)

text \<open>Reading the simulator never changes an account it has. Between submissions and airdrops, no
  simulation, balance or account query and no other call changes an account that is in the machine: an
  account is cloned from the node at most once and never refreshed over local state.\<close>

lemma simnet_reads_keep_accounts:
  assumes "set_account_frame L" and "\<forall>e\<in>set h'. \<not> writes_svm e"
    and "svm_get_account L (svm_after L rpc svm h) pk = Some a"
  shows "svm_get_account L (svm_after L rpc svm (h @ h')) pk = Some a"
  using assms(2)
proof (induction h' rule: rev_induct)
  case (snoc e h')
  then have "preserves L (svm_step L (rpc (h @ h')) e)"
    by (intro preserves_svm_step assms(1)) simp
  then show ?case
    using snoc svm_after_snoc [of L rpc svm "h @ h'" e] by (simp add: preserves_def)
qed (simp add: assms(3))

text \<open>A machine that is a finite map of accounts, for closed instances.\<close>

definition map_svm :: "(pubkey \<rightharpoonup> account) svm_lib" where
  "map_svm =
     \<lparr>svm_new = Map.empty, svm_get_account = (\<lambda>m. m),
      svm_set_account = (\<lambda>m p a. (Inr (), m(p \<mapsto> a))),
      svm_get_balance = (\<lambda>m p. map_option a_lamports (m p)),
      svm_airdrop = (\<lambda>m p l. (Inr (), m(p \<mapsto> owned_account [] []))),
      svm_simulate = (\<lambda>m tx. Inl ''InstructionError''), svm_send = (\<lambda>m tx. (Inr (), m)),
      svm_latest_blockhash = (\<lambda>m. replicate 32 3), svm_add_program = (\<lambda>m p d. m),
      vtx_serialize = (\<lambda>tx. Inr []), vtx_deserialize = (\<lambda>bs. Inr ()),
      svm_pubkey_from_str = (\<lambda>s. Inr (as_bytes s)), find_program_address = (\<lambda>seeds p. concat seeds @ p),
      read_file = (\<lambda>p. None), svm_custom_error = (\<lambda>e. e)\<rparr>"

lemma simnet_reads_keep_accounts_witness:
  "svm_get_account map_svm
     (svm_after map_svm (\<lambda>_. None) [[1] \<mapsto> owned_account [] [5]] ([] @ [EvBalance [1] (Inr 0), EvAccount [2] (Inl [])])) [1] =
   Some (owned_account [] [5])"
  by (rule simnet_reads_keep_accounts)
    (simp_all add: set_account_frame_def map_svm_def svm_after_def)

section \<open>The bridge on the simulator\<close>

text \<open>What the handlers rely on of \<open>serde_json\<close> for object lookups.\<close>

definition json_lookups :: "json_api \<Rightarrow> bool" where
  "json_lookups J \<longleftrightarrow>
     (\<forall>kvs k. j_get J (JObject kvs) k = map_of kvs k) \<and>
     (\<forall>kvs k. j_index J (JObject kvs) k = (case map_of kvs k of Some v \<Rightarrow> v | None \<Rightarrow> JNull)) \<and>
     (\<forall>v. j_is_null J v \<longleftrightarrow> v = JNull) \<and> (\<forall>n. j_as_u64 J (JUInt n) = Some n) \<and>
     j_as_str J JNull = None"

lemma surfpool_statuses [simp]:
  "on_statuses (surfpool_env L rpc svm E) h sigs = Inr (map (\<lambda>_. Some surfpool_status) sigs)"
  by (simp add: surfpool_env_def Let_def surfpool_signature_statuses_def)

lemma poll_verdict_surfpool:
  "json_lookups (json X) \<Longrightarrow> poll_verdict X (Inr [Some surfpool_status]) = Some (Confirmed 0)"
  by (simp add: json_lookups_def poll_verdict_def surfpool_status_def Let_def)

text \<open>On the simulator every signature is confirmed. The confirmation of a mint succeeds with slot 0
  after a single status query, for any signature, sent or not.\<close>

lemma simnet_confirms_any_signature:
  assumes "json_lookups (json X)"
  shows "run_state (mint_confirmed X (surfpool_env L rpc svm E) sig) s =
    (Ok (sig, 0), s\<lparr>trace := trace s @ [EvStatuses [sig] (Inr [Some surfpool_status])]\<rparr>)"
proof -
  let ?E = "surfpool_env L rpc svm E"
  have "run_state (resolve_confirmation_bounded X ?E sig (Suc n) 250) s =
      (Confirmed 0, s\<lparr>trace := trace s @ [EvStatuses [sig] (Inr [Some surfpool_status])]\<rparr>)" for n
    by (simp add: port_defs poll_verdict_surfpool [OF assms])
  from this [of 23] show ?thesis
    by (simp add: mint_confirmed_def resolve_confirmation_def)
qed

definition object_json :: json_api where
  "object_json = sample_json
     \<lparr>j_get := (\<lambda>v k. case v of JObject kvs \<Rightarrow> map_of kvs k | _ \<Rightarrow> None),
      j_index := (\<lambda>v k. case v of JObject kvs \<Rightarrow> (case map_of kvs k of Some w \<Rightarrow> w | None \<Rightarrow> JNull) | _ \<Rightarrow> JNull),
      j_is_null := (\<lambda>v. v = JNull),
      j_as_u64 := (\<lambda>v. case v of JUInt n \<Rightarrow> Some n | _ \<Rightarrow> None),
      j_as_str := (\<lambda>v. case v of JString t \<Rightarrow> Some t | _ \<Rightarrow> None)\<rparr>"

lemma object_json_lookups: "json_lookups object_json"
  by (simp add: json_lookups_def object_json_def)

lemma simnet_confirms_any_signature_witness:
  "result_of (mint_confirmed (sample_ext\<lparr>json := object_json\<rparr>)
     (surfpool_env map_svm (\<lambda>_. None) Map.empty sample_env) [9]) sample_state = Ok ([9], 0)"
  using simnet_confirms_any_signature [of "sample_ext\<lparr>json := object_json\<rparr>" map_svm "\<lambda>_. None"
      Map.empty sample_env "[9]" sample_state]
  by (simp add: object_json_lookups)

lemma simnet_simulation_passes:
  "on_simulate (surfpool_env L rpc svm E) h tx = Inr res \<Longrightarrow> sim_err res = None"
  by (auto simp: surfpool_env_def Let_def surfpool_simulate_def split: prod.splits sum.splits)

text \<open>On the simulator the pre-sign simulation never rejects. A transaction whose simulation fails
  is reported as a failed call, which the pipeline treats as advisory, so nothing is rejected or audited
  before Vault signs it.\<close>

lemma simnet_presign_never_rejects:
  "result_of (presign_simulate (surfpool_env L rpc svm E) C ident corr tx) s = None \<and>
   filter is_audit (events_of (presign_simulate (surfpool_env L rpc svm E) C ident corr tx) s) = []"
  using simnet_simulation_passes [of L rpc svm E]
  by (auto simp: presign_simulate_def port_defs run_state_cases events_of_def
      split: sum.splits option.splits)

text \<open>
  The status query reads \<open>confirmation_status\<close>, the simulator writes \<open>confirmationStatus\<close>: the
  text is always the default.
\<close>

lemma simnet_status_text:
  assumes "json_lookups (json X)" "signature_from_str X txt = Inr sig"
  shows "result_of (signature_status X (surfpool_env L rpc svm E) txt) s =
    Inr (True, True, ''processed'', 0)"
  using assms
  by (simp add: signature_status_def port_defs json_lookups_def surfpool_status_def Let_def)

end
