(* ===== verification/Vault_Client.thy ===== *)
theory Vault_Client
  imports Bridge_Types
begin

text \<open>
  The signers: \<open>VaultTransitClient\<close> of \<open>vault.rs\<close> with its public key cache and the development
  keypair. What the HTTP client, the base64 engine and the Solana SDK do is a field of \<open>transit_lib\<close> or \<open>keypair_lib\<close>; Vault is another
  party, so every call takes the answers of its moment. The locale \<open>signer\<close> states what the
  bridge relies on and is interpreted for both providers.
\<close>

section \<open>The transit client\<close>

text \<open>How a request can end; the text of each error is what the client prints of it.\<close>

datatype 'a http_answer =
    SendError string
  | StatusError string
  | JsonError string
  | JsonBody 'a

text \<open>
  \<open>data.keys\<close> of the key response, a \<open>HashMap\<close> from version to base64 key, as the list in
  which the map iterates.
\<close>

type_synonym transit_keys = "(string \<times> string) list"

record transit_lib =
  b64_encode :: "bytes \<Rightarrow> string"
  b64_decode :: "string \<Rightarrow> string + bytes"
  pubkey_try_from :: "bytes \<Rightarrow> pubkey option"
  signature_try_from :: "bytes \<Rightarrow> signature option"

text \<open>The answers of Vault at one moment: the URL, the token, and for a signature the input.\<close>

record transit_server =
  get_keys :: "string \<Rightarrow> string \<Rightarrow> transit_keys http_answer"
  post_sign :: "string \<Rightarrow> string \<Rightarrow> string \<Rightarrow> string http_answer"

type_synonym key_cache = "string \<rightharpoonup> pubkey"

record transit_client =
  tc_address :: string
  tc_token :: string
  tc_key_cache :: key_cache

definition transit_client_new :: "string \<Rightarrow> string \<Rightarrow> transit_client" where
  "transit_client_new address tok =
     \<lparr>tc_address = address, tc_token = tok, tc_key_cache = Map.empty\<rparr>"

text \<open>
  \<open>send().await?.error_for_status().context(..)?\<close> and \<open>resp.json().await?\<close>: only the status
  error carries the context text.
\<close>

definition body_or :: "string \<Rightarrow> 'a http_answer \<Rightarrow> string + 'a" where
  "body_or context_text answer =
     (case answer of
        SendError e \<Rightarrow> Inl e
      | StatusError _ \<Rightarrow> Inl context_text
      | JsonError e \<Rightarrow> Inl e
      | JsonBody b \<Rightarrow> Inr b)"

text \<open>The key of a response: the first the map yields, decoded and checked.\<close>

definition transit_pubkey :: "transit_lib \<Rightarrow> string \<Rightarrow> transit_keys \<Rightarrow> string + pubkey" where
  "transit_pubkey L key_name ks =
     (case ks of
        [] \<Rightarrow> Inl (''No keys found for '' @ key_name)
      | (_, pubkey_b64) # _ \<Rightarrow>
          (case b64_decode L pubkey_b64 of
             Inl _ \<Rightarrow> Inl ''Invalid base64 in public_key''
           | Inr pubkey_bytes \<Rightarrow>
               (case pubkey_try_from L pubkey_bytes of
                  None \<Rightarrow> Inl ''Invalid public key bytes length''
                | Some pk \<Rightarrow> Inr pk)))"

definition transit_get_public_key ::
  "transit_lib \<Rightarrow> transit_server \<Rightarrow> transit_client \<Rightarrow> string \<Rightarrow> (string + pubkey) \<times> transit_client" where
  "transit_get_public_key L S V key_name =
     (case tc_key_cache V key_name of
        Some pk \<Rightarrow> (Inr pk, V)
      | None \<Rightarrow>
          (case body_or ''Failed to fetch key from Vault''
                  (get_keys S (tc_address V @ ''/v1/transit/keys/'' @ key_name) (tc_token V)) of
             Inl e \<Rightarrow> (Inl e, V)
           | Inr ks \<Rightarrow>
               (case transit_pubkey L key_name ks of
                  Inl e \<Rightarrow> (Inl e, V)
                | Inr pk \<Rightarrow>
                    (Inr pk, V\<lparr>tc_key_cache := (tc_key_cache V)(key_name \<mapsto> pk)\<rparr>))))"

text \<open>\<open>"vault:v1:<base64>"\<close>: the part after the last colon; \<open>split\<close> yields at least one part.\<close>

definition transit_signature :: "transit_lib \<Rightarrow> string \<Rightarrow> string + signature" where
  "transit_signature L sig_text =
     (let sig_parts = split_on (CHR '':'') sig_text in
      if sig_parts = [] then Inl ''Malformed signature format from Vault''
      else
        (case b64_decode L (last sig_parts) of
           Inl _ \<Rightarrow> Inl ''Invalid base64 in signature''
         | Inr sig_bytes \<Rightarrow>
             (case signature_try_from L sig_bytes of
                None \<Rightarrow> Inl ''Invalid signature length from Vault''
              | Some s \<Rightarrow> Inr s)))"

definition transit_sign_message ::
  "transit_lib \<Rightarrow> transit_server \<Rightarrow> transit_client \<Rightarrow> string \<Rightarrow> bytes \<Rightarrow> string + signature" where
  "transit_sign_message L S V key_name msg =
     (case body_or ''Vault Transit sign request failed''
             (post_sign S (tc_address V @ ''/v1/transit/sign/'' @ key_name) (tc_token V)
                (b64_encode L msg)) of
        Inl e \<Rightarrow> Inl e
      | Inr sig_text \<Rightarrow> transit_signature L sig_text)"

section \<open>The development keypair\<close>

record 'kp keypair_lib =
  keypair_try_from :: "bytes \<Rightarrow> 'kp option"
  keypair_pubkey :: "'kp \<Rightarrow> pubkey"
  keypair_sign :: "'kp \<Rightarrow> bytes \<Rightarrow> signature"

definition dev_keypair_bytes :: bytes where
  "dev_keypair_bytes =
     [241, 3, 15, 11, 59, 189, 0, 251, 20, 183, 69, 181, 3, 24, 241, 148, 23, 179, 177, 88,
      214, 187, 29, 157, 2, 66, 127, 53, 53, 185, 21, 209, 207, 253, 141, 144, 58, 192, 105,
      53, 193, 102, 73, 89, 250, 146, 246, 181, 133, 48, 6, 16, 231, 20, 229, 155, 54, 191,
      88, 204, 36, 39, 161, 251]"

text \<open>\<open>expect("Invalid dev keypair")\<close> panics when the SDK refuses the bytes.\<close>

definition insecure_new :: "'kp keypair_lib \<Rightarrow> (string, 'kp) outcome" where
  "insecure_new K =
     (case keypair_try_from K dev_keypair_bytes of None \<Rightarrow> Panicked | Some kp \<Rightarrow> Ok kp)"

definition insecure_get_public_key :: "'kp keypair_lib \<Rightarrow> 'kp \<Rightarrow> string \<Rightarrow> string + pubkey" where
  "insecure_get_public_key K kp key_name = Inr (keypair_pubkey K kp)"

definition insecure_sign_message :: "'kp keypair_lib \<Rightarrow> 'kp \<Rightarrow> string \<Rightarrow> bytes \<Rightarrow> string + signature" where
  "insecure_sign_message K kp key_name msg = Inr (keypair_sign K kp msg)"

section \<open>The contract of a signer\<close>

text \<open>
  \<open>pk w s name\<close> answers a key request in world \<open>w\<close> and state \<open>s\<close>. A failed request changes
  nothing; a successful one fixes the key of that name in the state, against every later world;
  and no request changes a key that is fixed.
\<close>

locale signer =
  fixes pk :: "'w \<Rightarrow> 's \<Rightarrow> string \<Rightarrow> ('e + pubkey) \<times> 's"
    and fixed :: "'s \<Rightarrow> string \<Rightarrow> pubkey option"
  assumes failure_frame: "pk w s name = (Inl e, s') \<Longrightarrow> s' = s"
    and success_fixes: "pk w s name = (Inr k, s') \<Longrightarrow> fixed s' name = Some k"
    and fixed_answer: "fixed s name = Some k \<Longrightarrow> pk w s name = (Inr k, s)"
    and fixed_kept: "fixed s name = Some k \<Longrightarrow> fixed (snd (pk w s name')) name = Some k"
begin

text \<open>The answers of a sequence of requests, each with the world it met.\<close>

primrec requests :: "'s \<Rightarrow> ('w \<times> string) list \<Rightarrow> ('e + pubkey) list \<times> 's" where
  "requests s [] = ([], s)"
| "requests s (q # qs) =
     (let (r, s') = pk (fst q) s (snd q); (rs, s'') = requests s' qs in (r # rs, s''))"

lemma fixed_requests: "fixed s name = Some k \<Longrightarrow> fixed (snd (requests s qs)) name = Some k"
proof (induction qs arbitrary: s)
  case (Cons q qs)
  then have "fixed (snd (pk (fst q) s (snd q))) name = Some k" by (simp add: fixed_kept)
  from Cons.IH [OF this] show ?case by (simp add: split_beta Let_def)
qed simp

lemma requests_state: "snd (requests s qs) = fold (\<lambda>q s. snd (pk (fst q) s (snd q))) qs s"
  by (induction qs arbitrary: s) (simp_all add: split_beta Let_def)

lemma stable_key:
  assumes "pk w s name = (Inr k, s')"
  shows "pk w' (fold (\<lambda>q s. snd (pk (fst q) s (snd q))) qs s') name =
    (Inr k, fold (\<lambda>q s. snd (pk (fst q) s (snd q))) qs s')"
  unfolding requests_state [symmetric]
  using fixed_answer [OF fixed_requests [OF success_fixes [OF assms]]] by simp

end

interpretation transit: signer "transit_get_public_key L" tc_key_cache
  by unfold_locales
    (auto simp: transit_get_public_key_def split: option.splits sum.splits)

interpretation insecure: signer "\<lambda>(_ :: unit) kp name. (insecure_get_public_key K kp name, kp)"
    "\<lambda>kp _. Some (keypair_pubkey K kp)"
  by unfold_locales (auto simp: insecure_get_public_key_def)

section \<open>Correctness\<close>

text \<open>What the client relies on of the base64 engine: decoding inverts encoding, and the alphabet
  has no colon.\<close>

definition b64_lossless :: "transit_lib \<Rightarrow> bool" where
  "b64_lossless L \<longleftrightarrow>
     (\<forall>bs. b64_decode L (b64_encode L bs) = Inr bs \<and> CHR '':'' \<notin> set (b64_encode L bs))"

text \<open>An engine with these properties, two letters per byte.\<close>

fun letters :: "bytes \<Rightarrow> string" where
  "letters [] = []"
| "letters (b # bs) = char_of (97 + unat b div 16) # char_of (97 + unat b mod 16) # letters bs"

fun unletters :: "string \<Rightarrow> bytes" where
  "unletters (x # y # s) =
     word_of_nat ((of_char x - 97) * 16 + (of_char y - 97)) # unletters s"
| "unletters _ = []"

lemma letter_char [simp]: "(n :: nat) < 16 \<Longrightarrow> of_char (char_of (97 + n) :: char) = 97 + n"
  by (simp add: of_char_of)

lemma unletters_letters: "unletters (letters bs) = bs"
proof (induction bs)
  case (Cons b bs)
  have "unat b div 16 < 16" using unat_u8_bound [of b] by simp
  with Cons show ?case by (simp add: word_unat_eq_iff)
qed simp

lemma letters_no_colon: "CHR '':'' \<notin> set (letters bs)"
proof (induction bs)
  case (Cons b bs)
  have colon: "CHR '':'' \<noteq> (char_of (97 + n) :: char)" if "n < 16" for n :: nat
  proof
    assume "CHR '':'' = (char_of (97 + n) :: char)"
    then have "of_char (CHR '':'') = (of_char (char_of (97 + n) :: char) :: nat)" by simp
    with that show False by simp
  qed
  have "unat b div 16 < 16" using unat_u8_bound [of b] by simp
  with Cons colon show ?case by simp
qed simp

definition letters_lib :: transit_lib where
  "letters_lib =
     \<lparr>b64_encode = letters, b64_decode = (\<lambda>s. Inr (unletters s)),
      pubkey_try_from = (\<lambda>b. if length b = 32 then Some b else None),
      signature_try_from = (\<lambda>b. if length b = 64 then Some b else None)\<rparr>"

lemma letters_lossless: "b64_lossless letters_lib"
  by (simp add: b64_lossless_def letters_lib_def unletters_letters letters_no_colon)

text \<open>C19: the signature Vault makes is the signature the bridge gets. When Vault answers a sign
  request with any version prefix, a colon and the encoding of its signature of the decoded input,
  \<open>sign_message\<close> returns exactly the signature of the message bytes it was given.\<close>

theorem vault_signature_roundtrip:
  assumes "b64_lossless L"
    and "\<And>bs. signature_try_from L (sgn_key bs) = Some (sgn_key bs)"
    and "\<And>input. post_sign S (tc_address V @ ''/v1/transit/sign/'' @ key_name) (tc_token V) input =
      (case b64_decode L input of
         Inr bs \<Rightarrow> JsonBody (version @ '':'' @ b64_encode L (sgn_key bs))
       | Inl e \<Rightarrow> StatusError e)"
  shows "transit_sign_message L S V key_name msg = Inr (sgn_key msg)"
proof -
  have "last (split_on (CHR '':'') (version @ CHR '':'' # b64_encode L (sgn_key msg))) =
      b64_encode L (sgn_key msg)"
    using assms(1) by (intro last_split_on_append) (simp add: b64_lossless_def)
  then have "transit_signature L (version @ '':'' @ b64_encode L (sgn_key msg)) = Inr (sgn_key msg)"
    using assms(1,2) by (simp add: transit_signature_def Let_def b64_lossless_def)
  then show ?thesis
    using assms(1,3) by (simp add: transit_sign_message_def body_or_def b64_lossless_def)
qed

definition honest_server :: transit_server where
  "honest_server =
     \<lparr>get_keys = (\<lambda>url tok. JsonBody [(''1'', letters (replicate 32 7))]),
      post_sign = (\<lambda>url tok input.
        JsonBody (''vault:v1'' @ '':'' @ letters (replicate 64 (hd (unletters input @ [0])))))\<rparr>"

theorem vault_signature_roundtrip_witness:
  "transit_sign_message letters_lib honest_server (transit_client_new ''http://v'' ''t'') ''k'' [5, 6] =
     Inr (replicate 64 5)"
  using vault_signature_roundtrip [OF letters_lossless, of "\<lambda>bs. replicate 64 (hd (bs @ [0]))"
      honest_server "transit_client_new ''http://v'' ''t''" "''k''" "''vault:v1''" "[5, 6]"]
  by (simp add: letters_lib_def honest_server_def)

text \<open>A key name stands for one key. Once \<open>get_public_key\<close> succeeded for a name, every later call
  for that name answers the same key and changes nothing, whatever other keys are requested in between and
  whatever Vault would answer by then; a rotated key is not seen before a restart.\<close>

lemma vault_key_is_stable:
  assumes "transit_get_public_key L S V name = (Inr k, V')"
  shows "transit_get_public_key L S' (fold (\<lambda>q V. snd (transit_get_public_key L (fst q) V (snd q))) qs V') name =
    (Inr k, fold (\<lambda>q V. snd (transit_get_public_key L (fst q) V (snd q))) qs V')"
  by (rule transit.stable_key [OF assms])

definition rotated_server :: transit_server where
  "rotated_server = honest_server\<lparr>get_keys := (\<lambda>url tok. JsonBody [(''2'', letters (replicate 32 8))])\<rparr>"

lemma honest_key:
  "transit_get_public_key letters_lib honest_server (transit_client_new ''http://v'' ''t'') ''k'' =
     (Inr (replicate 32 7),
      (transit_client_new ''http://v'' ''t'')\<lparr>tc_key_cache := [''k'' \<mapsto> replicate 32 7]\<rparr>)"
  by (simp add: transit_get_public_key_def transit_client_new_def honest_server_def body_or_def
      transit_pubkey_def letters_lib_def unletters_letters)

lemma vault_key_is_stable_witness:
  "fst (transit_get_public_key letters_lib rotated_server
     ((transit_client_new ''http://v'' ''t'')\<lparr>tc_key_cache := [''k'' \<mapsto> replicate 32 7]\<rparr>) ''k'') =
   Inr (replicate 32 7)"
  using vault_key_is_stable [OF honest_key, of rotated_server "[]"] by simp

text \<open>
  The key of a name with several versions is the first one the hash map yields, whichever that
  is: two iteration orders of one response can give two keys.
\<close>

lemma key_version_depends_on_order:
  "transit_pubkey letters_lib ''k'' [(''1'', letters (replicate 32 7)), (''2'', letters (replicate 32 8))] \<noteq>
   transit_pubkey letters_lib ''k'' [(''2'', letters (replicate 32 8)), (''1'', letters (replicate 32 7))]"
  by (simp add: transit_pubkey_def letters_lib_def unletters_letters)

text \<open>
  The read lock on the cache is released before Vault is asked, so two first requests for a name can
  both miss it. \<open>get_public_key\<close> in its three parts: the lookup, the request, the write.
\<close>

definition transit_fetch_key ::
  "transit_lib \<Rightarrow> transit_server \<Rightarrow> transit_client \<Rightarrow> string \<Rightarrow> string + pubkey" where
  "transit_fetch_key L S V key_name =
     (case body_or ''Failed to fetch key from Vault''
             (get_keys S (tc_address V @ ''/v1/transit/keys/'' @ key_name) (tc_token V)) of
        Inl e \<Rightarrow> Inl e
      | Inr ks \<Rightarrow> transit_pubkey L key_name ks)"

definition transit_store_key :: "transit_client \<Rightarrow> string \<Rightarrow> pubkey \<Rightarrow> transit_client" where
  "transit_store_key V key_name pk = V\<lparr>tc_key_cache := (tc_key_cache V)(key_name \<mapsto> pk)\<rparr>"

lemma get_public_key_blocks:
  "transit_get_public_key L S V name =
     (case tc_key_cache V name of
        Some pk \<Rightarrow> (Inr pk, V)
      | None \<Rightarrow>
          (case transit_fetch_key L S V name of
             Inl e \<Rightarrow> (Inl e, V)
           | Inr pk \<Rightarrow> (Inr pk, transit_store_key V name pk)))"
  by (simp add: transit_get_public_key_def transit_fetch_key_def transit_store_key_def
      split: option.split sum.split)

text \<open>
  Two first requests that overlap, with the answers of two moments: each returns what it fetched, and
  later requests return the key that was written last, also when the first caller got another one.
\<close>

lemma overlapping_first_requests:
  assumes "tc_key_cache V name = None"
    and "transit_fetch_key L S V name = Inr a" "transit_fetch_key L S' V name = Inr b"
  shows "fst (transit_get_public_key L S V name) = Inr a"
    and "fst (transit_get_public_key L S' V name) = Inr b"
    and "fst (transit_get_public_key L S'' (transit_store_key (transit_store_key V name a) name b) name) = Inr b"
  using assms by (simp_all add: get_public_key_blocks transit_store_key_def)

lemma overlapping_first_requests_differ:
  "transit_fetch_key letters_lib honest_server (transit_client_new ''http://v'' ''t'') ''k'' \<noteq>
   transit_fetch_key letters_lib rotated_server (transit_client_new ''http://v'' ''t'') ''k''"
  by (simp add: transit_fetch_key_def transit_client_new_def honest_server_def rotated_server_def body_or_def
      transit_pubkey_def letters_lib_def unletters_letters)

text \<open>The development keypair is one key for every name.\<close>

lemma insecure_ignores_key_name:
  "insecure_get_public_key K kp a = insecure_get_public_key K kp b"
  "insecure_sign_message K kp a msg = insecure_sign_message K kp b msg"
  by (simp_all add: insecure_get_public_key_def insecure_sign_message_def)

lemma length_dev_keypair [simp]: "length dev_keypair_bytes = 64"
  by (simp add: dev_keypair_bytes_def)

end
