(* ===== verification/Pipeline_Properties.thy ===== *)
theory Pipeline_Properties
  imports Sample_World
begin

text \<open>
  The properties of \<open>sign_and_submit\<close>: the reference monitor (nothing is signed or sent that the
  policy engine did not accept for this identity), what exactly is signed and sent, the audit
  entry of every outcome, and when the pipeline can panic.
\<close>

section \<open>Mediation\<close>

text \<open>C4: authorization integrity. Whatever the services answer, a run of \<open>sign_and_submit\<close>
  requests a Vault signature or sends a transaction only if the payload decodes to a transaction
  that the policy engine accepts for the caller's identity and the key id is \<open>platform_admin\<close> or
  empty; a signature is requested only for \<open>platform_admin\<close>, and only with the configured
  Vault key.\<close>

theorem sign_and_submit_mediated:
  assumes "e \<in> set (events_of (sign_and_submit X E C raw key ident corr) s)" and "is_effect e"
  shows "(\<exists>tx. deserialize_tx X raw = Inr tx \<and> validate_transaction X ident tx = Inr ()) \<and>
     (key = ''platform_admin'' \<or> key = []) \<and>
     (\<forall>k msg a. e = EvSign k msg a \<longrightarrow> key = ''platform_admin'' \<and> k = transit_key_name C)"
proof -
  from assms obtain tx r effs where
    "deserialize_tx X raw = Inr tx" "validate_transaction X ident tx = Inr ()"
    "pipeline_effects X C key tx r effs" "e \<in> set effs"
    by (rule effect_of_run)
  then show ?thesis using pipeline_effect by blast
qed

theorem sign_and_submit_mediated_witness:
  "(\<exists>tx. deserialize_tx sample_ext [9, 9, 9] = Inr tx \<and>
      validate_transaction sample_ext trading_identity tx = Inr ()) \<and>
   EvSend sample_signed (Inr [77]) \<in> set (events_of (sign_and_submit sample_ext sample_env sample_cfg
     [9, 9, 9] ''platform_admin'' trading_identity ''c1'') sample_state)"
proof -
  have mem: "EvSend sample_signed (Inr [77]) \<in> set (events_of (sign_and_submit sample_ext sample_env
     sample_cfg [9, 9, 9] ''platform_admin'' trading_identity ''c1'') sample_state)"
    by (simp add: sample_run)
  from sign_and_submit_mediated [OF mem] mem show ?thesis by simp
qed

text \<open>C9: what is sent is what was signed. With key \<open>platform_admin\<close>, a transaction reaches the
  cluster only after Vault signed exactly its message bytes in the same run; that signature is in
  the fee payer's slot 0, the other slots are the caller's (padded with empty signatures), and
  the message is the caller's except that an empty blockhash may have been filled in.\<close>

theorem sent_transaction_is_signed:
  assumes "EvSend tx' a \<in> set (events_of (sign_and_submit X E C raw ''platform_admin'' ident corr) s)"
  shows "\<exists>tx sig.
     deserialize_tx X raw = Inr tx \<and>
     EvSign (transit_key_name C) (message_data X (message tx')) (Inr sig)
       \<in> set (events_of (sign_and_submit X E C raw ''platform_admin'' ident corr) s) \<and>
     signatures tx' = sig # tl (grow_signatures tx) \<and>
     (\<exists>bh. message tx' = (message tx)\<lparr>recent_blockhash := bh\<rparr>) \<and>
     (recent_blockhash (message tx) \<noteq> default_hash \<longrightarrow> message tx' = message tx)"
proof -
  from assms obtain tx r effs where tx: "deserialize_tx X raw = Inr tx" and
    pipe: "pipeline_effects X C ''platform_admin'' tx r effs" "EvSend tx' a \<in> set effs" and
    sub: "set effs \<subseteq> set (events_of (sign_and_submit X E C raw ''platform_admin'' ident corr) s)"
    by (rule effect_of_run) simp_all
  from pipeline_sent [OF pipe] obtain tx1 sig where
    1: "blockhash_filled tx tx1" "attach_signature tx1 sig = Ok tx'"
      "EvSign (transit_key_name C) (message_data X (message tx1)) (Inr sig) \<in> set effs" by blast
  from 1(2) have att: "message tx' = message tx1" "signatures tx' = sig # tl (grow_signatures tx1)"
    by (auto simp: attach_signature_def split: list.splits)
  from 1(1) obtain bh where bh: "tx1 = set_blockhash tx bh"
    "recent_blockhash (message tx) \<noteq> default_hash \<longrightarrow> tx1 = tx"
    by (auto simp: blockhash_filled_def)
  then have "grow_signatures tx1 = grow_signatures tx"
    by (simp add: grow_signatures_def required_signatures_def set_blockhash_def)
  moreover have "message tx1 = (message tx)\<lparr>recent_blockhash := bh\<rparr>"
    "recent_blockhash (message tx) \<noteq> default_hash \<longrightarrow> message tx1 = message tx"
    using bh by (auto simp: set_blockhash_def)
  ultimately show ?thesis
    using att 1(3) tx sub by (rule_tac exI [of _ tx], rule_tac exI [of _ sig]) auto
qed

theorem sent_transaction_is_signed_witness:
  "\<exists>tx sig. deserialize_tx sample_ext [9, 9, 9] = Inr tx \<and>
     signatures sample_signed = sig # tl (grow_signatures tx)"
proof -
  have "EvSend sample_signed (Inr [77]) \<in> set (events_of (sign_and_submit sample_ext sample_env
     sample_cfg [9, 9, 9] ''platform_admin'' trading_identity ''c1'') sample_state)"
    by (simp add: sample_run)
  from sent_transaction_is_signed [OF this] show ?thesis by blast
qed

text \<open>One run requests at most one signature and sends at most one transaction; with key
  \<open>platform_admin\<close> the signature comes first, and with an empty key id nothing is signed and the
  decoded transaction is sent unchanged.\<close>

lemma sign_and_submit_effect_order:
  "let effs = filter is_effect (events_of (sign_and_submit X E C raw key ident corr) s)
   in effs = [] \<or>
      (\<exists>msg a. effs = [EvSign (transit_key_name C) msg a]) \<or>
      (\<exists>msg a tx' b. effs = [EvSign (transit_key_name C) msg (Inr a), EvSend tx' b]) \<or>
      (\<exists>tx b. key = [] \<and> deserialize_tx X raw = Inr tx \<and> effs = [EvSend tx b])"
  using sign_and_submit_events(2) [of X E C raw key ident corr s]
  unfolding Let_def by (metis pipeline_shape)

section \<open>Outcomes\<close>

text \<open>C10: a run of the pipeline succeeds exactly when the cluster accepted a transaction it sent; the
  result is the signature the cluster answered, with slot 0.\<close>

theorem sign_and_submit_ok_iff:
  "(result_of (sign_and_submit X E C raw key ident corr) s = Ok (sig, slot)) =
   (slot = 0 \<and> (\<exists>tx'. EvSend tx' (Inr sig)
      \<in> set (events_of (sign_and_submit X E C raw key ident corr) s)))"
proof -
  let ?m = "sign_and_submit X E C raw key ident corr"
  have mem: "EvSend tx' (Inr sig) \<in> set (events_of ?m s) \<longleftrightarrow>
      EvSend tx' (Inr sig) \<in> set (filter is_effect (events_of ?m s))" for tx' by simp
  from sign_and_submit_events(2) [of X E C raw key ident corr s] show ?thesis
    unfolding mem
  proof (elim disjE exE conjE)
    assume "filter is_effect (events_of ?m s) = []" "\<not> is_ok (result_of ?m s)"
    then show "result_of ?m s = Ok (sig, slot) \<longleftrightarrow>
      slot = 0 \<and> (\<exists>tx'. EvSend tx' (Inr sig) \<in> set (filter is_effect (events_of ?m s)))"
      unfolding \<open>filter is_effect (events_of ?m s) = []\<close> by auto
  qed (rule pipeline_ok)
qed

lemma submit_audited_tail:
  assumes "result_of (submit_audited X E ident corr tx') s = Ok (sig, slot)"
  shows "\<exists>evs t b. trace (final_of (submit_audited X E ident corr tx') s) =
     evs @ [EvSend tx' (Inr sig), EvClock t,
       EvAudit (audit_entry_new corr ident ''sign_and_submit''
         (Submitted (show_signature X sig) 0) t) b]"
  using assms
  by (auto simp: submit_audited_def record_audit_def port_defs run_state_cases split: sum.splits)

lemma success_tail:
  assumes "result_of (sign_and_submit X E C raw key ident corr) s = Ok (sig, slot)"
  shows "\<exists>evs tx' t b. trace (final_of (sign_and_submit X E C raw key ident corr) s) =
     evs @ [EvSend tx' (Inr sig), EvClock t,
       EvAudit (audit_entry_new corr ident ''sign_and_submit''
         (Submitted (show_signature X sig) 0) t) b]"
proof -
  obtain tx where des: "deserialize_tx X raw = Inr tx"
    using assms by (cases "deserialize_tx X raw") (auto simp: sign_and_submit_def)
  have val: "validate_transaction X ident tx = Inr ()"
    using assms des
    by (cases "validate_transaction X ident tx")
      (auto simp: sign_and_submit_def record_audit_def port_defs)
  show ?thesis
  proof (cases "key = ''platform_admin''")
    case True
    obtain r1 s1 where run: "run_state (prepare_signed X E C ident corr tx) s = (r1, s1)"
      by (cases "run_state (prepare_signed X E C ident corr tx) s")
    with assms des val True obtain tx' where "r1 = Ok tx'"
      "result_of (submit_audited X E ident corr tx') s1 = Ok (sig, slot)"
      by (cases r1) (auto simp: sign_and_submit_def submit_signed_def)
    with submit_audited_tail [OF this(2)] run des val True show ?thesis
      by (simp add: sign_and_submit_def submit_signed_def) blast
  next
    case False
    with assms des val have "key = []"
      by (auto simp: sign_and_submit_def record_audit_def port_defs split: if_splits)
    with submit_audited_tail [of X E ident corr tx s] assms des val show ?thesis
      by (auto simp: sign_and_submit_def)
  qed
qed

text \<open>Every success is audited. The last three events of a successful run are the accepted
  submission, the clock read and the appended audit entry \<open>Submitted\<close> with the returned signature,
  the caller's identity and the correlation id.\<close>

lemma sign_and_submit_success_audited:
  assumes "result_of (sign_and_submit X E C raw key ident corr) s = Ok (sig, slot)"
  shows "\<exists>evs tx' t b. trace (final_of (sign_and_submit X E C raw key ident corr) s) =
     evs @ [EvSend tx' (Inr sig), EvClock t,
       EvAudit (audit_entry_new corr ident ''sign_and_submit''
         (Submitted (show_signature X sig) 0) t) b]"
  using assms by (rule success_tail)

lemma sign_and_submit_success_audited_witness:
  "\<exists>evs tx' t b. trace (final_of (sign_and_submit sample_ext sample_env sample_cfg [9, 9, 9]
       ''platform_admin'' trading_identity ''c1'') sample_state) =
     evs @ [EvSend tx' (Inr [77]), EvClock t,
       EvAudit (audit_entry_new ''c1'' trading_identity ''sign_and_submit''
         (Submitted (show_signature sample_ext [77]) 0) t) b]"
proof -
  have "result_of (sign_and_submit sample_ext sample_env sample_cfg [9, 9, 9]
       ''platform_admin'' trading_identity ''c1'') sample_state = Ok ([77], 0)"
    by (rule sample_run_result)
  from sign_and_submit_success_audited [OF this] show ?thesis .
qed

text \<open>A policy rejection is terminal and audited: the run returns \<open>PolicyRejected\<close> with the
  engine's reason, and its only events are the clock read and the audit entry \<open>Rejected\<close> of stage
  \<open>policy\<close>. Likewise for a key id that is neither \<open>platform_admin\<close> nor empty, with stage
  \<open>auth\<close>: a rejected request reaches neither Vault nor the cluster nor the simulator.\<close>

lemma rejection_audited:
  assumes "deserialize_tx X raw = Inr tx"
    and "(\<exists>reason. validate_transaction X ident tx = Inl reason \<and> out = Rejected ''policy'' reason \<and>
           st = PolicyRejected reason)
         \<or> validate_transaction X ident tx = Inr () \<and> key \<noteq> ''platform_admin'' \<and> key \<noteq> [] \<and>
           out = Rejected ''auth'' (''Key ID not authorized: '' @ key) \<and> st = KeyNotAuthorized key"
  shows "result_of (sign_and_submit X E C raw key ident corr) s = Err st \<and>
     (\<exists>t b. events_of (sign_and_submit X E C raw key ident corr) s =
       [EvClock t, EvAudit (audit_entry_new corr ident ''sign_and_submit'' out t) b])"
  using assms
  by (auto simp: sign_and_submit_def record_audit_def port_defs events_of_def)

lemma rejection_audited_witness:
  "result_of (sign_and_submit sample_ext sample_env sample_cfg [9] ''platform_admin'' ''nobody'' ''c1'')
     sample_state = Err (PolicyRejected ''unknown identity'')"
proof (rule rejection_audited [THEN conjunct1])
  show "deserialize_tx sample_ext [9] = Inr sample_tx"
    by (simp add: sample_defs)
  have "sample_role ''nobody'' = Unknown"
    by (simp add: sample_role_def trading_identity_def aggregator_identity_def meter_identity_def)
  then show "(\<exists>reason. validate_transaction sample_ext ''nobody'' sample_tx = Inl reason \<and>
      Rejected ''policy'' ''unknown identity'' = Rejected ''policy'' reason \<and>
      PolicyRejected ''unknown identity'' = PolicyRejected reason) \<or>
     validate_transaction sample_ext ''nobody'' sample_tx = Inr () \<and>
      ''platform_admin'' \<noteq> ''platform_admin'' \<and> ''platform_admin'' \<noteq> [] \<and>
      Rejected ''policy'' ''unknown identity'' =
        Rejected ''auth'' (''Key ID not authorized: '' @ ''platform_admin'') \<and>
      PolicyRejected ''unknown identity'' = KeyNotAuthorized ''platform_admin''"
    by (simp add: sample_ext_def)
qed

section \<open>Blockhash and simulation\<close>

text \<open>The blockhash step reads the RPC node only when it has to.\<close>

lemma fill_blockhash_rpc:
  assumes "EvLatestBlockhash a \<in> set (events_of (fill_blockhash E tx) s)"
  shows "recent_blockhash (message tx) = default_hash \<and> blockhash_cache s = None"
  using assms
  by (auto simp: fill_blockhash_def blockhash_get_def port_defs events_of_def run_state_cases
      split: if_splits option.splits)


lemma sign_and_submit_admin:
  assumes "deserialize_tx X raw = Inr tx" "validate_transaction X ident tx = Inr ()"
  shows "sign_and_submit X E C raw ''platform_admin'' ident corr = submit_signed X E C ident corr tx"
  using assms by (simp add: sign_and_submit_def)

text \<open>The pipeline after the blockhash step.\<close>

definition sign_and_send ::
  "externals \<Rightarrow> env \<Rightarrow> config \<Rightarrow> spiffe_identity \<Rightarrow> string \<Rightarrow>
   (sign_submit_stage, transaction) outcome \<Rightarrow> (sign_submit_stage, signature \<times> u64) outcome io" where
  "sign_and_send X E C ident corr filled =
     (case filled of
        Ok tx1 \<Rightarrow> do {
          rejected \<leftarrow> presign_simulate E C ident corr tx1;
          (case rejected of
             Some st \<Rightarrow> State_Monad.return (Err st)
           | None \<Rightarrow> do {
               signed \<leftarrow> vault_sign_transaction X E C tx1;
               (case signed of
                  Ok tx' \<Rightarrow> submit_audited X E ident corr tx'
                | Err st \<Rightarrow> State_Monad.return (Err st)
                | Panicked \<Rightarrow> State_Monad.return Panicked)
             })
        }
      | Err st \<Rightarrow> State_Monad.return (Err st)
      | Panicked \<Rightarrow> State_Monad.return Panicked)"

lemma submit_signed_split:
  "submit_signed X E C ident corr tx =
     State_Monad.bind (fill_blockhash E tx) (sign_and_send X E C ident corr)"
  by (rule state_ext)
    (auto simp: submit_signed_def prepare_signed_def sign_and_send_def run_state_cases
      split: outcome.splits option.splits prod.splits)

lemma emits_sign_and_send [emits_rules]:
  "(\<And>e. (\<forall>a. e \<noteq> EvLatestBlockhash a) \<Longrightarrow> P e) \<Longrightarrow> emits P (sign_and_send X E C ident corr filled)"
  unfolding sign_and_send_def by (intro emits_rules) auto

lemma submit_signed_events:
  "events_of (submit_signed X E C ident corr tx) s =
     events_of (fill_blockhash E tx) s @
     events_of (sign_and_send X E C ident corr (result_of (fill_blockhash E tx) s))
       (final_of (fill_blockhash E tx) s)"
  unfolding submit_signed_split
  by (rule events_of_bind [where P = "\<lambda>_. True" and Q = "\<lambda>_. True"])
    (intro emits_extends emits_rules; simp)+

text \<open>The blockhash is served from the cache. A run asks the RPC node for a blockhash only for
  a \<open>platform_admin\<close> transaction whose blockhash is empty while the cache is empty; a
  caller-supplied blockhash is never looked up nor replaced.\<close>

lemma blockhash_rpc_only_when_needed:
  assumes "EvLatestBlockhash a \<in> set (events_of (sign_and_submit X E C raw key ident corr) s)"
  shows "\<exists>tx. deserialize_tx X raw = Inr tx \<and> recent_blockhash (message tx) = default_hash \<and>
     blockhash_cache s = None \<and> key = ''platform_admin''"
proof -
  let ?P = "\<lambda>e. \<forall>a. e \<noteq> EvLatestBlockhash a"
  have adm: "key = ''platform_admin'' \<and> (\<exists>tx. deserialize_tx X raw = Inr tx \<and>
      validate_transaction X ident tx = Inr ())"
  proof (rule ccontr)
    assume "\<not> ?thesis"
    then have "emits ?P (sign_and_submit X E C raw key ident corr)"
      unfolding sign_and_submit_def by (intro emits_rules) auto
    from emits_events(2) [OF this assms] show False by blast
  qed
  then obtain tx where tx: "deserialize_tx X raw = Inr tx" "validate_transaction X ident tx = Inr ()"
    by blast
  have "emits ?P (sign_and_send X E C ident corr filled)" for filled
    by (intro emits_rules) auto
  then have "EvLatestBlockhash a \<notin> set (events_of (sign_and_send X E C ident corr filled) t)" for filled t
    using emits_events(2) by blast
  with assms adm tx have "EvLatestBlockhash a \<in> set (events_of (fill_blockhash E tx) s)"
    by (simp add: sign_and_submit_admin submit_signed_events)
  from fill_blockhash_rpc [OF this] tx(1) adm show ?thesis by blast
qed

lemma blockhash_rpc_only_when_needed_witness:
  "EvLatestBlockhash (Inr (replicate 32 8, 100))
     \<in> set (events_of (sign_and_submit sample_ext sample_env sample_cfg [9] ''platform_admin''
         trading_identity ''c1'') (sample_state\<lparr>blockhash_cache := None\<rparr>)) \<and>
   (\<exists>tx. deserialize_tx sample_ext [9] = Inr tx \<and> recent_blockhash (message tx) = default_hash)"
proof -
  have mem: "EvLatestBlockhash (Inr (replicate 32 8, 100))
     \<in> set (events_of (sign_and_submit sample_ext sample_env sample_cfg [9] ''platform_admin''
         trading_identity ''c1'') (sample_state\<lparr>blockhash_cache := None\<rparr>))"
    by (simp add: pipeline_defs events_of_def sample_defs set_blockhash_def signer_log_panics_def
        required_signatures_def attach_signature_def grow_signatures_def resize_def default_hash_def)
  from blockhash_rpc_only_when_needed [OF mem] mem show ?thesis by blast
qed

lemma sign_and_send_simulated:
  assumes "EvSign k msg a \<in> set (events_of (sign_and_send X E C ident corr filled) s)"
    and "\<not> env_flag (presign_disable_var C)"
  shows "\<exists>tx1 b. EvSimulate tx1 b \<in> set (events_of (sign_and_send X E C ident corr filled) s) \<and>
     msg = message_data X (message tx1) \<and> (\<forall>res. b = Inr res \<longrightarrow> sim_err res = None)"
proof (cases filled)
  case (Ok tx1)
  with assms show ?thesis
    by (auto simp: sign_and_send_def presign_simulate_def vault_sign_transaction_def
        submit_audited_def record_audit_def port_defs events_of_def run_state_cases Let_def
        split: sum.splits option.splits if_splits outcome.splits)
qed (use assms in \<open>simp_all add: sign_and_send_def events_of_def\<close>)

text \<open>C32: no Vault signature is spent on a doomed transaction. Unless the simulation is disabled,
  every signature request of a run is for a message that was simulated in the same run with no
  definitive failure (the simulator accepted it or was itself unavailable).\<close>

theorem signature_after_simulation:
  assumes "EvSign k msg a \<in> set (events_of (sign_and_submit X E C raw key ident corr) s)"
    and "\<not> env_flag (presign_disable_var C)"
  shows "\<exists>tx1 b. EvSimulate tx1 b \<in> set (events_of (sign_and_submit X E C raw key ident corr) s) \<and>
     msg = message_data X (message tx1) \<and> (\<forall>res. b = Inr res \<longrightarrow> sim_err res = None)"
proof -
  from assms(1) obtain tx r effs where
    tx: "deserialize_tx X raw = Inr tx" "validate_transaction X ident tx = Inr ()" and
    "pipeline_effects X C key tx r effs" "EvSign k msg a \<in> set effs"
    by (rule effect_of_run) simp_all
  then have key: "key = ''platform_admin''" using pipeline_effect(2) by blast
  have "emits (\<lambda>e. \<not> is_effect e) (fill_blockhash E tx)" by (intro emits_rules) simp
  then have "EvSign k msg a \<notin> set (events_of (fill_blockhash E tx) s)"
    using emits_events(2) by fastforce
  with assms(1) key tx sign_and_send_simulated [OF _ assms(2)] show ?thesis
    unfolding key sign_and_submit_admin [OF tx] submit_signed_events set_append Un_iff by blast
qed

theorem signature_after_simulation_witness:
  "\<exists>tx1 b. EvSimulate tx1 b \<in> set (events_of (sign_and_submit sample_ext sample_env sample_cfg
       [9, 9, 9] ''platform_admin'' trading_identity ''c1'') sample_state) \<and>
     [1, 2] @ replicate 32 9 = message_data sample_ext (message tx1)"
proof -
  have "EvSign ''gridtokenx-bridge'' ([1, 2] @ replicate 32 9) (Inr [77]) \<in>
     set (events_of (sign_and_submit sample_ext sample_env sample_cfg
       [9, 9, 9] ''platform_admin'' trading_identity ''c1'') sample_state)"
    by (simp add: sample_run)
  moreover have "\<not> env_flag (presign_disable_var sample_cfg)"
    by (simp add: sample_cfg_def)
  ultimately show ?thesis
    using signature_after_simulation by blast
qed

section \<open>Panics\<close>

lemma attach_signature_panics:
  "attach_signature tx sig = Panicked \<longleftrightarrow> required_signatures tx = 0 \<and> signatures tx = []"
proof -
  have "grow_signatures tx = [] \<longleftrightarrow> required_signatures tx = 0 \<and> signatures tx = []"
    by (auto simp: grow_signatures_def simp flip: length_0_conv)
  then show ?thesis by (auto simp: attach_signature_def split: list.splits)
qed

lemma sign_and_send_panics:
  assumes "result_of (sign_and_send X E C ident corr (Ok tx1)) s = Panicked"
  shows "signer_log_panics C tx1 \<or> required_signatures tx1 = 0 \<and> signatures tx1 = []"
  using assms
  by (auto simp: sign_and_send_def presign_simulate_def vault_sign_transaction_def
      submit_audited_def record_audit_def port_defs run_state_cases attach_signature_panics
      Let_def split: sum.splits option.splits if_splits outcome.splits)

text \<open>No panic on a well-formed transaction. If the decoded transaction requires at least one
  signature and has an account key for each required signer, \<open>sign_and_submit\<close> returns a result
  whatever the services answer.\<close>

lemma sign_and_submit_no_panic:
  assumes "\<And>tx. deserialize_tx X raw = Inr tx \<Longrightarrow>
      0 < required_signatures tx \<and> required_signatures tx \<le> length (account_keys (message tx))"
  shows "result_of (sign_and_submit X E C raw key ident corr) s \<noteq> Panicked"
proof
  assume pan: "result_of (sign_and_submit X E C raw key ident corr) s = Panicked"
  then obtain tx where tx: "deserialize_tx X raw = Inr tx" "validate_transaction X ident tx = Inr ()"
    and key: "key = ''platform_admin''"
    by (auto simp: sign_and_submit_def submit_audited_def record_audit_def port_defs run_state_cases
        split: sum.splits if_splits)
  obtain r s1 where fill: "run_state (fill_blockhash E tx) s = (r, s1)"
    by (cases "run_state (fill_blockhash E tx) s")
  from fill_blockhash_run [OF fill] have r: "r \<noteq> Panicked"
    "\<And>tx1. r = Ok tx1 \<Longrightarrow> blockhash_filled tx tx1" by blast+
  have "result_of (sign_and_send X E C ident corr r) s1 = Panicked"
    using pan key tx fill by (simp add: sign_and_submit_admin submit_signed_split)
  moreover from this r(1) obtain tx1 where tx1: "r = Ok tx1"
    by (cases r) (auto simp: sign_and_send_def)
  ultimately have "signer_log_panics C tx1 \<or> required_signatures tx1 = 0"
    using sign_and_send_panics [of X E C ident corr tx1 s1] by auto
  moreover from r(2) [OF tx1] obtain bh where "tx1 = set_blockhash tx bh"
    by (auto simp: blockhash_filled_def)
  ultimately show False
    using assms [OF tx(1)]
    by (auto simp: signer_log_panics_def required_signatures_def set_blockhash_def)
qed

lemma sign_and_submit_no_panic_witness:
  "result_of (sign_and_submit sample_ext sample_env sample_cfg [9] ''platform_admin'' trading_identity
     ''c1'') sample_state \<noteq> Panicked"
  by (rule sign_and_submit_no_panic)
    (auto simp: sample_defs required_signatures_def split: if_splits)

text \<open>The unchecked index. A transaction that requires no signature and carries none passes
  decoding; once the policy and the simulation let it through and Vault has signed it, the
  assignment to slot 0 is out of range and the process aborts, after the signature was spent and
  with no audit entry.\<close>

lemma empty_signature_slots_panic:
  assumes "deserialize_tx X raw = Inr tx" "validate_transaction X ident tx = Inr ()"
    and "required_signatures tx = 0" "signatures tx = []" "account_keys (message tx) \<noteq> []"
    and "recent_blockhash (message tx) \<noteq> default_hash"
    and "\<And>h res. on_simulate E h tx = Inr res \<Longrightarrow> sim_err res = None"
    and "\<And>h k m. \<exists>sig. on_sign E h k m = Inr sig"
  shows "result_of (sign_and_submit X E C raw ''platform_admin'' ident corr) s = Panicked \<and>
     (\<exists>e. filter is_effect (events_of (sign_and_submit X E C raw ''platform_admin'' ident corr) s)
        = [e] \<and> is_sign e) \<and>
     filter is_audit (events_of (sign_and_submit X E C raw ''platform_admin'' ident corr) s) = []"
proof -
  have fill: "fill_blockhash E tx = State_Monad.return (Ok tx)"
    using assms(6) by (simp add: fill_blockhash_def)
  have log: "\<not> signer_log_panics C tx"
    using assms(3,5) by (simp add: signer_log_panics_def)
  have att: "attach_signature tx sig = Panicked" for sig
    using assms(3,4) by (simp add: attach_signature_panics)
  note unf = sign_and_submit_admin [OF assms(1,2)] submit_signed_split fill sign_and_send_def
    vault_sign_transaction_def presign_simulate_def port_defs
  have run: "\<exists>evs sig. run_state (sign_and_submit X E C raw ''platform_admin'' ident corr) s =
      (Panicked, s\<lparr>trace := trace s @ evs @
         [EvSign (transit_key_name C) (message_data X (message tx)) (Inr sig)]\<rparr>) \<and>
      filter is_effect evs = [] \<and> filter is_audit evs = []"
  proof (cases "env_flag (presign_disable_var C)")
    case True
    obtain sig where "on_sign E (trace s) (transit_key_name C) (message_data X (message tx)) = Inr sig"
      using assms(8) by blast
    with True log att show ?thesis by (intro exI [of _ "[]"] exI [of _ sig]) (simp add: unf)
  next
    case False
    let ?e = "EvSimulate tx (on_simulate E (trace s) tx)"
    obtain sig where sig: "on_sign E (trace s @ [?e]) (transit_key_name C)
        (message_data X (message tx)) = Inr sig" using assms(8) by blast
    with False log att assms(7) [of "trace s"] show ?thesis
      by (intro exI [of _ "[?e]"] exI [of _ sig])
        (cases "on_simulate E (trace s) tx", auto simp: unf)
  qed
  then show ?thesis by (auto simp: events_of_def)
qed

lemma empty_signature_slots_panic_witness:
  "result_of (sign_and_submit unsigned_ext sample_env sample_cfg [9] ''platform_admin'' trading_identity
     ''c1'') sample_state = Panicked"
  by (rule empty_signature_slots_panic [THEN conjunct1, of _ _ unsigned_tx])
    (simp_all add: unsigned_ext_def unsigned_tx_def sample_defs required_signatures_def default_hash_def)

end
