(* ===== verification/Bridge_System.thy ===== *)
theory Bridge_System
  imports Loop_Properties Provider_Properties Vault_Client Pipeline_Properties
begin

text \<open>
  The process as \<open>main.rs\<close> wires it: which provider, signer and audit sink the environment
  variables select, as the record of services the rest of the model runs against; the blockhash refresh
  task; and the whole process as a step relation in which RPC calls, refresh ticks and the supervised NATS
  consumer share one bridge.
\<close>

section \<open>Selection of the services\<close>

record process_env =
  var_solana_network :: "string option"
  var_solana_rpc_url :: "string option"
  var_vault_addr :: "string option"
  var_vault_token :: "string option"
  var_database_url :: "string option"

datatype provider_choice = SimnetProvider string | ClusterProvider string

definition select_provider :: "process_env \<Rightarrow> provider_choice" where
  "select_provider V =
     (let solana_network = unwrap_or (var_solana_network V) ''mainnet'';
          solana_rpc_url = unwrap_or (var_solana_rpc_url V) ''http://localhost:8899''
      in if solana_network = ''simnet'' then SimnetProvider solana_rpc_url
         else ClusterProvider solana_rpc_url)"

datatype vault_choice = DevKeypair | Transit string string

definition select_vault :: "config \<Rightarrow> process_env \<Rightarrow> vault_choice" where
  "select_vault C V =
     (if env_flag (insecure_var C) then DevKeypair
      else Transit (unwrap_or (var_vault_addr V) ''http://localhost:8200'')
                   (unwrap_or (var_vault_token V) ''root''))"

datatype audit_choice = PostgresAudit | InMemoryAudit

text \<open>Postgres when \<open>DATABASE_URL\<close> is set, not empty and reachable; the vector otherwise.\<close>

definition select_audit :: "(string \<Rightarrow> chain_bridge_error + unit) \<Rightarrow> process_env \<Rightarrow> audit_choice" where
  "select_audit connect V =
     (case var_database_url V of
        Some url \<Rightarrow>
          if url \<noteq> [] then (case connect url of Inr _ \<Rightarrow> PostgresAudit | Inl _ \<Rightarrow> InMemoryAudit)
          else InMemoryAudit
      | None \<Rightarrow> InMemoryAudit)"

section \<open>The services as answers to a history\<close>

text \<open>The parties outside the process, and the libraries the providers call.\<close>

record ('svm, 'kp) deployment =
  dp_node :: "string \<Rightarrow> history \<Rightarrow> node" \<comment> \<open>the cluster behind an RPC URL\<close>
  dp_custom_error :: custom_error
  dp_svm :: "'svm svm_lib"
  dp_transit_lib :: transit_lib
  dp_vault :: "history \<Rightarrow> transit_server"
  dp_keypair :: "'kp keypair_lib"
  dp_audit_lib :: audit_lib
  dp_pg_connect :: "string \<Rightarrow> chain_bridge_error + unit"
  dp_pg_faults :: "history \<Rightarrow> pg_faults"
  dp_pg_table :: pg_table

text \<open>The simulator clones through an \<open>RpcClient::new\<close>, which reads at \<open>finalized\<close>.\<close>

definition provider_env ::
  "('svm, 'kp) deployment \<Rightarrow> provider_choice \<Rightarrow> env \<Rightarrow> (string, env) outcome" where
  "provider_env D choice E =
     (case choice of
        SimnetProvider url \<Rightarrow>
          (case surfpool_new (dp_svm D) of
             Inl e \<Rightarrow> Err e
           | Inr svm \<Rightarrow> Ok (surfpool_env (dp_svm D) (\<lambda>h. Some (dp_node D url h CommitFinalized)) svm E))
      | ClusterProvider url \<Rightarrow> Ok (real_env (dp_custom_error D) (dp_node D url) E))"

text \<open>The key cache after a history.\<close>

definition client_after ::
  "transit_lib \<Rightarrow> (history \<Rightarrow> transit_server) \<Rightarrow> transit_client \<Rightarrow> history \<Rightarrow> transit_client" where
  "client_after L srv V =
     replay (\<lambda>h e V. case e of
         EvPublicKey name _ \<Rightarrow> snd (transit_get_public_key L (srv h) V name)
       | _ \<Rightarrow> V) V"

definition vault_env ::
  "('svm, 'kp) deployment \<Rightarrow> vault_choice \<Rightarrow> env \<Rightarrow> (string, env) outcome" where
  "vault_env D choice E =
     (case choice of
        DevKeypair \<Rightarrow>
          (case insecure_new (dp_keypair D) of
             Ok kp \<Rightarrow>
               Ok (E\<lparr>on_public_key := (\<lambda>h. insecure_get_public_key (dp_keypair D) kp),
                     on_sign := (\<lambda>h. insecure_sign_message (dp_keypair D) kp)\<rparr>)
           | Err e \<Rightarrow> Err e
           | Panicked \<Rightarrow> Panicked)
      | Transit addr tok \<Rightarrow>
          (let client = client_after (dp_transit_lib D) (dp_vault D) (transit_client_new addr tok)
           in Ok (E\<lparr>on_public_key := (\<lambda>h name.
                       fst (transit_get_public_key (dp_transit_lib D) (dp_vault D h) (client h) name)),
                    on_sign := (\<lambda>h. transit_sign_message (dp_transit_lib D) (dp_vault D h) (client h))\<rparr>)))"

text \<open>The audit stores after a history: every append of the history, in order.\<close>

definition inmem_after :: "audit_lib \<Rightarrow> history \<Rightarrow> inmem_store" where
  "inmem_after L =
     replay (\<lambda>h e log. case e of EvAudit entry _ \<Rightarrow> snd (inmem_append L log entry) | _ \<Rightarrow> log) []"

definition pg_after :: "audit_lib \<Rightarrow> (history \<Rightarrow> pg_faults) \<Rightarrow> pg_table \<Rightarrow> history \<Rightarrow> pg_table" where
  "pg_after L P t =
     replay (\<lambda>h e t. case e of EvAudit entry _ \<Rightarrow> snd (pg_append L (P h) t entry) | _ \<Rightarrow> t) t"

definition audit_env :: "('svm, 'kp) deployment \<Rightarrow> audit_choice \<Rightarrow> env \<Rightarrow> env" where
  "audit_env D choice E =
     (case choice of
        PostgresAudit \<Rightarrow>
          E\<lparr>on_audit := (\<lambda>h entry. fst (pg_append (dp_audit_lib D) (dp_pg_faults D h)
              (pg_after (dp_audit_lib D) (dp_pg_faults D) (dp_pg_table D) h) entry))\<rparr>
      | InMemoryAudit \<Rightarrow>
          E\<lparr>on_audit := (\<lambda>h entry. fst (inmem_append (dp_audit_lib D) (inmem_after (dp_audit_lib D) h) entry))\<rparr>)"

text \<open>\<open>main\<close> up to the start of the servers: provider, signer, audit sink.\<close>

definition main_env ::
  "('svm, 'kp) deployment \<Rightarrow> config \<Rightarrow> process_env \<Rightarrow> env \<Rightarrow> (string, env) outcome" where
  "main_env D C V E =
     (case provider_env D (select_provider V) E of
        Ok E1 \<Rightarrow>
          (case vault_env D (select_vault C V) E1 of
             Ok E2 \<Rightarrow> Ok (audit_env D (select_audit (dp_pg_connect D) V) E2)
           | Err e \<Rightarrow> Err e
           | Panicked \<Rightarrow> Panicked)
      | Err e \<Rightarrow> Err e
      | Panicked \<Rightarrow> Panicked)"

section \<open>The blockhash refresh task\<close>

definition refresh_blockhash :: "env \<Rightarrow> unit io" where
  "refresh_blockhash E = do {
     r \<leftarrow> provider_latest_blockhash E;
     (case r of
        Inr (h, height) \<Rightarrow> blockhash_update h height
      | Inl _ \<Rightarrow> State_Monad.return ())
   }"

section \<open>The dead-letter monitor\<close>

text \<open>Every dead letter is counted and acknowledged; an error of the stream is only logged.\<close>

fun dlq_monitor :: "(string + string \<times> bytes) list \<Rightarrow> unit io" where
  "dlq_monitor [] = State_Monad.return ()"
| "dlq_monitor (Inr msg # rest) = do {
     track_operation ''dlq_dead_letter'' False;
     ack Ack;
     dlq_monitor rest
   }"
| "dlq_monitor (Inl e # rest) = dlq_monitor rest"

section \<open>The process\<close>

fun bridge_of :: "supervisor \<Rightarrow> bridge" where
  "bridge_of (Disconnected d b) = b"
| "bridge_of (InSession S) = se_bridge S"
| "bridge_of (Dead b) = b"

fun set_bridge :: "bridge \<Rightarrow> supervisor \<Rightarrow> supervisor" where
  "set_bridge b (Disconnected d _) = Disconnected d b"
| "set_bridge b (InSession S) = InSession (S\<lparr>se_bridge := b\<rparr>)"
| "set_bridge b (Dead _) = Dead b"

definition alive :: "supervisor \<Rightarrow> bool" where
  "alive T = (case T of Dead _ \<Rightarrow> False | _ \<Rightarrow> True)"

lemma bridge_of_set_bridge [simp]: "bridge_of (set_bridge b T) = b"
  by (cases T) simp_all

datatype system_input =
    RpcCall rpc_request header_map
  | RefreshTick
  | DeadLetters "(string + string \<times> bytes) list"
  | NatsInput supervisor_input

inductive system_step ::
  "externals \<Rightarrow> env \<Rightarrow> config \<Rightarrow> consumer \<Rightarrow> system_input \<Rightarrow> supervisor \<Rightarrow> supervisor \<Rightarrow> bool"
  for X E C N where
  rpc_served:
    "alive T \<Longrightarrow> run_state (serve_rpc X E C req hs) (bridge_of T) = (r, b) \<Longrightarrow> r \<noteq> Panicked \<Longrightarrow>
     system_step X E C N (RpcCall req hs) T (set_bridge b T)"
| rpc_panicked:
    "alive T \<Longrightarrow> run_state (serve_rpc X E C req hs) (bridge_of T) = (Panicked, b) \<Longrightarrow>
     system_step X E C N (RpcCall req hs) T (Dead b)"
| refreshed:
    "alive T \<Longrightarrow> run_state (refresh_blockhash E) (bridge_of T) = ((), b) \<Longrightarrow>
     system_step X E C N RefreshTick T (set_bridge b T)"
| dead_letters:
    "run_state (dlq_monitor msgs) (se_bridge S) = ((), b) \<Longrightarrow>
     system_step X E C N (DeadLetters msgs) (InSession S) (InSession (S\<lparr>se_bridge := b\<rparr>))"
| nats_stepped:
    "supervisor_step X E C N i T U \<Longrightarrow> system_step X E C N (NatsInput i) T U"

inductive system_run ::
  "externals \<Rightarrow> env \<Rightarrow> config \<Rightarrow> consumer \<Rightarrow> system_input list \<Rightarrow> supervisor \<Rightarrow> supervisor \<Rightarrow> bool"
  for X E C N where
  sys_nil: "system_run X E C N [] T T"
| sys_snoc:
    "system_run X E C N is S T \<Longrightarrow> system_step X E C N i T U \<Longrightarrow> system_run X E C N (is @ [i]) S U"

end
