(* ===== verification/Persistence_Chain.thy ===== *)
theory Persistence_Chain
  imports Solana_Providers
begin

text \<open>
  The providers of the persistence crate (crates/chain-bridge-persistence/src/solana_client.rs): its own
  \<open>RealSolanaProvider\<close> and \<open>SurfpoolSolanaProvider\<close>, which the port adapters wrap. They are written
  here statement by statement, the simulator as programs over the machine behind its lock (\<open>then_ok\<close> is
  the question mark), independently of the definitions for provider.rs; the theorems
  relate the two.
\<close>

section \<open>The real provider\<close>

text \<open>\<open>RpcClient::new\<close> reads at \<open>finalized\<close>.\<close>

definition port_provider_commitment :: commitment where
  "port_provider_commitment = CommitFinalized"

text \<open>\<open>opt.map(serde_json::to_value).transpose()\<close> and \<open>collect::<Result<Vec<_>, _>>()\<close>\<close>

definition transpose_value :: "('e + 'a) option \<Rightarrow> 'e + 'a option" where
  "transpose_value opt = (case opt of None \<Rightarrow> Inr None | Some r \<Rightarrow> map_sum id Some r)"

primrec collect_ok :: "('e + 'a) list \<Rightarrow> 'e + 'a list" where
  "collect_ok [] = Inr []"
| "collect_ok (r # rs) =
     (case r of Inl e \<Rightarrow> Inl e | Inr a \<Rightarrow> map_sum id ((#) a) (collect_ok rs))"

definition port_signature_statuses ::
  "custom_error \<Rightarrow> rpc_client \<Rightarrow> signature list \<Rightarrow> string + json option list" where
  "port_signature_statuses custom client sigs =
     (case rpc_statuses client sigs of
        Inl e \<Rightarrow> Inl e
      | Inr vs \<Rightarrow>
          map_sum (\<lambda>e. custom (''serialize signature status: '' @ e)) id
            (collect_ok (map transpose_value vs)))"

definition port_token_account_balance :: "custom_error \<Rightarrow> rpc_client \<Rightarrow> pubkey \<Rightarrow> string + json" where
  "port_token_account_balance custom client pk =
     (case rpc_token_balance client pk of
        Inl e \<Rightarrow> Inl e
      | Inr v \<Rightarrow> map_sum (\<lambda>e. custom (''serialize token balance: '' @ e)) id v)"

definition port_transaction :: "custom_error \<Rightarrow> rpc_client \<Rightarrow> signature \<Rightarrow> string + json" where
  "port_transaction custom client sig =
     (case rpc_transaction client sig of
        Inl e \<Rightarrow> Inl e
      | Inr v \<Rightarrow> map_sum (\<lambda>e. custom (''serialize transaction: '' @ e)) id v)"

definition port_epoch_info :: "rpc_client \<Rightarrow> string + full_epoch_info" where
  "port_epoch_info client =
     map_sum id (\<lambda>info.
       \<lparr>fe_absolute_slot = fe_absolute_slot info, fe_block_height = fe_block_height info,
        fe_epoch = fe_epoch info, fe_slots_in_epoch = fe_slots_in_epoch info,
        fe_slot_index = fe_slot_index info, fe_transaction_count = fe_transaction_count info\<rparr>)
       (rpc_epoch client)"

text \<open>\<open>impl SolanaProvider for RealSolanaProvider\<close>\<close>

definition port_real_env :: "custom_error \<Rightarrow> (history \<Rightarrow> node) \<Rightarrow> env \<Rightarrow> env" where
  "port_real_env custom nd E =
     (let client = (\<lambda>h. nd h port_provider_commitment) in
      E\<lparr>on_simulate := (\<lambda>h tx. rpc_simulate (client h) tx),
        on_send := (\<lambda>h tx. rpc_send (client h) tx),
        on_latest_blockhash := (\<lambda>h. rpc_latest_blockhash (client h)),
        on_balance := (\<lambda>h pk. rpc_balance (client h) pk),
        on_account := (\<lambda>h pk. map_sum id account_view (rpc_account (client h) pk)),
        on_fees := (\<lambda>h pks. rpc_fees (client h) pks),
        on_token_balance := (\<lambda>h pk. port_token_account_balance custom (client h) pk),
        on_statuses := (\<lambda>h sigs. port_signature_statuses custom (client h) sigs),
        on_slot := (\<lambda>h. rpc_slot (client h)),
        on_airdrop := (\<lambda>h pk lamports. rpc_airdrop (client h) pk lamports),
        on_transaction := (\<lambda>h sig. port_transaction custom (client h) sig),
        on_epoch := (\<lambda>h. map_sum id epoch_view (port_epoch_info (client h)))\<rparr>)"

lemma collect_transposed: "collect_ok (map transpose_value vs) = collect_statuses vs"
  by (induction vs rule: collect_statuses.induct) (auto simp: transpose_value_def split: sum.split)

lemma port_answers:
  "port_signature_statuses custom R sigs = real_signature_statuses custom R sigs"
  "port_token_account_balance custom R pk = real_token_account_balance custom R pk"
  "port_transaction custom R sig = real_transaction custom R sig"
  "port_epoch_info R = real_epoch_info R"
  by (auto simp: port_signature_statuses_def real_signature_statuses_def collect_transposed
      port_token_account_balance_def real_token_account_balance_def port_transaction_def
      real_transaction_def serialized_def port_epoch_info_def real_epoch_info_def split: sum.split)

lemma port_real_client:
  "port_real_env custom nd E = client_env custom (\<lambda>h. nd h port_provider_commitment) E"
  by (simp add: port_real_env_def client_env_def port_answers)

section \<open>Start-up of the simulator\<close>

definition port_programs :: "(string \<times> string) list" where
  "port_programs =
     [(''HZR6b8GhzhDowyL6dX58qBjdSDNtFyJHU5dPF3kXDcTS'', ''gridtokenx-anchor/target/deploy/registry.so''),
      (''GjSjmPt8VSHr49ti4BijWZSu7rwb8o32pod7gNBnTY4U'', ''gridtokenx-anchor/target/deploy/energy_token.so''),
      (''DXxHdUar3pUUKRnt4XAMA8rdYRpAsNY1xk3Zo4crShvY'', ''gridtokenx-anchor/target/deploy/trading.so''),
      (''AiWcoPDEk3G4iKrDXj1wCN1ffWxQDEsgtJZKcjauoFJr'', ''gridtokenx-anchor/target/deploy/oracle.so''),
      (''6FsfuFEg8LHjSiejc8om8Q6iSaAgfEWHCgz78PT8jocw'', ''gridtokenx-anchor/target/deploy/governance.so'')]"

definition parse_key :: "'svm svm_lib \<Rightarrow> string \<Rightarrow> ('svm, string + pubkey) state" where
  "parse_key L id_str = State_Monad.return (svm_pubkey_from_str L id_str)"

text \<open>\<open>let _ = svm.set_account(..)\<close>\<close>

definition place :: "'svm svm_lib \<Rightarrow> pubkey \<Rightarrow> account \<Rightarrow> ('svm, string + unit) state" where
  "place L pk a = do {
     _ \<leftarrow> State (\<lambda>svm. svm_set_account L svm pk a);
     succeed ()
   }"

primrec port_deploy_programs ::
  "'svm svm_lib \<Rightarrow> (string \<times> string) list \<Rightarrow> ('svm, string + unit) state" where
  "port_deploy_programs L [] = succeed ()"
| "port_deploy_programs L (p # ps) =
     then_ok (parse_key L (fst p)) (\<lambda>address. do {
       (case read_file L (snd p) of
          Some program_data \<Rightarrow>
            State_Monad.bind State_Monad.get
              (\<lambda>svm. State_Monad.set (svm_add_program L svm address program_data))
        | None \<Rightarrow> State_Monad.return ());
       port_deploy_programs L ps
     })"

text \<open>The account literals differ in the owner and the buffer.\<close>

definition port_account :: "pubkey \<Rightarrow> bytes \<Rightarrow> account" where
  "port_account owner buffer =
     \<lparr>a_lamports = 1000000000, a_data = buffer, a_owner = owner, a_executable = False, a_rent_epoch = 0\<rparr>"

text \<open>The accounts in the order of the source: the two mints, the registry and its shard, the token info.\<close>

definition port_place_mints :: "'svm svm_lib \<Rightarrow> pubkey \<Rightarrow> pubkey \<Rightarrow> ('svm, string + pubkey) state" where
  "port_place_mints L auth token_info_pda =
     then_ok (parse_key L ''TokenkegQfeZyiNwAJbNbGKPFXCWuBvf9Ss623VQ5DA'') (\<lambda>token_program.
     then_ok (parse_key L ''GpGDVgksF2ivMv3XXR4VZDXRmW9G6agA2AGkKUBQRzk6'') (\<lambda>mint.
       let buffer = replicate 82 0;
           buffer = write_slice 0 [1, 0, 0, 0] buffer;
           buffer = write_slice 4 token_info_pda buffer;
           buffer = buffer[44 := 9];
           buffer = buffer[45 := 1]
       in then_ok (place L mint (port_account token_program buffer)) (\<lambda>_.
     then_ok (parse_key L ''8BGFtQLRaY9Nh5BGUwjJvdeXEsscCgJAi5zTgALk1Vg5'') (\<lambda>currency.
       let buffer = replicate 82 0;
           buffer = write_slice 0 [1, 0, 0, 0] buffer;
           buffer = write_slice 4 auth buffer;
           buffer = buffer[44 := 6];
           buffer = buffer[45 := 1]
       in then_ok (place L currency (port_account token_program buffer)) (\<lambda>_. succeed mint)))))"

definition port_place_registry ::
  "'svm svm_lib \<Rightarrow> pubkey \<Rightarrow> pubkey \<Rightarrow> pubkey \<Rightarrow> ('svm, string + unit) state" where
  "port_place_registry L auth registry_program registry_pda =
     (let buffer = replicate 104 0;
          buffer = write_slice 0 [47, 174, 110, 246, 184, 182, 252, 218] buffer;
          buffer = write_slice 8 auth buffer
      in then_ok (place L registry_pda (port_account registry_program buffer)) (\<lambda>_.
      let shard_pda = find_program_address L [as_bytes ''registry_shard'', [0]] registry_program;
          shard = replicate 32 0;
          shard = write_slice 0 [98, 27, 121, 8, 54, 239, 169, 252] shard
      in place L shard_pda (port_account registry_program shard)))"

definition port_place_token_info ::
  "'svm svm_lib \<Rightarrow> pubkey \<Rightarrow> pubkey \<Rightarrow> pubkey \<Rightarrow> pubkey \<Rightarrow> pubkey \<Rightarrow> pubkey \<Rightarrow> ('svm, string + unit) state" where
  "port_place_token_info L auth registry_program energy_program registry_pda token_info_pda mint =
     (let buffer = replicate 320 0;
          buffer = write_slice 0 [109, 162, 52, 125, 77, 166, 37, 202] buffer;
          buffer = write_slice 8 auth buffer;
          buffer = write_slice 40 registry_pda buffer;
          buffer = write_slice 72 registry_program buffer;
          buffer = write_slice 104 mint buffer
      in place L token_info_pda (port_account energy_program buffer))"

definition port_deploy_core_programs :: "'svm svm_lib \<Rightarrow> ('svm, string + unit) state" where
  "port_deploy_core_programs L =
     then_ok (port_deploy_programs L port_programs) (\<lambda>_.
     then_ok (parse_key L ''EzudwoHvNPAc4dpPi5ndU8MEZVHVzq3Pj3Thm9ooKmiJ'') (\<lambda>auth.
     then_ok (parse_key L ''HZR6b8GhzhDowyL6dX58qBjdSDNtFyJHU5dPF3kXDcTS'') (\<lambda>registry_program.
     then_ok (parse_key L ''GjSjmPt8VSHr49ti4BijWZSu7rwb8o32pod7gNBnTY4U'') (\<lambda>energy_program.
       let registry_pda = find_program_address L [as_bytes ''registry''] registry_program;
           token_info_pda = find_program_address L [as_bytes ''token_info_2022''] energy_program
       in then_ok (port_place_mints L auth token_info_pda) (\<lambda>mint.
     then_ok (port_place_registry L auth registry_program registry_pda) (\<lambda>_.
       port_place_token_info L auth registry_program energy_program registry_pda token_info_pda mint))))))"

text \<open>\<open>SurfpoolSolanaProvider::new\<close>: the machine of a failed start-up is dropped.\<close>

definition port_surfpool_new :: "'svm svm_lib \<Rightarrow> string + 'svm" where
  "port_surfpool_new L =
     (case run_state (port_deploy_core_programs L) (svm_new L) of
        (Inl e, _) \<Rightarrow> Inl e
      | (Inr _, svm) \<Rightarrow> Inr svm)"

lemma run_start_up [simp]:
  "run_state (parse_key L t) svm = (svm_pubkey_from_str L t, svm)"
  "run_state (place L pk a) svm = (Inr (), put_account L pk a svm)"
  by (simp_all add: parse_key_def place_def put_account_def split: prod.split)

lemma port_account_is: "port_account owner buffer = owned_account owner buffer"
  by (simp add: port_account_def owned_account_def)

lemma port_deploy_programs_run:
  "deploy_programs L ps svm =
     (case run_state (port_deploy_programs L ps) svm of (Inl e, _) \<Rightarrow> Inl e | (Inr _, svm') \<Rightarrow> Inr svm')"
proof (induction ps arbitrary: svm)
  case (Cons p ps)
  then show ?case by (cases p) (simp split: sum.split option.split)
qed simp

lemmas port_start_defs = port_place_mints_def port_place_registry_def port_place_token_info_def
  port_account_is mint_image_def registry_image_def shard_image_def token_info_image_def

lemma port_start_up: "port_surfpool_new L = surfpool_new L"
proof -
  have programs: "port_programs = core_programs" by (simp add: port_programs_def core_programs_def)
  obtain r svm where "run_state (port_deploy_programs L core_programs) (svm_new L) = (r, svm)"
    by (cases "run_state (port_deploy_programs L core_programs) (svm_new L)")
  then show ?thesis
    unfolding port_surfpool_new_def surfpool_new_def port_deploy_core_programs_def deploy_core_programs_def
      programs port_deploy_programs_run
    by (cases r) (simp_all add: core_accounts_def port_start_defs Let_def split: sum.split)
qed

section \<open>The operations of the simulator\<close>

definition port_ensure_account ::
  "'svm svm_lib \<Rightarrow> rpc_client option \<Rightarrow> pubkey \<Rightarrow> ('svm, string + unit) state" where
  "port_ensure_account L rpc pk =
     then_ok (answered (\<lambda>svm. svm_get_account L svm pk)) (\<lambda>present.
       case (present, rpc) of
         (None, Some client) \<Rightarrow>
           then_ok (State_Monad.return (rpc_account client pk)) (\<lambda>a.
             with_error (svm_custom_error L) (State (\<lambda>svm. svm_set_account L svm pk
               \<lparr>a_lamports = a_lamports a, a_data = a_data a, a_owner = a_owner a,
                a_executable = a_executable a, a_rent_epoch = a_rent_epoch a\<rparr>)))
       | _ \<Rightarrow> succeed ())"

text \<open>The two loops before a simulation; \<open>account_keys.get(..)\<close> skips an index out of range.\<close>

primrec port_ensure_keys ::
  "'svm svm_lib \<Rightarrow> rpc_client option \<Rightarrow> pubkey list \<Rightarrow> u8 list \<Rightarrow> ('svm, string + unit) state" where
  "port_ensure_keys L rpc keys [] = succeed ()"
| "port_ensure_keys L rpc keys (key_idx # rest) =
     then_ok (if unat key_idx < length keys then port_ensure_account L rpc (keys ! unat key_idx) else succeed ())
       (\<lambda>_. port_ensure_keys L rpc keys rest)"

primrec port_ensure_instructions ::
  "'svm svm_lib \<Rightarrow> rpc_client option \<Rightarrow> pubkey list \<Rightarrow> compiled_instruction list \<Rightarrow> ('svm, string + unit) state" where
  "port_ensure_instructions L rpc keys [] = succeed ()"
| "port_ensure_instructions L rpc keys (ix # rest) =
     then_ok (port_ensure_keys L rpc keys (accounts ix)) (\<lambda>_. port_ensure_instructions L rpc keys rest)"

text \<open>The conversion through the wire format, written out in both callers.\<close>

definition port_versioned :: "'svm svm_lib \<Rightarrow> transaction \<Rightarrow> ('svm, string + bytes) state" where
  "port_versioned L tx =
     then_ok (with_error (svm_custom_error L) (State_Monad.return (vtx_serialize L tx))) (\<lambda>bs.
     then_ok (with_error (svm_custom_error L) (State_Monad.return (vtx_deserialize L bs))) (\<lambda>_.
       succeed bs))"

definition port_surfpool_simulate ::
  "'svm svm_lib \<Rightarrow> rpc_client option \<Rightarrow> transaction \<Rightarrow> ('svm, string + sim_result) state" where
  "port_surfpool_simulate L rpc tx =
     then_ok (port_ensure_instructions L rpc (account_keys (message tx)) (instructions (message tx))) (\<lambda>_.
     then_ok (port_versioned L tx) (\<lambda>versioned_tx.
     then_ok (with_error (svm_custom_error L) (do {
         svm \<leftarrow> State_Monad.get;
         State_Monad.return (svm_simulate L svm versioned_tx)
       })) (\<lambda>meta.
       succeed \<lparr>sim_err = None, sim_logs = Some (fst meta), units_consumed = Some (snd meta)\<rparr>)))"

definition port_fund_payer :: "'svm svm_lib \<Rightarrow> pubkey list \<Rightarrow> ('svm, string + unit) state" where
  "port_fund_payer L keys =
     (if keys = [] then succeed ()
      else
        then_ok (answered (\<lambda>svm. case svm_get_balance L svm (hd keys) of Some b \<Rightarrow> b | None \<Rightarrow> 0)) (\<lambda>balance.
          if balance < 1000000000
          then with_error (svm_custom_error L) (State (\<lambda>svm. svm_airdrop L svm (hd keys) 10000000000))
          else succeed ()))"

definition port_surfpool_send :: "'svm svm_lib \<Rightarrow> transaction \<Rightarrow> ('svm, string + signature) state" where
  "port_surfpool_send L tx =
     then_ok (port_fund_payer L (account_keys (message tx))) (\<lambda>_.
       let signature = (if signatures tx = [] then default_signature else hd (signatures tx)) in
       then_ok (port_versioned L tx) (\<lambda>versioned_tx.
       then_ok (with_error (svm_custom_error L) (State (\<lambda>svm. svm_send L svm versioned_tx))) (\<lambda>_.
         succeed signature)))"

definition port_surfpool_blockhash :: "'svm svm_lib \<Rightarrow> ('svm, string + hash \<times> u64) state" where
  "port_surfpool_blockhash L = answered (\<lambda>svm. (svm_latest_blockhash L svm, 1000))"

definition port_surfpool_balance ::
  "'svm svm_lib \<Rightarrow> rpc_client option \<Rightarrow> pubkey \<Rightarrow> ('svm, string + u64) state" where
  "port_surfpool_balance L rpc pk =
     then_ok (port_ensure_account L rpc pk) (\<lambda>_.
       answered (\<lambda>svm. case svm_get_balance L svm pk of Some b \<Rightarrow> b | None \<Rightarrow> 0))"

definition port_surfpool_account ::
  "'svm svm_lib \<Rightarrow> rpc_client option \<Rightarrow> pubkey \<Rightarrow> ('svm, string + account) state" where
  "port_surfpool_account L rpc pk =
     then_ok (port_ensure_account L rpc pk) (\<lambda>_.
     then_ok (answered (\<lambda>svm. svm_get_account L svm pk)) (\<lambda>found.
       case found of
         None \<Rightarrow> State_Monad.return (Inl (svm_custom_error L ''Account not found''))
       | Some a \<Rightarrow>
           succeed \<lparr>a_lamports = a_lamports a, a_data = a_data a, a_owner = a_owner a,
                    a_executable = a_executable a, a_rent_epoch = a_rent_epoch a\<rparr>))"

definition port_surfpool_token_balance :: json where
  "port_surfpool_token_balance =
     JObject [(''amount'', JString ''1000000000''), (''decimals'', JUInt 9),
              (''uiAmount'', JFloat 0x3FF0000000000000)]"

definition port_surfpool_statuses :: "signature list \<Rightarrow> string + json option list" where
  "port_surfpool_statuses sigs =
     Inr [Some (JObject [(''slot'', JUInt 0), (''confirmations'', JUInt 1), (''err'', JNull),
                         (''confirmationStatus'', JString ''finalized'')]). _ \<leftarrow> sigs]"

definition port_surfpool_airdrop ::
  "'svm svm_lib \<Rightarrow> pubkey \<Rightarrow> u64 \<Rightarrow> ('svm, string + signature) state" where
  "port_surfpool_airdrop L pk lamports =
     then_ok (with_error (svm_custom_error L) (State (\<lambda>svm. svm_airdrop L svm pk lamports))) (\<lambda>_.
       succeed default_signature)"

definition port_surfpool_epoch_info :: full_epoch_info where
  "port_surfpool_epoch_info =
     \<lparr>fe_absolute_slot = 100, fe_block_height = 100, fe_epoch = 1, fe_slots_in_epoch = 432000,
      fe_slot_index = 100, fe_transaction_count = Some 1000\<rparr>"

text \<open>The machine after a history, and \<open>impl SolanaProvider for SurfpoolSolanaProvider\<close>.\<close>

definition port_svm_step :: "'svm svm_lib \<Rightarrow> rpc_client option \<Rightarrow> event \<Rightarrow> 'svm \<Rightarrow> 'svm" where
  "port_svm_step L rpc e svm =
     (case e of
        EvSimulate tx _ \<Rightarrow> snd (run_state (port_surfpool_simulate L rpc tx) svm)
      | EvSend tx _ \<Rightarrow> snd (run_state (port_surfpool_send L tx) svm)
      | EvBalance pk _ \<Rightarrow> snd (run_state (port_surfpool_balance L rpc pk) svm)
      | EvAccount pk _ \<Rightarrow> snd (run_state (port_surfpool_account L rpc pk) svm)
      | EvAirdrop pk lamports _ \<Rightarrow> snd (run_state (port_surfpool_airdrop L pk lamports) svm)
      | _ \<Rightarrow> svm)"

definition port_surfpool_env ::
  "'svm svm_lib \<Rightarrow> (history \<Rightarrow> rpc_client option) \<Rightarrow> 'svm \<Rightarrow> env \<Rightarrow> env" where
  "port_surfpool_env L rpc svm0 E =
     (let svm = replay (\<lambda>h. port_svm_step L (rpc h)) svm0 in
      E\<lparr>on_simulate := (\<lambda>h tx. fst (run_state (port_surfpool_simulate L (rpc h) tx) (svm h))),
        on_send := (\<lambda>h tx. fst (run_state (port_surfpool_send L tx) (svm h))),
        on_latest_blockhash := (\<lambda>h. fst (run_state (port_surfpool_blockhash L) (svm h))),
        on_balance := (\<lambda>h pk. fst (run_state (port_surfpool_balance L (rpc h) pk) (svm h))),
        on_account := (\<lambda>h pk. map_sum id account_view (fst (run_state (port_surfpool_account L (rpc h) pk) (svm h)))),
        on_fees := (\<lambda>h pks. Inr []),
        on_token_balance := (\<lambda>h pk. Inr port_surfpool_token_balance),
        on_statuses := (\<lambda>h sigs. port_surfpool_statuses sigs),
        on_slot := (\<lambda>h. Inr 0),
        on_airdrop := (\<lambda>h pk lamports. fst (run_state (port_surfpool_airdrop L pk lamports) (svm h))),
        on_transaction := (\<lambda>h sig. Inr (JObject [])),
        on_epoch := (\<lambda>h. Inr (epoch_view port_surfpool_epoch_info))\<rparr>)"

section \<open>Agreement with the provider of the service\<close>

lemma account_rebuilt [simp]:
  "\<lparr>a_lamports = a_lamports a, a_data = a_data a, a_owner = a_owner a, a_executable = a_executable a,
    a_rent_epoch = a_rent_epoch a\<rparr> = (a :: account)"
  by (cases a) simp

lemma port_ensure_account_run:
  "run_state (port_ensure_account L rpc pk) svm = ensure_account L rpc svm pk"
  by (auto simp: port_ensure_account_def ensure_account_def split: option.split sum.split prod.split)

lemma port_ensure_keys_run:
  "run_state (port_ensure_keys L rpc keys is) svm =
     ensure_accounts L rpc svm (map (\<lambda>i. keys ! unat i) (filter (\<lambda>i. unat i < length keys) is))"
  by (induction "is" arbitrary: svm) (simp_all add: port_ensure_account_run split: prod.split sum.split)

lemma ensure_accounts_append:
  "ensure_accounts L rpc svm (ps @ qs) =
     (case ensure_accounts L rpc svm ps of
        (Inl e, svm') \<Rightarrow> (Inl e, svm')
      | (Inr _, svm') \<Rightarrow> ensure_accounts L rpc svm' qs)"
  by (induction ps arbitrary: svm) (simp_all split: prod.split sum.split)

text \<open>The two loops visit the keys of the flattened list.\<close>

lemma port_ensure_instructions_run:
  "run_state (port_ensure_instructions L rpc keys ixs) svm =
     ensure_accounts L rpc svm
       (map (\<lambda>i. keys ! unat i) (filter (\<lambda>i. unat i < length keys) (concat (map accounts ixs))))"
  by (induction ixs arbitrary: svm) (simp_all add: port_ensure_keys_run ensure_accounts_append
      split: prod.split sum.split)

lemma port_versioned_run: "run_state (port_versioned L tx) svm = (versioned L tx, svm)"
  by (simp add: port_versioned_def versioned_def split: sum.split)

lemma port_fund_payer_run: "run_state (port_fund_payer L (account_keys (message tx))) svm = fund_payer L svm tx"
  by (auto simp: port_fund_payer_def fund_payer_def Let_def neq_Nil_conv
      split: list.split sum.split prod.split)

lemmas port_op_runs = port_ensure_account_run port_ensure_instructions_run port_versioned_run
  port_fund_payer_run

lemma port_surfpool_runs:
  "run_state (port_surfpool_simulate L rpc tx) svm = surfpool_simulate L rpc svm tx"
  "run_state (port_surfpool_send L tx) svm = surfpool_send L svm tx"
  "run_state (port_surfpool_blockhash L) svm = (surfpool_latest_blockhash L svm, svm)"
  "run_state (port_surfpool_balance L rpc pk) svm = surfpool_balance L rpc svm pk"
  "run_state (port_surfpool_account L rpc pk) svm = surfpool_account L rpc svm pk"
  "run_state (port_surfpool_airdrop L pk lamports) svm = surfpool_airdrop L svm pk lamports"
  by (simp_all add: port_surfpool_simulate_def surfpool_simulate_def instruction_keys_def Let_def
      port_surfpool_send_def surfpool_send_def port_surfpool_blockhash_def surfpool_latest_blockhash_def
      port_surfpool_balance_def surfpool_balance_def port_surfpool_account_def surfpool_account_def
      port_surfpool_airdrop_def surfpool_airdrop_def port_op_runs
      split: prod.split sum.split list.split option.split)

lemma port_constants:
  "port_surfpool_token_balance = surfpool_token_account_balance"
  "port_surfpool_statuses sigs = surfpool_signature_statuses sigs"
  "port_surfpool_epoch_info = surfpool_epoch_info"
  by (simp_all add: port_surfpool_token_balance_def surfpool_token_account_balance_def
      port_surfpool_statuses_def surfpool_signature_statuses_def surfpool_status_def
      port_surfpool_epoch_info_def surfpool_epoch_info_def)

lemma port_svm_step_is: "port_svm_step L rpc = svm_step L rpc"
  by (intro ext) (simp add: port_svm_step_def svm_step_def port_surfpool_runs split: event.split)

lemma port_surfpool_env_is: "port_surfpool_env L rpc svm E = surfpool_env L rpc svm E"
  by (simp add: port_surfpool_env_def surfpool_env_def svm_after_def port_svm_step_is port_surfpool_runs
      port_constants Let_def)

text \<open>C24: the two copies of the Solana providers agree. The persistence crate's simulator starts up as the
  service's does, accounts, programs and failures included, and after every history of calls it gives
  every operation the same answer and the same effect on the machine; the persistence crate's cluster
  provider is the service's, except that it reads at \<open>finalized\<close> where the service reads at \<open>confirmed\<close>.\<close>

theorem persistence_providers_agree:
  "port_surfpool_new L = surfpool_new L \<and>
   port_surfpool_env L rpc svm E = surfpool_env L rpc svm E \<and>
   port_real_env custom nd E = real_env custom (\<lambda>h _. nd h CommitFinalized) E \<and>
   real_env custom nd E = real_env custom (\<lambda>h _. nd h CommitConfirmed) E"
  by (simp add: port_start_up port_surfpool_env_is port_real_client real_env_def
      port_provider_commitment_def real_provider_commitment_def)

end
