(* ===== verification/Port_Adapters.thy ===== *)
theory Port_Adapters
  imports Bridge_System Persistence_Chain
begin

text \<open>
  The adapters of the persistence crate behind the ports of the core crate (ports.rs):
  \<open>ChainClientPort\<close> (solana_client.rs) and \<open>PreSignSimulatorPort\<close> (litesvm_sim.rs), each for the
  cluster and for the simulator. The locale \<open>submit_port\<close> is what a client of the two ports may
  rely on; both adapters are interpreted in it.
\<close>

section \<open>The ports\<close>

record chain_client =
  cc_latest_blockhash :: "history \<Rightarrow> chain_bridge_error + hash \<times> u64"
  cc_send_transaction :: "history \<Rightarrow> transaction \<Rightarrow> chain_bridge_error + signature \<times> u64"
  cc_simulate :: "history \<Rightarrow> transaction \<Rightarrow> chain_bridge_error + simulation_outcome"

text \<open>The wrappers, generic in the provider.\<close>

definition chain_client_of :: "env \<Rightarrow> chain_client" where
  "chain_client_of E =
     \<lparr>cc_latest_blockhash = (\<lambda>h. port_latest_blockhash (on_latest_blockhash E h)),
      cc_send_transaction = (\<lambda>h tx. port_send_transaction (on_send E h tx)),
      cc_simulate = (\<lambda>h tx. port_simulate (on_simulate E h tx))\<rparr>"

definition real_chain_client :: "custom_error \<Rightarrow> (history \<Rightarrow> node) \<Rightarrow> env \<Rightarrow> chain_client" where
  "real_chain_client custom nd E = chain_client_of (port_real_env custom nd E)"

definition surfpool_chain_client ::
  "'svm svm_lib \<Rightarrow> (history \<Rightarrow> rpc_client option) \<Rightarrow> 'svm \<Rightarrow> env \<Rightarrow> chain_client" where
  "surfpool_chain_client L rpc svm E = chain_client_of (port_surfpool_env L rpc svm E)"

section \<open>The contract of the ports\<close>

locale submit_port =
  fixes cc :: chain_client
    and E :: env
  assumes blockhash_answer: "cc_latest_blockhash cc h = map_sum ChainClient id (on_latest_blockhash E h)"
    and send_answer: "cc_send_transaction cc h tx = map_sum ChainClient (\<lambda>sig. (sig, 0)) (on_send E h tx)"
    and simulate_error: "cc_simulate cc h tx = Inl x \<longleftrightarrow> (\<exists>e. x = Simulation e \<and> on_simulate E h tx = Inl e)"
    and simulate_verdict: "cc_simulate cc h tx = Inr out \<Longrightarrow>
      \<exists>r. on_simulate E h tx = Inr r \<and> so_error out = sim_err r \<and> (so_success out \<longleftrightarrow> sim_err r = None)"
begin

text \<open>Every error of the ports may be retried.\<close>

lemma port_errors_transient:
  "cc_latest_blockhash cc h = Inl x \<or> cc_send_transaction cc h tx = Inl x \<or> cc_simulate cc h tx = Inl x \<Longrightarrow>
   is_transient x"
  using blockhash_answer [of h] send_answer [of h tx] simulate_error [of h tx x]
  by (auto simp: map_sum_def split: sum.splits)

text \<open>A transaction counts as submitted exactly when the provider took it, under its signature.\<close>

lemma port_send_ok: "cc_send_transaction cc h tx = Inr (sig, slot) \<longleftrightarrow> on_send E h tx = Inr sig \<and> slot = 0"
  unfolding send_answer by (cases "on_send E h tx") auto

end

lemma chain_client_of_contract: "submit_port (chain_client_of E) E"
  by unfold_locales
    (auto simp: chain_client_of_def port_latest_blockhash_def port_send_transaction_def port_simulate_def
      split: sum.splits)

interpretation real_port: submit_port "real_chain_client custom nd E" "port_real_env custom nd E"
  for custom nd E
  unfolding real_chain_client_def by (rule chain_client_of_contract)

interpretation surfpool_port: submit_port "surfpool_chain_client L rpc svm E" "surfpool_env L rpc svm E"
  for L rpc svm E
  unfolding surfpool_chain_client_def port_surfpool_env_is by (rule chain_client_of_contract)

text \<open>
  On the cluster the ports answer what a node says at \<open>finalized\<close>; on the simulator no simulation
  ever answers with \<open>success: false\<close>, because a failing one is an error of the call.
\<close>

lemma real_port_send:
  "cc_send_transaction (real_chain_client custom nd E) h tx = Inr (sig, slot) \<longleftrightarrow>
   rpc_send (nd h CommitFinalized) tx = Inr sig \<and> slot = 0"
  unfolding real_port.port_send_ok
  by (simp add: port_real_client client_env_def port_provider_commitment_def)

lemma surfpool_port_never_refuses:
  assumes "cc_simulate (surfpool_chain_client L rpc svm E) h tx = Inr out"
  shows "so_success out"
  using surfpool_port.simulate_verdict [OF assms] by (auto dest: simnet_simulation_passes)

section \<open>The blockhash cache\<close>

text \<open>The persistence crate's \<open>BlockhashCache\<close>; the cache of the process behaves like it.\<close>

type_synonym port_cache = "(hash \<times> u64) option"

definition port_cache_new :: port_cache where
  "port_cache_new = None"

definition port_cache_update :: "hash \<Rightarrow> u64 \<Rightarrow> (port_cache, unit) state" where
  "port_cache_update h last_valid_block_height = State_Monad.set (Some (h, last_valid_block_height))"

definition port_cache_get :: "(port_cache, (hash \<times> u64) option) state" where
  "port_cache_get = State_Monad.get"

lemma cache_refines_port_cache:
  "run_state (port_cache_update h height) (blockhash_cache s) = ((), blockhash_cache (final_of (blockhash_update h height) s))"
  "run_state port_cache_get (blockhash_cache s) =
     (result_of blockhash_get s, blockhash_cache (final_of blockhash_get s))"
  by (simp_all add: port_cache_update_def port_cache_get_def blockhash_update_def blockhash_get_def)

end
