(* ===== verification/Persistence_Signer.thy ===== *)
theory Persistence_Signer
  imports Vault_Client
begin

text \<open>
  The signers of the persistence crate (crates/chain-bridge-persistence/src/vault_signer.rs): its own
  \<open>VaultTransitClient\<close> and \<open>InsecureKeypairProvider\<close>, written statement by statement as programs over
  the client with its key cache, and the \<open>SignerPort\<close> wrappers over them. The theorem relates them to the
  definitions for vault.rs; the port is interpreted in the locale \<open>signer\<close>.
\<close>

section \<open>The transit client\<close>

text \<open>\<open>send().await?.error_for_status().context(..)?\<close>, then \<open>json().await?\<close>.\<close>

definition fetched :: "string \<Rightarrow> 'a http_answer \<Rightarrow> ('s, string + 'a) state" where
  "fetched context_text answer =
     (case answer of
        SendError e \<Rightarrow> State_Monad.return (Inl e)
      | StatusError _ \<Rightarrow> State_Monad.return (Inl context_text)
      | JsonError e \<Rightarrow> State_Monad.return (Inl e)
      | JsonBody body \<Rightarrow> succeed body)"

text \<open>\<open>ok_or_else\<close> and \<open>map_err(|_| ..)\<close> with a fixed text.\<close>

definition or_fail :: "string \<Rightarrow> 'a option \<Rightarrow> ('s, string + 'a) state" where
  "or_fail txt x = (case x of None \<Rightarrow> State_Monad.return (Inl txt) | Some a \<Rightarrow> succeed a)"

definition port_get_public_key ::
  "transit_lib \<Rightarrow> transit_server \<Rightarrow> string \<Rightarrow> (transit_client, string + pubkey) state" where
  "port_get_public_key L S key_name =
     then_ok (answered id) (\<lambda>V.
       case tc_key_cache V key_name of
         Some pk \<Rightarrow> succeed pk
       | None \<Rightarrow>
           then_ok (fetched ''Failed to fetch key from Vault''
             (get_keys S (tc_address V @ ''/v1/transit/keys/'' @ key_name) (tc_token V))) (\<lambda>ks.
           then_ok (or_fail (''No keys found for '' @ key_name)
             (if ks = [] then None else Some (snd (hd ks)))) (\<lambda>pubkey_b64.
           then_ok (with_error (\<lambda>_. ''Invalid base64 in public_key'')
             (State_Monad.return (b64_decode L pubkey_b64))) (\<lambda>pubkey_bytes.
           then_ok (or_fail ''Invalid public key bytes length'' (pubkey_try_from L pubkey_bytes)) (\<lambda>pk. do {
             V' \<leftarrow> State_Monad.get;
             State_Monad.set (V'\<lparr>tc_key_cache := (tc_key_cache V')(key_name \<mapsto> pk)\<rparr>);
             succeed pk
           })))))"

definition port_sign_message ::
  "transit_lib \<Rightarrow> transit_server \<Rightarrow> string \<Rightarrow> bytes \<Rightarrow> (transit_client, string + signature) state" where
  "port_sign_message L S key_name msg =
     then_ok (answered id) (\<lambda>V.
     then_ok (fetched ''Vault Transit sign request failed''
       (post_sign S (tc_address V @ ''/v1/transit/sign/'' @ key_name) (tc_token V) (b64_encode L msg))) (\<lambda>sig_text.
     let sig_parts = split_on (CHR '':'') sig_text in
     then_ok (or_fail ''Malformed signature format from Vault''
       (if sig_parts = [] then None else Some (last sig_parts))) (\<lambda>sig_b64.
     then_ok (with_error (\<lambda>_. ''Invalid base64 in signature'')
       (State_Monad.return (b64_decode L sig_b64))) (\<lambda>sig_bytes.
     or_fail ''Invalid signature length from Vault'' (signature_try_from L sig_bytes)))))"

text \<open>\<open>VaultTransitClient::new\<close>\<close>

definition port_transit_new :: "string \<Rightarrow> string \<Rightarrow> transit_client" where
  "port_transit_new address tok = \<lparr>tc_address = address, tc_token = tok, tc_key_cache = Map.empty\<rparr>"

section \<open>The development keypair\<close>

definition port_dev_keypair_bytes :: bytes where
  "port_dev_keypair_bytes =
     [241, 3, 15, 11, 59, 189, 0, 251, 20, 183, 69, 181, 3, 24, 241, 148, 23, 179, 177, 88,
      214, 187, 29, 157, 2, 66, 127, 53, 53, 185, 21, 209, 207, 253, 141, 144, 58, 192, 105,
      53, 193, 102, 73, 89, 250, 146, 246, 181, 133, 48, 6, 16, 231, 20, 229, 155, 54, 191,
      88, 204, 36, 39, 161, 251]"

definition port_insecure_new :: "'kp keypair_lib \<Rightarrow> (string, 'kp) outcome" where
  "port_insecure_new K =
     (case keypair_try_from K port_dev_keypair_bytes of None \<Rightarrow> Panicked | Some kp \<Rightarrow> Ok kp)"

definition port_insecure_public_key :: "'kp keypair_lib \<Rightarrow> 'kp \<Rightarrow> string \<Rightarrow> string + pubkey" where
  "port_insecure_public_key K kp key_name = Inr (keypair_pubkey K kp)"

definition port_insecure_sign :: "'kp keypair_lib \<Rightarrow> 'kp \<Rightarrow> string \<Rightarrow> bytes \<Rightarrow> string + signature" where
  "port_insecure_sign K kp key_name msg = Inr (keypair_sign K kp msg)"

section \<open>The signer port\<close>

definition signer_error :: "string + 'a \<Rightarrow> chain_bridge_error + 'a" where
  "signer_error r = (case r of Inl e \<Rightarrow> Inl (Signer e) | Inr a \<Rightarrow> Inr a)"

definition transit_port_public_key ::
  "transit_lib \<Rightarrow> transit_server \<Rightarrow> transit_client \<Rightarrow> string \<Rightarrow>
   (chain_bridge_error + pubkey) \<times> transit_client" where
  "transit_port_public_key L S V key_name =
     (case run_state (port_get_public_key L S key_name) V of (r, V') \<Rightarrow> (signer_error r, V'))"

definition transit_port_sign_message ::
  "transit_lib \<Rightarrow> transit_server \<Rightarrow> transit_client \<Rightarrow> string \<Rightarrow> bytes \<Rightarrow>
   (chain_bridge_error + signature) \<times> transit_client" where
  "transit_port_sign_message L S V key_name msg =
     (case run_state (port_sign_message L S key_name msg) V of (r, V') \<Rightarrow> (signer_error r, V'))"

definition insecure_port_public_key ::
  "'kp keypair_lib \<Rightarrow> 'kp \<Rightarrow> string \<Rightarrow> chain_bridge_error + pubkey" where
  "insecure_port_public_key K kp key_name = signer_error (port_insecure_public_key K kp key_name)"

definition insecure_port_sign_message ::
  "'kp keypair_lib \<Rightarrow> 'kp \<Rightarrow> string \<Rightarrow> bytes \<Rightarrow> chain_bridge_error + signature" where
  "insecure_port_sign_message K kp key_name msg = signer_error (port_insecure_sign K kp key_name msg)"

section \<open>Agreement with the signers of the service\<close>

lemma run_steps [simp]:
  "run_state (fetched c answer) s = (body_or c answer, s)"
  "run_state (or_fail t x) s = (case x of None \<Rightarrow> Inl t | Some a \<Rightarrow> Inr a, s)"
  by (simp_all add: fetched_def body_or_def or_fail_def split: http_answer.split option.split)

lemma port_get_public_key_run:
  "run_state (port_get_public_key L S key_name) V = transit_get_public_key L S V key_name"
  by (auto simp: port_get_public_key_def transit_get_public_key_def transit_pubkey_def run_state_cases
      neq_Nil_conv split: option.split sum.split list.split)

lemma port_sign_message_run:
  "run_state (port_sign_message L S key_name msg) V = (transit_sign_message L S V key_name msg, V)"
  by (simp add: port_sign_message_def transit_sign_message_def transit_signature_def Let_def
      split: option.split sum.split)

lemma port_signer_error: "signer_error r = map_sum Signer id r"
  by (simp add: signer_error_def split: sum.split)

interpretation transit_port: signer "transit_port_public_key L" tc_key_cache
  by unfold_locales
    (auto simp: transit_port_public_key_def port_get_public_key_run transit_get_public_key_def
      port_signer_error split: option.splits sum.splits)

text \<open>C25: the signer port answers what the service's own signer would. For the transit client and for the
  development keypair, every key request and every signature through the port gives the key, the signature
  or the error text of the service's provider, the text under \<open>Signer\<close>, with the same effect on the key
  cache; both clients start with the same state and both keypairs from the same bytes.\<close>

theorem signer_port_agrees:
  "transit_port_public_key L S V name = apfst (map_sum Signer id) (transit_get_public_key L S V name) \<and>
   transit_port_sign_message L S V name msg = (map_sum Signer id (transit_sign_message L S V name msg), V) \<and>
   insecure_port_public_key K kp name = map_sum Signer id (insecure_get_public_key K kp name) \<and>
   insecure_port_sign_message K kp name msg = map_sum Signer id (insecure_sign_message K kp name msg) \<and>
   port_transit_new address tok = transit_client_new address tok \<and> port_insecure_new K = insecure_new K"
  by (simp add: transit_port_public_key_def transit_port_sign_message_def port_get_public_key_run
      port_sign_message_run port_signer_error insecure_port_public_key_def insecure_port_sign_message_def
      port_insecure_public_key_def insecure_get_public_key_def port_insecure_sign_def
      insecure_sign_message_def port_transit_new_def transit_client_new_def port_insecure_new_def
      insecure_new_def port_dev_keypair_bytes_def dev_keypair_bytes_def split: prod.split)

end
