(* ===== verification/System_Properties.thy ===== *)
theory System_Properties
  imports Bridge_System Store_Properties
begin

text \<open>
  Properties of the whole process: nothing is signed or sent except for an input that passed its
  guards, who writes the blockhash cache and what, what the audit stores hold, and what a NATS reconnect
  forgets.
\<close>

section \<open>Effects of a step\<close>


text \<open>Handlers leave whatever depends on neither the trace nor the two maps.\<close>

lemma keeps_message_frame:
  assumes "retry_contract (cn_retry N)" "trace_free I"
    and "\<And>s f. I s \<Longrightarrow> I (s\<lparr>idempotency_cache := f\<rparr>)" "\<And>s f. I s \<Longrightarrow> I (s\<lparr>dedup_store := f\<rparr>)"
  shows "keeps I (\<lambda>_. True) (handle_message X E C N subject payload)"
proof -
  have writes: "keeps I P (idempotency_insert k x)"
    "keeps I P (modify (\<lambda>s. s\<lparr>dedup_store := f s\<rparr>))"
    "keeps I P (dedup_claim key corr now)" for P k x f key corr now
    by (simp_all add: keeps_def idempotency_insert_def dedup_claim_def split_beta assms(3,4))
  show ?thesis
    unfolding handle_message_def handle_submit_def submit_admit_def submit_fresh_def
      submit_check_def submit_claim_def submit_execute_def handle_cancel_def cancel_admit_def
      handle_mint_def mint_admit_def mint_fresh_def mint_claim_def mint_execute_def handle_status_def
    by (intro keeps_now [OF assms(2)] keeps_rules keeps_parts [OF assms(2)] writes
        keeps_pipelines [OF assms(2,1)]) simp_all
qed


text \<open>
  \<open>adds P s s'\<close>: the trace of \<open>s'\<close> is that of \<open>s\<close> followed by events that satisfy \<open>P\<close>.
\<close>

definition adds :: "(event \<Rightarrow> bool) \<Rightarrow> bridge \<Rightarrow> bridge \<Rightarrow> bool" where
  "adds P s s' \<longleftrightarrow> (\<exists>evs. trace s' = trace s @ evs \<and> (\<forall>e\<in>set evs. P e))"

lemma adds_refl [simp]: "adds P s s"
  by (simp add: adds_def)






lemma emits_dlq_monitor: "emits (\<lambda>e. \<not> is_effect e) (dlq_monitor msgs)"
  by (induction msgs rule: dlq_monitor.induct)
    (simp_all add: emits_return track_operation_def ack_def emits_bind emits_emit)



lemma emits_serve_rpc: "emits (\<lambda>_. True) (serve_rpc X E C req hs)"
proof (cases "\<exists>raw key. req = SubmitTransaction raw key")
  case True
  then show ?thesis by (auto intro!: emits_respond emits_submit_transaction)
next
  case False
  then show ?thesis by (rule emits_mono [OF read_requests_emit]) simp
qed










section \<open>The cached blockhash\<close>

lemma message_keeps_cache:
  assumes "retry_contract (cn_retry N)"
    and "run_state (handle_message X E C N subject payload) s = (r, s')"
  shows "blockhash_cache s' = blockhash_cache s"
proof -
  have "keeps (\<lambda>s'. blockhash_cache s' = blockhash_cache s) (\<lambda>_. True)
      (handle_message X E C N subject payload)"
    by (rule keeps_message_frame [OF assms(1)]) (simp_all add: trace_free_def)
  from keepsD(1) [OF this, of s] assms(2) show ?thesis by simp
qed

lemma session_step_cache:
  assumes "retry_contract (cn_retry N)" "session_step X E C N i S R"
  shows "blockhash_cache (case R of Inr S' \<Rightarrow> se_bridge S' | Inl (Returned e b) \<Rightarrow> b
      | Inl (ProcessAborted b) \<Rightarrow> b) = blockhash_cache (se_bridge S)"
  using assms(2)
proof cases
  case (stream_opened w answer ws b)
  then show ?thesis
    by (cases answer) (auto simp: open_stream_ok open_stream_failed slept_def split: if_splits)
next
  case (stream_lost w answer e b)
  then show ?thesis
    by (cases answer) (auto simp: open_stream_ok open_stream_failed split: if_splits)
next
  case (message_handled w subject payload b)
  then show ?thesis using message_keeps_cache [OF assms(1)] by simp
next
  case (message_aborted w subject payload b)
  then show ?thesis using message_keeps_cache [OF assms(1)] by simp
next
  case (stream_ended w ws b)
  then show ?thesis by (auto simp: end_stream_def sleep_ms_def)
next
  case (cleaned_up b)
  then show ?thesis by (auto simp: cleanup_tick_def port_defs)
qed simp_all

lemma supervisor_step_cache:
  assumes "retry_contract (cn_retry N)" "supervisor_step X E C N i T U"
  shows "blockhash_cache (bridge_of U) = blockhash_cache (bridge_of T)"
  using assms(2)
proof cases
  case (session_continues j S S')
  then show ?thesis using session_step_cache [OF assms(1) session_continues(4)] by simp
next
  case (session_returned j S e b)
  then show ?thesis
    using session_step_cache [OF assms(1) session_returned(4)] by (simp add: pause_def slept_def)
next
  case (process_aborted j S b)
  then show ?thesis using session_step_cache [OF assms(1) process_aborted(4)] by simp
qed (simp_all add: pause_def slept_def session_start_def nats_consumer_start_def nats_consumer_new_def)

text \<open>What a step leaves in the cache: an answered refresh stores its answer, nothing else writes.\<close>

definition cache_after :: "env \<Rightarrow> system_input \<Rightarrow> bridge \<Rightarrow> (hash \<times> u64) option" where
  "cache_after E i s =
     (if i = RefreshTick
      then (case on_latest_blockhash E (trace s) of Inr v \<Rightarrow> Some v | Inl _ \<Rightarrow> blockhash_cache s)
      else blockhash_cache s)"

lemma system_step_cache:
  assumes "retry_contract (cn_retry N)" "system_step X E C N i T U"
  shows "blockhash_cache (bridge_of U) = cache_after E i (bridge_of T)"
  using assms(2)
proof cases
  case (rpc_served req hs r b)
  then show ?thesis
    using emits_frame(1) [OF emits_serve_rpc [of X E C req hs], of "bridge_of T"] by (simp add: cache_after_def)
next
  case (rpc_panicked req hs b)
  then show ?thesis
    using emits_frame(1) [OF emits_serve_rpc [of X E C req hs], of "bridge_of T"] by (simp add: cache_after_def)
next
  case (refreshed b)
  then show ?thesis
    by (auto simp: cache_after_def refresh_blockhash_def port_defs blockhash_update_def split: sum.splits)
next
  case (dead_letters msgs S b)
  then show ?thesis
    using emits_frame(1) [OF emits_dlq_monitor [of msgs], of "se_bridge S"] by (simp add: cache_after_def)
next
  case (nats_stepped j)
  then show ?thesis using supervisor_step_cache [OF assms(1)] by (simp add: cache_after_def)
qed

lemma system_run_cache:
  assumes "retry_contract (cn_retry N)" "system_run X E C N is T U"
  shows "blockhash_cache (bridge_of U) = blockhash_cache (bridge_of T) \<or>
    (\<exists>js ks V W v. is = js @ RefreshTick # ks \<and> system_run X E C N js T V \<and>
       system_step X E C N RefreshTick V W \<and> system_run X E C N ks W U \<and>
       on_latest_blockhash E (trace (bridge_of V)) = Inr v \<and> blockhash_cache (bridge_of U) = Some v)"
  using assms(2)
proof (induction rule: system_run.induct)
  case (sys_snoc "is" S T i U)
  note step = system_step_cache [OF assms(1) sys_snoc.hyps(2)]
  show ?case
  proof (cases "\<exists>v. i = RefreshTick \<and> on_latest_blockhash E (trace (bridge_of T)) = Inr v")
    case True
    with step sys_snoc.hyps system_run.sys_nil [of X E C N U] show ?thesis
      by (intro disjI2 exI [of _ "is"] exI [of _ "[]"] exI [of _ T] exI [of _ U]) (auto simp: cache_after_def)
  next
    case False
    with step have same: "blockhash_cache (bridge_of U) = blockhash_cache (bridge_of T)"
      by (auto simp: cache_after_def split: sum.splits)
    from sys_snoc.IH show ?thesis
    proof (elim disjE exE conjE)
      fix js ks V W v
      assume *: "is = js @ RefreshTick # ks" "system_run X E C N js S V" "system_step X E C N RefreshTick V W"
        "system_run X E C N ks W T" "on_latest_blockhash E (trace (bridge_of V)) = Inr v"
        "blockhash_cache (bridge_of T) = Some v"
      from system_run.sys_snoc [OF *(4) sys_snoc.hyps(2)] * same show ?thesis
        by (intro disjI2 exI [of _ js] exI [of _ "ks @ [i]"] exI [of _ V] exI [of _ W] exI [of _ v]) simp
    qed (simp add: same)
  qed
qed simp

text \<open>C26: only the refresh task writes the blockhash cache, and what it writes is the provider's answer.
  A refresh tick that the provider answers stores exactly that answer; a refresh that fails, an RPC call, a
  dead letter, a NATS delivery, a reconnect and a cleanup tick leave the cache as it was. So over any run
  the cached value is the one the run started with, or the answer to a refresh tick of the run, asked in
  the state that tick met.\<close>

theorem only_refresh_writes_cache:
  assumes "retry_contract (cn_retry N)" and "system_run X E C N is T U"
  shows "(\<forall>i V W. system_step X E C N i V W \<longrightarrow>
      blockhash_cache (bridge_of W) =
        (case (i, on_latest_blockhash E (trace (bridge_of V))) of
           (RefreshTick, Inr v) \<Rightarrow> Some v | _ \<Rightarrow> blockhash_cache (bridge_of V))) \<and>
    (blockhash_cache (bridge_of U) = blockhash_cache (bridge_of T) \<or>
     (\<exists>js ks V W v. is = js @ RefreshTick # ks \<and> system_run X E C N js T V \<and>
        system_step X E C N RefreshTick V W \<and> system_run X E C N ks W U \<and>
        on_latest_blockhash E (trace (bridge_of V)) = Inr v \<and> blockhash_cache (bridge_of U) = Some v))"
  using system_run_cache [OF assms]
  by (auto simp: system_step_cache [OF assms(1)] cache_after_def split: system_input.split sum.split)

theorem only_refresh_writes_cache_witness:
  "\<exists>U. system_run sample_ext sample_env sample_cfg sample_consumer [RefreshTick]
     (Disconnected 500 (sample_state\<lparr>blockhash_cache := None\<rparr>)) U \<and>
   blockhash_cache (bridge_of U) = Some (replicate 32 8, 100) \<and>
   (\<exists>V. on_latest_blockhash sample_env (trace (bridge_of V)) = Inr (replicate 32 8, 100))"
proof -
  let ?T = "Disconnected 500 (sample_state\<lparr>blockhash_cache := None\<rparr>)"
  let ?b = "sample_state\<lparr>blockhash_cache := Some (replicate 32 8, 100),
      trace := [EvLatestBlockhash (Inr (replicate 32 8, 100))]\<rparr>"
  have "run_state (refresh_blockhash sample_env) (bridge_of ?T) = ((), ?b)"
    by (simp add: refresh_blockhash_def port_defs blockhash_update_def sample_env_def sample_state_def)
  then have "system_step sample_ext sample_env sample_cfg sample_consumer RefreshTick ?T (set_bridge ?b ?T)"
    by (intro refreshed) (simp_all add: alive_def)
  then have run: "system_run sample_ext sample_env sample_cfg sample_consumer ([] @ [RefreshTick]) ?T
      (set_bridge ?b ?T)"
    by (rule sys_snoc [OF sys_nil])
  have "retry_contract (cn_retry sample_consumer)" by (simp add: retry_fixed_contract)
  from only_refresh_writes_cache [OF this run, THEN conjunct2]
  have "\<exists>V. on_latest_blockhash sample_env (trace (bridge_of V)) = Inr (replicate 32 8, 100)"
    by (elim disjE exE conjE) (simp_all, metis)
  with run show ?thesis by (intro exI [of _ "set_bridge ?b ?T"]) simp
qed

section \<open>The audit stores\<close>

fun audited :: "history \<Rightarrow> audit_entry list" where
  "audited [] = []"
| "audited (EvAudit entry r # h) = entry # audited h"
| "audited (_ # h) = audited h"

lemma audited_snoc: "audited (h @ [e]) = audited h @ (case e of EvAudit entry _ \<Rightarrow> [entry] | _ \<Rightarrow> [])"
  by (induction h rule: audited.induct) (simp_all split: event.split)

lemma inmem_after_entries: "inmem_entries (inmem_after L h) = audited h"
  by (induction h rule: rev_induct)
    (simp_all add: inmem_after_def inmem_entries_def inmem_append_def Let_def audited_snoc
      split: event.split)

lemma inmem_after_chain: "chain_ok L (inmem_links L (inmem_after L h))"
  unfolding inmem_after_def
proof (rule replay_invariant)
  show "chain_ok L (inmem_links L (case e of EvAudit entry _ \<Rightarrow> snd (inmem_append L log entry) | _ \<Rightarrow> log))"
    if "chain_ok L (inmem_links L log)" for e log
    using that inmem.append_chain(2) [OF TrueI that]
    by (simp split: event.split) (metis prod.collapse)
qed (simp add: inmem_links_def)

lemma pg_after_chain:
  assumes "pg_inv t" "chain_ok L (pg_links t)"
  shows "pg_inv (pg_after L P t h) \<and> chain_ok L (pg_links (pg_after L P t h))"
  unfolding pg_after_def
proof (rule replay_invariant)
  show "pg_inv (case e of EvAudit entry _ \<Rightarrow> snd (pg_append L (P h) t entry) | _ \<Rightarrow> t) \<and>
      chain_ok L (pg_links (case e of EvAudit entry _ \<Rightarrow> snd (pg_append L (P h) t entry) | _ \<Rightarrow> t))"
    if "pg_inv t \<and> chain_ok L (pg_links t)" for h e t
    using that pg.append_chain(1,2) [of t L "P h"]
    by (simp split: event.split) (metis prod.collapse)
qed (simp add: assms)

text \<open>C20: a submitted transaction is the newest entry of an intact chain. With the in-memory sink wired
  in, the store after any successful run of the pipeline, whatever happened before it, is an intact hash
  chain of all entries the process ever appended, and its last entry says \<open>Submitted\<close> with the returned
  signature for the caller's identity and correlation id.\<close>

theorem submission_ends_audit_chain:
  assumes "result_of (sign_and_submit X (audit_env D InMemoryAudit E) C raw key ident corr) s = Ok (sig, slot)"
  shows "\<exists>t log. log = inmem_after (dp_audit_lib D)
       (trace (final_of (sign_and_submit X (audit_env D InMemoryAudit E) C raw key ident corr) s)) \<and>
     chain_ok (dp_audit_lib D) (inmem_links (dp_audit_lib D) log) \<and>
     prefix (audited (trace s)) (inmem_entries log) \<and> inmem_entries log \<noteq> [] \<and>
     last (inmem_entries log) =
       audit_entry_new corr ident ''sign_and_submit'' (Submitted (show_signature X sig) 0) t"
proof -
  let ?m = "sign_and_submit X (audit_env D InMemoryAudit E) C raw key ident corr"
  have app: "audited (g @ h) = audited g @ audited h" for g h
    by (induction g rule: audited.induct) simp_all
  obtain evs tx t b where tail: "trace (final_of ?m s) = evs @ [EvSend tx (Inr sig), EvClock t,
      EvAudit (audit_entry_new corr ident ''sign_and_submit'' (Submitted (show_signature X sig) 0) t) b]"
    using success_tail [OF assms] by blast
  have "emits (\<lambda>_. True) ?m" by (intro emits_sign_and_submit) simp_all
  from emits_events(1) [OF this, of s] have "prefix (audited (trace s)) (audited (trace (final_of ?m s)))"
    by (simp add: app)
  then show ?thesis
    by (intro exI [of _ t] exI [of _ "inmem_after (dp_audit_lib D) (trace (final_of ?m s))"])
      (simp add: inmem_after_entries inmem_after_chain tail app)
qed

text \<open>A closed deployment, for instances.\<close>

definition sample_deployment :: "(pubkey \<rightharpoonup> account, unit) deployment" where
  "sample_deployment =
     \<lparr>dp_node = (\<lambda>url h c. undefined), dp_custom_error = (\<lambda>e. e), dp_svm = map_svm,
      dp_transit_lib = letters_lib, dp_vault = (\<lambda>h. honest_server),
      dp_keypair = \<lparr>keypair_try_from = (\<lambda>b. Some ()), keypair_pubkey = (\<lambda>k. [1]),
                    keypair_sign = (\<lambda>k m. [77])\<rparr>,
      dp_audit_lib = toy_lib, dp_pg_connect = (\<lambda>url. Inr ()), dp_pg_faults = (\<lambda>h. no_faults),
      dp_pg_table = pg_empty\<rparr>"

theorem submission_ends_audit_chain_witness:
  "\<exists>t log. log = inmem_after (dp_audit_lib sample_deployment)
       (trace (final_of (sign_and_submit sample_ext (audit_env sample_deployment InMemoryAudit sample_env)
          sample_cfg [9, 9, 9] ''platform_admin'' trading_identity ''c1'') sample_state)) \<and>
     chain_ok (dp_audit_lib sample_deployment) (inmem_links (dp_audit_lib sample_deployment) log) \<and>
     prefix (audited (trace sample_state)) (inmem_entries log) \<and> inmem_entries log \<noteq> [] \<and>
     last (inmem_entries log) = audit_entry_new ''c1'' trading_identity ''sign_and_submit''
       (Submitted (show_signature sample_ext [77]) 0) t"
proof (rule submission_ends_audit_chain)
  show "result_of (sign_and_submit sample_ext (audit_env sample_deployment InMemoryAudit sample_env)
      sample_cfg [9, 9, 9] ''platform_admin'' trading_identity ''c1'') sample_state = Ok ([77], 0)"
    by (simp add: audit_env_def pipeline_defs sample_defs set_blockhash_def signer_log_panics_def
        required_signatures_def attach_signature_def grow_signatures_def resize_def default_hash_def)
qed

section \<open>Reconnects\<close>

text \<open>One connection of the sample world up to the first delivery.\<close>

abbreviation first_delivery :: "supervisor_input list" where
  "first_delivery \<equiv> [Connected, SessionInput (StreamAnswer Fast (Inr ())),
     SessionInput (Message Fast ''chain.tx.submit'' [1])]"

lemma sample_submit_run:
  assumes "idempotency_cache s = Map.empty" "dedup_store s = Map.empty"
    and "blockhash_cache s = Some (replicate 32 9, 100)"
  shows "result_of (handle_message sample_ext sample_env sample_cfg sample_consumer
       ''chain.tx.submit'' [1]) s = Finished \<and>
     filter is_send (trace (final_of (handle_message sample_ext sample_env sample_cfg sample_consumer
       ''chain.tx.submit'' [1]) s)) =
     filter is_send (trace s) @ [EvSend sample_signed (Inr [77])]"
  using assms by (simp add: handler_defs sample_eval)

lemma sample_first_delivery:
  assumes "blockhash_cache b = Some (replicate 32 9, 100)"
  shows "\<exists>S. supervisor_run sample_ext sample_env sample_cfg sample_consumer first_delivery
       (Disconnected d b) (InSession S) \<and>
     filter is_send (trace (se_bridge S)) =
       filter is_send (trace b) @ [EvSend sample_signed (Inr [77])] \<and>
     blockhash_cache (se_bridge S) = blockhash_cache b \<and> se_worker S MintWorker = worker_init"
proof -
  let ?N = sample_consumer and ?S0 = "session_start b"
  let ?ws = "\<lparr>ws_open = True, ws_backoff_ms = 100, ws_create_failures = 0\<rparr>"
  let ?S1 = "(set_worker Fast ?ws ?S0)\<lparr>se_bridge := se_bridge ?S0\<rparr>"
  let ?m = "handle_message sample_ext sample_env sample_cfg ?N ''chain.tx.submit'' [1]"
  obtain b' where run: "run_state ?m (se_bridge ?S0) = (Finished, b')"
    and sends: "filter is_send (trace b') = filter is_send (trace b) @ [EvSend sample_signed (Inr [77])]"
    using sample_submit_run [of "se_bridge ?S0"] assms
    by (cases "run_state ?m (se_bridge ?S0)")
      (simp add: session_start_def nats_consumer_start_def nats_consumer_new_def)
  have cache: "blockhash_cache b' = blockhash_cache b"
    using message_keeps_cache [OF _ run] retry_fixed_contract
    by (simp add: session_start_def nats_consumer_start_def nats_consumer_new_def)
  have 1: "supervisor_step sample_ext sample_env sample_cfg ?N Connected (Disconnected d b) (InSession ?S0)"
    by (rule connected)
  have 2: "supervisor_step sample_ext sample_env sample_cfg ?N (SessionInput (StreamAnswer Fast (Inr ())))
      (InSession ?S0) (InSession ?S1)"
    by (intro session_continues stream_opened)
      (simp_all add: open_stream_ok session_start_def worker_init_def)
  have 3: "supervisor_step sample_ext sample_env sample_cfg ?N
      (SessionInput (Message Fast ''chain.tx.submit'' [1])) (InSession ?S1) (InSession (?S1\<lparr>se_bridge := b'\<rparr>))"
    by (intro session_continues message_handled)
      (simp_all add: set_worker_def run pull_consumer_def fast_filter_subjects_def)
  have "supervisor_run sample_ext sample_env sample_cfg ?N first_delivery (Disconnected d b)
      (InSession (?S1\<lparr>se_bridge := b'\<rparr>))"
    using run_snoc [OF run_snoc [OF run_snoc [OF run_nil 1] 2] 3] by simp
  with sends cache show ?thesis
    by (intro exI [of _ "?S1\<lparr>se_bridge := b'\<rparr>"])
      (simp add: set_worker_def session_start_def)
qed

text \<open>A reconnect forgets completed submissions. There is a run in which one and the same submit
  message, with its idempotency key and correlation id, is delivered twice well within the lifetime of its
  record, with a lost and re-established NATS connection in between, and the bridge sends the same
  transaction both times: each connection starts with empty maps.\<close>

lemma reconnect_repeats_submission:
  "\<exists>U. supervisor_run sample_ext sample_env sample_cfg sample_consumer
     (first_delivery @ failed_answers MintWorker [''e'', ''e'', ''e'', ''e'', ''e''] @ first_delivery)
     (Disconnected 500 sample_state) U \<and>
   filter is_send (trace (bridge_of U)) =
     [EvSend sample_signed (Inr [77]), EvSend sample_signed (Inr [77])]"
proof -
  have "blockhash_cache sample_state = Some (replicate 32 9, 100)" by (simp add: sample_state_def)
  from sample_first_delivery [OF this] obtain S where
    1: "supervisor_run sample_ext sample_env sample_cfg sample_consumer first_delivery
        (Disconnected 500 sample_state) (InSession S)"
    "filter is_send (trace (se_bridge S)) = [EvSend sample_signed (Inr [77])]"
    "blockhash_cache (se_bridge S) = Some (replicate 32 9, 100)" "se_worker S MintWorker = worker_init"
    by (auto simp: sample_state_def)
  let ?b = "slept [100, 200, 400, 800, 500] (se_bridge S)"
  have 2: "supervisor_run sample_ext sample_env sample_cfg sample_consumer
      (failed_answers MintWorker [''e'', ''e'', ''e'', ''e'', ''e'']) (InSession S) (Disconnected 1000 ?b)"
    by (subst failing_run) (simp_all add: 1(4))
  have "blockhash_cache ?b = Some (replicate 32 9, 100)" by (simp add: slept_def 1(3))
  from sample_first_delivery [OF this] obtain U where
    3: "supervisor_run sample_ext sample_env sample_cfg sample_consumer first_delivery
        (Disconnected 1000 ?b) (InSession U)"
    "filter is_send (trace (se_bridge U)) = filter is_send (trace ?b) @ [EvSend sample_signed (Inr [77])]"
    by blast
  have "supervisor_run sample_ext sample_env sample_cfg sample_consumer
      (first_delivery @ failed_answers MintWorker [''e'', ''e'', ''e'', ''e'', ''e''] @ first_delivery)
      (Disconnected 500 sample_state) (InSession U)"
    by (rule supervisor_run_append [OF supervisor_run_append [OF 3(1) 2] 1(1)])
  moreover have "filter is_send (trace (bridge_of (InSession U))) =
      [EvSend sample_signed (Inr [77]), EvSend sample_signed (Inr [77])]"
    by (simp add: 3(2) slept_def 1(2))
  ultimately show ?thesis by blast
qed

end
