(* ===== verification/Server_Start.thy ===== *)
theory Server_Start
  imports System_Properties
begin

text \<open>
  The end of \<open>main\<close> (main.rs): the listener of the RPC service. Without \<open>CHAIN_BRIDGE_INSECURE\<close> it
  is a TLS listener that trusts the certificates of the CA file and asks every client for one; every
  file or certificate that cannot be used ends the start-up. Rustls, the PEM reader and the file system
  are the fields of \<open>tls_lib\<close>; a connection is what the handshake makes of it.
\<close>

section \<open>The listener\<close>

type_synonym socket_addr = string

record server_config =
  sc_client_roots :: "bytes list"
  sc_cert_chain :: "bytes list"
  sc_private_key :: bytes
  sc_alpn_protocols :: "string list"

record 'conn tls_lib =
  open_file :: "string \<Rightarrow> string + bytes"
  pem_certs :: "bytes \<Rightarrow> (string + bytes) list"
  pem_private_key :: "bytes \<Rightarrow> string + bytes option"
  root_store_add :: "bytes \<Rightarrow> string + unit"
  build_client_verifier :: "bytes list \<Rightarrow> string + unit"
  check_single_cert :: "bytes list \<Rightarrow> bytes \<Rightarrow> string + unit"
  parse_socket_addr :: "string \<Rightarrow> string + socket_addr"
  tls_accept :: "server_config \<Rightarrow> 'conn \<Rightarrow> string + bytes list option" \<comment> \<open>peer certificates\<close>
  path_valid :: "bytes \<Rightarrow> bytes \<Rightarrow> bytes list \<Rightarrow> bool" \<comment> \<open>root, leaf, intermediates\<close>

record listen_env =
  var_grpc_port :: "string option"
  var_tls_cert :: "string option"
  var_tls_key :: "string option"
  var_tls_ca :: "string option"

text \<open>\<open>collect::<Result<Vec<_>, _>>()\<close>\<close>

fun collect_results :: "('e + 'a) list \<Rightarrow> 'e + 'a list" where
  "collect_results [] = Inr []"
| "collect_results (Inl e # rs) = Inl e"
| "collect_results (Inr a # rs) = (case collect_results rs of Inl e \<Rightarrow> Inl e | Inr as \<Rightarrow> Inr (a # as))"

lemma collect_results_ok: "collect_results rs = Inr as \<longleftrightarrow> rs = map Inr as"
proof (induction rs arbitrary: as)
  case (Cons r rs)
  then show ?case by (cases r; cases as; cases "collect_results rs") auto
qed auto

text \<open>\<open>for cert in certs { root_store.add(cert)?; }\<close>\<close>

fun add_roots :: "'conn tls_lib \<Rightarrow> bytes list \<Rightarrow> bytes list \<Rightarrow> string + bytes list" where
  "add_roots T [] roots = Inr roots"
| "add_roots T (cert # certs) roots =
     (case root_store_add T cert of
        Inl e \<Rightarrow> Inl e
      | Inr _ \<Rightarrow> add_roots T certs (roots @ [cert]))"

lemma add_roots_ok:
  "add_roots T certs roots = Inr roots' \<longleftrightarrow>
     roots' = roots @ certs \<and> list_all (\<lambda>c. root_store_add T c = Inr ()) certs"
  by (induction T certs roots rule: add_roots.induct) (auto split: sum.splits)

datatype listener = PlainListener socket_addr | MtlsListener socket_addr server_config

definition tls_ca_path :: "listen_env \<Rightarrow> string" where
  "tls_ca_path W = unwrap_or (var_tls_ca W) ''infra/certs/ca.crt''"

text \<open>The roots a client certificate must chain to.\<close>

definition load_client_roots :: "'conn tls_lib \<Rightarrow> listen_env \<Rightarrow> string + bytes list" where
  "load_client_roots T W =
     (case open_file T (tls_ca_path W) of
        Inl _ \<Rightarrow> Inl ''Failed to read CA certificate''
      | Inr ca_cert \<Rightarrow>
          (case collect_results (pem_certs T ca_cert) of
             Inl e \<Rightarrow> Inl e
           | Inr certs \<Rightarrow> add_roots T certs []))"

text \<open>The certificate chain and key of the server itself.\<close>

definition load_identity :: "'conn tls_lib \<Rightarrow> listen_env \<Rightarrow> string + bytes list \<times> bytes" where
  "load_identity T W =
     (case open_file T (unwrap_or (var_tls_cert W) ''infra/certs/server.crt'') of
        Inl e \<Rightarrow> Inl e
      | Inr chain_pem \<Rightarrow>
          (case collect_results (pem_certs T chain_pem) of
             Inl e \<Rightarrow> Inl e
           | Inr cert_chain \<Rightarrow>
               (case open_file T (unwrap_or (var_tls_key W) ''infra/certs/server.key'') of
                  Inl e \<Rightarrow> Inl e
                | Inr key_pem \<Rightarrow>
                    (case pem_private_key T key_pem of
                       Inl e \<Rightarrow> Inl e
                     | Inr None \<Rightarrow> Inl ''Missing private key''
                     | Inr (Some key) \<Rightarrow> Inr (cert_chain, key)))))"

definition tls_server_config :: "'conn tls_lib \<Rightarrow> listen_env \<Rightarrow> string + server_config" where
  "tls_server_config T W =
     (case load_identity T W of
        Inl e \<Rightarrow> Inl e
      | Inr (cert_chain, key) \<Rightarrow>
          (case load_client_roots T W of
             Inl e \<Rightarrow> Inl e
           | Inr roots \<Rightarrow>
               (case build_client_verifier T roots of
                  Inl e \<Rightarrow> Inl e
                | Inr _ \<Rightarrow>
                    (case check_single_cert T cert_chain key of
                       Inl e \<Rightarrow> Inl e
                     | Inr _ \<Rightarrow>
                         Inr \<lparr>sc_client_roots = roots, sc_cert_chain = cert_chain,
                              sc_private_key = key, sc_alpn_protocols = [''h2'', ''http/1.1'']\<rparr>))))"

definition start_listener :: "'conn tls_lib \<Rightarrow> config \<Rightarrow> listen_env \<Rightarrow> string + listener" where
  "start_listener T C W =
     (case parse_socket_addr T (''0.0.0.0:'' @ unwrap_or (var_grpc_port W) ''5040'') of
        Inl e \<Rightarrow> Inl e
      | Inr grpc_addr \<Rightarrow>
          if env_flag (insecure_var C) then Inr (PlainListener grpc_addr)
          else (case tls_server_config T W of
                  Inl e \<Rightarrow> Inl e
                | Inr cfg \<Rightarrow> Inr (MtlsListener grpc_addr cfg)))"

text \<open>
  \<open>main\<close> as a whole: the services, then the policy for NATS envelopes from the same CA path, then the
  listener. An error of any part ends the process.
\<close>

definition main_start ::
  "('svm, 'kp) deployment \<Rightarrow> 'conn tls_lib \<Rightarrow> pki \<Rightarrow> config \<Rightarrow> process_env \<Rightarrow> listen_env \<Rightarrow> string option \<Rightarrow>
   env \<Rightarrow> (string, env \<times> nats_auth_policy \<times> listener) outcome" where
  "main_start D T K C V W require_signed_var E =
     (case main_env D C V E of
        Ok E' \<Rightarrow>
          (let policy = nats_auth_policy_from_env K (open_file T) require_signed_var (var_tls_ca W)
           in case start_listener T C W of
                Inl e \<Rightarrow> Err e
              | Inr l \<Rightarrow> Ok (E', policy, l))
      | Err e \<Rightarrow> Err e
      | Panicked \<Rightarrow> Panicked)"

section \<open>A request on a connection\<close>




section \<open>Properties of the start-up\<close>

lemma tls_server_config_roots:
  assumes "tls_server_config T W = Inr cfg"
  shows "\<exists>pem. open_file T (tls_ca_path W) = Inr pem \<and> pem_certs T pem = map Inr (sc_client_roots cfg)"
  using assms
  by (auto simp: tls_server_config_def load_client_roots_def collect_results_ok add_roots_ok
      split: sum.splits)

text \<open>The listener is never weaker than configured. A plain listener is opened exactly when
  \<open>CHAIN_BRIDGE_INSECURE\<close> is set and the address parses; otherwise the start-up either fails or opens
  a TLS listener whose client roots are exactly the certificates of the CA file. There is no fallback
  from TLS to plain text, whatever files are missing or malformed.\<close>

lemma listener_matches_mode:
  "(start_listener T C W = Inr (PlainListener a) \<longleftrightarrow>
      env_flag (insecure_var C) \<and>
      parse_socket_addr T (''0.0.0.0:'' @ unwrap_or (var_grpc_port W) ''5040'') = Inr a) \<and>
   (start_listener T C W = Inr (MtlsListener a cfg) \<longrightarrow>
      \<not> env_flag (insecure_var C) \<and>
      (\<exists>pem. open_file T (tls_ca_path W) = Inr pem \<and> pem_certs T pem = map Inr (sc_client_roots cfg)))"
  using tls_server_config_roots [of T W]
  by (auto simp: start_listener_def split: sum.splits)

text \<open>The development keypair signs exactly when the listener is the plain one.\<close>

lemma main_mode_consistent:
  assumes "main_start D T K C V W v E = Ok (E', policy, l)"
  shows "select_vault C V = DevKeypair \<longleftrightarrow> (\<exists>a. l = PlainListener a)"
proof -
  have "start_listener T C W = Inr l"
    using assms by (auto simp: main_start_def Let_def split: outcome.splits sum.splits)
  then show ?thesis by (auto simp: start_listener_def select_vault_def split: sum.splits if_splits)
qed


text \<open>A deployment in which every file is readable and a client presents one certificate.\<close>

definition sample_tls :: "unit tls_lib" where
  "sample_tls =
     \<lparr>open_file = (\<lambda>path. Inr [1]), pem_certs = (\<lambda>pem. [Inr [5]]), pem_private_key = (\<lambda>pem. Inr (Some [6])),
      root_store_add = (\<lambda>c. Inr ()), build_client_verifier = (\<lambda>rs. if rs = [] then Inl ''no roots'' else Inr ()),
      check_single_cert = (\<lambda>cs k. Inr ()), parse_socket_addr = (\<lambda>t. Inr t),
      tls_accept = (\<lambda>cfg conn. if [5] \<in> set (sc_client_roots cfg) then Inr (Some [[1]]) else Inl ''alert''),
      path_valid = (\<lambda>root leaf rest. root = [5] \<and> leaf = [1] \<and> rest = [])\<rparr>"

definition sample_listen :: listen_env where
  "sample_listen = \<lparr>var_grpc_port = None, var_tls_cert = None, var_tls_key = None, var_tls_ca = None\<rparr>"


lemma sample_listener:
  "start_listener sample_tls sample_cfg sample_listen = Inr (MtlsListener ''0.0.0.0:5040''
     \<lparr>sc_client_roots = [[5]], sc_cert_chain = [[5]], sc_private_key = [6],
      sc_alpn_protocols = [''h2'', ''http/1.1'']\<rparr>)"
  by (simp add: start_listener_def tls_server_config_def load_identity_def load_client_roots_def
      sample_tls_def sample_listen_def sample_cfg_def unwrap_or_def tls_ca_path_def)

lemma listener_matches_mode_witness:
  "\<exists>pem. open_file sample_tls (tls_ca_path sample_listen) = Inr pem \<and> pem_certs sample_tls pem = [Inr [5]]"
  using conjunct2 [OF listener_matches_mode, THEN mp, OF sample_listener] by simp


end
