(* ===== verification/Task_Blocks.thy ===== *)
theory Task_Blocks
  imports Nats_Replay
begin

text \<open>
  The handlers cut at their suspension points. All handlers of a session are polled by one task, so
  another handler can only run where \<open>handle_submit\<close> or \<open>handle_mint\<close> awaits. Admission runs from the
  payload to the claim on the idempotency key, or to the decision to refuse, and awaits nothing. What
  follows a refusal (audit, reply, acknowledgement) awaits at every call: it is the rest of the handler, a
  program that runs later with the services it then meets. An admitted message goes through the signing
  pipeline; then both maps are written before the next await; then the reply and the acknowledgement are
  the rest. The blocks in sequence are the handlers of \<open>Nats_Handlers\<close>, so what holds of every interleaving
  of blocks holds of the code.
\<close>

section \<open>Tasks\<close>

text \<open>An admitted message with its claim: the namespaced key and the time the handler read.\<close>

datatype task =
    SubmitTask tx_submit_message "string option" u64
  | MintTask mint_energy_message "string option" u64

primrec task_key :: "task \<Rightarrow> string option" where
  "task_key (SubmitTask m k now) = k"
| "task_key (MintTask m k now) = k"

primrec task_time :: "task \<Rightarrow> u64" where
  "task_time (SubmitTask m k now) = now"
| "task_time (MintTask m k now) = now"

primrec task_corr :: "task \<Rightarrow> string" where
  "task_corr (SubmitTask m k now) = ts_correlation_id m"
| "task_corr (MintTask m k now) = me_correlation_id m"

text \<open>What is left of a handler, for the services it will meet.\<close>

type_synonym rest = "env \<Rightarrow> handled io"

text \<open>A message that is answered without being admitted: only the rest remains.\<close>

definition settle :: "rest \<Rightarrow> (rest + task) io" where
  "settle f = State_Monad.return (Inl f)"

section \<open>Admission of a submit\<close>

definition submit_take ::
  "externals \<Rightarrow> tx_submit_message \<Rightarrow> u64 \<Rightarrow> (rest + task) io" where
  "submit_take X m now = do {
     let dedup_key = submit_dedup_key (ts_idempotency_key m);
     prior \<leftarrow> dedup_claim dedup_key (ts_correlation_id m) now;
     (case prior of
        Some result_msg \<Rightarrow> settle (\<lambda>E. do {
          track_operation ''nats_submit_deduplicated'' (tr_success result_msg);
          publish_result X E (ts_reply_subject m) result_msg;
          finish Ack
        })
      | None \<Rightarrow> State_Monad.return (Inr (SubmitTask m dedup_key now)))
   }"

definition submit_vet ::
  "externals \<Rightarrow> tx_submit_message \<Rightarrow> u64 \<Rightarrow> (rest + task) io" where
  "submit_vet X m now =
     (let corr = ts_correlation_id m; ident = ts_service_identity m; key = ts_key_id m in
      case deserialize_tx X (ts_serialized_tx m) of
        Inl e \<Rightarrow> settle (\<lambda>E. do {
          publish_result X E (ts_reply_subject m)
            (submit_failure corr (''Invalid transaction format: '' @ e));
          finish Term
        })
      | Inr tx \<Rightarrow>
          (case validate_transaction X ident tx of
             Inl e \<Rightarrow> settle (\<lambda>E. do {
               audit_rejection E corr ident ''submit'' ''policy'' e;
               publish_result X E (ts_reply_subject m)
                 (submit_failure corr (''Policy Engine rejection: '' @ e));
               finish Term
             })
           | Inr _ \<Rightarrow>
               if key \<noteq> ''platform_admin'' \<and> key \<noteq> [] then settle (\<lambda>E. do {
                 audit_rejection E corr ident ''submit'' ''auth'' (''Key ID not authorized: '' @ key);
                 publish_result X E (ts_reply_subject m)
                   (submit_failure corr (''Key ID not authorized: '' @ key));
                 finish Term
               })
               else submit_take X m now))"

definition submit_age ::
  "externals \<Rightarrow> env \<Rightarrow> tx_submit_message \<Rightarrow> (rest + task) io" where
  "submit_age X E m = do {
     now \<leftarrow> now_ms E;
     let age = saturating_sub now (ts_created_at_ms m);
     (if max_age_ms < age then settle (\<lambda>E. do {
        track_operation ''nats_submit_stale_rejected'' False;
        audit_rejection E (ts_correlation_id m) (ts_service_identity m) ''submit'' ''stale''
          (''stale envelope: age '' @ show_u64 age @ ''ms'');
        publish_result X E (ts_reply_subject m)
          (submit_failure (ts_correlation_id m) stale_submit_text);
        finish Ack
      })
      else submit_vet X m now)
   }"

definition submit_admission ::
  "externals \<Rightarrow> env \<Rightarrow> consumer \<Rightarrow> bytes \<Rightarrow> (rest + task) io" where
  "submit_admission X E N payload =
     (case parse_submit X payload of
        Inl _ \<Rightarrow> settle (\<lambda>_. finish Term)
      | Inr m \<Rightarrow> do {
          verdict \<leftarrow> evaluate_envelope_auth E (cn_pki N) (cn_auth_policy N) (ts_auth m)
            (ts_service_identity m) (canonical_submit_bytes X m) False;
          (let corr = ts_correlation_id m; ident = ts_service_identity m in
           case verdict of
             Inl why \<Rightarrow> settle (\<lambda>E. do {
               track_operation ''nats_auth_rejected'' False;
               let reason = ''envelope authentication failed: '' @ why;
               audit_rejection E corr ident ''submit'' ''auth'' reason;
               publish_result X E (ts_reply_subject m) (submit_failure corr reason);
               finish Term
             })
           | Inr _ \<Rightarrow>
               if role_of_identity X ident = Unknown then settle (\<lambda>E. do {
                 audit_rejection E corr ident ''submit'' ''rbac'' ''unknown service role'';
                 publish_result X E (ts_reply_subject m)
                   (submit_failure corr (''Unauthorised service identity: '' @ ident));
                 finish Term
               })
               else do {
                 cache \<leftarrow> gets idempotency_cache;
                 (if cache corr \<noteq> None then settle (\<lambda>_. finish Ack) else submit_age X E m)
               })
        })"

section \<open>Admission of a mint\<close>

definition mint_take ::
  "externals \<Rightarrow> mint_energy_message \<Rightarrow> u64 \<Rightarrow> (rest + task) io" where
  "mint_take X m now = do {
     let dedup_key = mint_dedup_key (me_idempotency_key m);
     prior \<leftarrow> dedup_claim dedup_key (me_correlation_id m) now;
     (case prior of
        Some p \<Rightarrow> settle (\<lambda>E. do {
          track_operation ''nats_mint_deduplicated'' (tr_success p);
          publish_mint_result X E (me_reply_subject m)
            \<lparr>mr_correlation_id = tr_correlation_id p, mr_success = tr_success p,
             mr_signature = tr_signature p, mr_error = tr_error p, mr_slot = tr_slot p,
             mr_deduplicated = True\<rparr>;
          finish Ack
        })
      | None \<Rightarrow> State_Monad.return (Inr (MintTask m dedup_key now)))
   }"

definition mint_age ::
  "externals \<Rightarrow> env \<Rightarrow> mint_energy_message \<Rightarrow> (rest + task) io" where
  "mint_age X E m = do {
     now \<leftarrow> now_ms E;
     let age = saturating_sub now (me_created_at_ms m);
     (if max_age_ms < age then settle (\<lambda>E. do {
        track_operation ''nats_mint_stale_rejected'' False;
        audit_rejection E (me_correlation_id m) (me_service_identity m) ''mint'' ''stale''
          (''stale envelope: age '' @ show_u64 age @ ''ms'');
        publish_mint_result X E (me_reply_subject m)
          (mint_failure (me_correlation_id m) ''Stale mint request'');
        finish Ack
      })
      else mint_take X m now)
   }"

definition mint_admission ::
  "externals \<Rightarrow> env \<Rightarrow> consumer \<Rightarrow> bytes \<Rightarrow> (rest + task) io" where
  "mint_admission X E N payload =
     (case parse_mint X payload of
        Inl _ \<Rightarrow> settle (\<lambda>_. finish Term)
      | Inr m \<Rightarrow> do {
          verdict \<leftarrow> evaluate_envelope_auth E (cn_pki N) (cn_auth_policy N) (me_auth m)
            (me_service_identity m) (canonical_mint_bytes X m) True;
          (let corr = me_correlation_id m; ident = me_service_identity m in
           case verdict of
             Inl why \<Rightarrow> settle (\<lambda>E. do {
               track_operation ''nats_auth_rejected'' False;
               let reason = ''envelope authentication failed: '' @ why;
               audit_rejection E corr ident ''mint'' ''auth'' reason;
               publish_mint_result X E (me_reply_subject m) (mint_failure corr reason);
               finish Term
             })
           | Inr _ \<Rightarrow>
               (case require_any X (role_of_identity X ident) mint_roles of
                  Inl _ \<Rightarrow> settle (\<lambda>E. do {
                    audit_rejection E corr ident ''mint'' ''rbac'' ''role not permitted to mint'';
                    publish_mint_result X E (me_reply_subject m)
                      (mint_failure corr (''Unauthorised service identity for mint: '' @ ident));
                    finish Term
                  })
                | Inr _ \<Rightarrow> do {
                    cache \<leftarrow> gets idempotency_cache;
                    (if cache corr \<noteq> None then settle (\<lambda>_. finish Ack) else mint_age X E m)
                  }))
        })"

section \<open>Execution and completion\<close>

text \<open>What a task asks of the pipeline; an error is the text of the reply.\<close>

definition stage_text :: "(sign_submit_stage, 'a) outcome \<Rightarrow> (string, 'a) outcome" where
  "stage_text r = (case r of Ok a \<Rightarrow> Ok a | Err st \<Rightarrow> Err (show_stage st) | Panicked \<Rightarrow> Panicked)"

primrec task_effect ::
  "externals \<Rightarrow> env \<Rightarrow> config \<Rightarrow> consumer \<Rightarrow> task \<Rightarrow> (string, signature \<times> u64) outcome io" where
  "task_effect X E C N (SubmitTask m k now) = do {
     r \<leftarrow> cn_retry N [500, 500, 500]
       (sign_and_submit X E C (ts_serialized_tx m) (ts_key_id m) (ts_service_identity m)
          (ts_correlation_id m));
     State_Monad.return (stage_text r)
   }"
| "task_effect X E C N (MintTask m k now) =
     build_and_submit_generation_mint X E C (me_recipient_wallet m) (me_energy_kwh m)
       (me_meter_id m) (me_window_start_ms m) (me_service_identity m) (me_correlation_id m)"

text \<open>The writes of completion: both maps after a success, the claim alone after a failure.\<close>

definition settle_maps ::
  "externals \<Rightarrow> string \<Rightarrow> string option \<Rightarrow> u64 \<Rightarrow> (string, signature \<times> u64) outcome \<Rightarrow> unit io" where
  "settle_maps X corr k now r =
     (case r of
        Ok (sig, slot) \<Rightarrow> do {
          idempotency_insert corr (now + idempotency_ttl_ms);
          modify (\<lambda>s. s\<lparr>dedup_store := record_done (dedup_store s) k (show_signature X sig) slot now\<rparr>)
        }
      | _ \<Rightarrow> modify (\<lambda>s. s\<lparr>dedup_store := release_claim (dedup_store s) k\<rparr>))"

definition submit_answer ::
  "externals \<Rightarrow> string \<Rightarrow> (string, signature \<times> u64) outcome \<Rightarrow> tx_result_message" where
  "submit_answer X corr r =
     (case r of
        Ok (sig, slot) \<Rightarrow>
          \<lparr>tr_correlation_id = corr, tr_success = True, tr_signature = Some (show_signature X sig),
           tr_error = None, tr_slot = slot, tr_deduplicated = False\<rparr>
      | Err e \<Rightarrow> submit_failure corr e
      | Panicked \<Rightarrow> submit_failure corr [])"

definition mint_answer ::
  "externals \<Rightarrow> string \<Rightarrow> (string, signature \<times> u64) outcome \<Rightarrow> mint_energy_result_message" where
  "mint_answer X corr r =
     (case r of
        Ok (sig, slot) \<Rightarrow>
          \<lparr>mr_correlation_id = corr, mr_success = True, mr_signature = Some (show_signature X sig),
           mr_error = None, mr_slot = slot, mr_deduplicated = False\<rparr>
      | Err e \<Rightarrow> mint_failure corr e
      | Panicked \<Rightarrow> mint_failure corr [])"

text \<open>The rest of a completed task.\<close>

primrec task_answer ::
  "externals \<Rightarrow> task \<Rightarrow> (string, signature \<times> u64) outcome \<Rightarrow> rest" where
  "task_answer X (SubmitTask m k now) r = (\<lambda>E. do {
     track_operation ''nats_consumer_submit'' (is_ok r);
     publish_result X E (ts_reply_subject m) (submit_answer X (ts_correlation_id m) r);
     finish Ack
   })"
| "task_answer X (MintTask m k now) r = (\<lambda>E. do {
     track_operation ''nats_consumer_mint'' (is_ok r);
     publish_mint_result X E (me_reply_subject m) (mint_answer X (me_correlation_id m) r);
     finish Ack
   })"

text \<open>Completion: the writes, which await nothing, then the rest.\<close>

definition task_settle :: "externals \<Rightarrow> task \<Rightarrow> (string, signature \<times> u64) outcome \<Rightarrow> unit io" where
  "task_settle X t r = settle_maps X (task_corr t) (task_key t) (task_time t) r"

definition task_completion ::
  "externals \<Rightarrow> env \<Rightarrow> task \<Rightarrow> (string, signature \<times> u64) outcome \<Rightarrow> handled io" where
  "task_completion X E t r = do { task_settle X t r; task_answer X t r E }"

text \<open>A task run without interruption.\<close>

definition run_task :: "externals \<Rightarrow> env \<Rightarrow> config \<Rightarrow> consumer \<Rightarrow> task \<Rightarrow> handled io" where
  "run_task X E C N t = do {
     r \<leftarrow> task_effect X E C N t;
     (case r of Panicked \<Rightarrow> State_Monad.return Aborted | _ \<Rightarrow> task_completion X E t r)
   }"

definition proceed ::
  "externals \<Rightarrow> env \<Rightarrow> config \<Rightarrow> consumer \<Rightarrow> rest + task \<Rightarrow> handled io" where
  "proceed X E C N a = (case a of Inl f \<Rightarrow> f E | Inr t \<Rightarrow> run_task X E C N t)"

section \<open>The blocks are the handlers\<close>

lemma proceed_settle: "State_Monad.bind (settle f) (proceed X E C N) = f E"
  by (simp add: settle_def proceed_def)

lemma submit_run_task:
  "run_task X E C N (SubmitTask m k now) = submit_execute X E C N m k now"
  unfolding run_task_def submit_execute_def
  by (auto simp: task_completion_def task_settle_def stage_text_def settle_maps_def submit_answer_def
      intro!: arg_cong2 [where f = State_Monad.bind] ext split: outcome.split prod.split)

lemma mint_run_task:
  "run_task X E C N (MintTask m k now) = mint_execute X E C m k now"
  unfolding run_task_def mint_execute_def
  by (auto simp: task_completion_def task_settle_def settle_maps_def mint_answer_def
      intro!: arg_cong2 [where f = State_Monad.bind] ext split: outcome.split prod.split)

lemma bind_branches:
  "State_Monad.bind (if b then m else n) f = (if b then State_Monad.bind m f else State_Monad.bind n f)"
  "State_Monad.bind (case x of Inl a \<Rightarrow> p a | Inr c \<Rightarrow> q c) f =
     (case x of Inl a \<Rightarrow> State_Monad.bind (p a) f | Inr c \<Rightarrow> State_Monad.bind (q c) f)"
  "State_Monad.bind (case y of None \<Rightarrow> m | Some d \<Rightarrow> r d) f =
     (case y of None \<Rightarrow> State_Monad.bind m f | Some d \<Rightarrow> State_Monad.bind (r d) f)"
  by (simp_all split: sum.split option.split)

lemmas block_rules = Let_def State_Monad.bind_assoc bind_branches proceed_settle

lemma proceed_task:
  "State_Monad.bind (State_Monad.return (Inr t)) (proceed X E C N) = run_task X E C N t"
  by (simp add: proceed_def)

text \<open>A handler is its blocks in sequence: the same calls in the same order with the same answers, the
  same writes to the maps and the same outcome, from every state.\<close>

lemma handlers_as_blocks:
  "handle_submit X E C N payload =
     State_Monad.bind (submit_admission X E N payload) (proceed X E C N) \<and>
   handle_mint X E C N payload =
     State_Monad.bind (mint_admission X E N payload) (proceed X E C N)"
proof
  show "handle_submit X E C N payload =
      State_Monad.bind (submit_admission X E N payload) (proceed X E C N)"
    unfolding handle_submit_def submit_admit_def submit_fresh_def submit_check_def submit_claim_def
      submit_admission_def submit_age_def submit_vet_def submit_take_def
    by (simp only: block_rules proceed_task submit_run_task)
  show "handle_mint X E C N payload =
      State_Monad.bind (mint_admission X E N payload) (proceed X E C N)"
    unfolding handle_mint_def mint_admit_def mint_fresh_def mint_claim_def
      mint_admission_def mint_age_def mint_take_def
    by (simp only: block_rules proceed_task mint_run_task)
qed

end
