(* ===== verification/Concurrent_Tasks.thy ===== *)
theory Concurrent_Tasks
  imports Task_Blocks Bridge_System
begin

text \<open>
  The handlers of a session running concurrently. Each of the two consumers has a number of slots
  (\<open>for_each_concurrent\<close>), and every message keeps its slot from its arrival to its acknowledgement,
  whether it is a submission, a mint, a cancellation, a status query or a message that is refused. A slot
  holds what its handler has still to do: the rest of a handler that only has to answer, an admitted task
  before or after its pipeline. Between the blocks of one handler any other slot, the cleanup task and the
  blockhash refresh may run. The calls of a pipeline or a rest may be answered while other handlers make
  theirs: the step that runs it carries the history each of its calls really met. A panic of the pipeline
  aborts the process, so it has no step; a call that never returns is a slot that never takes its step.
\<close>

section \<open>The services seen by one task\<close>

text \<open>
  A block that is interrupted between its calls sees the services through its own part of the history:
  when its own view is \<open>h\<close>, the calls made so far by everyone are \<open>w h\<close>. The trace of the pool then
  lists the calls of one block together, with the answers they really got.
\<close>

definition seen :: "(history \<Rightarrow> history) \<Rightarrow> env \<Rightarrow> env" where
  "seen w E =
     \<lparr>clock_ms = (\<lambda>h. clock_ms E (w h)), clock_secs = (\<lambda>h. clock_secs E (w h)),
      on_latest_blockhash = (\<lambda>h. on_latest_blockhash E (w h)), on_simulate = (\<lambda>h. on_simulate E (w h)),
      on_send = (\<lambda>h. on_send E (w h)), on_sign = (\<lambda>h. on_sign E (w h)),
      on_public_key = (\<lambda>h. on_public_key E (w h)), on_statuses = (\<lambda>h. on_statuses E (w h)),
      on_balance = (\<lambda>h. on_balance E (w h)), on_account = (\<lambda>h. on_account E (w h)),
      on_fees = (\<lambda>h. on_fees E (w h)), on_token_balance = (\<lambda>h. on_token_balance E (w h)),
      on_slot = (\<lambda>h. on_slot E (w h)), on_airdrop = (\<lambda>h. on_airdrop E (w h)),
      on_transaction = (\<lambda>h. on_transaction E (w h)), on_epoch = (\<lambda>h. on_epoch E (w h)),
      on_audit = (\<lambda>h. on_audit E (w h)), on_publish = (\<lambda>h. on_publish E (w h))\<rparr>"

lemma seen_id [simp]: "seen id E = E"
  by (simp add: seen_def)

section \<open>The pool of running handlers\<close>

primrec concurrency :: "worker \<Rightarrow> nat" where
  "concurrency Fast = 32"
| "concurrency MintWorker = 8"

type_synonym slot = "worker \<times> nat"

datatype progress =
    Settling rest
  | Claimed task
  | Executed task "(string, signature \<times> u64) outcome"

fun task_in :: "progress \<Rightarrow> task option" where
  "task_in (Settling f) = None"
| "task_in (Claimed t) = Some t"
| "task_in (Executed t r) = Some t"

text \<open>\<open>pl_done\<close> is a ghost: the keys and claim times of the tasks completed with success.\<close>

record pool =
  pl_bridge :: bridge
  pl_tasks :: "slot \<rightharpoonup> progress"
  pl_done :: "(string \<times> u64) list"

definition pool_start :: "bridge \<Rightarrow> pool" where
  "pool_start b = \<lparr>pl_bridge = nats_consumer_start (nats_consumer_new b), pl_tasks = Map.empty, pl_done = []\<rparr>"

text \<open>The tasks that hold their claim.\<close>

definition running :: "pool \<Rightarrow> (slot \<rightharpoonup> task)" where
  "running P = (\<lambda>i. Option.bind (pl_tasks P i) task_in)"

text \<open>
  The first block of a handler. Cancellations, status queries and unknown subjects are a rest from the
  start; the writes of a cancellation come before its first await.
\<close>

definition admission ::
  "externals \<Rightarrow> env \<Rightarrow> config \<Rightarrow> consumer \<Rightarrow> string \<Rightarrow> bytes \<Rightarrow> (rest + task) io" where
  "admission X E C N subject payload =
     (if subject = ''chain.tx.submit'' then submit_admission X E N payload
      else if subject = ''chain.tx.mint'' then mint_admission X E N payload
      else settle (\<lambda>E. handle_message X E C N subject payload))"

definition finished_keys :: "task \<Rightarrow> (string, signature \<times> u64) outcome \<Rightarrow> (string \<times> u64) list" where
  "finished_keys t r =
     (case task_key t of Some k \<Rightarrow> if is_ok r then [(k, task_time t)] else [] | None \<Rightarrow> [])"

datatype pool_input =
    Arrive slot string bytes
  | Execute slot "history \<Rightarrow> history"
  | Complete slot
  | Finish slot "history \<Rightarrow> history"
  | CleanTick
  | RefreshBlockhash

inductive pool_step ::
  "externals \<Rightarrow> env \<Rightarrow> config \<Rightarrow> consumer \<Rightarrow> pool_input \<Rightarrow> pool \<Rightarrow> pool \<Rightarrow> bool"
  for X E C N where
  pool_settled:
    "pl_tasks P (w, n) = None \<Longrightarrow> n < concurrency w \<Longrightarrow>
     subject \<in> set (pc_filter_subjects (worker_config w)) \<Longrightarrow>
     run_state (admission X E C N subject payload) (pl_bridge P) = (Inl f, b) \<Longrightarrow>
     pool_step X E C N (Arrive (w, n) subject payload) P
       (P\<lparr>pl_bridge := b, pl_tasks := (pl_tasks P)((w, n) \<mapsto> Settling f)\<rparr>)"
| pool_admitted:
    "pl_tasks P (w, n) = None \<Longrightarrow> n < concurrency w \<Longrightarrow>
     subject \<in> set (pc_filter_subjects (worker_config w)) \<Longrightarrow>
     run_state (admission X E C N subject payload) (pl_bridge P) = (Inr t, b) \<Longrightarrow>
     pool_step X E C N (Arrive (w, n) subject payload) P
       (P\<lparr>pl_bridge := b, pl_tasks := (pl_tasks P)((w, n) \<mapsto> Claimed t)\<rparr>)"
| pool_executed:
    "pl_tasks P i = Some (Claimed t) \<Longrightarrow>
     run_state (task_effect X (seen w E) C N t) (pl_bridge P) = (r, b) \<Longrightarrow> r \<noteq> Panicked \<Longrightarrow>
     pool_step X E C N (Execute i w) P
       (P\<lparr>pl_bridge := b, pl_tasks := (pl_tasks P)(i \<mapsto> Executed t r)\<rparr>)"
| pool_completed:
    "pl_tasks P i = Some (Executed t r) \<Longrightarrow>
     run_state (task_settle X t r) (pl_bridge P) = ((), b) \<Longrightarrow>
     pool_step X E C N (Complete i) P
       \<lparr>pl_bridge = b, pl_tasks = (pl_tasks P)(i \<mapsto> Settling (task_answer X t r)),
        pl_done = pl_done P @ finished_keys t r\<rparr>"
| pool_finished:
    "pl_tasks P i = Some (Settling f) \<Longrightarrow>
     run_state (f (seen w E)) (pl_bridge P) = (h, b) \<Longrightarrow>
     pool_step X E C N (Finish i w) P (P\<lparr>pl_bridge := b, pl_tasks := (pl_tasks P)(i := None)\<rparr>)"
| pool_cleaned:
    "run_state (cleanup_tick E) (pl_bridge P) = ((), b) \<Longrightarrow>
     pool_step X E C N CleanTick P (P\<lparr>pl_bridge := b\<rparr>)"
| pool_refreshed:
    "run_state (refresh_blockhash E) (pl_bridge P) = ((), b) \<Longrightarrow>
     pool_step X E C N RefreshBlockhash P (P\<lparr>pl_bridge := b\<rparr>)"

inductive_cases pool_step_cases:
  "pool_step X E C N (Arrive i subject payload) P Q"
  "pool_step X E C N (Execute i w) P Q"
  "pool_step X E C N (Complete i) P Q"
  "pool_step X E C N (Finish i w) P Q"
  "pool_step X E C N CleanTick P Q"
  "pool_step X E C N RefreshBlockhash P Q"

text \<open>Runs all of whose states satisfy \<open>G\<close>.\<close>

inductive pool_run ::
  "externals \<Rightarrow> env \<Rightarrow> config \<Rightarrow> consumer \<Rightarrow> (pool \<Rightarrow> bool) \<Rightarrow> pool_input list \<Rightarrow> pool \<Rightarrow> pool \<Rightarrow> bool"
  for X E C N G where
  pool_nil: "pool_run X E C N G [] P P"
| pool_snoc:
    "pool_run X E C N G is P Q \<Longrightarrow> pool_step X E C N i Q R \<Longrightarrow> G R \<Longrightarrow>
     pool_run X E C N G (is @ [i]) P R"

lemma pool_run_invariant:
  assumes "pool_run X E C N G is P Q" "I P"
    and "\<And>i P Q. I P \<Longrightarrow> pool_step X E C N i P Q \<Longrightarrow> G Q \<Longrightarrow> I Q"
  shows "I Q"
  using assms by (induction rule: pool_run.induct) blast+

section \<open>The rests in the slots\<close>

text \<open>
  \<open>leaves J m\<close>: when the program \<open>m\<close> leaves a rest, the rest satisfies \<open>J\<close>, whatever services it meets.
  A judgement on programs that holds of every rest admission can leave and of every answer holds of all
  rests in the slots of a reachable pool.
\<close>

definition leaves :: "(handled io \<Rightarrow> bool) \<Rightarrow> (rest + task) io \<Rightarrow> bool" where
  "leaves J m \<longleftrightarrow> (\<forall>s f E. result_of m s = Inl f \<longrightarrow> J (f E))"

named_theorems leaves_rules \<open>introduction rules for the rests a program leaves\<close>

lemma leaves_settle [leaves_rules]: "(\<And>E. J (f E)) \<Longrightarrow> leaves J (settle f)"
  by (simp add: leaves_def settle_def)

lemma leaves_return [leaves_rules]: "leaves J (State_Monad.return (Inr t))"
  by (simp add: leaves_def)

lemma leaves_bind [leaves_rules]: "(\<And>a. leaves J (f a)) \<Longrightarrow> leaves J (State_Monad.bind m f)"
  unfolding leaves_def by (simp add: split_beta)

lemma leaves_cases [leaves_rules]:
  "(b \<Longrightarrow> leaves J m) \<Longrightarrow> (\<not> b \<Longrightarrow> leaves J n) \<Longrightarrow> leaves J (if b then m else n)"
  "(\<And>a. x = Inl a \<Longrightarrow> leaves J (f a)) \<Longrightarrow> (\<And>c. x = Inr c \<Longrightarrow> leaves J (g c)) \<Longrightarrow>
   leaves J (case x of Inl a \<Rightarrow> f a | Inr c \<Rightarrow> g c)"
  "(y = None \<Longrightarrow> leaves J m) \<Longrightarrow> (\<And>d. y = Some d \<Longrightarrow> leaves J (k d)) \<Longrightarrow>
   leaves J (case y of None \<Rightarrow> m | Some d \<Rightarrow> k d)"
  by (simp_all split: sum.split option.split)

lemmas admission_defs = admission_def submit_admission_def submit_age_def submit_vet_def submit_take_def
  mint_admission_def mint_age_def mint_take_def

definition rests :: "(handled io \<Rightarrow> bool) \<Rightarrow> pool \<Rightarrow> bool" where
  "rests J P \<longleftrightarrow> (\<forall>i f E. pl_tasks P i = Some (Settling f) \<longrightarrow> J (f E))"

lemma restsD: "rests J P \<Longrightarrow> pl_tasks P i = Some (Settling f) \<Longrightarrow> J (f E)"
  unfolding rests_def by blast

lemma pool_step_rests:
  assumes "\<And>subject payload. leaves J (admission X E C N subject payload)"
    and "\<And>t r E. J (task_answer X t r E)"
    and "rests J P" "pool_step X E C N i P Q"
  shows "rests J Q"
  using assms(4)
proof cases
  case (pool_settled w n subject payload f b)
  with assms(1) [of subject payload] have "J (f E)" for E by (simp add: leaves_def) (metis fst_conv)
  with pool_settled assms(3) show ?thesis by (auto simp: rests_def)
qed (use assms(2,3) in \<open>auto simp: rests_def\<close>)

lemma pool_run_rests:
  assumes "\<And>subject payload. leaves J (admission X E C N subject payload)"
    and "\<And>t r E. J (task_answer X t r E)"
    and "pool_run X E C N G is (pool_start b) P"
  shows "rests J P"
  using assms(3)
proof (rule pool_run_invariant)
  show "rests J (pool_start b)" by (simp add: rests_def pool_start_def)
qed (rule pool_step_rests [OF assms(1,2)])

section \<open>What admission does to the store\<close>

text \<open>
  \<open>admits T m\<close>: the program \<open>m\<close> extends the trace; when it settles the message the store is
  unchanged; when it admits a task, the task holds a fresh claim made at a time that \<open>T\<close> relates to
  the traces before and after.
\<close>

definition admission_post ::
  "(history \<Rightarrow> history \<Rightarrow> u64 \<Rightarrow> bool) \<Rightarrow> bridge \<Rightarrow> rest + task \<Rightarrow> bridge \<Rightarrow> bool" where
  "admission_post T s r s' \<longleftrightarrow>
     prefix (trace s) (trace s') \<and>
     (case r of
        Inl _ \<Rightarrow> dedup_store s' = dedup_store s
      | Inr t \<Rightarrow> T (trace s) (trace s') (task_time t) \<and>
          (\<exists>corr. claim_or_replay (dedup_store s) (task_key t) corr (task_time t) =
             (None, dedup_store s')))"

definition admits :: "(history \<Rightarrow> history \<Rightarrow> u64 \<Rightarrow> bool) \<Rightarrow> (rest + task) io \<Rightarrow> bool" where
  "admits T m \<longleftrightarrow> (\<forall>s. admission_post T s (result_of m s) (final_of m s))"

lemma admitsD: "admits T m \<Longrightarrow> run_state m s = (r, s') \<Longrightarrow> admission_post T s r s'"
  unfolding admits_def by (metis fst_conv snd_conv)

text \<open>The time of a claim is a reading of the clock during the program.\<close>

definition read_within :: "env \<Rightarrow> history \<Rightarrow> history \<Rightarrow> u64 \<Rightarrow> bool" where
  "read_within E h h' t \<longleftrightarrow> (\<exists>g. prefix h g \<and> prefix g h' \<and> t = clock_ms E g)"

named_theorems admits_rules \<open>introduction rules for admission\<close>

lemma admits_settle [admits_rules]: "admits T (settle f)"
  by (simp add: admits_def settle_def admission_post_def)

lemma admits_bind [admits_rules]:
  assumes "emits (\<lambda>_. True) m" "\<And>a. admits T (f a)"
    and "\<And>h g h' t. T g h' t \<Longrightarrow> prefix h g \<Longrightarrow> T h h' t"
  shows "admits T (State_Monad.bind m f)"
  unfolding admits_def
proof
  fix s :: bridge
  obtain a s' where m: "run_state m s = (a, s')" by (cases "run_state m s")
  then have s': "prefix (trace s) (trace s')" "dedup_store s' = dedup_store s"
    using emits_events(1) [OF assms(1), of s] emits_frame(4) [OF assms(1), of s] by simp_all
  have "admission_post T s' (result_of (f a) s') (final_of (f a) s')"
    using assms(2) unfolding admits_def by blast
  with s' assms(3) m show
    "admission_post T s (result_of (State_Monad.bind m f) s) (final_of (State_Monad.bind m f) s)"
    by (auto simp: admission_post_def split: sum.splits dest: prefix_order.trans)
qed

lemma admits_cases [admits_rules]:
  "(b \<Longrightarrow> admits T m) \<Longrightarrow> (\<not> b \<Longrightarrow> admits T n) \<Longrightarrow> admits T (if b then m else n)"
  "(\<And>a. x = Inl a \<Longrightarrow> admits T (f a)) \<Longrightarrow> (\<And>c. x = Inr c \<Longrightarrow> admits T (g c)) \<Longrightarrow>
   admits T (case x of Inl a \<Rightarrow> f a | Inr c \<Rightarrow> g c)"
  by (simp_all split: sum.split)

lemma admits_now:
  assumes "\<And>now. admits (\<lambda>_ _ t. t = now) (f now)"
  shows "admits (read_within E) (State_Monad.bind (now_ms E) f)"
  unfolding admits_def
proof
  fix s :: bridge
  let ?now = "clock_ms E (trace s)"
  let ?s = "s\<lparr>trace := trace s @ [EvClock ?now]\<rparr>"
  have "admission_post (\<lambda>_ _ t. t = ?now) ?s (result_of (f ?now) ?s) (final_of (f ?now) ?s)"
    using assms unfolding admits_def by blast
  then show "admission_post (read_within E) s (result_of (State_Monad.bind (now_ms E) f) s)
      (final_of (State_Monad.bind (now_ms E) f) s)"
    by (auto simp: port_defs admission_post_def read_within_def split: sum.splits
        dest: append_prefixD intro: exI [of _ "trace s"])
qed

lemma read_within_earlier: "read_within E g h' t \<Longrightarrow> prefix h g \<Longrightarrow> read_within E h h' t"
  unfolding read_within_def by (blast intro: prefix_order.trans)

lemma trace_free_store: "trace_free (\<lambda>s. dedup_store s = d)"
  by (simp add: trace_free_def)

lemma claim_settles:
  "claim_or_replay store k corr now = (Some r, store') \<Longrightarrow> store' = store"
  by (auto simp: claim_or_replay_def Let_def split: option.splits if_splits)

text \<open>The claim itself: refused, it leaves the store; granted, it is the last thing admission does.\<close>

lemma admits_claim:
  assumes "\<And>r. admits (\<lambda>_ _ t. t = now) (settle (m r))" and "task_key t = key" "task_time t = now"
  shows "admits (\<lambda>_ _ t. t = now) (State_Monad.bind (dedup_claim key corr now) (\<lambda>prior.
     case prior of None \<Rightarrow> State_Monad.return (Inr t) | Some r \<Rightarrow> settle (m r)))"
  unfolding admits_def
proof
  fix s :: bridge
  let ?m = "State_Monad.bind (dedup_claim key corr now) (\<lambda>prior.
     case prior of None \<Rightarrow> State_Monad.return (Inr t) | Some r \<Rightarrow> settle (m r))"
  obtain prior store where c: "claim_or_replay (dedup_store s) key corr now = (prior, store)"
    by (cases "claim_or_replay (dedup_store s) key corr now")
  show "admission_post (\<lambda>_ _ t. t = now) s (result_of ?m s) (final_of ?m s)"
  proof (cases prior)
    case None
    with c assms(2,3) show ?thesis by (auto simp: dedup_claim_def admission_post_def)
  next
    case (Some r)
    with c have store: "store = dedup_store s" using claim_settles by blast
    have "run_state (dedup_claim key corr now) s = (Some r, s)"
      using c Some store by (simp add: dedup_claim_def)
    moreover have "admission_post (\<lambda>_ _ t. t = now) s (result_of (settle (m r)) s) (final_of (settle (m r)) s)"
      using assms(1) unfolding admits_def by blast
    ultimately show ?thesis by simp
  qed
qed

lemma admits_submit: "admits (read_within E) (submit_admission X E N payload)"
  unfolding submit_admission_def submit_age_def submit_vet_def submit_take_def Let_def
  by (intro admits_rules admits_now admits_claim emits_rules) (auto elim: read_within_earlier)

lemma admits_mint: "admits (read_within E) (mint_admission X E N payload)"
  unfolding mint_admission_def mint_age_def mint_take_def Let_def
  by (intro admits_rules admits_now admits_claim emits_rules) (auto elim: read_within_earlier)

lemma admits_admission: "admits (read_within E) (admission X E C N subject payload)"
  unfolding admission_def by (intro admits_rules admits_submit admits_mint)

section \<open>The rests leave the store alone\<close>

definition store_kept :: "handled io \<Rightarrow> bool" where
  "store_kept m \<longleftrightarrow> (\<forall>d. keeps (\<lambda>s. dedup_store s = d) (\<lambda>_. True) m)"

lemma store_keptD:
  assumes "store_kept m" "run_state m s = (h, b)"
  shows "prefix (trace s) (trace b) \<and> dedup_store b = dedup_store s"
proof -
  have "keeps (\<lambda>s'. dedup_store s' = dedup_store s) (\<lambda>_. True) m" using assms(1) by (simp add: store_kept_def)
  from keepsD(1,2) [OF this, of s] assms(2) show ?thesis by simp
qed

lemma keeps_store_message:
  assumes "subject \<noteq> ''chain.tx.submit''" "subject \<noteq> ''chain.tx.mint''"
  shows "keeps (\<lambda>s. dedup_store s = d) (\<lambda>_. True) (handle_message X E C N subject payload)"
proof -
  have [intro]: "keeps (\<lambda>s. dedup_store s = d) P (idempotency_insert k x)" for P k x
    by (simp add: idempotency_insert_def keeps_def)
  show ?thesis
    unfolding handle_message_def handle_cancel_def cancel_admit_def handle_status_def Let_def
    using assms
    by simp (intro conjI impI keeps_rules keeps_parts [OF trace_free_store] keeps_now [OF trace_free_store];
      auto)
qed

lemma store_kept_admission: "leaves store_kept (admission X E C N subject payload)"
  unfolding admission_defs Let_def
  by (intro leaves_rules; unfold store_kept_def; intro allI;
      (rule keeps_store_message; assumption)?;
      intro keeps_rules keeps_parts [OF trace_free_store]; simp)

lemma store_kept_answer: "store_kept (task_answer X t r E)"
  by (cases t) (auto simp: store_kept_def intro!: keeps_rules keeps_parts [OF trace_free_store])

section \<open>What the other blocks do\<close>

lemma emits_task_effect:
  assumes "retry_contract (cn_retry N)"
  shows "emits (\<lambda>_. True) (task_effect X E C N t)"
proof (cases t)
  case (SubmitTask m k now)
  then show ?thesis
    by (auto intro!: emits_rules emits_retry [OF assms] emits_sign_and_submit)
next
  case (MintTask m k now)
  then show ?thesis by (auto intro!: emits_generation_mint)
qed

definition completed_store :: "externals \<Rightarrow> task \<Rightarrow> (string, signature \<times> u64) outcome \<Rightarrow> dedup_map \<Rightarrow> dedup_map" where
  "completed_store X t r store =
     (case r of
        Ok (sig, slot) \<Rightarrow> record_done store (task_key t) (show_signature X sig) slot (task_time t)
      | _ \<Rightarrow> release_claim store (task_key t))"

lemma task_settle_run:
  assumes "run_state (task_settle X t r) s = ((), b)"
  shows "trace b = trace s \<and> dedup_store b = completed_store X t r (dedup_store s)"
  using assms
  by (auto simp: task_settle_def settle_maps_def idempotency_insert_def completed_store_def
      split: outcome.splits prod.splits)

lemma cleanup_run:
  "run_state (cleanup_tick E) s = ((), b) \<Longrightarrow>
   trace b = trace s @ [EvClock (clock_ms E (trace s))] \<and>
   dedup_store b = retain_dedup (dedup_store s) (clock_ms E (trace s))"
  by (auto simp: cleanup_tick_def port_defs)

lemma refresh_run:
  "run_state (refresh_blockhash E) s = ((), b) \<Longrightarrow>
   prefix (trace s) (trace b) \<and> dedup_store b = dedup_store s"
  by (auto simp: refresh_blockhash_def port_defs blockhash_update_def split: sum.splits)

section \<open>The claims of running tasks\<close>

text \<open>The clock never goes back, and no task outlives its claim.\<close>

definition clock_monotone :: "env \<Rightarrow> bool" where
  "clock_monotone E \<longleftrightarrow> (\<forall>h e. clock_ms E h \<le> clock_ms E (h @ [e]))"

definition timely :: "env \<Rightarrow> pool \<Rightarrow> bool" where
  "timely E P \<longleftrightarrow>
     (\<forall>i t. running P i = Some t \<longrightarrow> clock_ms E (trace (pl_bridge P)) < task_time t + dedup_ttl_ms)"

lemma clock_monotone_prefix:
  assumes "clock_monotone E" "prefix g h"
  shows "clock_ms E g \<le> clock_ms E h"
proof -
  from assms(2) obtain zs where "h = g @ zs" by (auto elim: prefixE)
  moreover have "clock_ms E g \<le> clock_ms E (g @ zs)"
  proof (induction zs rule: rev_induct)
    case (snoc z zs)
    also have "clock_ms E (g @ zs) \<le> clock_ms E ((g @ zs) @ [z])"
      using assms(1) unfolding clock_monotone_def by blast
    finally show ?case by simp
  qed simp
  ultimately show ?thesis by simp
qed

text \<open>
  The invariant, over the store, the tasks in their slots, the finished keys and a lower bound of the
  clock: every keyed task holds its key with the record of its own claim, and was claimed after the
  lifetime of every success under that key; no two tasks hold one key; a success is recorded until
  its lifetime ends; and the successes under one key are a lifetime apart.
\<close>

definition claims_held :: "dedup_map \<Rightarrow> ('i \<rightharpoonup> task) \<Rightarrow> (string \<times> u64) list \<Rightarrow> bool" where
  "claims_held store run finished \<longleftrightarrow>
     (\<forall>i t k. run i = Some t \<longrightarrow> task_key t = Some k \<longrightarrow>
        store k = Some \<lparr>expiry_ms = task_time t + dedup_ttl_ms, state = InFlight\<rparr> \<and>
        (\<forall>t0. (k, t0) \<in> set finished \<longrightarrow> t0 + dedup_ttl_ms \<le> task_time t))"

definition claims_unique :: "('i \<rightharpoonup> task) \<Rightarrow> bool" where
  "claims_unique run \<longleftrightarrow>
     (\<forall>i j t u k. run i = Some t \<longrightarrow> run j = Some u \<longrightarrow> task_key t = Some k \<longrightarrow>
        task_key u = Some k \<longrightarrow> i = j)"

definition successes_recorded :: "dedup_map \<Rightarrow> (string \<times> u64) list \<Rightarrow> u64 \<Rightarrow> bool" where
  "successes_recorded store finished clk \<longleftrightarrow>
     (\<forall>k t0. (k, t0) \<in> set finished \<longrightarrow> t0 + dedup_ttl_ms \<le> clk \<or>
        (\<exists>sig slot. store k = Some \<lparr>expiry_ms = t0 + dedup_ttl_ms, state = Done sig slot\<rparr>))"

definition successes_spaced :: "(string \<times> u64) list \<Rightarrow> bool" where
  "successes_spaced = sorted_wrt (\<lambda>a b. fst a = fst b \<longrightarrow> snd a + dedup_ttl_ms \<le> snd b)"

definition pool_inv :: "dedup_map \<Rightarrow> ('i \<rightharpoonup> task) \<Rightarrow> (string \<times> u64) list \<Rightarrow> u64 \<Rightarrow> bool" where
  "pool_inv store run finished clk \<longleftrightarrow>
     claims_held store run finished \<and> claims_unique run \<and>
     successes_recorded store finished clk \<and> successes_spaced finished"

lemmas pool_inv_defs = pool_inv_def claims_held_def claims_unique_def successes_recorded_def
  successes_spaced_def

lemma pool_inv_later: "pool_inv store run finished c \<Longrightarrow> c \<le> c' \<Longrightarrow> pool_inv store run finished c'"
  unfolding pool_inv_def successes_recorded_def by (meson order_trans)

lemma pool_inv_admit:
  assumes inv: "pool_inv store run finished c" and time: "c \<le> task_time t" "task_time t \<le> c'"
    and claim: "claim_or_replay store (task_key t) corr (task_time t) = (None, store')"
    and free: "run i = None" and young: "\<And>j u. run j = Some u \<Longrightarrow> c' < task_time u + dedup_ttl_ms"
  shows "pool_inv store' (run(i \<mapsto> t)) finished c'"
proof (cases "task_key t")
  case None
  with claim have "store' = store" by (simp add: claim_or_replay_def)
  with None pool_inv_later [OF inv order_trans [OF time]] free show ?thesis
    by (auto simp: pool_inv_defs)
next
  case (Some k)
  from claim Some have store': "store' = store(k \<mapsto> \<lparr>expiry_ms = task_time t + dedup_ttl_ms, state = InFlight\<rparr>)"
    and dead: "\<And>rec. store k = Some rec \<Longrightarrow> \<not> task_time t < expiry_ms rec"
    by (auto simp: claim_or_replay_def Let_def split: option.splits if_splits)
  have others: "task_key u \<noteq> Some k" if "run j = Some u" for j u
  proof
    assume "task_key u = Some k"
    with inv that have "store k = Some \<lparr>expiry_ms = task_time u + dedup_ttl_ms, state = InFlight\<rparr>"
      unfolding pool_inv_def claims_held_def by blast
    from dead [OF this] have "task_time u + dedup_ttl_ms \<le> task_time t" by simp
    also have "\<dots> \<le> c'" by (rule time(2))
    also have "\<dots> < task_time u + dedup_ttl_ms" by (rule young [OF that])
    finally show False by simp
  qed
  have past: "t0 + dedup_ttl_ms \<le> task_time t" if "(k, t0) \<in> set finished" for t0
  proof -
    from inv that consider "t0 + dedup_ttl_ms \<le> c"
      | sig slot where "store k = Some \<lparr>expiry_ms = t0 + dedup_ttl_ms, state = Done sig slot\<rparr>"
      unfolding pool_inv_def successes_recorded_def by blast
    then show ?thesis
    proof cases
      case 1
      then show ?thesis using time(1) by (rule order_trans)
    next
      case 2
      from dead [OF this] show ?thesis by simp
    qed
  qed
  from inv past others have held: "claims_held store' (run(i \<mapsto> t)) finished"
    unfolding pool_inv_def claims_held_def by (auto simp: store' Some)
  moreover have "claims_unique (run(i \<mapsto> t))"
    using inv others Some unfolding pool_inv_def claims_unique_def by auto
  moreover have "successes_recorded store' finished c'"
    using pool_inv_later [OF inv order_trans [OF time]] past time(2)
    unfolding pool_inv_def successes_recorded_def store' by (auto intro: order_trans)
  ultimately show ?thesis using inv by (simp add: pool_inv_def)
qed

lemma pool_inv_clean:
  assumes inv: "pool_inv store run finished c" and "c \<le> c'"
    and young: "\<And>j u. run j = Some u \<Longrightarrow> c' < task_time u + dedup_ttl_ms"
  shows "pool_inv (retain_dedup store c) run finished c'"
proof -
  have "c < task_time u + dedup_ttl_ms" if "run j = Some u" for j u
    using \<open>c \<le> c'\<close> young [OF that] by (rule le_less_trans)
  then have "claims_held (retain_dedup store c) run finished"
    using inv unfolding pool_inv_def claims_held_def by (auto simp: retain_dedup_def)
  moreover have "successes_recorded (retain_dedup store c) finished c'"
    unfolding successes_recorded_def
  proof (intro allI impI)
    fix k t0
    assume "(k, t0) \<in> set finished"
    with inv consider "t0 + dedup_ttl_ms \<le> c"
      | sig slot where "store k = Some \<lparr>expiry_ms = t0 + dedup_ttl_ms, state = Done sig slot\<rparr>"
        "c < t0 + dedup_ttl_ms"
      unfolding pool_inv_def successes_recorded_def by (meson not_le)
    then show "t0 + dedup_ttl_ms \<le> c' \<or> (\<exists>sig slot. retain_dedup store c k =
        Some \<lparr>expiry_ms = t0 + dedup_ttl_ms, state = Done sig slot\<rparr>)"
      using \<open>c \<le> c'\<close> by cases (auto simp: retain_dedup_def intro: order_trans)
  qed
  ultimately show ?thesis using inv by (simp add: pool_inv_def)
qed

lemma pool_inv_complete:
  assumes inv: "pool_inv store run finished c" and "c \<le> c'" and i: "run i = Some t"
  shows "pool_inv (completed_store X t r store) (run(i := None)) (finished @ finished_keys t r) c'"
proof (cases "task_key t")
  case None
  with pool_inv_later [OF inv \<open>c \<le> c'\<close>] show ?thesis
    by (auto simp: pool_inv_defs completed_store_def finished_keys_def record_done_def release_claim_def
        split: outcome.splits prod.splits)
next
  case (Some k)
  define store' where "store' = completed_store X t r store"
  from inv i Some have flight: "store k = Some \<lparr>expiry_ms = task_time t + dedup_ttl_ms, state = InFlight\<rparr>"
    and past: "\<And>t0. (k, t0) \<in> set finished \<Longrightarrow> t0 + dedup_ttl_ms \<le> task_time t"
    unfolding pool_inv_def claims_held_def by blast+
  have other: "task_key u \<noteq> Some k" if "(run(i := None)) j = Some u" for j u
    using inv i Some that unfolding pool_inv_def claims_unique_def by (auto split: if_splits)
  have store': "store' k' = store k'" if "k' \<noteq> k" for k'
    using that by (auto simp: store'_def Some completed_store_def record_done_def release_claim_def
        split: outcome.splits prod.splits)
  have new: "finished_keys t r = (if is_ok r then [(k, task_time t)] else [])"
    by (simp add: finished_keys_def Some)
  have "claims_held store' (run(i := None)) (finished @ finished_keys t r)"
    using inv other store' unfolding pool_inv_def claims_held_def new
    by (auto split: if_splits) (metis fun_upd_apply)+
  moreover have "claims_unique (run(i := None))"
    using inv unfolding pool_inv_def claims_unique_def by auto
  moreover have "successes_recorded store' (finished @ finished_keys t r) c'"
    unfolding successes_recorded_def
  proof (intro allI impI)
    fix k' t0
    assume k': "(k', t0) \<in> set (finished @ finished_keys t r)"
    show "t0 + dedup_ttl_ms \<le> c' \<or> (\<exists>sig slot. store' k' =
        Some \<lparr>expiry_ms = t0 + dedup_ttl_ms, state = Done sig slot\<rparr>)"
    proof (cases "(k', t0) \<in> set finished")
      case True
      with inv have "t0 + dedup_ttl_ms \<le> c \<or> (\<exists>sig slot. store k' =
          Some \<lparr>expiry_ms = t0 + dedup_ttl_ms, state = Done sig slot\<rparr>)"
        unfolding pool_inv_def successes_recorded_def by blast
      with flight store' \<open>c \<le> c'\<close> show ?thesis by (cases "k' = k") (auto intro: order_trans)
    next
      case False
      with k' have "is_ok r" "k' = k" "t0 = task_time t" by (auto simp: new split: if_splits)
      then show ?thesis
        by (auto simp: store'_def completed_store_def Some record_done_def split: outcome.splits)
    qed
  qed
  moreover have "successes_spaced (finished @ finished_keys t r)"
    using inv past unfolding pool_inv_def successes_spaced_def new
    by (auto simp: sorted_wrt_append)
  ultimately show ?thesis by (simp add: pool_inv_def store'_def)
qed

section \<open>Every step keeps the invariant\<close>

definition pool_ok :: "env \<Rightarrow> pool \<Rightarrow> bool" where
  "pool_ok E P \<longleftrightarrow>
     pool_inv (dedup_store (pl_bridge P)) (running P) (pl_done P) (clock_ms E (trace (pl_bridge P)))"

lemma timely_running:
  "timely E P \<Longrightarrow> running P j = Some u \<Longrightarrow>
   clock_ms E (trace (pl_bridge P)) < task_time u + dedup_ttl_ms"
  unfolding timely_def by blast

lemma running_upd:
  "running (P\<lparr>pl_bridge := b\<rparr>) = running P"
  "running (P\<lparr>pl_bridge := b, pl_tasks := (pl_tasks P)(i := q)\<rparr>) = (running P)(i := Option.bind q task_in)"
  "running \<lparr>pl_bridge = b, pl_tasks = (pl_tasks P)(i := q), pl_done = d\<rparr> = (running P)(i := Option.bind q task_in)"
  by (auto simp: running_def)

lemma running_slot:
  "pl_tasks P i = None \<Longrightarrow> running P i = None"
  "pl_tasks P i = Some p \<Longrightarrow> running P i = task_in p"
  by (simp_all add: running_def)

lemma pool_step_ok:
  assumes E: "retry_contract (cn_retry N)" "clock_monotone E"
    and ok: "pool_ok E P" "rests store_kept P" and step: "pool_step X E C N i P Q" and "timely E Q"
  shows "pool_ok E Q"
  using step
proof cases
  case (pool_settled w n subject payload f b)
  have "admission_post (read_within E) (pl_bridge P) (Inl f) b"
    using admitsD [OF admits_admission pool_settled(6)] .
  moreover have "(running P)((w, n) := None) = running P"
    using running_slot(1) [OF pool_settled(3)] by auto
  ultimately show ?thesis
    using clock_monotone_prefix [OF E(2)] ok(1)
    by (auto simp: pool_settled(2) pool_ok_def running_upd admission_post_def intro: pool_inv_later)
next
  case (pool_admitted w n subject payload t b)
  have post: "admission_post (read_within E) (pl_bridge P) (Inr t) b"
    using admitsD [OF admits_admission pool_admitted(6)] .
  then obtain g corr where g: "prefix (trace (pl_bridge P)) g" "prefix g (trace b)"
    "task_time t = clock_ms E g"
    and claim: "claim_or_replay (dedup_store (pl_bridge P)) (task_key t) corr (task_time t) = (None, dedup_store b)"
    by (auto simp: admission_post_def read_within_def)
  have "pool_inv (dedup_store b) ((running P)((w, n) \<mapsto> t)) (pl_done P) (clock_ms E (trace b))"
  proof (rule pool_inv_admit [OF ok(1) [unfolded pool_ok_def] _ _ claim])
    show "clock_ms E (trace (pl_bridge P)) \<le> task_time t" "task_time t \<le> clock_ms E (trace b)"
      using clock_monotone_prefix [OF E(2)] g by simp_all
    show free: "running P (w, n) = None" by (rule running_slot(1) [OF pool_admitted(3)])
    show "clock_ms E (trace b) < task_time u + dedup_ttl_ms" if "running P j = Some u" for j u
      using timely_running [OF \<open>timely E Q\<close>, of j u] that free
      by (cases "j = (w, n)") (simp_all add: pool_admitted(2) running_upd)
  qed
  then show ?thesis by (simp add: pool_admitted(2) pool_ok_def running_upd)
next
  case (pool_executed j t w r b)
  note eff = emits_task_effect [OF E(1), of X "seen w E" C t]
  have "b = final_of (task_effect X (seen w E) C N t) (pl_bridge P)" using pool_executed(4) by simp
  then have "prefix (trace (pl_bridge P)) (trace b)" "dedup_store b = dedup_store (pl_bridge P)"
    using emits_events(1) [OF eff, of "pl_bridge P"] emits_frame(4) [OF eff, of "pl_bridge P"] by simp_all
  moreover have "(running P)(j \<mapsto> t) = running P" using running_slot(2) [OF pool_executed(3)] by auto
  ultimately show ?thesis
    using ok(1) clock_monotone_prefix [OF E(2)]
    by (auto simp: pool_executed(2) pool_ok_def running_upd intro: pool_inv_later)
next
  case (pool_completed j t r b)
  have "running P j = Some t" using running_slot(2) [OF pool_completed(3)] by simp
  from pool_inv_complete [OF ok(1) [unfolded pool_ok_def] order_refl this] task_settle_run [OF pool_completed(4)]
  show ?thesis by (simp add: pool_completed(2) pool_ok_def running_upd)
next
  case (pool_finished j f w h b)
  have "(running P)(j := None) = running P" using running_slot(2) [OF pool_finished(3)] by auto
  with store_keptD [OF restsD [OF ok(2) pool_finished(3)] pool_finished(4)] ok(1) clock_monotone_prefix [OF E(2)]
  show ?thesis by (auto simp: pool_finished(2) pool_ok_def running_upd intro: pool_inv_later)
next
  case (pool_cleaned b)
  have b: "prefix (trace (pl_bridge P)) (trace b)"
    "dedup_store b = retain_dedup (dedup_store (pl_bridge P)) (clock_ms E (trace (pl_bridge P)))"
    using cleanup_run [OF pool_cleaned(3)] by simp_all
  have "pool_inv (dedup_store b) (running P) (pl_done P) (clock_ms E (trace b))"
    unfolding b(2)
  proof (rule pool_inv_clean [OF ok(1) [unfolded pool_ok_def] clock_monotone_prefix [OF E(2) b(1)]])
    show "clock_ms E (trace b) < task_time u + dedup_ttl_ms" if "running P j = Some u" for j u
      using timely_running [OF \<open>timely E Q\<close>, of j u] that by (simp add: pool_cleaned(2) running_upd)
  qed
  then show ?thesis by (simp add: pool_cleaned(2) pool_ok_def running_upd)
next
  case (pool_refreshed b)
  with refresh_run [OF pool_refreshed(3)] ok(1) clock_monotone_prefix [OF E(2)] show ?thesis
    by (auto simp: pool_ok_def running_upd intro: pool_inv_later)
qed

lemma pool_run_ok:
  assumes "retry_contract (cn_retry N)" "clock_monotone E"
    and "pool_run X E C N (timely E) is (pool_start b) P"
  shows "pool_ok E P"
proof -
  have "pool_ok E P \<and> rests store_kept P"
    using assms(3)
  proof (rule pool_run_invariant)
    show "pool_ok E (pool_start b) \<and> rests store_kept (pool_start b)"
      by (simp add: pool_ok_def pool_start_def running_def rests_def pool_inv_defs)
    show "pool_ok E Q \<and> rests store_kept Q"
      if "pool_ok E P \<and> rests store_kept P" "pool_step X E C N i P Q" "timely E Q" for i P Q
      using that pool_step_ok [OF assms(1,2)] pool_step_rests [OF store_kept_admission store_kept_answer] by blast
  qed
  then show ?thesis ..
qed

section \<open>Runs computed\<close>

text \<open>The steps are deterministic in their input, so a run can be computed.\<close>

fun pool_do ::
  "externals \<Rightarrow> env \<Rightarrow> config \<Rightarrow> consumer \<Rightarrow> pool_input \<Rightarrow> pool \<Rightarrow> pool option" where
  "pool_do X E C N (Arrive (w, n) subject payload) P =
     (if pl_tasks P (w, n) = None \<and> n < concurrency w \<and>
         subject \<in> set (pc_filter_subjects (worker_config w))
      then (case run_state (admission X E C N subject payload) (pl_bridge P) of
              (Inl f, b) \<Rightarrow>
                Some (P\<lparr>pl_bridge := b, pl_tasks := (pl_tasks P)((w, n) \<mapsto> Settling f)\<rparr>)
            | (Inr t, b) \<Rightarrow>
                Some (P\<lparr>pl_bridge := b, pl_tasks := (pl_tasks P)((w, n) \<mapsto> Claimed t)\<rparr>))
      else None)"
| "pool_do X E C N (Execute i w) P =
     (case pl_tasks P i of
        Some (Claimed t) \<Rightarrow>
          (case run_state (task_effect X (seen w E) C N t) (pl_bridge P) of
             (Panicked, b) \<Rightarrow> None
           | (r, b) \<Rightarrow> Some (P\<lparr>pl_bridge := b, pl_tasks := (pl_tasks P)(i \<mapsto> Executed t r)\<rparr>))
      | _ \<Rightarrow> None)"
| "pool_do X E C N (Complete i) P =
     (case pl_tasks P i of
        Some (Executed t r) \<Rightarrow>
          Some \<lparr>pl_bridge = final_of (task_settle X t r) (pl_bridge P),
                pl_tasks = (pl_tasks P)(i \<mapsto> Settling (task_answer X t r)),
                pl_done = pl_done P @ finished_keys t r\<rparr>
      | _ \<Rightarrow> None)"
| "pool_do X E C N (Finish i w) P =
     (case pl_tasks P i of
        Some (Settling f) \<Rightarrow>
          Some (P\<lparr>pl_bridge := final_of (f (seen w E)) (pl_bridge P), pl_tasks := (pl_tasks P)(i := None)\<rparr>)
      | _ \<Rightarrow> None)"
| "pool_do X E C N CleanTick P = Some (P\<lparr>pl_bridge := final_of (cleanup_tick E) (pl_bridge P)\<rparr>)"
| "pool_do X E C N RefreshBlockhash P =
     Some (P\<lparr>pl_bridge := final_of (refresh_blockhash E) (pl_bridge P)\<rparr>)"

primrec pool_exec ::
  "externals \<Rightarrow> env \<Rightarrow> config \<Rightarrow> consumer \<Rightarrow> (pool \<Rightarrow> bool) \<Rightarrow> pool_input list \<Rightarrow> pool \<Rightarrow> pool option" where
  "pool_exec X E C N G [] P = Some P"
| "pool_exec X E C N G (i # is) P =
     (case pool_do X E C N i P of
        Some Q \<Rightarrow> if G Q then pool_exec X E C N G is Q else None
      | None \<Rightarrow> None)"

lemma pool_step_iff: "pool_step X E C N i P Q \<longleftrightarrow> pool_do X E C N i P = Some Q"
proof
  show "pool_do X E C N i P = Some Q" if "pool_step X E C N i P Q"
    using that by cases (auto split: outcome.split)
  show "pool_step X E C N i P Q" if "pool_do X E C N i P = Some Q"
    using that
  proof (cases i)
    case (Arrive j subject payload)
    with that show ?thesis
      by (cases j) (auto intro: pool_step.intros split: if_splits prod.splits sum.splits)
  next
    case (Complete j)
    with that show ?thesis
      by (auto intro!: pool_completed simp: prod_eq_iff split: option.splits progress.splits)
  next
    case (Finish j w)
    with that show ?thesis
      by (auto intro!: pool_finished simp: prod_eq_iff split: option.splits progress.splits)
  next
    case CleanTick
    with that show ?thesis by (auto intro!: pool_cleaned simp: prod_eq_iff)
  next
    case RefreshBlockhash
    with that show ?thesis by (auto intro!: pool_refreshed simp: prod_eq_iff)
  qed (auto intro: pool_step.intros split: option.splits progress.splits prod.splits outcome.splits)
qed

lemma pool_run_cons:
  assumes "pool_run X E C N G is Q R" "pool_step X E C N i P Q" "G Q"
  shows "pool_run X E C N G (i # is) P R"
  using assms
proof (induction rule: pool_run.induct)
  case (pool_nil Q)
  then have "pool_run X E C N G ([] @ [i]) P Q" by (rule pool_snoc [OF pool_run.pool_nil])
  then show ?case by simp
next
  case (pool_snoc "is" Q R j S)
  then have "pool_run X E C N G ((i # is) @ [j]) P S" by (blast intro: pool_run.pool_snoc)
  then show ?case by simp
qed

lemma pool_exec_run: "pool_exec X E C N G is P = Some Q \<Longrightarrow> pool_run X E C N G is P Q"
proof (induction "is" arbitrary: P)
  case (Cons i "is")
  then show ?case
    by (auto intro!: pool_run_cons [OF Cons.IH] simp: pool_step_iff split: option.splits if_splits)
qed (simp add: pool_nil)

end
