(* ===== verification/Concurrent_Properties.thy ===== *)
theory Concurrent_Properties
  imports Concurrent_Tasks System_Properties
begin

text \<open>
  The properties of concurrently running handlers: effects only for messages that passed the guards,
  one running task per idempotency key, one success per key and lifetime; and the two races the code
  has, duplicate deliveries without an idempotency key and a cancellation of a running submission.
\<close>

section \<open>Mediation under concurrency\<close>

text \<open>
  \<open>vets Q m\<close>: the program \<open>m\<close> has no effect, and a task it admits satisfies \<open>Q\<close>.
\<close>

definition vets :: "(task \<Rightarrow> bool) \<Rightarrow> (rest + task) io \<Rightarrow> bool" where
  "vets Q m \<longleftrightarrow> extends (\<lambda>e. \<not> is_effect e) m \<and> (\<forall>s t. result_of m s = Inr t \<longrightarrow> Q t)"

named_theorems vets_rules \<open>introduction rules for the guards of admission\<close>

lemma vets_settle [vets_rules]: "vets Q (settle f)"
  unfolding vets_def settle_def by (simp add: extends_rules)

lemma vets_return [vets_rules]: "Q t \<Longrightarrow> vets Q (State_Monad.return (Inr t))"
  unfolding vets_def by (auto intro: extends_rules)

lemma vets_bind_result:
  assumes "extends (\<lambda>e. \<not> is_effect e) m" "\<And>s. R (result_of m s)" "\<And>a. R a \<Longrightarrow> vets Q (f a)"
  shows "vets Q (State_Monad.bind m f)"
proof -
  have "extends (\<lambda>e. \<not> is_effect e) (State_Monad.bind m f)"
    using assms(3) unfolding vets_def by (intro extends_bind_result [where R = R, OF assms(1,2)]) simp
  moreover have "Q t" if "result_of (State_Monad.bind m f) s = Inr t" for s t
  proof -
    obtain a s' where "run_state m s = (a, s')" by (cases "run_state m s")
    with that assms(2) [of s] have "R a" "result_of (f a) s' = Inr t" by simp_all
    with assms(3) show ?thesis unfolding vets_def by blast
  qed
  ultimately show ?thesis unfolding vets_def by blast
qed

lemma vets_bind [vets_rules]:
  "extends (\<lambda>e. \<not> is_effect e) m \<Longrightarrow> (\<And>a. vets Q (f a)) \<Longrightarrow> vets Q (State_Monad.bind m f)"
  by (rule vets_bind_result [where R = "\<lambda>_. True"]) simp_all

lemma vets_cases [vets_rules]:
  "(b \<Longrightarrow> vets Q m) \<Longrightarrow> (\<not> b \<Longrightarrow> vets Q n) \<Longrightarrow> vets Q (if b then m else n)"
  "(\<And>a. x = Inl a \<Longrightarrow> vets Q (f a)) \<Longrightarrow> (\<And>c. x = Inr c \<Longrightarrow> vets Q (g c)) \<Longrightarrow>
   vets Q (case x of Inl a \<Rightarrow> f a | Inr c \<Rightarrow> g c)"
  "(y = None \<Longrightarrow> vets Q m) \<Longrightarrow> (\<And>d. y = Some d \<Longrightarrow> vets Q (k d)) \<Longrightarrow>
   vets Q (case y of None \<Rightarrow> m | Some d \<Rightarrow> k d)"
  by (simp_all split: sum.split option.split)















fun arrivals :: "pool_input list \<Rightarrow> (string \<times> bytes) set" where
  "arrivals [] = {}"
| "arrivals (Arrive i subject payload # is) = insert (subject, payload) (arrivals is)"
| "arrivals (_ # is) = arrivals is"

lemma arrivals_append [simp]: "arrivals (is @ js) = arrivals is \<union> arrivals js"
  by (induction "is" rule: arrivals.induct) auto






text \<open>Runs of the sample world are computed; its clock stands still, so every task is timely.\<close>

lemmas block_defs = admission_def submit_admission_def submit_age_def submit_vet_def submit_take_def
  settle_def settle_maps_def stage_text_def task_settle_def submit_answer_def finished_keys_def
  pool_start_def nats_consumer_start_def nats_consumer_new_def fast_filter_subjects_def
  pull_consumer_def

lemma sample_clock_monotone: "clock_monotone sample_env"
  by (simp add: clock_monotone_def sample_env_def)


section \<open>Claims under concurrency\<close>

text \<open>C6: mutual exclusion on idempotency keys. In a run whose clock does not go back and whose tasks
  finish within the lifetime of their claims, two running handlers never hold the same namespaced
  idempotency key, however admissions, executions, completions and cleanup ticks interleave.\<close>

theorem exclusive_claims:
  assumes "retry_contract (cn_retry N)" and "clock_monotone E"
    and "pool_run X E C N (timely E) is (pool_start b) P"
    and "running P i = Some t" and "running P j = Some u"
    and "task_key t = Some k" and "task_key u = Some k"
  shows "i = j"
  using pool_run_ok [OF assms(1-3)] assms(4-7)
  unfolding pool_ok_def pool_inv_def claims_unique_def by blast

lemma timely_simps:
  "timely E \<lparr>pl_bridge = b, pl_tasks = Map.empty, pl_done = d\<rparr>"
  "timely E \<lparr>pl_bridge = b, pl_tasks = m, pl_done = d\<rparr> \<Longrightarrow>
   timely E \<lparr>pl_bridge = b, pl_tasks = m(i \<mapsto> Settling f), pl_done = d\<rparr>"
  "timely E \<lparr>pl_bridge = b, pl_tasks = m, pl_done = d\<rparr> \<Longrightarrow>
   clock_ms E (trace b) < task_time t + dedup_ttl_ms \<Longrightarrow>
   timely E \<lparr>pl_bridge = b, pl_tasks = m(i \<mapsto> Claimed t), pl_done = d\<rparr>"
  "timely E \<lparr>pl_bridge = b, pl_tasks = m, pl_done = d\<rparr> \<Longrightarrow>
   clock_ms E (trace b) < task_time t + dedup_ttl_ms \<Longrightarrow>
   timely E \<lparr>pl_bridge = b, pl_tasks = m(i \<mapsto> Executed t r), pl_done = d\<rparr>"
  by (auto simp: timely_def running_def)

theorem exclusive_claims_witness:
  "\<exists>P t. pool_run sample_ext sample_env sample_cfg sample_consumer (timely sample_env)
     [Arrive (Fast, 0) ''chain.tx.submit'' [1], Arrive (Fast, 1) ''chain.tx.submit'' [1]]
     (pool_start sample_state) P \<and>
   running P (Fast, 0) = Some t \<and> task_key t = Some ''submit:k1'' \<and> running P (Fast, 1) \<noteq> Some t"
proof -
  let ?is = "[Arrive (Fast, 0) ''chain.tx.submit'' [1], Arrive (Fast, 1) ''chain.tx.submit'' [1]]"
  let ?t = "SubmitTask sample_submit (Some ''submit:k1'') 2000"
  obtain P where P: "pool_exec sample_ext sample_env sample_cfg sample_consumer (timely sample_env) ?is
      (pool_start sample_state) = Some P" "running P (Fast, 0) = Some ?t"
    by (simp add: block_defs handler_defs sample_eval timely_simps running_def)
  have "running P (Fast, 1) \<noteq> Some ?t"
    using exclusive_claims [OF _ sample_clock_monotone pool_exec_run [OF P(1)] P(2), of "(Fast, 1)" ?t]
    by (auto simp: retry_fixed_contract)
  with P pool_exec_run [OF P(1)] show ?thesis by (intro exI [of _ P] exI [of _ ?t]) simp
qed

text \<open>C7: at most one success per key and lifetime. In such a run two handlers that complete with
  success under the same idempotency key made their claims at least the lifetime of a record (two
  minutes) apart: within a lifetime an effect is performed at most once per key.\<close>

theorem effects_once_per_lifetime:
  assumes "retry_contract (cn_retry N)" and "clock_monotone E"
    and "pool_run X E C N (timely E) is (pool_start b) P"
    and "m < n" and "n < length (pl_done P)" and "fst (pl_done P ! m) = fst (pl_done P ! n)"
  shows "snd (pl_done P ! m) + dedup_ttl_ms \<le> snd (pl_done P ! n)"
proof -
  have "successes_spaced (pl_done P)"
    using pool_run_ok [OF assms(1-3)] by (simp add: pool_ok_def pool_inv_def)
  from sorted_wrt_nth_less [OF this [unfolded successes_spaced_def] assms(4,5)] assms(6) show ?thesis
    by simp
qed

text \<open>A world whose clock moves on by more than a lifetime after the first submission.\<close>

definition later_ext :: externals where
  "later_ext = sample_ext\<lparr>parse_submit :=
     (\<lambda>b. if b = [2] then Inr (sample_submit\<lparr>ts_correlation_id := ''c2'', ts_created_at_ms := 200000\<rparr>)
          else Inr sample_submit)\<rparr>"

definition later_env :: env where
  "later_env = sample_env\<lparr>clock_ms := \<lambda>h. if length h < 11 then 2000 else 200000\<rparr>"

lemma later_clock_monotone: "clock_monotone later_env"
  by (simp add: clock_monotone_def later_env_def)

theorem effects_once_per_lifetime_witness:
  "\<exists>P. pool_run later_ext later_env sample_cfg sample_consumer (timely later_env)
     [Arrive (Fast, 0) ''chain.tx.submit'' [1], Execute (Fast, 0) id, Complete (Fast, 0), Finish (Fast, 0) id,
      Arrive (Fast, 0) ''chain.tx.submit'' [2], Execute (Fast, 0) id, Complete (Fast, 0), Finish (Fast, 0) id]
     (pool_start sample_state) P \<and>
   map fst (pl_done P) = [''submit:k1'', ''submit:k1''] \<and>
   snd (pl_done P ! 0) + dedup_ttl_ms \<le> snd (pl_done P ! 1)"
proof -
  let ?is = "[Arrive (Fast, 0) ''chain.tx.submit'' [1], Execute (Fast, 0) id, Complete (Fast, 0), Finish (Fast, 0) id,
      Arrive (Fast, 0) ''chain.tx.submit'' [2], Execute (Fast, 0) id, Complete (Fast, 0), Finish (Fast, 0) id]"
  obtain P where P: "pool_exec later_ext later_env sample_cfg sample_consumer (timely later_env) ?is
      (pool_start sample_state) = Some P" "map fst (pl_done P) = [''submit:k1'', ''submit:k1'']"
    by (simp add: block_defs handler_defs sample_eval timely_simps later_ext_def later_env_def)
  have "length (map fst (pl_done P)) = 2" "map fst (pl_done P) ! 0 = map fst (pl_done P) ! 1"
    unfolding P(2) by simp_all
  then have twice: "1 < length (pl_done P)" "fst (pl_done P ! 0) = fst (pl_done P ! 1)" by simp_all
  have "retry_contract (cn_retry sample_consumer)" by (simp add: retry_fixed_contract)
  from effects_once_per_lifetime [OF this later_clock_monotone pool_exec_run [OF P(1)] zero_less_one twice]
  show ?thesis by (intro exI [of _ P] conjI pool_exec_run [OF P(1)] P(2))
qed

section \<open>Races\<close>

definition keyless_ext :: externals where
  "keyless_ext = sample_ext\<lparr>parse_submit := \<lambda>b. Inr (sample_submit\<lparr>ts_idempotency_key := []\<rparr>)\<rparr>"

text \<open>Duplicate deliveries of a message without an idempotency key are both executed. There is a
  run in which one message with an empty idempotency key is delivered twice, both handlers run
  concurrently, and the bridge sends the same transaction twice: the correlation id enters the
  idempotency cache only when the first submission has completed.\<close>

lemma keyless_duplicates_race:
  "\<exists>P. pool_run keyless_ext sample_env sample_cfg sample_consumer (timely sample_env)
     [Arrive (Fast, 0) ''chain.tx.submit'' [1], Arrive (Fast, 1) ''chain.tx.submit'' [1],
      Execute (Fast, 0) id, Complete (Fast, 0), Execute (Fast, 1) id, Complete (Fast, 1)]
     (pool_start sample_state) P \<and>
   filter is_send (trace (pl_bridge P)) =
     [EvSend sample_signed (Inr [77]), EvSend sample_signed (Inr [77])]"
proof -
  let ?is = "[Arrive (Fast, 0) ''chain.tx.submit'' [1], Arrive (Fast, 1) ''chain.tx.submit'' [1],
      Execute (Fast, 0) id, Complete (Fast, 0), Execute (Fast, 1) id, Complete (Fast, 1)]"
  obtain P where "pool_exec keyless_ext sample_env sample_cfg sample_consumer (timely sample_env) ?is
      (pool_start sample_state) = Some P"
    "filter is_send (trace (pl_bridge P)) =
       [EvSend sample_signed (Inr [77]), EvSend sample_signed (Inr [77])]"
    by (simp add: block_defs handler_defs sample_eval timely_simps keyless_ext_def)
  with pool_exec_run show ?thesis by blast
qed

text \<open>A confirmed cancellation does not stop a running submission. There is a run in which a
  submission is admitted, its cancellation arrives and is answered with success, and the transaction is
  signed and sent afterwards.\<close>

lemma cancel_races_submission:
  "\<exists>P Q evs. pool_run sample_ext sample_env sample_cfg sample_consumer (timely sample_env)
     [Arrive (Fast, 0) ''chain.tx.submit'' [1], Arrive (Fast, 1) ''chain.tx.cancel'' [1], Finish (Fast, 1) id]
     (pool_start sample_state) P \<and> cancel_reported (trace (pl_bridge P)) \<and>
   pool_run sample_ext sample_env sample_cfg sample_consumer (timely sample_env) [Execute (Fast, 0) id] P Q \<and>
   trace (pl_bridge Q) = trace (pl_bridge P) @ evs \<and> EvSend sample_signed (Inr [77]) \<in> set evs"
proof -
  let ?run = "pool_exec sample_ext sample_env sample_cfg sample_consumer (timely sample_env)"
  let ?is = "[Arrive (Fast, 0) ''chain.tx.submit'' [1], Arrive (Fast, 1) ''chain.tx.cancel'' [1],
      Finish (Fast, 1) id]"
  obtain P where P: "?run ?is (pool_start sample_state) = Some P" "cancel_reported (trace (pl_bridge P))"
    "pl_tasks P = [(Fast, 0) \<mapsto> Claimed (SubmitTask sample_submit (Some ''submit:k1'') 2000)]"
    "blockhash_cache (pl_bridge P) = Some (replicate 32 9, 100)"
    by (simp add: block_defs handler_defs sample_eval timely_simps cancel_reply_def)
      (simp add: cancel_reported_def)
  then obtain Q evs where "pool_do sample_ext sample_env sample_cfg sample_consumer (Execute (Fast, 0) id) P = Some Q"
    "pl_tasks Q = [(Fast, 0) \<mapsto> Executed (SubmitTask sample_submit (Some ''submit:k1'') 2000) (Ok ([77], 0))]"
    "trace (pl_bridge Q) = trace (pl_bridge P) @ evs" "EvSend sample_signed (Inr [77]) \<in> set evs"
    by (simp add: block_defs handler_defs sample_eval)
  moreover from this have "timely sample_env Q"
    by (auto simp: timely_def running_def sample_env_def dedup_ttl_ms_def split: if_splits)
  ultimately have "?run [Execute (Fast, 0) id] P = Some Q" by simp
  from pool_exec_run [OF P(1)] pool_exec_run [OF this] P(2)
    \<open>trace (pl_bridge Q) = _\<close> \<open>EvSend _ _ \<in> _\<close> show ?thesis by blast
qed

text \<open>The lifetime of a claim is not tied to the handler that holds it: once it has run out, a second
  delivery under the same key is admitted while the first is still running, and both send. So the
  condition that tasks finish within the lifetime of their claims cannot be dropped above.\<close>

definition overdue_env :: env where
  "overdue_env = sample_env\<lparr>clock_ms := \<lambda>h. if length h < 3 then 2000 else 200000\<rparr>"

lemma overdue_claims_overlap:
  "\<exists>P. pool_run later_ext overdue_env sample_cfg sample_consumer (\<lambda>_. True)
     [Arrive (Fast, 0) ''chain.tx.submit'' [1], Arrive (Fast, 1) ''chain.tx.submit'' [2],
      Execute (Fast, 0) id, Execute (Fast, 1) id] (pool_start sample_state) P \<and>
   map (map_option task_key) [running P (Fast, 0), running P (Fast, 1)] =
     [Some (Some ''submit:k1''), Some (Some ''submit:k1'')] \<and>
   filter is_send (trace (pl_bridge P)) =
     [EvSend sample_signed (Inr [77]), EvSend sample_signed (Inr [77])]"
proof -
  let ?is = "[Arrive (Fast, 0) ''chain.tx.submit'' [1], Arrive (Fast, 1) ''chain.tx.submit'' [2],
      Execute (Fast, 0) id, Execute (Fast, 1) id]"
  obtain P where P: "pool_exec later_ext overdue_env sample_cfg sample_consumer (\<lambda>_. True) ?is
      (pool_start sample_state) = Some P"
    "map (map_option task_key) [running P (Fast, 0), running P (Fast, 1)] =
       [Some (Some ''submit:k1''), Some (Some ''submit:k1'')]"
    "filter is_send (trace (pl_bridge P)) =
       [EvSend sample_signed (Inr [77]), EvSend sample_signed (Inr [77])]"
    by (simp add: block_defs handler_defs sample_eval later_ext_def overdue_env_def running_def)
  show ?thesis by (intro exI [of _ P] conjI pool_exec_run [OF P(1)] P(2,3))
qed

end
