(* ===== verification/Concurrent_Accounting.thy ===== *)
theory Concurrent_Accounting
  imports Concurrent_Properties
begin

text \<open>
  What concurrently running handlers do to the messages: a whole handler is a run of its blocks; every
  message that arrived is acknowledged once or still holds its slot; and once a cancellation has been
  reported, no message with its correlation id is admitted any more.
\<close>

section \<open>A handler is a run of its blocks\<close>

lemma admission_proceeds:
  "State_Monad.bind (admission X E C N subject payload) (proceed X E C N) =
   handle_message X E C N subject payload"
  using handlers_as_blocks [of X E C N payload]
  by (simp only: admission_def handle_message_def if_distrib [of "\<lambda>m. State_Monad.bind m (proceed X E C N)"]
      proceed_settle) simp

text \<open>The concurrent session contains the sequential one. A handler that runs as one step, as in
  the session relation, is the run of its blocks in a free slot of its consumer, with the other slots
  untouched: the same bridge, the same trace, the same maps.\<close>

lemma handler_is_pool_run:
  assumes "run_state (handle_message X E C N subject payload) (pl_bridge P) = (Finished, b)"
    and "subject \<in> set (pc_filter_subjects (worker_config w))" and "n < concurrency w"
    and "pl_tasks P (w, n) = None"
  shows "\<exists>is Q. is \<in> {[Arrive (w, n) subject payload, Finish (w, n) id],
      [Arrive (w, n) subject payload, Execute (w, n) id, Complete (w, n), Finish (w, n) id]} \<and>
    pool_run X E C N (\<lambda>_. True) is P Q \<and> pl_bridge Q = b \<and> pl_tasks Q = pl_tasks P"
proof -
  obtain a s1 where adm: "run_state (admission X E C N subject payload) (pl_bridge P) = (a, s1)"
    by (cases "run_state (admission X E C N subject payload) (pl_bridge P)")
  have run: "run_state (proceed X E C N a) s1 = (Finished, b)"
    using assms(1) adm unfolding admission_proceeds [symmetric] by simp
  show ?thesis
  proof (cases a)
    case (Inl f)
    with run have "run_state (f E) s1 = (Finished, b)" by (simp add: proceed_def)
    with adm Inl assms have "pool_exec X E C N (\<lambda>_. True)
        [Arrive (w, n) subject payload, Finish (w, n) id] P = Some (P\<lparr>pl_bridge := b\<rparr>)"
      by (simp add: fun_upd_idem)
    from pool_exec_run [OF this] show ?thesis
      by (intro exI [of _ "[Arrive (w, n) subject payload, Finish (w, n) id]"] exI [of _ "P\<lparr>pl_bridge := b\<rparr>"]) simp
  next
    case (Inr t)
    obtain r s2 where eff: "run_state (task_effect X E C N t) s1 = (r, s2)"
      by (cases "run_state (task_effect X E C N t) s1")
    with run Inr have r: "r \<noteq> Panicked" and fin: "run_state (task_completion X E t r) s2 = (Finished, b)"
      by (auto simp: proceed_def run_task_def split: outcome.splits)
    let ?Q = "\<lparr>pl_bridge = b, pl_tasks = pl_tasks P, pl_done = pl_done P @ finished_keys t r\<rparr>"
    have "pool_exec X E C N (\<lambda>_. True)
        [Arrive (w, n) subject payload, Execute (w, n) id, Complete (w, n), Finish (w, n) id] P = Some ?Q"
      using adm Inr assms eff r fin by (cases r) (simp_all add: task_completion_def fun_upd_idem split_beta)
    from pool_exec_run [OF this] show ?thesis
      by (intro exI [of _ "[Arrive (w, n) subject payload, Execute (w, n) id, Complete (w, n), Finish (w, n) id]"]
          exI [of _ ?Q]) simp
  qed
qed

section \<open>Slots\<close>

definition slots_ok :: "pool \<Rightarrow> bool" where
  "slots_ok P \<longleftrightarrow> dom (pl_tasks P) \<subseteq> {(w, n). n < concurrency w}"

lemma pool_step_slots:
  assumes "slots_ok P" "pool_step X E C N i P Q"
  shows "slots_ok Q"
  using assms(2) by cases (use assms(1) in \<open>auto simp: slots_ok_def dom_def split: if_splits\<close>)

lemma finite_slots: "finite {(w, n). n < concurrency w}"
proof -
  have "{(w, n). n < concurrency w} = {Fast} \<times> {..<32} \<union> {MintWorker} \<times> {..<8}"
    by (auto split: worker.splits) (metis concurrency.simps worker.exhaust)+
  then show ?thesis by simp
qed

lemma finite_tasks: "slots_ok P \<Longrightarrow> finite (dom (pl_tasks P))"
  unfolding slots_ok_def by (rule finite_subset [OF _ finite_slots])

section \<open>Accounting of messages\<close>

definition acks :: "history \<Rightarrow> nat" where
  "acks h = length (filter is_ack h)"

lemma acks_append [simp]: "acks (g @ h) = acks g + acks h"
  by (simp add: acks_def)

lemma acks_none: "\<forall>e\<in>set h. \<not> is_ack e \<Longrightarrow> acks h = 0"
  by (simp add: acks_def filter_empty_conv)

text \<open>\<open>settles m\<close>: the program \<open>m\<close> makes exactly one acknowledgement.\<close>

definition settles :: "handled io \<Rightarrow> bool" where
  "settles m \<longleftrightarrow> (\<forall>s. acks (trace (final_of m s)) = acks (trace s) + 1)"

abbreviation unacked :: "'a io \<Rightarrow> bool" where
  "unacked \<equiv> extends (\<lambda>e. \<not> is_ack e)"

lemma unacked_acks: "unacked m \<Longrightarrow> acks (trace (final_of m s)) = acks (trace s)"
  unfolding extends_def by (metis acks_append acks_none add.right_neutral)

named_theorems settles_rules \<open>introduction rules for the acknowledgements of a program\<close>

lemma settles_finish [settles_rules]: "settles (finish k)"
  by (simp add: settles_def finish_def port_defs acks_def)

lemma settles_bind [settles_rules]:
  assumes "unacked m" "\<And>a. settles (f a)"
  shows "settles (State_Monad.bind m f)"
  unfolding settles_def
proof
  fix s
  obtain a s' where m: "run_state m s = (a, s')" by (cases "run_state m s")
  with unacked_acks [OF assms(1), of s] have "acks (trace s') = acks (trace s)" by simp
  with assms(2) [of a] m show "acks (trace (final_of (State_Monad.bind m f) s)) = acks (trace s) + 1"
    by (simp add: settles_def)
qed

lemma settles_cases [settles_rules]:
  "(b \<Longrightarrow> settles m) \<Longrightarrow> (\<not> b \<Longrightarrow> settles n) \<Longrightarrow> settles (if b then m else n)"
  "(\<And>a. x = Inl a \<Longrightarrow> settles (f a)) \<Longrightarrow> (\<And>c. x = Inr c \<Longrightarrow> settles (g c)) \<Longrightarrow>
   settles (case x of Inl a \<Rightarrow> f a | Inr c \<Rightarrow> g c)"
  "(y = None \<Longrightarrow> settles m) \<Longrightarrow> (\<And>d. y = Some d \<Longrightarrow> settles (k d)) \<Longrightarrow>
   settles (case y of None \<Rightarrow> m | Some d \<Rightarrow> k d)"
  "(\<And>a c. settles (h a c)) \<Longrightarrow> settles (case p of (a, c) \<Rightarrow> h a c)"
  by (simp_all split: sum.split option.split prod.split)

lemma settles_message:
  assumes "subject \<noteq> ''chain.tx.submit''" "subject \<noteq> ''chain.tx.mint''"
  shows "settles (handle_message X E C N subject payload)"
  unfolding handle_message_def handle_cancel_def cancel_admit_def handle_status_def Let_def
  using assms by (simp; intro conjI impI settles_rules extends_rules; simp)

text \<open>Admission acknowledges and publishes nothing; every rest acknowledges once.\<close>

lemma quiet_admission: "extends quiet (admission X E C N subject payload)"
  unfolding admission_defs settle_def Let_def
  by (intro extends_rules; simp)

lemma settles_admission: "leaves settles (admission X E C N subject payload)"
  unfolding admission_defs Let_def
  by (intro leaves_rules settles_rules settles_message extends_rules) simp_all

lemma settles_answer: "settles (task_answer X t r E)"
  by (cases t) (auto intro!: settles_rules extends_rules)

lemma quiet_effect:
  assumes "retry_contract (cn_retry N)"
  shows "extends quiet (task_effect X E C N t)"
  by (cases t) (auto intro!: extends_quiet_retry [OF assms] extends_quiet_parts extends_rules)

lemma quiet_unacked: "extends quiet m \<Longrightarrow> unacked m"
  unfolding extends_def quiet_def by meson

text \<open>Cleanup and refresh acknowledge and publish nothing.\<close>

lemma quiet_background: "extends quiet (cleanup_tick E)" "extends quiet (refresh_blockhash E)"
  unfolding cleanup_tick_def refresh_blockhash_def port_defs blockhash_update_def
  by (intro extends_rules extends_modify emits_ask [THEN emits_extends]; simp add: quiet_def)+

lemma quiet_acks: "extends quiet m \<Longrightarrow> run_state m s = (a, b) \<Longrightarrow> acks (trace b) = acks (trace s)"
  using unacked_acks [OF quiet_unacked, of m s] by simp

fun arrived :: "pool_input list \<Rightarrow> nat" where
  "arrived [] = 0"
| "arrived (Arrive i subject payload # is) = Suc (arrived is)"
| "arrived (_ # is) = arrived is"

lemma arrived_append [simp]: "arrived (is @ js) = arrived is + arrived js"
  by (induction "is" rule: arrived.induct) simp_all

definition accounted :: "pool \<Rightarrow> nat" where
  "accounted P = acks (trace (pl_bridge P)) + card (dom (pl_tasks P))"

lemma accounted_upd:
  assumes "finite (dom (pl_tasks P))" "pl_bridge Q = b" "pl_tasks Q = (pl_tasks P)(i \<mapsto> p)"
    and "acks (trace b) = acks (trace (pl_bridge P))"
  shows "accounted Q = accounted P + (if pl_tasks P i = None then 1 else 0)"
  using assms by (auto simp: accounted_def card_insert_if dom_def [symmetric] simp flip: domIff)

lemma pool_step_accounts:
  assumes "retry_contract (cn_retry N)" "slots_ok P" "rests settles P" "pool_step X E C N i P Q"
  shows "accounted Q = accounted P + arrived [i]"
  using assms(4)
proof cases
  case (pool_settled w n subject payload f b)
  then show ?thesis
    using accounted_upd [OF finite_tasks [OF assms(2)], of Q b "(w, n)" "Settling f"]
      quiet_acks [OF quiet_admission pool_settled(6)] by simp
next
  case (pool_admitted w n subject payload t b)
  then show ?thesis
    using accounted_upd [OF finite_tasks [OF assms(2)], of Q b "(w, n)" "Claimed t"]
      quiet_acks [OF quiet_admission pool_admitted(6)] by simp
next
  case (pool_executed j t w r b)
  then show ?thesis
    using accounted_upd [OF finite_tasks [OF assms(2)], of Q b j "Executed t r"]
      quiet_acks [OF quiet_effect [OF assms(1)] pool_executed(4)] by simp
next
  case (pool_completed j t r b)
  then show ?thesis
    using accounted_upd [OF finite_tasks [OF assms(2)], of Q b j "Settling (task_answer X t r)"]
      task_settle_run [OF pool_completed(4)] by simp
next
  case (pool_finished j f w h b)
  have "acks (trace b) = acks (trace (pl_bridge P)) + 1"
    using restsD [OF assms(3) pool_finished(3), of "seen w E"] pool_finished(4)
    unfolding settles_def by (metis snd_conv)
  moreover have "card (dom (pl_tasks P)) = Suc (card (dom (pl_tasks P) - {j}))"
    by (rule card.remove [OF finite_tasks [OF assms(2)]]) (use pool_finished in auto)
  ultimately show ?thesis using pool_finished by (simp add: accounted_def)
next
  case (pool_cleaned b)
  then show ?thesis using quiet_acks [OF quiet_background(1) pool_cleaned(3)] by (simp add: accounted_def)
next
  case (pool_refreshed b)
  then show ?thesis using quiet_acks [OF quiet_background(2) pool_refreshed(3)] by (simp add: accounted_def)
qed

lemma pool_run_accounts:
  assumes "retry_contract (cn_retry N)" "pool_run X E C N G is P Q" "slots_ok P" "rests settles P"
  shows "slots_ok Q \<and> rests settles Q \<and> accounted Q = accounted P + arrived is"
  using assms(2-4)
proof (induction rule: pool_run.induct)
  case (pool_snoc "is" P Q i R)
  with pool_step_accounts [OF assms(1) _ _ pool_snoc.hyps(2)] pool_step_slots [OF _ pool_snoc.hyps(2)]
    pool_step_rests [OF settles_admission settles_answer _ pool_snoc.hyps(2)]
  show ?case by simp
qed simp

lemma start_ok:
  "slots_ok (pool_start b)" "rests J (pool_start b)" "accounted (pool_start b) = acks (trace b)"
  by (simp_all add: slots_ok_def rests_def pool_start_def accounted_def nats_consumer_start_def
      nats_consumer_new_def)

text \<open>C8: no message is lost or acknowledged twice. At every moment of a session the acknowledgements
  sent and the handlers that hold a slot are together exactly the messages that have arrived: each is
  acknowledged once, when its handler ends, whatever its subject, the interleaving and the outcome.\<close>

theorem messages_accounted:
  assumes "retry_contract (cn_retry N)" and "pool_run X E C N G is (pool_start b) P"
  shows "acks (trace (pl_bridge P)) + card (dom (pl_tasks P)) = acks (trace b) + arrived is"
  using pool_run_accounts [OF assms start_ok(1,2)] start_ok(3) by (simp add: accounted_def)

theorem messages_accounted_witness:
  "\<exists>P. pool_run sample_ext sample_env sample_cfg sample_consumer (\<lambda>_. True)
      [Arrive (Fast, 0) ''chain.tx.submit'' [1], Arrive (Fast, 1) ''chain.tx.submit'' [1], Finish (Fast, 1) id]
      (pool_start sample_state) P \<and>
    dom (pl_tasks P) = {(Fast, 0)} \<and> acks (trace (pl_bridge P)) = 1"
proof -
  let ?is = "[Arrive (Fast, 0) ''chain.tx.submit'' [1], Arrive (Fast, 1) ''chain.tx.submit'' [1],
      Finish (Fast, 1) id]"
  obtain P where P: "pool_exec sample_ext sample_env sample_cfg sample_consumer (\<lambda>_. True) ?is
      (pool_start sample_state) = Some P" "dom (pl_tasks P) = {(Fast, 0)}"
    by (simp add: block_defs handler_defs sample_eval)
  have "retry_contract (cn_retry sample_consumer)" by (simp add: retry_fixed_contract)
  from messages_accounted [OF this pool_exec_run [OF P(1)]] P(2)
  have "acks (trace (pl_bridge P)) = 1" by (simp add: sample_state_def acks_def)
  with pool_exec_run [OF P(1)] P(2) show ?thesis by blast
qed

section \<open>Cancellation among running handlers\<close>

text \<open>Every cancellation reported as successful in \<open>evs\<close> has its entry in the cache.\<close>

definition marked :: "history \<Rightarrow> bridge \<Rightarrow> bool" where
  "marked evs s \<longleftrightarrow>
     (\<forall>sub r a. EvPublish sub (CancelResult r) a \<in> set evs \<longrightarrow> tcr_success r \<longrightarrow>
        cached (tcr_correlation_id r) s)"

text \<open>No entry is dropped, and what is reported as cancelled is entered.\<close>

definition grown :: "bridge \<Rightarrow> bridge \<Rightarrow> bool" where
  "grown s s' \<longleftrightarrow>
     (\<exists>evs. trace s' = trace s @ evs \<and> marked evs s') \<and> (\<forall>k. cached k s \<longrightarrow> cached k s')"

definition marks :: "'a io \<Rightarrow> bool" where
  "marks m \<longleftrightarrow> (\<forall>s. grown s (final_of m s))"

lemma marksD: "marks m \<Longrightarrow> run_state m s = (a, s') \<Longrightarrow> grown s s'"
  unfolding marks_def by (metis snd_conv)

lemma keeps_cachedD: "keeps (cached k) P m \<Longrightarrow> cached k s \<Longrightarrow> cached k (final_of m s)"
  by (rule keepsD(1))

lemma marked_append: "marked (g @ h) s \<longleftrightarrow> marked g s \<and> marked h s"
  unfolding marked_def set_append Un_iff by blast

lemma marked_kept: "marked evs s \<Longrightarrow> (\<And>k. cached k s \<Longrightarrow> cached k s') \<Longrightarrow> marked evs s'"
  unfolding marked_def by blast

lemma marked_quiet: "\<forall>e\<in>set evs. quiet e \<Longrightarrow> marked evs s"
  by (auto simp: marked_def quiet_def)

lemma marks_quiet:
  assumes "extends quiet m" "\<And>k. keeps (cached k) (\<lambda>_. True) m"
  shows "marks m"
  using assms(1) keeps_cachedD [OF assms(2)] unfolding marks_def grown_def extends_def by (blast intro: marked_quiet)

lemma marks_concludes:
  assumes "concludes marked m" "\<And>k. keeps (cached k) (\<lambda>_. True) m"
  shows "marks m"
  unfolding marks_def grown_def
proof (intro allI conjI impI)
  fix s
  show "cached k (final_of m s)" if "cached k s" for k using keeps_cachedD [OF assms(2) that] .
  from assms(1) obtain evs tail where 1: "trace (final_of m s) = trace s @ evs @ tail" "\<forall>e\<in>set evs. quiet e"
    "if result_of m s = Aborted then tail = [] else marked tail (final_of m s)"
    unfolding concludes_def by meson
  then have "marked (evs @ tail) (final_of m s)"
    using marked_quiet [OF 1(2)] by (simp add: marked_append marked_quiet split: if_splits)
  with 1(1) show "\<exists>evs. trace (final_of m s) = trace s @ evs \<and> marked evs (final_of m s)" by blast
qed

lemma grown_refl: "grown s s"
  by (simp add: grown_def marked_def)

lemma grown_trans:
  assumes "grown s s'" "grown s' s''"
  shows "grown s s''"
proof -
  from assms obtain evs evs' where "trace s' = trace s @ evs" "marked evs s'"
    "trace s'' = trace s' @ evs'" "marked evs' s''"
    unfolding grown_def by blast
  moreover have "cached k s'' " if "cached k s'" for k using assms(2) that by (simp add: grown_def)
  ultimately have "trace s'' = trace s @ evs @ evs'" "marked (evs @ evs') s''"
    by (auto simp: marked_append intro: marked_kept)
  with assms show ?thesis unfolding grown_def by blast
qed

subsection \<open>The blocks\<close>

lemmas keeps_cached_parts = keeps_now [OF trace_free_cached] keeps_rules keeps_parts [OF trace_free_cached]
  keeps_cached_writes

lemma marked_tails [simp]:
  "marked [EvAck k] s"
  "marked [EvPublish sub (TxResult r1) a, EvAck k] s" "marked [EvPublish sub (MintResult r2) a, EvAck k] s"
  "marked [EvPublish sub (StatusResult r3) a, EvAck k] s"
  "marked [EvPublish sub (CancelResult r4) a, EvAck k] s \<longleftrightarrow>
     (tcr_success r4 \<longrightarrow> cached (tcr_correlation_id r4) s)"
  by (auto simp: marked_def)

lemma marked_cancel: "concludes marked (handle_cancel X E N payload)"
proof (cases "parse_cancel X payload")
  case (Inr m)
  let ?k = "tc_correlation_id m"
  have entered: "concludes marked (State_Monad.bind (idempotency_insert ?k x) (\<lambda>_. rest))"
    if "keeps (cached ?k) (\<lambda>_. True) rest"
      "concludes (\<lambda>tail _. \<forall>s. cached ?k s \<longrightarrow> marked tail s) rest" for x rest
  proof (rule concludes_established [where I = "cached ?k", OF _ _ that])
    show "extends quiet (idempotency_insert ?k x)" by (rule extends_rules)
  qed (simp_all add: cached_def idempotency_insert_def)
  show ?thesis
    unfolding handle_cancel_def cancel_admit_def Inr sum.case Let_def
    by (intro entered concludes_rules extends_rules keeps_cached_parts) (simp_all add: cancel_reply_def)
qed (simp add: handle_cancel_def concludes_rules)

lemma marks_message:
  assumes "retry_contract (cn_retry N)" "subject \<noteq> ''chain.tx.submit''" "subject \<noteq> ''chain.tx.mint''"
  shows "marks (handle_message X E C N subject payload)"
proof (rule marks_concludes [OF _ keeps_cached_message [OF assms(1)]])
  have "concludes marked (handle_status X E N payload)"
    unfolding handle_status_def Let_def by (intro concludes_rules extends_rules) simp_all
  then show "concludes marked (handle_message X E C N subject payload)"
    using assms(2,3) marked_cancel by (simp add: handle_message_def concludes_rules)
qed

lemma marks_admission_rests:
  assumes "retry_contract (cn_retry N)"
  shows "leaves marks (admission X E C N subject payload)"
  unfolding admission_defs Let_def
  by (intro leaves_rules marks_message [OF assms]; assumption?;
      intro marks_concludes concludes_rules extends_rules keeps_cached_parts; simp)

lemma marks_answer: "marks (task_answer X t r E)"
  by (cases t; simp only: task_answer.simps; intro marks_concludes concludes_rules extends_rules keeps_cached_parts; simp)

lemma marks_blocks:
  "marks (admission X E C N subject payload)" "marks (task_settle X t r)"
  "marks (cleanup_tick E)" "marks (refresh_blockhash E)"
proof -
  show "marks (admission X E C N subject payload)"
    by (rule marks_quiet [OF quiet_admission], unfold admission_defs settle_def Let_def)
      (intro keeps_cached_parts; simp)
  show "marks (task_settle X t r)"
    by (auto simp: task_settle_def settle_maps_def intro!: marks_quiet extends_rules keeps_cached_parts
        split: outcome.split)
  show "marks (cleanup_tick E)" "marks (refresh_blockhash E)"
    by (rule marks_quiet [OF quiet_background(1) keeps_cached_tick])
      (rule marks_quiet [OF quiet_background(2)],
        simp add: keeps_def cached_def refresh_blockhash_def port_defs blockhash_update_def split: sum.split)
qed

lemma marks_effect:
  assumes "retry_contract (cn_retry N)"
  shows "marks (task_effect X E C N t)"
  by (rule marks_quiet [OF quiet_effect [OF assms]])
    (rule keeps_emits [OF emits_task_effect [OF assms] trace_free_cached])

subsection \<open>What admission grants\<close>

text \<open>\<open>grants I T m\<close>: from a state with \<open>I\<close>, the program \<open>m\<close> admits only tasks with \<open>T\<close>.\<close>

definition grants :: "(bridge \<Rightarrow> bool) \<Rightarrow> (task \<Rightarrow> bool) \<Rightarrow> (rest + task) io \<Rightarrow> bool" where
  "grants I T m \<longleftrightarrow> (\<forall>s t. I s \<longrightarrow> result_of m s = Inr t \<longrightarrow> T t)"

named_theorems grants_rules \<open>introduction rules for the tasks a program admits\<close>

lemma grants_settle [grants_rules]: "grants I T (settle f)"
  by (simp add: grants_def settle_def)

lemma grants_return [grants_rules]: "T t \<Longrightarrow> grants I T (State_Monad.return (Inr t))"
  by (simp add: grants_def)

lemma grants_bind_gets:
  "(\<And>s. I s \<Longrightarrow> R (f s)) \<Longrightarrow> (\<And>a. R a \<Longrightarrow> grants I T (g a)) \<Longrightarrow>
   grants I T (State_Monad.bind (gets f) g)"
  by (auto simp: grants_def)

lemma grants_bind [grants_rules]:
  assumes "keeps I (\<lambda>_. True) m" "\<And>a. grants I T (f a)"
  shows "grants I T (State_Monad.bind m f)"
  unfolding grants_def
proof (intro allI impI)
  fix s t
  assume "I s" and res: "result_of (State_Monad.bind m f) s = Inr t"
  obtain a s' where m: "run_state m s = (a, s')" by (cases "run_state m s")
  with keepsD(1) [OF assms(1) \<open>I s\<close>] have "I s'" by simp
  with assms(2) [of a] res m show "T t" by (simp add: grants_def)
qed

lemma grants_cases [grants_rules]:
  "(b \<Longrightarrow> grants I T m) \<Longrightarrow> (\<not> b \<Longrightarrow> grants I T n) \<Longrightarrow> grants I T (if b then m else n)"
  "(\<And>a. x = Inl a \<Longrightarrow> grants I T (f a)) \<Longrightarrow> (\<And>c. x = Inr c \<Longrightarrow> grants I T (g c)) \<Longrightarrow>
   grants I T (case x of Inl a \<Rightarrow> f a | Inr c \<Rightarrow> g c)"
  "(y = None \<Longrightarrow> grants I T m) \<Longrightarrow> (\<And>d. y = Some d \<Longrightarrow> grants I T (k d)) \<Longrightarrow>
   grants I T (case y of None \<Rightarrow> m | Some d \<Rightarrow> k d)"
  by (simp_all split: sum.split option.split)

lemma keeps_clock: "keeps (cached k) (\<lambda>_. True) (now_ms E)"
  by (simp add: keeps_def cached_def port_defs)

lemma cached_not_admitted:
  "grants (cached k) (\<lambda>t. task_corr t \<noteq> k) (admission X E C N subject payload)"
  unfolding admission_defs Let_def
  by (intro grants_bind_gets [where R = "\<lambda>cache. cache k \<noteq> None"] grants_rules keeps_cached_parts
      keeps_clock) (auto simp: cached_def)

subsection \<open>Runs\<close>

lemma pool_step_grown:
  assumes "retry_contract (cn_retry N)" "rests marks P" "pool_step X E C N i P Q"
  shows "grown (pl_bridge P) (pl_bridge Q)"
  using assms(3)
proof cases
  case (pool_executed j t w r b)
  then show ?thesis using marksD [OF marks_effect [OF assms(1)] pool_executed(4)] by simp
next
  case (pool_finished j f w h b)
  then show ?thesis using marksD [OF restsD [OF assms(2) pool_finished(3)] pool_finished(4)] by simp
qed (auto dest: marksD [OF marks_blocks(1)] marksD [OF marks_blocks(2)] marksD [OF marks_blocks(3)]
    marksD [OF marks_blocks(4)])

text \<open>While an id is in the cache, no step makes a task with that id run.\<close>

lemma pool_step_refuses:
  assumes "cached k (pl_bridge P)" "pool_step X E C N i P Q"
    and "running Q j = Some t" "task_corr t = k"
  shows "running P j = Some t"
  using assms(2)
proof cases
  case (pool_admitted w n subject payload u b)
  have "task_corr u \<noteq> k"
    using cached_not_admitted [of k X E C N subject payload] assms(1) pool_admitted(6)
    unfolding grants_def by (metis fst_conv)
  then show ?thesis using assms(3,4) by (auto simp: pool_admitted(2) running_upd split: if_splits)
qed (use assms(3) in \<open>auto simp: running_upd running_slot split: if_splits\<close>)

lemma pool_run_grown:
  assumes "retry_contract (cn_retry N)" "pool_run X E C N G is P Q" "rests marks P"
  shows "rests marks Q \<and> grown (pl_bridge P) (pl_bridge Q)"
  using assms(2,3)
proof (induction rule: pool_run.induct)
  case (pool_snoc "is" P Q i R)
  then show ?case
    using pool_step_rests [OF marks_admission_rests [OF assms(1)] marks_answer _ pool_snoc.hyps(2)]
      pool_step_grown [OF assms(1) _ pool_snoc.hyps(2)] by (blast intro: grown_trans)
qed (simp add: grown_refl)

lemma pool_run_refuses:
  assumes "retry_contract (cn_retry N)" "pool_run X E C N G is P Q" "rests marks P"
    and "cached k (pl_bridge P)" "running Q j = Some t" "task_corr t = k"
  shows "running P j = Some t"
  using assms(2-6)
proof (induction rule: pool_run.induct)
  case (pool_snoc "is" P Q i R)
  have "cached k (pl_bridge Q)"
    using pool_run_grown [OF assms(1) pool_snoc.hyps(1) pool_snoc.prems(1)] pool_snoc.prems(2)
    by (simp add: grown_def)
  from pool_step_refuses [OF this pool_snoc.hyps(2) pool_snoc.prems(3,4)] pool_snoc
  show ?case by blast
qed

text \<open>C16: a reported cancellation stops what has not been admitted. Once a session has published that the
  cancellation of a correlation id succeeded, a submission or mint with that id that is running later, in
  any interleaving of the handlers, the cleanup task and the refresh, was already running when the
  report was published: every message with the id that arrives afterwards is refused.\<close>

theorem cancelled_messages_not_admitted:
  assumes "retry_contract (cn_retry N)"
    and "pool_run X E C N G is (pool_start b) P" and "trace (pl_bridge P) = trace b @ evs"
    and "EvPublish sub (CancelResult r) a \<in> set evs" and "tcr_success r"
    and "pool_run X E C N G js P Q"
    and "running Q i = Some t" and "task_corr t = tcr_correlation_id r"
  shows "running P i = Some t"
proof -
  have "trace (pl_bridge (pool_start b)) = trace b"
    by (simp add: pool_start_def nats_consumer_start_def nats_consumer_new_def)
  with pool_run_grown [OF assms(1,2) start_ok(2)] assms(3-5)
  have "rests marks P" "cached (tcr_correlation_id r) (pl_bridge P)"
    by (auto simp: grown_def marked_def)
  from pool_run_refuses [OF assms(1,6) this assms(7,8)] show ?thesis .
qed

theorem cancelled_messages_not_admitted_witness:
  "\<exists>P Q. pool_run sample_ext sample_env sample_cfg sample_consumer (\<lambda>_. True)
      [Arrive (Fast, 0) ''chain.tx.submit'' [1], Arrive (Fast, 1) ''chain.tx.cancel'' [1], Finish (Fast, 1) id]
      (pool_start sample_state) P \<and>
    pool_run sample_ext sample_env sample_cfg sample_consumer (\<lambda>_. True)
      [Arrive (Fast, 1) ''chain.tx.submit'' [1]] P Q \<and>
    running Q = running P \<and> running P (Fast, 0) = Some (SubmitTask sample_submit (Some ''submit:k1'') 2000)"
proof -
  let ?t = "SubmitTask sample_submit (Some ''submit:k1'') 2000"
  let ?run = "pool_exec sample_ext sample_env sample_cfg sample_consumer (\<lambda>_. True)"
  obtain P evs where P: "?run [Arrive (Fast, 0) ''chain.tx.submit'' [1], Arrive (Fast, 1) ''chain.tx.cancel'' [1],
      Finish (Fast, 1) id] (pool_start sample_state) = Some P"
    "trace (pl_bridge P) = trace sample_state @ evs"
    "EvPublish ''reply'' (CancelResult (cancel_reply ''c1'' None)) (Inr ()) \<in> set evs"
    "pl_tasks P = [(Fast, 0) \<mapsto> Claimed ?t]" "idempotency_cache (pl_bridge P) ''c1'' = Some 62000"
    by (simp add: block_defs handler_defs sample_eval)
  then obtain Q where Q: "?run [Arrive (Fast, 1) ''chain.tx.submit'' [1]] P = Some Q"
    "running Q = [(Fast, 0) \<mapsto> ?t]"
    by (simp add: block_defs handler_defs sample_eval settle_def running_def fun_eq_iff)
  have "running P (Fast, 0) = Some ?t"
    by (rule cancelled_messages_not_admitted [OF _ pool_exec_run [OF P(1)] P(2,3) _ pool_exec_run [OF Q(1)]])
      (simp_all add: retry_fixed_contract cancel_reply_def Q(2), simp add: sample_submit_def)
  moreover have "running P = [(Fast, 0) \<mapsto> ?t]" by (auto simp: running_def P(4))
  ultimately show ?thesis using pool_exec_run [OF P(1)] pool_exec_run [OF Q(1)] Q(2) by metis
qed

end
