(* ===== verification/Spec2Isabelle.thy ===== *)
theory Spec2Isabelle
  imports Nats_Limits Memory_Locks Nonce_Leases Audit_Interleaving Port_Adapters Persistence_Signer
    Server_Start Concurrent_Accounting
begin

text \<open>
  A verification library for the GridTokenX chain bridge, the one gateway between the platform's
  services and the Solana cluster. The bridge holds no private key: it checks a request, has Vault
  sign the transaction, submits it and records the outcome in a hash-chained audit log.

  \<^bold>\<open>The program.\<close> Two paths lead into the signing pipeline \<open>sign_and_submit\<close>
  (crates/chain-bridge-api/src/api/service.rs): the RPC service behind mutual TLS, where the peer
  certificate decides the role of a call (harness.rs, middleware.rs), and the NATS consumer
  (nats_consumer/), where every envelope is authenticated by its own signature. The pipeline
  decodes the transaction, asks the policy engine, checks the key, fills the blockhash, simulates,
  signs, submits and audits. The NATS path adds deduplication, staleness, retries, cancellation and
  the generation mint, which is reported only when confirmed. Around them: the Solana providers
  (api/provider.rs), the Vault client (vault.rs), the audit stores (postgres_audit.rs), the
  durable-nonce leases (nonce_store.rs), the agent memory (agent_memory.rs), and main.rs, which
  chooses the services and runs the blockhash refresh, the NATS supervisor and the dead-letter
  monitor beside the server.

  \<^bold>\<open>How it is modelled.\<close> A program is a value of the library's state monad over the
  record \<open>bridge\<close>: the blockhash cache, the two maps of the consumer, and the ghost field \<open>trace\<close>
  of all calls to services with their answers. The services are the record \<open>env\<close>: each field
  answers a call from the history so far, so a theorem for all \<open>env\<close> covers every behaviour of
  Vault, the cluster, the database, NATS and the clock, faults included. Library code (codecs, policy
  engine, X.509, SHA-256, base64, the SVM, float arithmetic) is a field of a record such as
  \<open>externals\<close>, and what a theorem needs of it is a hypothesis with a witness. A panic is the
  value \<open>Panicked\<close> or \<open>Aborted\<close>; the release profile aborts the process on a panic, which the step
  relations show as \<open>Dead\<close>. Words have their machine width.

  \<^bold>\<open>Theories.\<close>
  \<^item> \<open>Bridge_Prelude\<close>, \<open>Bridge_Types\<close>: integers, strings, results, programs that may fail, the
    exchanged data, \<open>externals\<close> and \<open>ChainBridgeError\<close> (error.rs).
  \<^item> \<open>Audit_Chain\<close>: entries, hashes and both stores; the locale \<open>audit_port\<close> is their contract.
    \<open>Dedup_Store\<close>: claims, replays, completion and expiry; the locales \<open>ttl_map\<close> and \<open>claim_protocol\<close>.
    \<open>Store_Properties\<close>: the Postgres log is an intact chain under any faults of sequential appends,
    two logs with one tip agree row by row, two overlapping appends fork the chain, a completed effect
    is replayed. \<open>Audit_Interleaving\<close>: appends statement by statement; whatever their order, every row
    ends an intact chain.
  \<^item> \<open>Bridge_Effects\<close>: state, events, oracles, the ports, and \<open>replay\<close>, which runs a stateful service
    over a history. The judgement \<open>emits\<close> bounds the events of a program.
  \<^item> \<open>Sign_Submit\<close>, \<open>Mint_Status\<close>: the pipeline, the status query, the confirmation poll and the mint.
    \<open>Sample_World\<close>: one closed instance for the witnesses. \<open>Pipeline_Properties\<close>: nothing is signed or
    sent that was not accepted; what is signed and sent; audit entries; simulation before signature;
    when a run succeeds or panics.
  \<^item> \<open>Peer_Identity\<close>, \<open>Rpc_Handlers\<close>: certificates to roles and the eleven RPC methods; the locales
    \<open>guarded_rpc\<close> and \<open>read_rpc\<close> are interpreted for each method. \<open>Rpc_Properties\<close>: mediation, denied
    calls, error codes, the certificate's authority.
  \<^item> \<open>Envelope_Auth\<close>, \<open>Nats_Handlers\<close>: envelope authentication and the four message handlers.
    \<open>Handler_Logic\<close>: the judgements \<open>extends\<close>, \<open>keeps\<close> and \<open>concludes\<close> with their rules.
    \<open>Nats_Properties\<close>, \<open>Nats_State\<close>, \<open>Nats_Replay\<close>, \<open>Nats_Limits\<close>: mediation, settlement and answers,
    sequences of deliveries, replay of completed effects, cancellations, staleness, limits, mints.
  \<^item> \<open>Task_Blocks\<close>: the two value-moving handlers cut into admission, pipeline, writes to the maps and
    rest (audit, reply, acknowledgement); the blocks in sequence are the handlers. \<open>Concurrent_Tasks\<close>: a
    session with up to 32 and 8 messages in progress, as a step relation over arrivals, executions,
    completions, rests, cleanup ticks and refreshes, its invariant on claims and successes, and an
    executable step. \<open>Concurrent_Properties\<close>: mediation of every interleaving, one running handler per
    key, one success per key and lifetime, and, as lemmas behind the findings, the runs in which
    duplicates without a key and a cancellation race a submission. \<open>Concurrent_Accounting\<close>: every handling
    of one message is a run of the pool; acknowledgements and held slots account for every arrived
    message; after a reported cancellation no message with its correlation id is admitted.
  \<^item> \<open>Nats_Loop\<close>, \<open>Loop_Properties\<close>: the pull consumers, the session and the supervisor as step
    relations; bounds of counters and delays, when a session gives up, the delays of reconnects.
  \<^item> \<open>Solana_Providers\<close>, \<open>Provider_Properties\<close>: the RPC provider and the in-memory simulator with
    its start-up; account layouts, reads that change nothing, what the simulator confirms.
    \<open>Persistence_Chain\<close>: the copies of both providers in the persistence crate (solana_client.rs),
    translated on their own as programs over the machine, and that they agree with the former but for
    the commitment. \<open>Port_Adapters\<close>: the chain client and simulator ports over these copies
    (solana_client.rs, litesvm_sim.rs); the locale \<open>submit_port\<close>.
  \<^item> \<open>Vault_Client\<close>: the transit client and the development keypair (vault.rs); the locale \<open>signer\<close>; the
    round trip of a signature and the stability of keys. \<open>Persistence_Signer\<close>: the copies in
    vault_signer.rs and the signer port over them, which answers what the former would.
  \<^item> \<open>Nonce_Leases\<close>: the lease table; the locale \<open>lease_pool\<close>; leases are exclusive and allocation
    refines the abstract pool of free identifiers.
  \<^item> \<open>Agent_Memory\<close>, \<open>Memory_Properties\<close>: buffer, vector store, episodes and embeddings; recall returns
    the best matches in a stable order, consolidation moves messages, identifiers, embeddings.
    \<open>Memory_Locks\<close>: the memory under the locks its tasks share is linearizable.
  \<^item> \<open>Bridge_System\<close>, \<open>System_Properties\<close>: the services main.rs selects, as an \<open>env\<close>, and the process
    as one step relation; mediation over whole runs, who writes the blockhash cache and what, the
    audit chain of a submission, what a reconnect forgets. \<open>Server_Start\<close>: the listener and its TLS
    configuration; no fallback to plain text, and over TLS no effect without a certificate of the
    configured authority.

  \<^bold>\<open>Loops and bounds.\<close> The confirmation poll is the source's bounded loop (24 polls, 250 ms
  apart), so it is a recursion on the attempts left. Retries follow the source's delays
  \<open>[500, 500, 500]\<close>; the retry library is a parameter with the contract \<open>retry_contract\<close>. The loops
  that run for ever are step relations, one step per answer of the outside; a stream is given up at
  the fifth failure in a row. No definition uses fuel of its own.

  \<^bold>\<open>Concurrency.\<close> Both consumers of a session are polled by one task, so handlers interleave only
  where they await. In \<open>system_step\<close> a handler is one step. In \<open>pool_step\<close> every message, of any subject
  and also one that is refused, holds one of the slots of its consumer (\<open>for_each_concurrent\<close>) from its
  arrival until it is acknowledged. Its steps are the arrival, which runs up to the claim on the
  idempotency key or to the refusal; the pipeline of an admitted message; the writes to both maps, which
  await nothing; and the rest, which answers and acknowledges. A cancellation or a status query is a rest
  as a whole. The maps, the claims and the cleanup task are shared between the handlers. A pipeline or a rest
  is one step, but its calls may be answered between those of other handlers: the step carries a
  function \<open>w\<close>, and where the block's own view of the history is \<open>h\<close> the services answer for the history
  \<open>w h\<close> (\<open>seen\<close>). The theorems hold for every such \<open>w\<close>; the trace lists the calls of one block together,
  with the answers they got. A pipeline reads of the shared state only the blockhash cache, as it is at
  its step: a refresh falls before or after the pipeline, not between two of its attempts; of the rests
  only a cancellation touches the maps, before its first await. RPC calls share only the cache. A call
  that never returns is a slot that takes no further step; nothing is claimed about when a handler ends.
  That the exclusion of claims needs handlers that finish within the lifetime of a claim is shown by a run.

  \<^bold>\<open>Not modelled.\<close> The protobuf types generated at build time; the HTTP server and the TLS
  handshake, which is a parameter with its documented contract; trait declarations and re-exports;
  logging; opening database pools and NATS streams; the stream and layer plumbing that only forwards
  (\<open>poll_*\<close>, constructors that store their arguments); the build scripts and unit tests. Every other
  function of the api, core and persistence crates has a definition.
\<close>

end
